(* ===== verification/Telima_Prelude.thy ===== *)
theory Telima_Prelude
  imports Complex_Main
begin

text \<open>
  Shared vocabulary of the development: the JavaScript helpers the services use
  (\<open>Math.round\<close>, \<open>Math.ceil\<close>, \<open>String.trim\<close>, truthiness), the exceptions they throw,
  and a small theory of database tables as lists of rows with the Prisma operations
  (\<open>findFirst\<close>, \<open>findMany\<close>, \<open>update\<close>, \<open>updateMany\<close>, \<open>count\<close>, \<open>aggregate\<close>) as list functions.
  A JavaScript number is an exact real: rounding of IEEE doubles is not modelled.
  A point in time is an integer number of milliseconds.
\<close>

named_theorems table_simps \<open>lookup, membership and counting after a table operation\<close>
named_theorems world_simps \<open>what one service call leaves unchanged of the world\<close>

type_synonym id = string
type_synonym time = int

section \<open>Exceptions\<close>

text \<open>
  NestJS exceptions carry the HTTP status; any other exception (a Prisma error, a rejected
  promise) becomes a 500 in \<open>HttpExceptionFilter\<close>. Messages are kept without accents.
\<close>

datatype http_error =
    BadRequestException string
  | UnauthorizedException string
  | ForbiddenException string
  | NotFoundException string
  | ConflictException string
  | NotImplementedException string
  | ServiceUnavailableException string
  | InternalError string

fun http_status :: "http_error \<Rightarrow> nat" where
  "http_status (BadRequestException _) = 400"
| "http_status (UnauthorizedException _) = 401"
| "http_status (ForbiddenException _) = 403"
| "http_status (NotFoundException _) = 404"
| "http_status (ConflictException _) = 409"
| "http_status (NotImplementedException _) = 501"
| "http_status (ServiceUnavailableException _) = 503"
| "http_status (InternalError _) = 500"

text \<open>
  A service method takes the world and returns its answer or exception together with the
  world it leaves behind: an exception does not undo the writes made before it.
\<close>

type_synonym ('a, 'w) outcome = "(http_error + 'a) \<times> 'w"

definition throw :: "http_error \<Rightarrow> 'w \<Rightarrow> ('a, 'w) outcome" where
  "throw e w = (Inl e, w)"

definition return :: "'a \<Rightarrow> 'w \<Rightarrow> ('a, 'w) outcome" where
  "return x w = (Inr x, w)"

definition andThen :: "('a, 'w) outcome \<Rightarrow> ('a \<Rightarrow> 'w \<Rightarrow> ('b, 'w) outcome) \<Rightarrow> ('b, 'w) outcome" where
  "andThen m k = (case m of (Inl e, w) \<Rightarrow> (Inl e, w) | (Inr x, w) \<Rightarrow> k x w)"

definition ok :: "('a, 'w) outcome \<Rightarrow> bool" where
  "ok m \<longleftrightarrow> (case fst m of Inl _ \<Rightarrow> False | Inr _ \<Rightarrow> True)"

lemma andThen_simps [simp]:
  "andThen (throw e w) k = throw e w"
  "andThen (return x w) k = k x w"
  "andThen (Inl e, w) k = (Inl e, w)"
  "andThen (Inr x, w) k = k x w"
  by (simp_all add: andThen_def throw_def return_def)

lemma outcome_sel [simp]:
  "fst (throw e w) = Inl e" "snd (throw e w) = w"
  "fst (return x w) = Inr x" "snd (return x w) = w"
  by (simp_all add: throw_def return_def)

lemma ok_simps [simp]: "\<not> ok (throw e w)" "ok (return x w)" "\<not> ok (Inl e, w)" "ok (Inr x, w)"
  by (simp_all add: ok_def)

lemma outcome_eq_simps [simp]:
  "throw e w = (Inl e', w') \<longleftrightarrow> e = e' \<and> w = w'"
  "return x w = (Inr x', w') \<longleftrightarrow> x = x' \<and> w = w'"
  "throw e w \<noteq> (Inr x', w')" "return x w \<noteq> (Inl e', w')"
  "throw e w \<noteq> return x w'" "return x w \<noteq> throw e w'"
  "throw e w = throw e' w' \<longleftrightarrow> e = e' \<and> w = w'"
  "return x w = return x' w' \<longleftrightarrow> x = x' \<and> w = w'"
  by (auto simp: throw_def return_def)

lemma ok_andThen: "ok (andThen m k) \<longleftrightarrow> (\<exists>x w. m = (Inr x, w) \<and> ok (k x w))"
  by (cases m; cases "fst m") (auto simp: andThen_def)

section \<open>JavaScript numbers and strings\<close>

definition Math_round :: "real \<Rightarrow> real" where
  "Math_round x = of_int \<lfloor>x + 1 / 2\<rfloor>"

definition Math_ceil :: "real \<Rightarrow> real" where
  "Math_ceil x = of_int \<lceil>x\<rceil>"

lemma Math_round_of_int [simp]: "Math_round (of_int n) = of_int n"
  by (simp add: Math_round_def floor_eq_iff)

lemma Math_round_zero [simp]: "Math_round 0 = 0"
  using Math_round_of_int [of 0] by simp

lemma Math_round_Ints [simp]: "Math_round x \<in> \<int>"
  by (simp add: Math_round_def)

lemma Math_round_id: "x \<in> \<int> \<Longrightarrow> Math_round x = x"
  by (auto elim: Ints_cases)

lemma Math_round_near: "\<bar>Math_round x - x\<bar> \<le> 1 / 2"
  unfolding Math_round_def by linarith

lemma Math_round_mono: "x \<le> y \<Longrightarrow> Math_round x \<le> Math_round y"
  unfolding Math_round_def by (simp add: floor_mono)

lemma Math_round_nonneg: "0 \<le> x \<Longrightarrow> 0 \<le> Math_round x"
  unfolding Math_round_def by simp

lemma Math_round_le_Ints: "x \<le> y \<Longrightarrow> y \<in> \<int> \<Longrightarrow> Math_round x \<le> y"
  using Math_round_mono [of x y] by (simp add: Math_round_id)

definition is_space :: "char \<Rightarrow> bool" where
  "is_space c \<longleftrightarrow> c \<in> {CHR '' '', CHR 0x09, CHR 0x0A, CHR 0x0B, CHR 0x0C, CHR 0x0D}"

definition js_trim :: "string \<Rightarrow> string" where
  "js_trim s = rev (dropWhile is_space (rev (dropWhile is_space s)))"

definition is_digit :: "char \<Rightarrow> bool" where
  "is_digit c \<longleftrightarrow> c \<in> set ''0123456789''"

text \<open>
  \<open>Number(s)\<close> for blank strings and decimal numerals (surrounding blanks, an optional sign,
  digits); \<open>None\<close> is \<open>NaN\<close>. Fractions, exponents, hexadecimal and \<open>Infinity\<close> are not numerals
  of the documented \<open>HH:mm\<close> format and are left out. \<open>js_split\<close> is \<open>split\<close> on one character.
\<close>

fun js_split :: "char \<Rightarrow> string \<Rightarrow> string list" where
  "js_split d [] = [[]]"
| "js_split d (c # cs) =
     (if c = d then [] # js_split d cs
      else case js_split d cs of [] \<Rightarrow> [[c]] | p # ps \<Rightarrow> (c # p) # ps)"

definition digits_value :: "string \<Rightarrow> int" where
  "digits_value ds = foldl (\<lambda>n c. 10 * n + (int (of_char c) - 48)) 0 ds"

definition js_Number :: "string \<Rightarrow> int option" where
  "js_Number s =
     (case js_trim s of
        [] \<Rightarrow> Some 0
      | c # cs \<Rightarrow>
          if list_all is_digit (c # cs) then Some (digits_value (c # cs))
          else if c = CHR ''-'' \<and> cs \<noteq> [] \<and> list_all is_digit cs then Some (- digits_value cs)
          else if c = CHR ''+'' \<and> cs \<noteq> [] \<and> list_all is_digit cs then Some (digits_value cs)
          else None)"

text \<open>The decimal text of a natural number in a template literal; \<open>digits_value\<close> reads it back.\<close>

fun show_nat :: "nat \<Rightarrow> string" where
  "show_nat n = (if n < 10 then [char_of (48 + n)] else show_nat (n div 10) @ [char_of (48 + n mod 10)])"

declare show_nat.simps [simp del]

lemma digit_char: "n < 10 \<Longrightarrow> of_char (char_of (48 + n) :: char) = (48 + n :: nat)"
  by simp

lemma digits_value_show_nat: "digits_value (show_nat n) = int n"
proof (induction n rule: show_nat.induct)
  case (1 n)
  show ?case
  proof (cases "n < 10")
    case True
    then show ?thesis by (simp add: show_nat.simps [of n] digits_value_def of_char_of)
  next
    case False
    have "digits_value (show_nat n) = 10 * digits_value (show_nat (n div 10)) + int (n mod 10)"
      using False by (simp add: show_nat.simps [of n] digits_value_def of_char_of)
    moreover have "int n = 10 * int (n div 10) + int (n mod 10)" by presburger
    ultimately show ?thesis using False 1 by simp
  qed
qed

lemma show_nat_inj [simp]: "show_nat m = show_nat n \<longleftrightarrow> m = n"
  by (metis digits_value_show_nat of_nat_eq_iff)

lemma show_nat_no_dash: "CHR ''-'' \<notin> set (show_nat n)"
proof (induction n rule: show_nat.induct)
  case (1 n)
  have digit: "CHR ''-'' \<noteq> char_of (48 + k)" if "k < 10" for k :: nat
  proof
    assume "CHR ''-'' = char_of (48 + k)"
    then have "of_char (CHR ''-'') = (of_char (char_of (48 + k) :: char) :: nat)" by (rule arg_cong)
    with that show False by (simp add: of_char_of)
  qed
  show ?case
  proof (cases "n < 10")
    case True
    with digit [of n] show ?thesis by (simp add: show_nat.simps [of n])
  next
    case False
    with digit [of "n mod 10"] 1 show ?thesis by (simp add: show_nat.simps [of n])
  qed
qed

text \<open>\<open>x ?? y\<close> keeps an empty string, \<open>x || y\<close> and a guard on \<open>x\<close> do not.\<close>

definition nullish :: "'a option \<Rightarrow> 'a \<Rightarrow> 'a" where
  "nullish x y = (case x of None \<Rightarrow> y | Some v \<Rightarrow> v)"

definition truthy :: "string option \<Rightarrow> bool" where
  "truthy s \<longleftrightarrow> (case s of None \<Rightarrow> False | Some v \<Rightarrow> v \<noteq> [])"

lemma nullish_simps [simp]: "nullish None y = y" "nullish (Some v) y = v"
  by (simp_all add: nullish_def)

lemma truthy_simps [simp]: "\<not> truthy None" "truthy (Some v) \<longleftrightarrow> v \<noteq> []"
  by (simp_all add: truthy_def)

section \<open>Tables\<close>

text \<open>
  A table is the list of its rows. \<open>find\<close> is \<open>findFirst\<close>/\<open>findUnique\<close>, \<open>filter\<close> is
  \<open>findMany\<close>; \<open>update_where\<close> is \<open>update\<close>/\<open>updateMany\<close>.
\<close>

definition update_where :: "('r \<Rightarrow> bool) \<Rightarrow> ('r \<Rightarrow> 'r) \<Rightarrow> 'r list \<Rightarrow> 'r list" where
  "update_where p f rows = map (\<lambda>r. if p r then f r else r) rows"

definition delete_where :: "('r \<Rightarrow> bool) \<Rightarrow> 'r list \<Rightarrow> 'r list" where
  "delete_where p rows = filter (\<lambda>r. \<not> p r) rows"

definition count_where :: "('r \<Rightarrow> bool) \<Rightarrow> 'r list \<Rightarrow> nat" where
  "count_where p rows = length (filter p rows)"

definition sum_where :: "('r \<Rightarrow> bool) \<Rightarrow> ('r \<Rightarrow> real) \<Rightarrow> 'r list \<Rightarrow> real" where
  "sum_where p f rows = sum_list (map f (filter p rows))"

text \<open>\<open>findFirst\<close> with \<open>orderBy: desc\<close>: the first row of the descending (stable) order.\<close>

definition find_first_desc :: "('r \<Rightarrow> int) \<Rightarrow> ('r \<Rightarrow> bool) \<Rightarrow> 'r list \<Rightarrow> 'r option" where
  "find_first_desc k p rows =
     (case sort_key (\<lambda>r. - k r) (filter p rows) of [] \<Rightarrow> None | r # _ \<Rightarrow> Some r)"

text \<open>Prisma's \<open>skip\<close>/\<open>take\<close>: a negative \<open>take\<close> counts from the end, a negative \<open>skip\<close> is an error.\<close>

definition prisma_page :: "int \<Rightarrow> int \<Rightarrow> 'r list \<Rightarrow> 'r list" where
  "prisma_page skip n rows =
     (if 0 \<le> n then take (nat n) (drop (nat skip) rows)
      else rev (take (nat (- n)) (drop (nat skip) (rev rows))))"

text \<open>\<open>findMany\<close> with \<open>orderBy: desc\<close>, \<open>skip\<close> and \<open>take\<close>, next to \<open>count\<close> of the same filter.\<close>

definition find_many_page ::
  "('r \<Rightarrow> 'k :: {linorder, uminus}) \<Rightarrow> ('r \<Rightarrow> bool) \<Rightarrow> int \<Rightarrow> int \<Rightarrow> 'r list \<Rightarrow> http_error + ('r list \<times> nat)" where
  "find_many_page k p skip n rows =
     (if skip < 0 then Inl (InternalError ''Invalid value for skip argument'')
      else Inr (prisma_page skip n (sort_key (\<lambda>r. - k r) (filter p rows)), count_where p rows))"

lemma update_where_simps [table_simps]:
  "update_where p f [] = []"
  "update_where p f (r # rows) = (if p r then f r else r) # update_where p f rows"
  "update_where p f (xs @ ys) = update_where p f xs @ update_where p f ys"
  "length (update_where p f rows) = length rows"
  by (simp_all add: update_where_def)

lemma set_update_where [table_simps]:
  "set (update_where p f rows) = (\<lambda>r. if p r then f r else r) ` set rows"
  by (simp add: update_where_def)

lemma map_key_update_where [table_simps]:
  "(\<And>r. p r \<Longrightarrow> k (f r) = k r) \<Longrightarrow> map k (update_where p f rows) = map k rows"
  by (simp add: update_where_def)

lemma find_update_same [table_simps]:
  assumes "\<And>r. k (f r) = k r"
  shows "find (\<lambda>r. k r = i) (update_where (\<lambda>r. k r = i) f rows) = map_option f (find (\<lambda>r. k r = i) rows)"
  by (induction rows) (simp_all add: update_where_simps assms)

lemma find_update_other [table_simps]:
  assumes "\<And>r. k (f r) = k r" and "i \<noteq> j"
  shows "find (\<lambda>r. k r = j) (update_where (\<lambda>r. k r = i) f rows) = find (\<lambda>r. k r = j) rows"
  using assms(2) by (induction rows) (auto simp: update_where_simps assms(1))

lemma find_update_keeping:
  "(\<And>r. q r \<Longrightarrow> p (f r) = p r) \<Longrightarrow>
   find p (update_where q f rows) = map_option (\<lambda>r. if q r then f r else r) (find p rows)"
  by (induction rows) (auto simp: update_where_simps)

lemma find_append [table_simps]:
  "find p (xs @ ys) = (case find p xs of None \<Rightarrow> find p ys | Some r \<Rightarrow> Some r)"
  by (induction xs) simp_all

lemma find_SomeD: "find p rows = Some r \<Longrightarrow> p r \<and> r \<in> set rows"
  by (induction rows) (auto split: if_splits)

lemma find_NoneD: "find p rows = None \<Longrightarrow> r \<in> set rows \<Longrightarrow> \<not> p r"
  by (induction rows) (auto split: if_splits)

lemma find_distinct:
  "distinct (map k rows) \<Longrightarrow> r \<in> set rows \<Longrightarrow> find (\<lambda>x. k x = k r) rows = Some r"
  by (induction rows) (auto simp: image_iff)

lemma count_where_zero: "count_where p rows = 0 \<longleftrightarrow> (\<forall>r \<in> set rows. \<not> p r)"
  by (simp add: count_where_def filter_empty_conv)

lemma sum_where_simps [table_simps]:
  "sum_where p f [] = 0"
  "sum_where p f (r # rows) = (if p r then f r else 0) + sum_where p f rows"
  "sum_where p f (xs @ ys) = sum_where p f xs + sum_where p f ys"
  by (simp_all add: sum_where_def)

lemma sum_where_nonneg: "(\<And>r. r \<in> set rows \<Longrightarrow> p r \<Longrightarrow> 0 \<le> f r) \<Longrightarrow> 0 \<le> sum_where p f rows"
  by (induction rows) (auto simp: sum_where_simps)

lemma sum_where_cong:
  "(\<And>r. r \<in> set rows \<Longrightarrow> p r = q r) \<Longrightarrow> (\<And>r. r \<in> set rows \<Longrightarrow> p r \<Longrightarrow> f r = g r) \<Longrightarrow>
   sum_where p f rows = sum_where q g rows"
  by (induction rows) (auto simp: sum_where_simps)

text \<open>Editing one row (unique key) changes an aggregate by the difference of that row's share.\<close>

lemma sum_where_update_key:
  assumes "distinct (map k rows)" and "r \<in> set rows" and "k r = i"
  shows "sum_where p g (update_where (\<lambda>x. k x = i) f rows) =
    sum_where p g rows - (if p r then g r else 0) + (if p (f r) then g (f r) else 0)"
  using assms
proof (induction rows)
  case Nil
  then show ?case by simp
next
  case (Cons x rows)
  have rest: "sum_where p g (update_where (\<lambda>x. k x = i) f rows) = sum_where p g rows"
    if "i \<notin> k ` set rows" for rows
    using that by (induction rows) (auto simp: update_where_simps sum_where_simps)
  show ?case
  proof (cases "x = r")
    case True
    with Cons.prems have "i \<notin> k ` set rows" by auto
    with True Cons.prems(3) rest show ?thesis by (simp add: update_where_simps sum_where_simps)
  next
    case False
    with Cons.prems have "r \<in> set rows" "k x \<noteq> i" by auto
    with Cons show ?thesis by (simp add: update_where_simps sum_where_simps)
  qed
qed

lemma sum_where_update_none:
  "(\<And>r. r \<in> set rows \<Longrightarrow> q r \<Longrightarrow> p (f r) = p r \<and> (p r \<longrightarrow> g (f r) = g r)) \<Longrightarrow>
   sum_where p g (update_where q f rows) = sum_where p g rows"
  by (induction rows) (auto simp: update_where_simps sum_where_simps)

lemma find_first_desc_Some:
  assumes "find_first_desc k p rows = Some r"
  shows "r \<in> set rows \<and> p r \<and> (\<forall>x \<in> set rows. p x \<longrightarrow> k x \<le> k r)"
proof -
  from assms obtain rest where s: "sort_key (\<lambda>r. - k r) (filter p rows) = r # rest"
    by (auto simp: find_first_desc_def split: list.splits)
  have eq: "set (sort_key (\<lambda>r. - k r) (filter p rows)) = set (r # rest)"
    using s by simp
  then have mem: "set (filter p rows) = set (r # rest)" by (simp only: set_sort)
  have "sorted (map (\<lambda>r. - k r) (r # rest))"
    using sorted_sort_key [of "\<lambda>r. - k r" "filter p rows"] s by simp
  then have le: "\<forall>x \<in> set (r # rest). k x \<le> k r" by auto
  have "r \<in> set (filter p rows)" unfolding mem by simp
  moreover have "\<forall>x \<in> set (filter p rows). k x \<le> k r" unfolding mem by (rule le)
  ultimately show ?thesis by auto
qed

lemma find_first_desc_None: "find_first_desc k p rows = None \<longleftrightarrow> (\<forall>r \<in> set rows. \<not> p r)"
proof -
  have "find_first_desc k p rows = None \<longleftrightarrow> sort_key (\<lambda>r. - k r) (filter p rows) = []"
    by (simp add: find_first_desc_def split: list.splits)
  also have "\<dots> \<longleftrightarrow> length (sort_key (\<lambda>r. - k r) (filter p rows)) = 0"
    by (rule length_0_conv [symmetric])
  finally show ?thesis by (simp add: filter_empty_conv)
qed

lemma insort_key_map: "(\<And>x. k (g x) = k x) \<Longrightarrow> insort_key k (g x) (map g xs) = map g (insort_key k x xs)"
  by (induction xs) auto

lemma sort_key_map: "(\<And>x. k (g x) = k x) \<Longrightarrow> sort_key k (map g xs) = map g (sort_key k xs)"
  by (induction xs) (simp_all add: insort_key_map)

lemma find_first_desc_update:
  assumes "\<And>r. q r \<Longrightarrow> k (f r) = k r" and "\<And>r. q r \<Longrightarrow> p (f r) = p r"
  shows "find_first_desc k p (update_where q f rows) = map_option (\<lambda>r. if q r then f r else r) (find_first_desc k p rows)"
proof -
  let ?g = "\<lambda>r. if q r then f r else r"
  have k: "- k (?g r) = - k r" and p: "p (?g r) = p r" for r using assms by simp_all
  have "filter p (map ?g rows) = map ?g (filter p rows)" by (simp add: filter_map comp_def p)
  then have "sort_key (\<lambda>r. - k r) (filter p (update_where q f rows)) = map ?g (sort_key (\<lambda>r. - k r) (filter p rows))"
    unfolding update_where_def using sort_key_map [of "\<lambda>r. - k r" ?g, OF k] by simp
  then show ?thesis
    unfolding find_first_desc_def by (cases "sort_key (\<lambda>r. - k r) (filter p rows)") simp_all
qed

text \<open>A row newer than all others is found first.\<close>

lemma find_first_desc_newest:
  assumes "p r" and "\<And>x. x \<in> set rows \<Longrightarrow> p x \<Longrightarrow> k x < k r"
  shows "find_first_desc k p (rows @ [r]) = Some r"
proof -
  have "find_first_desc k p (rows @ [r]) \<noteq> None" using assms(1) by (auto simp: find_first_desc_None)
  then obtain y where y: "find_first_desc k p (rows @ [r]) = Some y" by blast
  from find_first_desc_Some [OF y] assms have "y = r" by fastforce
  with y show ?thesis by simp
qed

end
