(* ===== verification/Prisma_Schema.thy ===== *)
theory Prisma_Schema
  imports Telima_Prelude
begin

text \<open>
  The data of \<open>prisma/schema.prisma\<close>: its enums as datatypes and its models as records, one
  field per column the services read or write. Nullable columns are options; \<open>Decimal\<close> and
  \<open>Float\<close> columns hold a real number; \<open>DateTime\<close> columns hold a time in milliseconds.
\<close>

section \<open>Enums\<close>

datatype UserRole = role_client | role_driver | role_admin

datatype DriverStatus = pending_validation | validated | suspended | rejected

datatype ServiceType = ride | delivery | food | assistance | intercity

datatype TripStatus =
    pending | accepted | driver_arriving | in_progress | completed
  | cancelled_by_client | cancelled_by_driver | cancelled_auto

datatype PaymentMethod = cash | orange_money

datatype DispatchStatus =
    searching | driver_notified | driver_accepted | driver_declined | timed_out | exhausted

datatype SenderRole = sender_client | sender_driver

datatype CommissionPaymentStatus = pay_pending | pay_succeeded | pay_failed | pay_expired

datatype DevicePlatform = android | ios | web

section \<open>Models\<close>

record GeoPoint =
  lat :: real
  lng :: real

record User =
  u_id :: id
  u_phone :: string
  u_role :: UserRole
  u_firstName :: "string option"
  u_lastName :: "string option"
  u_email :: "string option"
  u_passwordHash :: "string option"
  u_isActive :: bool
  u_createdAt :: time

record OtpCode =
  o_id :: id
  o_phone :: string
  o_codeHash :: string
  o_userId :: "id option"
  o_attempts :: nat
  o_expiresAt :: time
  o_lockedUntil :: "time option"
  o_consumedAt :: "time option"
  o_smsMessageId :: "string option"
  o_createdAt :: time

record RefreshToken =
  rt_id :: id
  rt_userId :: id
  rt_tokenHash :: string
  rt_revokedAt :: "time option"
  rt_replacedBy :: "id option"
  rt_expiresAt :: time

record Driver =
  d_id :: id
  d_userId :: id
  d_status :: DriverStatus
  d_rating :: real
  d_balance :: real
  d_commissionDue :: real
  d_isOnline :: bool
  d_currentLocation :: "GeoPoint option"
  d_lastLocationAt :: "time option"
  d_photoUrl :: "string option"
  d_licenseUrl :: "string option"
  d_idCardUrl :: "string option"
  d_validatedAt :: "time option"
  d_suspendedAt :: "time option"
  d_suspensionReason :: "string option"
  d_createdAt :: time

record VehicleType =
  vt_id :: id
  vt_name :: string
  vt_serviceType :: ServiceType
  vt_baseFare :: real
  vt_pricePerKm :: real
  vt_pricePerMin :: real
  vt_commissionPercentage :: real
  vt_isActive :: bool
  vt_capacity :: int
  vt_createdAt :: time

record Vehicle =
  v_driverId :: id
  v_vehicleTypeId :: id
  v_brand :: string
  v_model :: string
  v_year :: int
  v_plateNumber :: string
  v_energy :: string
  v_registrationDocUrl :: "string option"

record Trip =
  t_id :: id
  t_clientId :: id
  t_driverId :: "id option"
  t_vehicleTypeId :: id
  t_serviceType :: ServiceType
  t_status :: TripStatus
  t_pickup :: GeoPoint
  t_pickupAddress :: string
  t_dropoff :: GeoPoint
  t_dropoffAddress :: string
  t_estimatedPrice :: "real option"
  t_finalPrice :: "real option"
  t_paymentMethod :: PaymentMethod
  t_distanceMeters :: "real option"
  t_durationSeconds :: "real option"
  t_acceptedAt :: "time option"
  t_driverArrivedAt :: "time option"
  t_startedAt :: "time option"
  t_completedAt :: "time option"
  t_cancelledAt :: "time option"
  t_cancelReason :: "string option"
  t_paymentReceivedAt :: "time option"
  t_paymentReceivedAmount :: "real option"
  t_commissionAmount :: "real option"
  t_deliveryConfirmedAt :: "time option"
  t_deliveryIssueReported :: "string option"
  t_createdAt :: time
  t_updatedAt :: time

record RideDetails =
  rd_tripId :: id
  rd_passengerCount :: int
  rd_notes :: "string option"

record DeliveryDetails =
  dd_tripId :: id
  dd_recipientName :: string
  dd_recipientPhone :: string
  dd_parcelDescription :: "string option"
  dd_parcelWeightKg :: "real option"
  dd_parcelDimensions :: "string option"
  dd_isFragile :: bool
  dd_notes :: "string option"

text \<open>
  The \<open>serviceType\<close> column of a \<open>ServiceConfig\<close> is a free string in the schema, but the code only
  looks it up with a \<open>ServiceType\<close>; \<open>sc_requirements\<close> holds, per requirement, its level and the
  name of the capability it points to.
\<close>

record ServiceConfig =
  sc_serviceType :: ServiceType
  sc_isEnabled :: bool
  sc_dispatchRadiusMeters :: int
  sc_maxDispatchAttempts :: int
  sc_lockTtlSeconds :: int
  sc_dispatchTimeoutMs :: int
  sc_surgeEnabled :: bool
  sc_maxSurgeMultiplier :: real
  sc_requirements :: "(string \<times> string) list"

record DispatchAttempt =
  a_tripId :: id
  a_driverId :: id
  a_status :: DispatchStatus
  a_notifiedAt :: time
  a_respondedAt :: "time option"

record ChatMessage =
  cm_id :: id
  cm_tripId :: id
  cm_senderId :: id
  cm_senderRole :: SenderRole
  cm_content :: "string option"
  cm_audioUrl :: "string option"
  cm_createdAt :: time

record TripRating =
  r_tripId :: id
  r_raterId :: id
  r_raterRole :: SenderRole
  r_rating :: int
  r_tags :: "string list"

record DeviceToken =
  dt_userId :: id
  dt_token :: string
  dt_platform :: DevicePlatform

record CommissionPayment =
  p_id :: id
  p_driverId :: id
  p_amount :: real
  p_status :: CommissionPaymentStatus
  p_transactionRef :: "string option"
  p_orderId :: "string option"
  p_notifToken :: "string option"
  p_paymentUrl :: "string option"
  p_txnid :: "string option"
  p_paidAt :: "time option"
  p_createdAt :: time

record ServiceZone =
  z_id :: id
  z_name :: string
  z_city :: string
  z_centerLat :: real
  z_centerLng :: real
  z_radiusKm :: real
  z_surgeMultiplier :: real
  z_isActive :: bool
  z_createdAt :: time

text \<open>The JSON \<open>condition\<close> of a pricing rule; \<open>JNoCondition\<close> is a null or untyped condition.\<close>

datatype DynamicCondition =
    JNoCondition
  | JZone "id option"
  | JTimeRange "string option" "string option"
  | JOtherType string

record PricingRuleRow =
  pr_id :: id
  pr_name :: string
  pr_serviceType :: "ServiceType option"
  pr_vehicleTypeId :: "id option"
  pr_zoneId :: "id option"
  pr_condition :: DynamicCondition
  pr_modifier :: real
  pr_priority :: int
  pr_isActive :: bool

text \<open>Trips that occupy their driver, as listed in the dispatch query and the admin views.\<close>

definition active_status :: "TripStatus \<Rightarrow> bool" where
  "active_status s \<longleftrightarrow> s \<in> {accepted, driver_arriving, in_progress}"

definition cancelled_status :: "TripStatus \<Rightarrow> bool" where
  "cancelled_status s \<longleftrightarrow> s \<in> {cancelled_by_client, cancelled_by_driver, cancelled_auto}"

lemma status_class_simps [simp]:
  "\<not> active_status pending" "active_status accepted" "active_status driver_arriving"
  "active_status in_progress" "\<not> active_status completed"
  "\<not> cancelled_status pending" "\<not> cancelled_status accepted" "\<not> cancelled_status driver_arriving"
  "\<not> cancelled_status in_progress" "\<not> cancelled_status completed"
  "cancelled_status cancelled_by_client" "cancelled_status cancelled_by_driver"
  "cancelled_status cancelled_auto"
  by (simp_all add: active_status_def cancelled_status_def)

lemma cancelled_status_iff:
  "cancelled_status s \<longleftrightarrow> s = cancelled_by_client \<or> s = cancelled_by_driver \<or> s = cancelled_auto"
  by (simp add: cancelled_status_def)

instantiation TripStatus :: linorder
begin

definition position :: "TripStatus \<Rightarrow> nat" where
  "position s = (case s of pending \<Rightarrow> 0 | accepted \<Rightarrow> 1 | driver_arriving \<Rightarrow> 2 | in_progress \<Rightarrow> 3
     | completed \<Rightarrow> 4 | cancelled_by_client \<Rightarrow> 5 | cancelled_by_driver \<Rightarrow> 6 | cancelled_auto \<Rightarrow> 7)"

definition less_eq_TripStatus :: "TripStatus \<Rightarrow> TripStatus \<Rightarrow> bool" where
  "less_eq_TripStatus s u \<longleftrightarrow> position s \<le> position u"

definition less_TripStatus :: "TripStatus \<Rightarrow> TripStatus \<Rightarrow> bool" where
  "less_TripStatus s u \<longleftrightarrow> position s < position u"

instance
  by standard (auto simp: less_eq_TripStatus_def less_TripStatus_def position_def split: TripStatus.splits)

end

lemma TripStatus_order_simps [simp]:
  "s \<le> (u :: TripStatus) \<longleftrightarrow> position s \<le> position u" "s < u \<longleftrightarrow> position s < position u"
  by (simp_all add: less_eq_TripStatus_def less_TripStatus_def)

end
