(* ===== verification/Event_Catalog.thy ===== *)
theory Event_Catalog
  imports Prisma_Schema
begin

text \<open>
  What the services say to each other and to the apps: the domain events of
  \<open>domain-events/\<close>, the WebSocket event names and the per-service mapping of
  \<open>events/events.constants.ts\<close>, the room names of \<open>events/services/rooms.service.ts\<close> and the
  payloads sent with each WebSocket event.
\<close>

section \<open>Domain events\<close>

record TripCreatedEvent =
  tc_tripId :: id
  tc_clientId :: id
  tc_serviceType :: ServiceType
  tc_vehicleTypeId :: id
  tc_pickup :: GeoPoint
  tc_pickupAddress :: string
  tc_dropoff :: GeoPoint
  tc_dropoffAddress :: string
  tc_estimatedPrice :: real
  tc_distanceMeters :: real
  tc_durationSeconds :: real

datatype DomainEvent =
    TripCreated TripCreatedEvent
  | TripAccepted (ev_tripId: id) id id
  | TripStarted (ev_tripId: id) "id option" id
  | TripCompleted (ev_tripId: id) "id option" id real
  | TripCancelled (ev_tripId: id) id string
  | TripArrived (ev_tripId: id) "id option" id
  | TripRated (ev_tripId: id) id SenderRole int "string list"
  | DriverAssigned (ev_tripId: id) id
  | DispatchFailed (ev_tripId: id) string
  | DriverNotified (ev_tripId: id) id ServiceType "string option" real
  | PaymentSucceeded string real id
  | CommissionPaid id id real
  | ChatMessageSent id (ev_tripId: id) id SenderRole
  | WsDriverAcceptRequested (ev_tripId: id) id id
  | WsDriverDeclineRequested (ev_tripId: id) id "string option"

section \<open>WebSocket events\<close>

datatype WsEvent =
    RideDriverAccepted | RideDriverArrived | RideStarted | RideCompleted | RideCancelled
  | DeliveryPickupEnRoute | DeliveryParcelPickedUp | DeliveryDelivered
  | DeliveryClientConfirmed | DeliveryCancelled | DeliveryIssueReported
  | DriverLocationUpdate | DriverJoinRoom | DriverRejoinRoom | DriverPosition
  | DriverOnline | DriverOffline
  | TripNewRequest | TripAccept | TripDecline
  | PaymentConfirmed | MessageSend | MessageReceived
  | AdminTripUpdate | AdminAlert

fun ws_event_name :: "WsEvent \<Rightarrow> string" where
  "ws_event_name RideDriverAccepted = ''ride:driver_accepted''"
| "ws_event_name RideDriverArrived = ''ride:driver_arrived''"
| "ws_event_name RideStarted = ''ride:started''"
| "ws_event_name RideCompleted = ''ride:completed''"
| "ws_event_name RideCancelled = ''ride:cancelled''"
| "ws_event_name DeliveryPickupEnRoute = ''delivery:pickup_en_route''"
| "ws_event_name DeliveryParcelPickedUp = ''delivery:parcel_picked_up''"
| "ws_event_name DeliveryDelivered = ''delivery:delivered''"
| "ws_event_name DeliveryClientConfirmed = ''delivery:client_confirmed''"
| "ws_event_name DeliveryCancelled = ''delivery:cancelled''"
| "ws_event_name DeliveryIssueReported = ''delivery:issue_reported''"
| "ws_event_name DriverLocationUpdate = ''driver:location_update''"
| "ws_event_name DriverJoinRoom = ''driver:join_room''"
| "ws_event_name DriverRejoinRoom = ''driver:rejoin_room''"
| "ws_event_name DriverPosition = ''driver:position''"
| "ws_event_name DriverOnline = ''driver:online''"
| "ws_event_name DriverOffline = ''driver:offline''"
| "ws_event_name TripNewRequest = ''trip:new_request''"
| "ws_event_name TripAccept = ''trip:accept''"
| "ws_event_name TripDecline = ''trip:decline''"
| "ws_event_name PaymentConfirmed = ''payment:confirmed''"
| "ws_event_name MessageSend = ''message:send''"
| "ws_event_name MessageReceived = ''message:received''"
| "ws_event_name AdminTripUpdate = ''admin:trip_update''"
| "ws_event_name AdminAlert = ''admin:alert''"

text \<open>
  The row of \<open>SERVICE_EVENT_MAP\<close> for a service; \<open>ride\<close>, \<open>intercity\<close> and \<open>assistance\<close> have one
  and the same content, and so do \<open>delivery\<close> and \<open>food\<close>. \<open>pending\<close> has no event.
\<close>

fun ride_events :: "TripStatus \<Rightarrow> WsEvent option" where
  "ride_events pending = None"
| "ride_events accepted = Some RideDriverAccepted"
| "ride_events driver_arriving = Some RideDriverArrived"
| "ride_events in_progress = Some RideStarted"
| "ride_events completed = Some RideCompleted"
| "ride_events cancelled_by_client = Some RideCancelled"
| "ride_events cancelled_by_driver = Some RideCancelled"
| "ride_events cancelled_auto = Some RideCancelled"

fun delivery_events :: "TripStatus \<Rightarrow> WsEvent option" where
  "delivery_events pending = None"
| "delivery_events accepted = Some DeliveryPickupEnRoute"
| "delivery_events driver_arriving = Some DeliveryPickupEnRoute"
| "delivery_events in_progress = Some DeliveryParcelPickedUp"
| "delivery_events completed = Some DeliveryDelivered"
| "delivery_events cancelled_by_client = Some DeliveryCancelled"
| "delivery_events cancelled_by_driver = Some DeliveryCancelled"
| "delivery_events cancelled_auto = Some DeliveryCancelled"

fun SERVICE_EVENT_MAP :: "ServiceType \<Rightarrow> TripStatus \<Rightarrow> WsEvent option" where
  "SERVICE_EVENT_MAP ride = ride_events"
| "SERVICE_EVENT_MAP delivery = delivery_events"
| "SERVICE_EVENT_MAP food = delivery_events"
| "SERVICE_EVENT_MAP intercity = ride_events"
| "SERVICE_EVENT_MAP assistance = ride_events"

definition getWsEventForService :: "ServiceType \<Rightarrow> TripStatus \<Rightarrow> WsEvent option" where
  "getWsEventForService s st = SERVICE_EVENT_MAP s st"

section \<open>Rooms\<close>

definition getUserRoom :: "id \<Rightarrow> string" where "getUserRoom userId = ''user:'' @ userId"

definition getDriverRoom :: "id \<Rightarrow> string" where "getDriverRoom driverId = ''driver:'' @ driverId"

definition getTripRoom :: "id \<Rightarrow> string" where "getTripRoom tripId = ''trip:'' @ tripId"

definition getAdminRoom :: "string" where "getAdminRoom = ''admin:dashboard''"

lemmas room_defs = getUserRoom_def getDriverRoom_def getTripRoom_def getAdminRoom_def

lemma rooms_disjoint [simp]:
  "getUserRoom u \<noteq> getDriverRoom d" "getUserRoom u \<noteq> getTripRoom t" "getUserRoom u \<noteq> getAdminRoom"
  "getDriverRoom d \<noteq> getUserRoom u" "getDriverRoom d \<noteq> getTripRoom t" "getDriverRoom d \<noteq> getAdminRoom"
  "getTripRoom t \<noteq> getUserRoom u" "getTripRoom t \<noteq> getDriverRoom d" "getTripRoom t \<noteq> getAdminRoom"
  "getAdminRoom \<noteq> getUserRoom u" "getAdminRoom \<noteq> getDriverRoom d" "getAdminRoom \<noteq> getTripRoom t"
  by (simp_all add: room_defs)

lemma rooms_inj [simp]:
  "getUserRoom u = getUserRoom u' \<longleftrightarrow> u = u'"
  "getDriverRoom d = getDriverRoom d' \<longleftrightarrow> d = d'"
  "getTripRoom t = getTripRoom t' \<longleftrightarrow> t = t'"
  by (simp_all add: room_defs)

section \<open>Payloads\<close>

text \<open>\<open>trip:new_request\<close>, sent to a solicited driver.\<close>

record TripRequest =
  rq_tripId :: id
  rq_serviceType :: ServiceType
  rq_pickup :: "GeoPoint option"
  rq_dropoff :: "GeoPoint option"
  rq_pickupAddress :: "string option"
  rq_dropoffAddress :: "string option"
  rq_estimatedPrice :: real
  rq_commission :: real
  rq_tripDistanceMeters :: real
  rq_driverDistanceMeters :: "real option"
  rq_durationSeconds :: real
  rq_vehicleTypeId :: "id option"
  rq_vehicleTypeName :: "string option"
  rq_clientName :: string
  rq_clientPhone :: "string option"
  rq_recipientName :: "string option"
  rq_recipientPhone :: "string option"
  rq_parcelDescription :: "string option"

text \<open>Sent when a driver is assigned.\<close>

record AcceptedPayload =
  ap_tripId :: id
  ap_driverId :: id
  ap_driverName :: string
  ap_driverPhone :: "string option"
  ap_driverPhoto :: "string option"
  ap_rating :: "real option"
  ap_vehiclePlate :: "string option"
  ap_vehicleModel :: "string option"
  ap_vehicleType :: "string option"
  ap_etaMinutes :: "real option"
  ap_driverLat :: "real option"
  ap_driverLng :: "real option"
  ap_estimatedPrice :: "real option"
  ap_pickupAddress :: string
  ap_deliveryAddress :: string
  ap_dropoffAddress :: string
  ap_recipientName :: "string option"
  ap_recipientPhone :: "string option"
  ap_packageType :: "string option"

datatype Canceller = by_driver | by_client | by_system

text \<open>Sent on every status change.\<close>

record StatusPayload =
  sp_tripId :: id
  sp_status :: TripStatus
  sp_cancelledBy :: "Canceller option"
  sp_pickupAddress :: string
  sp_dropoffAddress :: string
  sp_deliveryAddress :: string
  sp_estimatedPrice :: "real option"
  sp_finalPrice :: "real option"
  sp_driverName :: "string option"
  sp_driverPhone :: "string option"
  sp_driverPhoto :: "string option"
  sp_rating :: "real option"
  sp_vehiclePlate :: "string option"
  sp_vehicleType :: "string option"
  sp_recipientName :: "string option"
  sp_recipientPhone :: "string option"
  sp_packageType :: "string option"
  sp_reason :: "string option"

record AlertPayload =
  al_tripId :: id
  al_raisedBy :: SenderRole
  al_raisedAt :: time
  al_status :: TripStatus
  al_serviceType :: ServiceType
  al_lat :: "real option"
  al_lng :: "real option"
  al_message :: "string option"
  al_clientName :: "string option"
  al_clientPhone :: "string option"
  al_driverName :: "string option"
  al_driverPhone :: "string option"
  al_driverPlate :: "string option"
  al_pickupAddress :: string
  al_dropoffAddress :: string

datatype WsPayload =
    RequestPayload TripRequest
  | AcceptedMsg AcceptedPayload
  | AcceptedAdminMsg AcceptedPayload ServiceType TripStatus
  | StatusMsg StatusPayload
  | StatusAdminMsg StatusPayload ServiceType
  | CancelMsg id string
  | ConfirmedMsg id
  | PaymentMsg string real id
  | LocationMsg id real real "real option" "real option"
  | ChatMsg ChatMessage
  | AlertMsg AlertPayload

record WsMessage =
  m_room :: string
  m_event :: WsEvent
  m_payload :: WsPayload

end
