(* ===== verification/Redis_Store.thy ===== *)
theory Redis_Store
  imports Telima_Prelude
begin

text \<open>
  The keys the services keep in Redis: a map from key strings to a value with an optional
  expiry time. Only the commands the source uses appear: \<open>GET\<close>, \<open>SET k v EX n\<close>,
  \<open>SET k v EX n NX\<close>, \<open>DEL\<close>, \<open>INCR\<close> and \<open>EXPIRE\<close>, with their documented meaning; a key whose
  expiry time has passed is absent. The key functions of \<open>dispatch.constants.ts\<close> and of the
  idempotency interceptor are here too, with the proof that the families never collide.
  The locale \<open>lock_store\<close> states what the lock users rely on; the model of the commands
  interprets it.
\<close>

text \<open>Values written by \<open>SET\<close> are strings; \<open>INCR\<close> keeps a decimal number, a queue job id is a number.\<close>

datatype redis_value = RStr string | RNum nat

type_synonym redis = "string \<Rightarrow> (redis_value \<times> time option) option"

definition live :: "time \<Rightarrow> time option \<Rightarrow> bool" where
  "live now e \<longleftrightarrow> (case e of None \<Rightarrow> True | Some t \<Rightarrow> now < t)"

definition redis_get :: "time \<Rightarrow> redis \<Rightarrow> string \<Rightarrow> redis_value option" where
  "redis_get now r k =
     (case r k of None \<Rightarrow> None | Some (v, e) \<Rightarrow> if live now e then Some v else None)"

definition redis_set_ex :: "time \<Rightarrow> string \<Rightarrow> redis_value \<Rightarrow> int \<Rightarrow> redis \<Rightarrow> redis" where
  "redis_set_ex now k v seconds r = r(k \<mapsto> (v, Some (now + seconds * 1000)))"

text \<open>\<open>SET k v EX n NX\<close>: sets and answers \<open>OK\<close> only where the key is absent.\<close>

definition redis_set_nx :: "time \<Rightarrow> string \<Rightarrow> redis_value \<Rightarrow> int \<Rightarrow> redis \<Rightarrow> bool \<times> redis" where
  "redis_set_nx now k v seconds r =
     (case redis_get now r k of
        Some _ \<Rightarrow> (False, r)
      | None \<Rightarrow> (True, redis_set_ex now k v seconds r))"

definition redis_del :: "string \<Rightarrow> redis \<Rightarrow> redis" where
  "redis_del k r = r(k := None)"

definition redis_number :: "redis_value option \<Rightarrow> nat" where
  "redis_number v = (case v of Some (RNum n) \<Rightarrow> n | _ \<Rightarrow> 0)"

definition redis_incr :: "time \<Rightarrow> string \<Rightarrow> redis \<Rightarrow> redis" where
  "redis_incr now k r =
     (case redis_get now r k of
        None \<Rightarrow> r(k \<mapsto> (RNum 1, None))
      | Some v \<Rightarrow> r(k \<mapsto> (RNum (redis_number (Some v) + 1), snd (the (r k)))))"

definition redis_expire :: "time \<Rightarrow> string \<Rightarrow> int \<Rightarrow> redis \<Rightarrow> redis" where
  "redis_expire now k seconds r =
     (case redis_get now r k of None \<Rightarrow> r | Some v \<Rightarrow> r(k \<mapsto> (v, Some (now + seconds * 1000))))"

lemmas redis_defs = redis_get_def redis_set_ex_def redis_set_nx_def redis_del_def redis_number_def
  redis_incr_def redis_expire_def live_def

section \<open>Keys\<close>

definition DispatchLockKey :: "id \<Rightarrow> string" where
  "DispatchLockKey driverId = ''telima:driver:dispatch:'' @ driverId"

definition DispatchTimeoutJobKey :: "id \<Rightarrow> id \<Rightarrow> string" where
  "DispatchTimeoutJobKey tripId driverId = ''telima:dispatch:timeout_job:'' @ tripId @ '':'' @ driverId"

definition DispatchRoundsKey :: "id \<Rightarrow> string" where
  "DispatchRoundsKey tripId = ''telima:dispatch:rounds:'' @ tripId"

lemmas key_defs = DispatchLockKey_def DispatchTimeoutJobKey_def DispatchRoundsKey_def

lemma key_families [simp]:
  "DispatchLockKey d \<noteq> DispatchRoundsKey t" "DispatchRoundsKey t \<noteq> DispatchLockKey d"
  "DispatchLockKey d \<noteq> DispatchTimeoutJobKey t d'" "DispatchTimeoutJobKey t d' \<noteq> DispatchLockKey d"
  "DispatchRoundsKey t' \<noteq> DispatchTimeoutJobKey t d" "DispatchTimeoutJobKey t d \<noteq> DispatchRoundsKey t'"
  by (simp_all add: key_defs)

lemma DispatchLockKey_inj [simp]: "DispatchLockKey d = DispatchLockKey d' \<longleftrightarrow> d = d'"
  by (simp add: key_defs)

lemma DispatchRoundsKey_inj [simp]: "DispatchRoundsKey t = DispatchRoundsKey t' \<longleftrightarrow> t = t'"
  by (simp add: key_defs)

lemma DispatchTimeoutJobKey_same_trip [simp]:
  "DispatchTimeoutJobKey t d = DispatchTimeoutJobKey t d' \<longleftrightarrow> d = d'"
  by (simp add: key_defs)

lemma split_at_colon:
  assumes "CHR '':'' \<notin> set t" and "CHR '':'' \<notin> set t'"
  shows "t @ '':'' @ d = t' @ '':'' @ d' \<longleftrightarrow> t = t' \<and> d = d'"
  using assms
proof (induction t arbitrary: t')
  case Nil
  then show ?case by (cases t') auto
next
  case (Cons c t)
  then show ?case by (cases t') auto
qed

text \<open>Identifiers are UUIDs, so they hold no colon and the job keys of two pairs differ.\<close>

lemma DispatchTimeoutJobKey_inj:
  assumes "CHR '':'' \<notin> set t" and "CHR '':'' \<notin> set t'"
  shows "DispatchTimeoutJobKey t d = DispatchTimeoutJobKey t' d' \<longleftrightarrow> t = t' \<and> d = d'"
  using split_at_colon [OF assms] by (simp add: key_defs)

section \<open>Reading back\<close>

lemma redis_get_set [simp]:
  "redis_get now (redis_set_ex now' k v n r) k = (if now < now' + n * 1000 then Some v else None)"
  by (simp add: redis_defs)

lemma redis_get_set_other [simp]:
  "k \<noteq> k' \<Longrightarrow> redis_get now (redis_set_ex now' k v n r) k' = redis_get now r k'"
  by (simp add: redis_defs)

lemma redis_get_del [simp]: "redis_get now (redis_del k r) k = None"
  by (simp add: redis_defs)

lemma redis_get_del_other [simp]: "k \<noteq> k' \<Longrightarrow> redis_get now (redis_del k r) k' = redis_get now r k'"
  by (simp add: redis_defs)

lemma redis_get_incr [simp]:
  "redis_get now (redis_incr now k r) k = Some (RNum (redis_number (redis_get now r k) + 1))"
  by (auto simp: redis_defs split: option.splits prod.splits if_splits)

lemma redis_get_incr_other [simp]:
  "k \<noteq> k' \<Longrightarrow> redis_get now (redis_incr now' k r) k' = redis_get now r k'"
  by (auto simp: redis_defs split: option.splits prod.splits)

lemma redis_get_expire [simp]:
  "0 < n \<Longrightarrow> redis_get now (redis_expire now k n r) k = redis_get now r k"
  by (auto simp: redis_defs split: option.splits prod.splits if_splits)

lemma redis_get_expire_other [simp]:
  "k \<noteq> k' \<Longrightarrow> redis_get now (redis_expire now' k n r) k' = redis_get now r k'"
  by (auto simp: redis_defs split: option.splits prod.splits)

lemma redis_get_empty [simp]: "redis_get now Map.empty k = None"
  by (simp add: redis_defs)

lemma redis_get_expires_monotone:
  "now \<le> now' \<Longrightarrow> redis_get now' r k = Some v \<Longrightarrow> redis_get now r k = Some v"
  by (auto simp: redis_defs split: option.splits prod.splits if_splits)

lemma redis_set_nx_cases:
  "redis_set_nx now k v n r =
     (if redis_get now r k = None then (True, redis_set_ex now k v n r) else (False, r))"
  by (auto simp: redis_set_nx_def split: option.splits)

section \<open>The lock contract\<close>

locale lock_store =
  fixes holder :: "time \<Rightarrow> 's \<Rightarrow> 'k \<Rightarrow> 'v option"
    and acquire :: "time \<Rightarrow> 'k \<Rightarrow> 'v \<Rightarrow> int \<Rightarrow> 's \<Rightarrow> bool \<times> 's"
    and release :: "'k \<Rightarrow> 's \<Rightarrow> 's"
  assumes acquire_free: "holder now s k = None \<Longrightarrow> fst (acquire now k v n s)"
    and acquire_held: "holder now s k = Some u \<Longrightarrow> acquire now k v n s = (False, s)"
    and holder_acquired: "fst (acquire now k v n s) \<Longrightarrow> now' < now + n * 1000 \<Longrightarrow>
      holder now' (snd (acquire now k v n s)) k = Some v"
    and holder_acquired_late: "fst (acquire now k v n s) \<Longrightarrow> now + n * 1000 \<le> now' \<Longrightarrow>
      holder now' (snd (acquire now k v n s)) k = None"
    and holder_other: "k \<noteq> k' \<Longrightarrow> holder now' (snd (acquire now k v n s)) k' = holder now' s k'"
    and holder_released: "holder now (release k s) k = None"
    and holder_released_other: "k \<noteq> k' \<Longrightarrow> holder now (release k s) k' = holder now s k'"
begin

text \<open>Two takers of one lock before it expires: the second fails and the first stays.\<close>

lemma acquire_exclusive:
  assumes "acquire now k v n s = (True, s')" and "now' < now + n * 1000"
  shows "acquire now' k u m s' = (False, s')" and "holder now' s' k = Some v"
proof -
  from assms holder_acquired [of now k v n s now'] show "holder now' s' k = Some v" by simp
  then show "acquire now' k u m s' = (False, s')" by (rule acquire_held)
qed

text \<open>A lock that is released, or whose time has passed, can be taken again.\<close>

lemma acquire_after_release: "fst (acquire now k v n (release k s))"
  by (rule acquire_free) (rule holder_released)

lemma acquire_after_expiry:
  assumes "acquire now k v n s = (True, s')" and "now + n * 1000 \<le> now'"
  shows "fst (acquire now' k u m s')"
  using acquire_free [of now' s' k u m] holder_acquired_late [of now k v n s now'] assms by simp

lemma acquire_answer: "fst (acquire now k v n s) \<longleftrightarrow> holder now s k = None"
  using acquire_free [of now s k v n] acquire_held [of now s k _ v n]
  by (cases "holder now s k") auto

lemma failed_acquire_keeps: "\<not> fst (acquire now k v n s) \<Longrightarrow> snd (acquire now k v n s) = s"
  using acquire_free [of now s k v n] acquire_held [of now s k _ v n]
  by (cases "holder now s k") auto

lemma acquire_keeps_holders:
  assumes "holder now s k = Some u"
  shows "holder now (snd (acquire now k' v n s)) k = Some u"
proof (cases "k' = k")
  case True
  with acquire_held [OF assms] assms show ?thesis by simp
next
  case False
  with holder_other [of k' k now now v n s] assms show ?thesis by simp
qed

end

interpretation redis_lock: lock_store redis_get redis_set_nx redis_del
  by unfold_locales (auto simp: redis_set_nx_cases split: if_splits)

end
