(* ===== verification/Telima_World.thy ===== *)
theory Telima_World
  imports Event_Catalog Redis_Store
begin

text \<open>
  The state all services share: the tables of the database, the Redis keys, the delayed jobs
  of the BullMQ queue, the two in-process caches, and what has been emitted: domain events
  not yet handled (\<open>bus\<close>), WebSocket messages and push notifications (append-only logs).
\<close>

record Job =
  j_id :: nat
  j_tripId :: id
  j_driverId :: id
  j_due :: time

text \<open>The texts of a push message: an amount in it is written out by \<open>String\<close>, a service by its name.\<close>

datatype PushText = Plain string | Amount real | Service ServiceType

record PushMessage =
  pm_token :: string
  pm_title :: string
  pm_body :: "PushText list"
  pm_data :: "(string \<times> PushText) list"
  pm_high :: bool

record ZoneEntry =
  ze_id :: id
  ze_centerLat :: real
  ze_centerLng :: real
  ze_radiusKm :: real
  ze_surgeMultiplier :: real

record RuleEntry =
  re_serviceType :: "ServiceType option"
  re_vehicleTypeId :: "id option"
  re_zoneId :: "id option"
  re_condition :: DynamicCondition
  re_modifier :: real

record PricingCache =
  pc_zones :: "ZoneEntry list"
  pc_rules :: "RuleEntry list"
  pc_loadedAt :: time

text \<open>An entry of the \<open>ServiceConfig\<close> cache: a row (or its absence) and when it expires.\<close>

record ConfigEntry =
  ce_data :: "ServiceConfig option"
  ce_expiresAt :: time

record world =
  users :: "User list"
  otpCodes :: "OtpCode list"
  refreshTokens :: "RefreshToken list"
  drivers :: "Driver list"
  vehicleTypes :: "VehicleType list"
  vehicles :: "Vehicle list"
  trips :: "Trip list"
  rideDetails :: "RideDetails list"
  deliveryDetails :: "DeliveryDetails list"
  serviceConfigs :: "ServiceConfig list"
  attempts :: "DispatchAttempt list"
  chatMessages :: "ChatMessage list"
  ratings :: "TripRating list"
  deviceTokens :: "DeviceToken list"
  payments :: "CommissionPayment list"
  serviceZones :: "ServiceZone list"
  pricingRules :: "PricingRuleRow list"
  redis_keys :: redis
  jobs :: "Job list"
  nextJob :: nat
  presence :: "(id \<times> time) list"
  pricingCache :: "PricingCache option"
  configCache :: "ServiceType \<times> bool \<Rightarrow> ConfigEntry option"
  hasServer :: bool
  bus :: "DomainEvent list"
  sent :: "WsMessage list"
  pushed :: "PushMessage list"

text \<open>A world with empty tables, for concrete runs.\<close>

definition empty_world :: world where
  "empty_world = \<lparr> users = [], otpCodes = [], refreshTokens = [], drivers = [], vehicleTypes = [],
     vehicles = [], trips = [], rideDetails = [], deliveryDetails = [], serviceConfigs = [],
     attempts = [], chatMessages = [], ratings = [], deviceTokens = [], payments = [],
     serviceZones = [], pricingRules = [], redis_keys = Map.empty, jobs = [], nextJob = 0,
     presence = [], pricingCache = None, configCache = Map.empty, hasServer = True,
     bus = [], sent = [], pushed = [] \<rparr>"

section \<open>Emitting\<close>

text \<open>\<open>EventEmitter2.emit\<close>: the event waits for its \<open>@OnEvent\<close> listeners.\<close>

definition emit :: "DomainEvent \<Rightarrow> world \<Rightarrow> world" where
  "emit e w = w\<lparr>bus := bus w @ [e]\<rparr>"

text \<open>\<open>BroadcastService\<close>: without a server (before \<open>afterInit\<close>) nothing is sent.\<close>

definition ws_send :: "string \<Rightarrow> WsEvent \<Rightarrow> WsPayload \<Rightarrow> world \<Rightarrow> world" where
  "ws_send room ev payload w =
     (if hasServer w then w\<lparr>sent := sent w @ [\<lparr>m_room = room, m_event = ev, m_payload = payload\<rparr>]\<rparr>
      else w)"

definition emitToUser :: "id \<Rightarrow> WsEvent \<Rightarrow> WsPayload \<Rightarrow> world \<Rightarrow> world" where
  "emitToUser userId = ws_send (getUserRoom userId)"

definition emitToDriver :: "id \<Rightarrow> WsEvent \<Rightarrow> WsPayload \<Rightarrow> world \<Rightarrow> world" where
  "emitToDriver driverId = ws_send (getDriverRoom driverId)"

definition emitToTrip :: "id \<Rightarrow> WsEvent \<Rightarrow> WsPayload \<Rightarrow> world \<Rightarrow> world" where
  "emitToTrip tripId = ws_send (getTripRoom tripId)"

definition emitToAdmin :: "WsEvent \<Rightarrow> WsPayload \<Rightarrow> world \<Rightarrow> world" where
  "emitToAdmin = ws_send getAdminRoom"

text \<open>\<open>broadcastToDrivers\<close> only writes a warning; \<open>afterInit\<close> hands over the server.\<close>

definition broadcastToDrivers :: "WsEvent \<Rightarrow> WsPayload \<Rightarrow> world \<Rightarrow> world" where
  "broadcastToDrivers ev payload w = w"

definition setServer :: "world \<Rightarrow> world" where
  "setServer w = w\<lparr>hasServer := True\<rparr>"

lemmas broadcast_defs = emitToUser_def emitToDriver_def emitToTrip_def emitToAdmin_def ws_send_def

section \<open>Row access\<close>

definition find_trip :: "id \<Rightarrow> world \<Rightarrow> Trip option" where
  "find_trip i w = find (\<lambda>t. t_id t = i) (trips w)"

definition find_driver :: "id \<Rightarrow> world \<Rightarrow> Driver option" where
  "find_driver i w = find (\<lambda>d. d_id d = i) (drivers w)"

definition find_user :: "id \<Rightarrow> world \<Rightarrow> User option" where
  "find_user i w = find (\<lambda>u. u_id u = i) (users w)"

definition find_vehicleType :: "id \<Rightarrow> world \<Rightarrow> VehicleType option" where
  "find_vehicleType i w = find (\<lambda>v. vt_id v = i) (vehicleTypes w)"

definition vehicle_of :: "id \<Rightarrow> world \<Rightarrow> Vehicle option" where
  "vehicle_of driverId w = find (\<lambda>v. v_driverId v = driverId) (vehicles w)"

definition delivery_of :: "id \<Rightarrow> world \<Rightarrow> DeliveryDetails option" where
  "delivery_of tripId w = find (\<lambda>d. dd_tripId d = tripId) (deliveryDetails w)"

text \<open>\<open>TripRepository.findDriverByUserId\<close> and the same query in other services.\<close>

definition findDriverByUserId :: "id \<Rightarrow> world \<Rightarrow> Driver option" where
  "findDriverByUserId userId w = find (\<lambda>d. d_userId d = userId) (drivers w)"

text \<open>\<open>prisma.trip.update\<close> on one id: also sets the \<open>@updatedAt\<close> column.\<close>

definition update_trip :: "time \<Rightarrow> id \<Rightarrow> (Trip \<Rightarrow> Trip) \<Rightarrow> world \<Rightarrow> world" where
  "update_trip now i f w =
     w\<lparr>trips := update_where (\<lambda>t. t_id t = i) (\<lambda>t. (f t)\<lparr>t_updatedAt := now\<rparr>) (trips w)\<rparr>"

definition update_driver :: "id \<Rightarrow> (Driver \<Rightarrow> Driver) \<Rightarrow> world \<Rightarrow> world" where
  "update_driver i f w = w\<lparr>drivers := update_where (\<lambda>d. d_id d = i) f (drivers w)\<rparr>"

text \<open>\<open>prisma.dispatchAttempt.updateMany\<close> with an arbitrary filter.\<close>

definition update_attempts :: "(DispatchAttempt \<Rightarrow> bool) \<Rightarrow> (DispatchAttempt \<Rightarrow> DispatchAttempt) \<Rightarrow> world \<Rightarrow> world" where
  "update_attempts p f w = w\<lparr>attempts := update_where p f (attempts w)\<rparr>"

lemmas finder_defs = find_trip_def find_driver_def find_user_def find_vehicleType_def vehicle_of_def
  delivery_of_def findDriverByUserId_def
lemmas updater_defs = update_trip_def update_driver_def update_attempts_def

text \<open>\<open>${firstName ?? ''} ${lastName ?? ''}\<close>, trimmed.\<close>

definition full_name :: "User \<Rightarrow> string" where
  "full_name u = js_trim (nullish (u_firstName u) [] @ '' '' @ nullish (u_lastName u) [])"

section \<open>What an emission or a row update leaves alone\<close>

lemma emit_frame [world_simps]:
  "users (emit e w) = users w" "drivers (emit e w) = drivers w" "trips (emit e w) = trips w"
  "attempts (emit e w) = attempts w" "redis_keys (emit e w) = redis_keys w" "jobs (emit e w) = jobs w"
  "payments (emit e w) = payments w" "sent (emit e w) = sent w" "bus (emit e w) = bus w @ [e]"
  "vehicles (emit e w) = vehicles w" "vehicleTypes (emit e w) = vehicleTypes w"
  "hasServer (emit e w) = hasServer w" "ratings (emit e w) = ratings w" "nextJob (emit e w) = nextJob w"
  "deliveryDetails (emit e w) = deliveryDetails w" "rideDetails (emit e w) = rideDetails w"
  "serviceConfigs (emit e w) = serviceConfigs w" "configCache (emit e w) = configCache w"
  by (simp_all add: emit_def)

lemma ws_frame [world_simps]:
  "users (ws_send r e p w) = users w" "drivers (ws_send r e p w) = drivers w"
  "trips (ws_send r e p w) = trips w" "attempts (ws_send r e p w) = attempts w"
  "redis_keys (ws_send r e p w) = redis_keys w" "jobs (ws_send r e p w) = jobs w"
  "payments (ws_send r e p w) = payments w" "bus (ws_send r e p w) = bus w"
  "vehicles (ws_send r e p w) = vehicles w" "vehicleTypes (ws_send r e p w) = vehicleTypes w"
  "hasServer (ws_send r e p w) = hasServer w" "ratings (ws_send r e p w) = ratings w"
  "nextJob (ws_send r e p w) = nextJob w" "deliveryDetails (ws_send r e p w) = deliveryDetails w"
  "rideDetails (ws_send r e p w) = rideDetails w" "serviceConfigs (ws_send r e p w) = serviceConfigs w"
  "configCache (ws_send r e p w) = configCache w"
  by (simp_all add: ws_send_def)

lemma emitTo_ws_send [world_simps]:
  "emitToUser u = ws_send (getUserRoom u)" "emitToDriver d = ws_send (getDriverRoom d)"
  "emitToTrip t = ws_send (getTripRoom t)" "emitToAdmin = ws_send getAdminRoom"
  by (simp_all add: fun_eq_iff emitToUser_def emitToDriver_def emitToTrip_def emitToAdmin_def)

lemma update_frame [world_simps]:
  "trips (update_trip now i f w) = update_where (\<lambda>t. t_id t = i) (\<lambda>t. (f t)\<lparr>t_updatedAt := now\<rparr>) (trips w)"
  "drivers (update_trip now i f w) = drivers w" "attempts (update_trip now i f w) = attempts w"
  "redis_keys (update_trip now i f w) = redis_keys w" "jobs (update_trip now i f w) = jobs w"
  "bus (update_trip now i f w) = bus w" "sent (update_trip now i f w) = sent w"
  "payments (update_trip now i f w) = payments w" "users (update_trip now i f w) = users w"
  "vehicles (update_trip now i f w) = vehicles w" "vehicleTypes (update_trip now i f w) = vehicleTypes w"
  "hasServer (update_trip now i f w) = hasServer w" "ratings (update_trip now i f w) = ratings w"
  "deliveryDetails (update_trip now i f w) = deliveryDetails w"
  "drivers (update_driver j g w) = update_where (\<lambda>d. d_id d = j) g (drivers w)"
  "trips (update_driver j g w) = trips w" "attempts (update_driver j g w) = attempts w"
  "redis_keys (update_driver j g w) = redis_keys w" "jobs (update_driver j g w) = jobs w"
  "bus (update_driver j g w) = bus w" "sent (update_driver j g w) = sent w"
  "payments (update_driver j g w) = payments w" "users (update_driver j g w) = users w"
  "vehicleTypes (update_driver j g w) = vehicleTypes w"
  "attempts (update_attempts p h w) = update_where p h (attempts w)"
  "trips (update_attempts p h w) = trips w" "drivers (update_attempts p h w) = drivers w"
  "redis_keys (update_attempts p h w) = redis_keys w" "jobs (update_attempts p h w) = jobs w"
  "bus (update_attempts p h w) = bus w" "sent (update_attempts p h w) = sent w"
  "payments (update_attempts p h w) = payments w" "users (update_attempts p h w) = users w"
  "vehicles (update_attempts p h w) = vehicles w" "vehicleTypes (update_attempts p h w) = vehicleTypes w"
  "hasServer (update_attempts p h w) = hasServer w"
  by (simp_all add: updater_defs)

lemma find_trip_update_same [world_simps]:
  "(\<And>t. t_id (f t) = t_id t) \<Longrightarrow>
   find_trip i (update_trip now i f w) = map_option (\<lambda>t. (f t)\<lparr>t_updatedAt := now\<rparr>) (find_trip i w)"
  unfolding find_trip_def update_frame by (rule find_update_same [where k = t_id]) simp

lemma find_trip_update_other [world_simps]:
  "(\<And>t. t_id (f t) = t_id t) \<Longrightarrow> i \<noteq> j \<Longrightarrow> find_trip j (update_trip now i f w) = find_trip j w"
  unfolding find_trip_def update_frame by (rule find_update_other [where k = t_id]) simp_all

lemma find_trip_frame:
  "trips w' = trips w \<Longrightarrow> find_trip i w' = find_trip i w"
  by (simp add: find_trip_def)

lemma find_trip_id: "find_trip i w = Some t \<Longrightarrow> t_id t = i \<and> t \<in> set (trips w)"
  unfolding find_trip_def by (drule find_SomeD) simp

lemma find_frames [world_simps]:
  "find_trip i (emit e w) = find_trip i w" "find_trip i (ws_send r ev p w) = find_trip i w"
  "find_trip i (update_driver j g w) = find_trip i w" "find_trip i (update_attempts q h w) = find_trip i w"
  "findDriverByUserId u (emit e w) = findDriverByUserId u w"
  "findDriverByUserId u (ws_send r ev p w) = findDriverByUserId u w"
  "findDriverByUserId u (update_trip now j f w) = findDriverByUserId u w"
  "findDriverByUserId u (update_attempts q h w) = findDriverByUserId u w"
  "find_driver i (emit e w) = find_driver i w" "find_driver i (ws_send r ev p w) = find_driver i w"
  "find_driver i (update_trip now j f w) = find_driver i w"
  "find_driver i (update_attempts q h w) = find_driver i w"
  by (simp_all add: finder_defs world_simps)

end
