(* ===== verification/Trip_Repository.thy ===== *)
theory Trip_Repository
  imports Telima_World
begin

text \<open>
  \<open>TripRepository\<close>: the queries and writes of the trip service. A row comes back without its
  joined tables; what the service reads from them (\<open>TRIP_INCLUDE\<close>) is looked up in the world by
  the functions of the second section. The id of a new row is a parameter. The stops are a table of
  their own, beside the world: nothing calls their three operations, so no other code writes it.
\<close>

section \<open>Rows\<close>

record CreateTripData =
  c_clientId :: id
  c_vehicleTypeId :: id
  c_serviceType :: ServiceType
  c_pickup :: GeoPoint
  c_pickupAddress :: string
  c_dropoff :: GeoPoint
  c_dropoffAddress :: string
  c_estimatedPrice :: real
  c_distanceMeters :: real
  c_durationSeconds :: real
  c_paymentMethod :: PaymentMethod

definition insertWithGeometry :: "id \<Rightarrow> time \<Rightarrow> CreateTripData \<Rightarrow> world \<Rightarrow> id \<times> world" where
  "insertWithGeometry newId now data w =
     (newId, w\<lparr>trips := trips w @ [\<lparr>t_id = newId, t_clientId = c_clientId data, t_driverId = None,
        t_vehicleTypeId = c_vehicleTypeId data, t_serviceType = c_serviceType data, t_status = pending,
        t_pickup = c_pickup data, t_pickupAddress = c_pickupAddress data,
        t_dropoff = c_dropoff data, t_dropoffAddress = c_dropoffAddress data,
        t_estimatedPrice = Some (c_estimatedPrice data), t_finalPrice = None,
        t_paymentMethod = c_paymentMethod data,
        t_distanceMeters = Some (c_distanceMeters data), t_durationSeconds = Some (c_durationSeconds data),
        t_acceptedAt = None, t_driverArrivedAt = None, t_startedAt = None, t_completedAt = None,
        t_cancelledAt = None, t_cancelReason = None, t_paymentReceivedAt = None,
        t_paymentReceivedAmount = None, t_commissionAmount = None, t_deliveryConfirmedAt = None,
        t_deliveryIssueReported = None, t_createdAt = now, t_updatedAt = now\<rparr>]\<rparr>)"

definition findById :: "id \<Rightarrow> world \<Rightarrow> Trip option" where
  "findById tripId w = find_trip tripId w"

definition getPickupCoordinates :: "id \<Rightarrow> world \<Rightarrow> GeoPoint option" where
  "getPickupCoordinates tripId w = map_option t_pickup (find_trip tripId w)"

definition hasActiveDispatchAttempt :: "id \<Rightarrow> id \<Rightarrow> world \<Rightarrow> bool" where
  "hasActiveDispatchAttempt tripId driverId w =
     list_ex (\<lambda>a. a_tripId a = tripId \<and> a_driverId a = driverId \<and> a_status a = driver_notified) (attempts w)"

definition find_page ::
  "(Trip \<Rightarrow> bool) \<Rightarrow> int \<Rightarrow> int \<Rightarrow> world \<Rightarrow> (Trip list \<times> nat, world) outcome" where
  "find_page p skip n w =
     (find_many_page t_createdAt p skip n (trips w), w)"

definition findManyByClient ::
  "id \<Rightarrow> int \<Rightarrow> int \<Rightarrow> TripStatus option \<Rightarrow> world \<Rightarrow> (Trip list \<times> nat, world) outcome" where
  "findManyByClient clientId skip n status =
     find_page (\<lambda>t. t_clientId t = clientId \<and> (case status of None \<Rightarrow> True | Some s \<Rightarrow> t_status t = s)) skip n"

definition findManyByDriver ::
  "id \<Rightarrow> int \<Rightarrow> int \<Rightarrow> TripStatus option \<Rightarrow> world \<Rightarrow> (Trip list \<times> nat, world) outcome" where
  "findManyByDriver driverId skip n status =
     find_page (\<lambda>t. t_driverId t = Some driverId \<and> (case status of None \<Rightarrow> True | Some s \<Rightarrow> t_status t = s)) skip n"

text \<open>\<open>trip.update\<close>: an unknown id is a Prisma error.\<close>

definition repo_update :: "time \<Rightarrow> id \<Rightarrow> (Trip \<Rightarrow> Trip) \<Rightarrow> world \<Rightarrow> (Trip, world) outcome" where
  "repo_update now tripId f w =
     (case find_trip tripId w of
        None \<Rightarrow> throw (InternalError ''Record to update not found'') w
      | Some _ \<Rightarrow>
          (let w' = update_trip now tripId f w
           in case findById tripId w' of
                None \<Rightarrow> throw (InternalError ''Record to update not found'') w'
              | Some t \<Rightarrow> return t w'))"

definition updateStatusIfPending :: "time \<Rightarrow> id \<Rightarrow> TripStatus \<Rightarrow> string \<Rightarrow> world \<Rightarrow> nat \<times> world" where
  "updateStatusIfPending now tripId status cancelReason w =
     (let p = (\<lambda>t. t_id t = tripId \<and> t_status t = pending)
      in (count_where p (trips w),
          w\<lparr>trips := update_where p (\<lambda>t. t\<lparr>t_status := status, t_cancelledAt := Some now,
                t_cancelReason := Some cancelReason, t_updatedAt := now\<rparr>) (trips w)\<rparr>))"

definition assignDriver :: "time \<Rightarrow> id \<Rightarrow> id \<Rightarrow> world \<Rightarrow> (Trip, world) outcome" where
  "assignDriver now tripId driverId =
     repo_update now tripId (\<lambda>t. t\<lparr>t_driverId := Some driverId, t_status := accepted, t_acceptedAt := Some now\<rparr>)"

definition createDeliveryDetails :: "DeliveryDetails \<Rightarrow> world \<Rightarrow> world" where
  "createDeliveryDetails data w = w\<lparr>deliveryDetails := deliveryDetails w @ [data]\<rparr>"

definition createRideDetails :: "RideDetails \<Rightarrow> world \<Rightarrow> world" where
  "createRideDetails data w = w\<lparr>rideDetails := rideDetails w @ [data]\<rparr>"

definition markPaymentReceived :: "time \<Rightarrow> id \<Rightarrow> real \<Rightarrow> world \<Rightarrow> (Trip, world) outcome" where
  "markPaymentReceived now tripId amount =
     repo_update now tripId (\<lambda>t. t\<lparr>t_paymentReceivedAt := Some now, t_paymentReceivedAmount := Some amount\<rparr>)"

definition findRating :: "id \<Rightarrow> id \<Rightarrow> world \<Rightarrow> TripRating option" where
  "findRating tripId raterId w = find (\<lambda>r. r_tripId r = tripId \<and> r_raterId r = raterId) (ratings w)"

definition createRating :: "TripRating \<Rightarrow> world \<Rightarrow> TripRating \<times> world" where
  "createRating data w = (data, w\<lparr>ratings := ratings w @ [data]\<rparr>)"

section \<open>Stops\<close>

datatype StopType = stop_pickup | stop_dropoff | stop_waypoint

record TripStop =
  ts_id :: id
  ts_tripId :: id
  ts_sequence :: int
  ts_stopType :: StopType
  ts_location :: GeoPoint
  ts_address :: string
  ts_label :: "string option"
  ts_arrivedAt :: "time option"
  ts_completedAt :: "time option"
  ts_createdAt :: time

record CreateTripStopData =
  cs_tripId :: id
  cs_sequence :: int
  cs_stopType :: StopType
  cs_location :: GeoPoint
  cs_address :: string
  cs_label :: "string option"

definition stop_at :: "id \<Rightarrow> int \<Rightarrow> TripStop \<Rightarrow> bool" where
  "stop_at tripId n s \<longleftrightarrow> ts_tripId s = tripId \<and> ts_sequence s = n"

text \<open>The trip must exist, and a trip has one stop per number.\<close>

definition createTripStop :: "id \<Rightarrow> time \<Rightarrow> CreateTripStopData \<Rightarrow> world \<Rightarrow> TripStop list \<Rightarrow> (unit, TripStop list) outcome" where
  "createTripStop newId now data w stops =
     (if find_trip (cs_tripId data) w = None then throw (InternalError ''Foreign key constraint failed'') stops
      else if list_ex (stop_at (cs_tripId data) (cs_sequence data)) stops
      then throw (InternalError ''Unique constraint failed'') stops
      else return () (stops @ [\<lparr>ts_id = newId, ts_tripId = cs_tripId data, ts_sequence = cs_sequence data,
             ts_stopType = cs_stopType data, ts_location = cs_location data, ts_address = cs_address data,
             ts_label = cs_label data, ts_arrivedAt = None, ts_completedAt = None, ts_createdAt = now\<rparr>]))"

definition update_stop :: "id \<Rightarrow> int \<Rightarrow> (TripStop \<Rightarrow> TripStop) \<Rightarrow> TripStop list \<Rightarrow> (TripStop, TripStop list) outcome" where
  "update_stop tripId n f stops =
     (case find (stop_at tripId n) stops of
        None \<Rightarrow> throw (InternalError ''Record to update not found'') stops
      | Some s \<Rightarrow> return (f s) (update_where (stop_at tripId n) f stops))"

definition markStopArrived :: "time \<Rightarrow> id \<Rightarrow> int \<Rightarrow> TripStop list \<Rightarrow> (TripStop, TripStop list) outcome" where
  "markStopArrived now tripId n = update_stop tripId n (\<lambda>s. s\<lparr>ts_arrivedAt := Some now\<rparr>)"

definition markStopCompleted :: "time \<Rightarrow> id \<Rightarrow> int \<Rightarrow> TripStop list \<Rightarrow> (TripStop, TripStop list) outcome" where
  "markStopCompleted now tripId n = update_stop tripId n (\<lambda>s. s\<lparr>ts_completedAt := Some now\<rparr>)"

text \<open>A trip never has two stops of one number.\<close>

definition stops_ok :: "TripStop list \<Rightarrow> bool" where
  "stops_ok stops \<longleftrightarrow> distinct (map (\<lambda>s. (ts_tripId s, ts_sequence s)) stops)"

lemma stops_ok_kept:
  assumes "stops_ok stops"
  shows "stops_ok (snd (createTripStop newId now data w stops))" and "stops_ok (snd (markStopArrived now i n stops))"
    and "stops_ok (snd (markStopCompleted now i n stops))"
proof -
  have update: "stops_ok (snd (update_stop i n f stops))"
    if "\<And>s. ts_tripId (f s) = ts_tripId s \<and> ts_sequence (f s) = ts_sequence s" for f
  proof -
    have "map (\<lambda>s. (ts_tripId s, ts_sequence s)) (update_where (stop_at i n) f stops) = map (\<lambda>s. (ts_tripId s, ts_sequence s)) stops"
      by (rule map_key_update_where) (simp add: that)
    then show ?thesis using assms by (simp add: update_stop_def stops_ok_def split: option.split)
  qed
  then show "stops_ok (snd (markStopArrived now i n stops))" "stops_ok (snd (markStopCompleted now i n stops))"
    by (simp_all add: markStopArrived_def markStopCompleted_def)
  show "stops_ok (snd (createTripStop newId now data w stops))"
    using assms by (auto simp: createTripStop_def stops_ok_def list_ex_iff stop_at_def)
qed

section \<open>Joined tables\<close>

definition driver_of_trip :: "Trip \<Rightarrow> world \<Rightarrow> Driver option" where
  "driver_of_trip t w = Option.bind (t_driverId t) (\<lambda>d. find_driver d w)"

definition driver_user :: "Trip \<Rightarrow> world \<Rightarrow> User option" where
  "driver_user t w = Option.bind (driver_of_trip t w) (\<lambda>d. find_user (d_userId d) w)"

definition driver_vehicle :: "Trip \<Rightarrow> world \<Rightarrow> Vehicle option" where
  "driver_vehicle t w = Option.bind (driver_of_trip t w) (\<lambda>d. vehicle_of (d_id d) w)"

definition driver_vehicleType :: "Trip \<Rightarrow> world \<Rightarrow> VehicleType option" where
  "driver_vehicleType t w = Option.bind (driver_vehicle t w) (\<lambda>v. find_vehicleType (v_vehicleTypeId v) w)"

section \<open>Reading and writing one row\<close>

lemma repo_update_cases:
  assumes "\<And>t. t_id (f t) = t_id t"
  shows "repo_update now i f w =
    (case find_trip i w of
       None \<Rightarrow> throw (InternalError ''Record to update not found'') w
     | Some t \<Rightarrow> return ((f t)\<lparr>t_updatedAt := now\<rparr>) (update_trip now i f w))"
  using find_trip_update_same [of f i now w] assms
  by (auto simp: repo_update_def findById_def Let_def split: option.splits)

lemma hasActiveDispatchAttempt_iff:
  "hasActiveDispatchAttempt t d w \<longleftrightarrow>
     (\<exists>a \<in> set (attempts w). a_tripId a = t \<and> a_driverId a = d \<and> a_status a = driver_notified)"
  by (auto simp: hasActiveDispatchAttempt_def list_ex_iff)

lemma updateStatusIfPending_frame [world_simps]:
  "drivers (snd (updateStatusIfPending now t s r w)) = drivers w"
  "attempts (snd (updateStatusIfPending now t s r w)) = attempts w"
  "bus (snd (updateStatusIfPending now t s r w)) = bus w"
  "payments (snd (updateStatusIfPending now t s r w)) = payments w"
  "sent (snd (updateStatusIfPending now t s r w)) = sent w"
  "hasServer (snd (updateStatusIfPending now t s r w)) = hasServer w"
  by (simp_all add: updateStatusIfPending_def Let_def)

end
