(* ===== verification/Geolocation.thy ===== *)
theory Geolocation
  imports Telima_World
begin

text \<open>
  \<open>GeolocationService\<close>: the position updates of the drivers and the spatial query that finds
  the candidates of a dispatch. \<open>ST_Distance\<close> and \<open>ST_DWithin\<close> belong to PostGIS: the distance
  of two points is the parameter \<open>st_distance\<close> of the queries. PostGIS documents, for the
  column type of the schema (\<open>geometry(Point, 4326)\<close>), the planar distance in degrees;
  \<open>planar_distance\<close> states that documented behaviour for the facts that need it.
\<close>

type_synonym distance_fn = "GeoPoint \<Rightarrow> GeoPoint \<Rightarrow> real"

record NearbyDriver =
  nd_driverId :: id
  nd_distanceMeters :: int
  nd_location :: GeoPoint
  nd_rating :: real
  nd_vehicleTypeId :: id
  nd_vehicleBrand :: string
  nd_vehicleModel :: string
  nd_plateNumber :: string

text \<open>The SQL cast \<open>::int\<close> of a double: nearest integer, ties to even.\<close>

definition sql_int :: "real \<Rightarrow> int" where
  "sql_int x = (let f = \<lfloor>x\<rfloor>; r = x - of_int f in
     if r < 1 / 2 then f else if r > 1 / 2 then f + 1 else if even f then f else f + 1)"

definition updateDriverLocation :: "time \<Rightarrow> id \<Rightarrow> real \<Rightarrow> real \<Rightarrow> world \<Rightarrow> world" where
  "updateDriverLocation now driverId lt lg =
     update_driver driverId
       (\<lambda>d. d\<lparr>d_currentLocation := Some \<lparr>lat = lt, lng = lg\<rparr>, d_lastLocationAt := Some now\<rparr>)"

text \<open>A driver busy with a trip created less than 25 minutes ago is excluded.\<close>

definition engaged :: "time \<Rightarrow> id \<Rightarrow> world \<Rightarrow> bool" where
  "engaged now driverId w \<longleftrightarrow>
     list_ex (\<lambda>t. t_driverId t = Some driverId \<and> active_status (t_status t) \<and>
                  t_createdAt t > now - 25 * 60 * 1000) (trips w)"

definition vehicle_matches :: "ServiceType option \<Rightarrow> id option \<Rightarrow> Vehicle \<Rightarrow> world \<Rightarrow> bool" where
  "vehicle_matches serviceType vehicleTypeId v w \<longleftrightarrow>
     (case serviceType of None \<Rightarrow> True
      | Some s \<Rightarrow> list_ex (\<lambda>vt. vt_id vt = v_vehicleTypeId v \<and> vt_serviceType vt = s \<and> vt_isActive vt)
                          (vehicleTypes w)) \<and>
     (\<not> truthy vehicleTypeId \<or> vehicleTypeId = Some (v_vehicleTypeId v))"

definition eligible :: "distance_fn \<Rightarrow> time \<Rightarrow> GeoPoint \<Rightarrow> int \<Rightarrow> world \<Rightarrow> Driver \<Rightarrow> bool" where
  "eligible st_distance now point radiusMeters w d \<longleftrightarrow>
     d_status d = validated \<and> d_isOnline d \<and>
     (case d_currentLocation d of None \<Rightarrow> False
      | Some p \<Rightarrow> st_distance p point \<le> of_int radiusMeters) \<and>
     \<not> engaged now (d_id d) w"

definition nearby_row :: "distance_fn \<Rightarrow> GeoPoint \<Rightarrow> Driver \<Rightarrow> Vehicle \<Rightarrow> NearbyDriver" where
  "nearby_row st_distance point d v =
     (let p = nullish (d_currentLocation d) point in
      \<lparr>nd_driverId = d_id d, nd_distanceMeters = sql_int (st_distance p point), nd_location = p,
       nd_rating = d_rating d, nd_vehicleTypeId = v_vehicleTypeId v, nd_vehicleBrand = v_brand v,
       nd_vehicleModel = v_model v, nd_plateNumber = v_plateNumber v\<rparr>)"

definition findNearbyDrivers ::
  "distance_fn \<Rightarrow> time \<Rightarrow> GeoPoint \<Rightarrow> int \<Rightarrow> ServiceType option \<Rightarrow> id option \<Rightarrow> world \<Rightarrow> NearbyDriver list" where
  "findNearbyDrivers st_distance now point radiusMeters serviceType vehicleTypeId w =
     sort_key nd_distanceMeters
       [nearby_row st_distance point d v.
          d \<leftarrow> filter (eligible st_distance now point radiusMeters w) (drivers w),
          v \<leftarrow> filter (\<lambda>v. v_driverId v = d_id d \<and> vehicle_matches serviceType vehicleTypeId v w) (vehicles w)]"

definition calculateDistance :: "distance_fn \<Rightarrow> GeoPoint \<Rightarrow> GeoPoint \<Rightarrow> real" where
  "calculateDistance st_distance a b = of_int (sql_int (st_distance a b))"

definition getDriverLocation :: "id \<Rightarrow> world \<Rightarrow> GeoPoint option" where
  "getDriverLocation driverId w = Option.bind (find_driver driverId w) d_currentLocation"

lemma sql_int_near: "\<bar>of_int (sql_int x) - x\<bar> \<le> 1 / 2"
  unfolding sql_int_def Let_def by (auto split: if_splits)

lemma set_findNearbyDrivers:
  "n \<in> set (findNearbyDrivers sd now point r s vt w) \<longleftrightarrow>
     (\<exists>d \<in> set (drivers w). \<exists>v \<in> set (vehicles w). eligible sd now point r w d \<and>
        v_driverId v = d_id d \<and> vehicle_matches s vt v w \<and> n = nearby_row sd point d v)"
  unfolding findNearbyDrivers_def by auto

lemma engaged_iff:
  "engaged now i w \<longleftrightarrow> (\<exists>t \<in> set (trips w). t_driverId t = Some i \<and> active_status (t_status t) \<and>
     now - 1500000 < t_createdAt t)"
  by (auto simp: engaged_def list_ex_iff)

text \<open>
  C23. Who a dispatch may solicit: every candidate is a validated, online driver with a known
  position, owns a vehicle of the requested (active) type, and is not on an accepted, arriving
  or running trip created in the last 25 minutes; and the candidates come nearest first.
\<close>

theorem nearby_drivers_eligible:
  assumes n: "n \<in> set (findNearbyDrivers sd now point r (Some s) (Some vt) w)" and vt: "vt \<noteq> []"
  shows "sorted (map nd_distanceMeters (findNearbyDrivers sd now point r (Some s) (Some vt) w)) \<and>
    (\<exists>d \<in> set (drivers w). d_id d = nd_driverId n \<and> d_status d = validated \<and> d_isOnline d \<and>
       d_currentLocation d = Some (nd_location n) \<and>
       (\<exists>v \<in> set (vehicles w). v_driverId v = d_id d \<and> v_vehicleTypeId v = vt) \<and>
       (\<exists>y \<in> set (vehicleTypes w). vt_id y = vt \<and> vt_serviceType y = s \<and> vt_isActive y) \<and>
       \<not> (\<exists>t \<in> set (trips w). t_driverId t = Some (d_id d) \<and> active_status (t_status t) \<and>
              now - 1500000 < t_createdAt t))"
proof
  show "sorted (map nd_distanceMeters (findNearbyDrivers sd now point r (Some s) (Some vt) w))"
    unfolding findNearbyDrivers_def by (rule sorted_sort_key)
  from n obtain d v where d: "d \<in> set (drivers w)" "eligible sd now point r w d"
    and v: "v \<in> set (vehicles w)" "v_driverId v = d_id d" "vehicle_matches (Some s) (Some vt) v w"
    and row: "n = nearby_row sd point d v"
    unfolding set_findNearbyDrivers by blast
  from v(3) vt have vvt: "v_vehicleTypeId v = vt" and "\<exists>y \<in> set (vehicleTypes w).
      vt_id y = v_vehicleTypeId v \<and> vt_serviceType y = s \<and> vt_isActive y"
    by (simp_all add: vehicle_matches_def list_ex_iff)
  then obtain y where y: "y \<in> set (vehicleTypes w)" "vt_id y = vt" "vt_serviceType y = s" "vt_isActive y"
    by blast
  from d(2) row have ids: "d_id d = nd_driverId n" "d_currentLocation d = Some (nd_location n)"
      "d_status d = validated" "d_isOnline d" "\<not> engaged now (d_id d) w"
    by (auto simp: eligible_def nearby_row_def Let_def split: option.splits)
  show "\<exists>d \<in> set (drivers w). d_id d = nd_driverId n \<and> d_status d = validated \<and> d_isOnline d \<and>
       d_currentLocation d = Some (nd_location n) \<and>
       (\<exists>v \<in> set (vehicles w). v_driverId v = d_id d \<and> v_vehicleTypeId v = vt) \<and>
       (\<exists>y \<in> set (vehicleTypes w). vt_id y = vt \<and> vt_serviceType y = s \<and> vt_isActive y) \<and>
       \<not> (\<exists>t \<in> set (trips w). t_driverId t = Some (d_id d) \<and> active_status (t_status t) \<and>
              now - 1500000 < t_createdAt t)"
    using ids v(1,2) vvt y unfolding engaged_iff by (intro bexI [OF _ d(1)] conjI) blast+
qed

definition sample_driver :: "id \<Rightarrow> id \<Rightarrow> Driver" where
  "sample_driver i u = \<lparr>d_id = i, d_userId = u, d_status = validated, d_rating = 5, d_balance = 0,
     d_commissionDue = 0, d_isOnline = True, d_currentLocation = Some \<lparr>lat = 12, lng = -8\<rparr>,
     d_lastLocationAt = None, d_photoUrl = None, d_licenseUrl = None, d_idCardUrl = None,
     d_validatedAt = None, d_suspendedAt = None, d_suspensionReason = None, d_createdAt = 0\<rparr>"

definition sample_vehicle :: "id \<Rightarrow> id \<Rightarrow> Vehicle" where
  "sample_vehicle d vt = \<lparr>v_driverId = d, v_vehicleTypeId = vt, v_brand = ''Yamaha'', v_model = ''XTZ'',
     v_year = 2020, v_plateNumber = ''AB-123'', v_energy = ''essence'', v_registrationDocUrl = None\<rparr>"

definition sample_vehicleType :: "id \<Rightarrow> VehicleType" where
  "sample_vehicleType vt = \<lparr>vt_id = vt, vt_name = ''Moto'', vt_serviceType = ride, vt_baseFare = 200,
     vt_pricePerKm = 150, vt_pricePerMin = 25, vt_commissionPercentage = 15, vt_isActive = True, vt_capacity = 1, vt_createdAt = 0\<rparr>"

definition sample_world :: world where
  "sample_world = empty_world\<lparr>drivers := [sample_driver ''d1'' ''u1''],
     vehicles := [sample_vehicle ''d1'' ''moto''], vehicleTypes := [sample_vehicleType ''moto'']\<rparr>"

lemmas sample_defs = sample_world_def sample_driver_def sample_vehicle_def sample_vehicleType_def
  empty_world_def

lemma sample_candidates:
  "findNearbyDrivers (\<lambda>_ _. 7) 0 \<lparr>lat = 12, lng = -8\<rparr> 5000 (Some ride) (Some ''moto'') sample_world =
     [nearby_row (\<lambda>_ _. 7) \<lparr>lat = 12, lng = -8\<rparr> (sample_driver ''d1'' ''u1'') (sample_vehicle ''d1'' ''moto'')]"
  by (simp add: findNearbyDrivers_def sample_defs eligible_def engaged_def vehicle_matches_def)

theorem nearby_drivers_eligible_witness:
  "d_id (sample_driver ''d1'' ''u1'') = ''d1'' \<and>
   (\<exists>d \<in> set (drivers sample_world). d_id d = ''d1'' \<and> d_isOnline d)"
  using nearby_drivers_eligible [of _ "\<lambda>_ _. 7" 0 "\<lparr>lat = 12, lng = -8\<rparr>" 5000 ride "''moto''" sample_world]
  unfolding sample_candidates by (auto simp: nearby_row_def sample_driver_def Let_def)

section \<open>The unit of the search radius\<close>

text \<open>PostGIS on \<open>geometry\<close> columns in SRID 4326: Euclidean distance of the degree coordinates.\<close>

definition planar_distance :: distance_fn where
  "planar_distance a b = sqrt ((lat a - lat b)\<^sup>2 + (lng a - lng b)\<^sup>2)"

definition valid_point :: "GeoPoint \<Rightarrow> bool" where
  "valid_point p \<longleftrightarrow> -90 \<le> lat p \<and> lat p \<le> 90 \<and> -180 \<le> lng p \<and> lng p \<le> 180"

lemma planar_distance_bound:
  assumes "valid_point a" and "valid_point b"
  shows "planar_distance a b \<le> 403"
proof -
  have la: "\<bar>lat a - lat b\<bar> \<le> 180" and lo: "\<bar>lng a - lng b\<bar> \<le> 360"
    using assms by (auto simp: valid_point_def)
  have "(lat a - lat b)\<^sup>2 \<le> 180\<^sup>2"
    using la by (rule abs_le_square_iff [THEN iffD1, OF order_trans]) simp
  moreover have "(lng a - lng b)\<^sup>2 \<le> 360\<^sup>2"
    using lo by (rule abs_le_square_iff [THEN iffD1, OF order_trans]) simp
  ultimately have "(lat a - lat b)\<^sup>2 + (lng a - lng b)\<^sup>2 \<le> 403\<^sup>2"
    by (simp add: power2_eq_square)
  then show ?thesis unfolding planar_distance_def by (rule real_le_lsqrt [rotated]) simp
qed

text \<open>
  On the columns of the schema the radius of the query excludes nobody: with the planar
  distance PostGIS computes there, the default radius of 5000 (meant in metres) and in fact
  any radius from 403 on admits every position on Earth, so the candidates do not depend on it.
\<close>

theorem search_radius_vacuous:
  assumes "403 \<le> r" and "403 \<le> r'" and "valid_point point"
    and "\<forall>d \<in> set (drivers w). \<forall>p. d_currentLocation d = Some p \<longrightarrow> valid_point p"
  shows "findNearbyDrivers planar_distance now point r s vt w =
         findNearbyDrivers planar_distance now point r' s vt w"
proof -
  have le: "planar_distance p point \<le> real_of_int q"
    if "403 \<le> q" and "d \<in> set (drivers w)" and "d_currentLocation d = Some p" for q d p
    using planar_distance_bound [of p point] assms(3,4) that by fastforce
  have "eligible planar_distance now point r w d = eligible planar_distance now point r' w d"
    if "d \<in> set (drivers w)" for d
    using le [OF assms(1) that] le [OF assms(2) that] by (auto simp: eligible_def split: option.splits)
  then have "filter (eligible planar_distance now point r w) (drivers w) =
             filter (eligible planar_distance now point r' w) (drivers w)"
    by (rule filter_cong [OF refl])
  then show ?thesis by (simp add: findNearbyDrivers_def)
qed

theorem search_radius_vacuous_witness:
  "findNearbyDrivers planar_distance 0 \<lparr>lat = -30, lng = 150\<rparr> 5000 (Some ride) None sample_world =
   findNearbyDrivers planar_distance 0 \<lparr>lat = -30, lng = 150\<rparr> 20000000 (Some ride) None sample_world"
  by (rule search_radius_vacuous) (auto simp: sample_defs valid_point_def)

end
