(* ===== verification/Service_Config.thy ===== *)
theory Service_Config
  imports Telima_World
begin

text \<open>
  \<open>ServiceConfigService\<close>: the per-service dispatch and pricing settings, read through an
  in-process cache of one minute keyed by the service and by whether the requirements are
  included. The cache lives in the world; a read answers and leaves the refreshed cache.
\<close>

record ServiceDispatchConfig =
  dispatchRadiusMeters :: int
  maxDispatchAttempts :: int
  lockTtlSeconds :: int
  dispatchTimeoutMs :: int

record ServicePricingConfig =
  surgeEnabled :: bool
  maxSurgeMultiplier :: real

definition DEFAULT_CONFIG :: ServiceDispatchConfig where
  "DEFAULT_CONFIG = \<lparr>dispatchRadiusMeters = 5000, maxDispatchAttempts = 3, lockTtlSeconds = 75,
     dispatchTimeoutMs = 60000\<rparr>"

definition DEFAULT_PRICING_CONFIG :: ServicePricingConfig where
  "DEFAULT_PRICING_CONFIG = \<lparr>surgeEnabled = False, maxSurgeMultiplier = 2\<rparr>"

definition cacheTtlMs :: int where "cacheTtlMs = 60000"

definition find_config :: "ServiceType \<Rightarrow> world \<Rightarrow> ServiceConfig option" where
  "find_config s w = find (\<lambda>c. sc_serviceType c = s) (serviceConfigs w)"

definition getConfig :: "time \<Rightarrow> ServiceType \<Rightarrow> bool \<Rightarrow> world \<Rightarrow> ServiceConfig option \<times> world" where
  "getConfig now s includeRequirements w =
     (case configCache w (s, includeRequirements) of
        Some e \<Rightarrow>
          if ce_expiresAt e > now then (ce_data e, w)
          else (let c = find_config s w
                in (c, w\<lparr>configCache := (configCache w)((s, includeRequirements) \<mapsto>
                         \<lparr>ce_data = c, ce_expiresAt = now + cacheTtlMs\<rparr>)\<rparr>))
      | None \<Rightarrow>
          (let c = find_config s w
           in (c, w\<lparr>configCache := (configCache w)((s, includeRequirements) \<mapsto>
                    \<lparr>ce_data = c, ce_expiresAt = now + cacheTtlMs\<rparr>)\<rparr>)))"

definition dispatch_config_of :: "ServiceConfig option \<Rightarrow> ServiceDispatchConfig" where
  "dispatch_config_of c =
     (case c of None \<Rightarrow> DEFAULT_CONFIG
      | Some c \<Rightarrow> \<lparr>dispatchRadiusMeters = sc_dispatchRadiusMeters c,
                   maxDispatchAttempts = sc_maxDispatchAttempts c,
                   lockTtlSeconds = sc_lockTtlSeconds c,
                   dispatchTimeoutMs = sc_dispatchTimeoutMs c\<rparr>)"

definition getDispatchConfig :: "time \<Rightarrow> ServiceType \<Rightarrow> world \<Rightarrow> ServiceDispatchConfig \<times> world" where
  "getDispatchConfig now s w =
     apfst dispatch_config_of (getConfig now s False w)"

definition getPricingConfig :: "time \<Rightarrow> ServiceType \<Rightarrow> world \<Rightarrow> ServicePricingConfig \<times> world" where
  "getPricingConfig now s w =
     (case getConfig now s False w of
        (None, w') \<Rightarrow> (DEFAULT_PRICING_CONFIG, w')
      | (Some c, w') \<Rightarrow> (\<lparr>surgeEnabled = sc_surgeEnabled c,
                          maxSurgeMultiplier = sc_maxSurgeMultiplier c\<rparr>, w'))"

definition isServiceEnabled :: "time \<Rightarrow> ServiceType \<Rightarrow> world \<Rightarrow> bool \<times> world" where
  "isServiceEnabled now s w =
     (case getConfig now s False w of
        (c, w') \<Rightarrow> (nullish (map_option sc_isEnabled c) False, w'))"

definition getRequiredCapabilities :: "time \<Rightarrow> ServiceType \<Rightarrow> world \<Rightarrow> string list \<times> world" where
  "getRequiredCapabilities now s w =
     (case getConfig now s True w of
        (None, w') \<Rightarrow> ([], w')
      | (Some c, w') \<Rightarrow> (map snd (filter (\<lambda>r. fst r = ''required'') (sc_requirements c)), w'))"

definition invalidateConfigCache :: "world \<Rightarrow> world" where
  "invalidateConfigCache w = w\<lparr>configCache := Map.empty\<rparr>"

lemma getConfig_frame [world_simps]:
  "trips (snd (getConfig now s b w)) = trips w" "drivers (snd (getConfig now s b w)) = drivers w"
  "attempts (snd (getConfig now s b w)) = attempts w" "jobs (snd (getConfig now s b w)) = jobs w"
  "redis_keys (snd (getConfig now s b w)) = redis_keys w" "bus (snd (getConfig now s b w)) = bus w"
  "payments (snd (getConfig now s b w)) = payments w" "users (snd (getConfig now s b w)) = users w"
  "vehicles (snd (getConfig now s b w)) = vehicles w" "sent (snd (getConfig now s b w)) = sent w"
  "vehicleTypes (snd (getConfig now s b w)) = vehicleTypes w"
  "deliveryDetails (snd (getConfig now s b w)) = deliveryDetails w"
  "hasServer (snd (getConfig now s b w)) = hasServer w" "nextJob (snd (getConfig now s b w)) = nextJob w"
  "serviceConfigs (snd (getConfig now s b w)) = serviceConfigs w"
  by (simp_all add: getConfig_def Let_def split: option.splits)

lemma getDispatchConfig_frame [world_simps]:
  "trips (snd (getDispatchConfig now s w)) = trips w" "drivers (snd (getDispatchConfig now s w)) = drivers w"
  "attempts (snd (getDispatchConfig now s w)) = attempts w" "jobs (snd (getDispatchConfig now s w)) = jobs w"
  "redis_keys (snd (getDispatchConfig now s w)) = redis_keys w" "bus (snd (getDispatchConfig now s w)) = bus w"
  "payments (snd (getDispatchConfig now s w)) = payments w" "users (snd (getDispatchConfig now s w)) = users w"
  "vehicles (snd (getDispatchConfig now s w)) = vehicles w" "sent (snd (getDispatchConfig now s w)) = sent w"
  "vehicleTypes (snd (getDispatchConfig now s w)) = vehicleTypes w"
  "deliveryDetails (snd (getDispatchConfig now s w)) = deliveryDetails w"
  "hasServer (snd (getDispatchConfig now s w)) = hasServer w"
  "nextJob (snd (getDispatchConfig now s w)) = nextJob w"
  "serviceConfigs (snd (getDispatchConfig now s w)) = serviceConfigs w"
  by (simp_all add: getDispatchConfig_def world_simps)

text \<open>Every cached entry was read at most one minute ago, so it expires within a minute.\<close>

definition cache_fresh :: "time \<Rightarrow> world \<Rightarrow> bool" where
  "cache_fresh now w \<longleftrightarrow> (\<forall>k e. configCache w k = Some e \<longrightarrow> ce_expiresAt e \<le> now + cacheTtlMs)"

lemma getConfig_cached:
  "configCache (snd (getConfig now s b w)) (s, b) =
     Some \<lparr>ce_data = fst (getConfig now s b w),
           ce_expiresAt = (case configCache w (s, b) of
              Some e \<Rightarrow> if ce_expiresAt e > now then ce_expiresAt e else now + cacheTtlMs
            | None \<Rightarrow> now + cacheTtlMs)\<rparr>"
  by (auto simp: getConfig_def Let_def split: option.splits)

text \<open>
  Stale settings live at most a minute: after a read that went to the database at time
  \<open>now\<close> (here: after an invalidation), any later read within the minute repeats its answer
  whatever has been written to the table since, and a read a minute later or more sees the
  table as it then is.
\<close>

theorem config_cache_window:
  assumes first: "getConfig now s b (invalidateConfigCache w) = (c, w1)"
    and later: "w2 = w1\<lparr>serviceConfigs := rows\<rparr>" and "now \<le> now2"
  shows "c = find_config s w \<and>
    fst (getConfig now2 s b w2) =
      (if now2 < now + 60000 then c else find (\<lambda>r. sc_serviceType r = s) rows)"
proof -
  from first have c: "c = find_config s w"
    and entry: "configCache w1 (s, b) = Some \<lparr>ce_data = c, ce_expiresAt = now + cacheTtlMs\<rparr>"
    by (auto simp: getConfig_def invalidateConfigCache_def find_config_def Let_def)
  from entry later show ?thesis
    by (auto simp: c getConfig_def find_config_def cacheTtlMs_def Let_def)
qed

definition ride_config :: ServiceConfig where
  "ride_config = \<lparr>sc_serviceType = ride, sc_isEnabled = True, sc_dispatchRadiusMeters = 5000,
     sc_maxDispatchAttempts = 3, sc_lockTtlSeconds = 75, sc_dispatchTimeoutMs = 60000,
     sc_surgeEnabled = True, sc_maxSurgeMultiplier = 2, sc_requirements = []\<rparr>"

theorem config_cache_window_witness:
  "fst (getConfig 30000 ride False
     ((snd (getConfig 0 ride False (invalidateConfigCache (empty_world\<lparr>serviceConfigs := [ride_config]\<rparr>))))
        \<lparr>serviceConfigs := []\<rparr>)) = Some ride_config"
proof -
  let ?w = "empty_world\<lparr>serviceConfigs := [ride_config]\<rparr>"
  have "find_config ride ?w = Some ride_config"
    by (simp add: find_config_def ride_config_def)
  then show ?thesis
    using config_cache_window [OF surjective_pairing refl, of 0 30000 ride False ?w "[]"] by simp
qed

end
