(* ===== verification/Dispatch.thy ===== *)
theory Dispatch
  imports Geolocation Service_Config
begin

text \<open>
  \<open>DispatchService\<close> with the timeout queue it drives (\<open>queue.service.ts\<close>): a search notifies the
  nearest free drivers under a Redis lock per driver, every notification arms a timeout job, and
  timeouts and refusals start the next round until a driver accepts or the rounds are used up.
  Every operation is one step on the world; what the service emits is appended to \<open>bus\<close>.
\<close>

section \<open>The timeout queue\<close>

definition scheduleDispatchTimeout :: "time \<Rightarrow> id \<Rightarrow> id \<Rightarrow> int \<Rightarrow> world \<Rightarrow> nat \<times> world" where
  "scheduleDispatchTimeout now tripId driverId delayMs w =
     (nextJob w, w\<lparr>jobs := jobs w @ [\<lparr>j_id = nextJob w, j_tripId = tripId, j_driverId = driverId,
                                       j_due = now + delayMs\<rparr>],
                   nextJob := nextJob w + 1\<rparr>)"

definition cancelDispatchTimeout :: "nat \<Rightarrow> world \<Rightarrow> world" where
  "cancelDispatchTimeout jobId w = w\<lparr>jobs := delete_where (\<lambda>j. j_id j = jobId) (jobs w)\<rparr>"

definition set_keys :: "(redis \<Rightarrow> redis) \<Rightarrow> world \<Rightarrow> world" where
  "set_keys f w = w\<lparr>redis_keys := f (redis_keys w)\<rparr>"

definition cancelTimeoutJob :: "time \<Rightarrow> id \<Rightarrow> id \<Rightarrow> world \<Rightarrow> world" where
  "cancelTimeoutJob now tripId driverId w =
     (let key = DispatchTimeoutJobKey tripId driverId in
      case redis_get now (redis_keys w) key of
        None \<Rightarrow> w
      | Some jobId \<Rightarrow> set_keys (redis_del key) (cancelDispatchTimeout (redis_number (Some jobId)) w))"

section \<open>A dispatch round\<close>

definition emitDispatchFailed :: "id \<Rightarrow> string \<Rightarrow> world \<Rightarrow> world" where
  "emitDispatchFailed tripId reason w =
     emit (DispatchFailed tripId reason) (set_keys (redis_del (DispatchRoundsKey tripId)) w)"

definition failTrip :: "id \<Rightarrow> string \<Rightarrow> world \<Rightarrow> world" where
  "failTrip = emitDispatchFailed"

text \<open>
  The payload of \<open>trip:new_request\<close>. The client and the vehicle type of a trip exist by foreign
  key; where the model's tables lack them the texts are empty and the percentage is 0.
\<close>

definition trip_client :: "Trip \<Rightarrow> world \<Rightarrow> User option" where
  "trip_client t w = find_user (t_clientId t) w"

definition trip_request ::
  "id \<Rightarrow> GeoPoint \<Rightarrow> ServiceType \<Rightarrow> world \<Rightarrow> NearbyDriver \<Rightarrow> TripRequest" where
  "trip_request tripId pickup serviceType w driver =
     (let trip = find_trip tripId w;
          estimatedPrice = (case trip of None \<Rightarrow> 0 | Some t \<Rightarrow> nullish (t_estimatedPrice t) 0);
          vt = Option.bind trip (\<lambda>t. find_vehicleType (t_vehicleTypeId t) w);
          commissionPercentage = (case vt of None \<Rightarrow> 0 | Some v \<Rightarrow> vt_commissionPercentage v);
          client = Option.bind trip (\<lambda>t. trip_client t w);
          dd = Option.bind trip (\<lambda>t. delivery_of (t_id t) w)
      in \<lparr>rq_tripId = tripId, rq_serviceType = serviceType, rq_pickup = Some pickup,
          rq_dropoff = map_option t_dropoff trip,
          rq_pickupAddress = map_option t_pickupAddress trip, rq_dropoffAddress = map_option t_dropoffAddress trip,
          rq_estimatedPrice = estimatedPrice,
          rq_commission = Math_round (estimatedPrice * commissionPercentage / 100),
          rq_tripDistanceMeters = (case trip of None \<Rightarrow> 0 | Some t \<Rightarrow> nullish (t_distanceMeters t) 0),
          rq_driverDistanceMeters = Some (of_int (nd_distanceMeters driver)),
          rq_durationSeconds = (case trip of None \<Rightarrow> 0 | Some t \<Rightarrow> nullish (t_durationSeconds t) 0),
          rq_vehicleTypeId = Some (nd_vehicleTypeId driver), rq_vehicleTypeName = map_option vt_name vt,
          rq_clientName = (case client of None \<Rightarrow> [] | Some u \<Rightarrow> full_name u),
          rq_clientPhone = map_option u_phone client,
          rq_recipientName = map_option dd_recipientName dd,
          rq_recipientPhone = map_option dd_recipientPhone dd,
          rq_parcelDescription = Option.bind dd dd_parcelDescription\<rparr>)"

definition for_pair :: "id \<Rightarrow> id \<Rightarrow> DispatchAttempt \<Rightarrow> bool" where
  "for_pair tripId driverId a \<longleftrightarrow> a_tripId a = tripId \<and> a_driverId a = driverId"

definition notified_for :: "id \<Rightarrow> DispatchAttempt \<Rightarrow> bool" where
  "notified_for tripId a \<longleftrightarrow> a_tripId a = tripId \<and> a_status a = driver_notified"

definition upsertAttempt :: "time \<Rightarrow> id \<Rightarrow> id \<Rightarrow> world \<Rightarrow> world" where
  "upsertAttempt now tripId driverId w =
     (if list_ex (for_pair tripId driverId) (attempts w)
      then update_attempts (for_pair tripId driverId)
             (\<lambda>a. a\<lparr>a_status := driver_notified, a_notifiedAt := now, a_respondedAt := None\<rparr>) w
      else w\<lparr>attempts := attempts w @ [\<lparr>a_tripId = tripId, a_driverId = driverId,
               a_status = driver_notified, a_notifiedAt = now, a_respondedAt = None\<rparr>]\<rparr>)"

text \<open>The body of the loop over the candidates, once the driver's lock has been taken.\<close>

definition offerTrip :: "time \<Rightarrow> id \<Rightarrow> (NearbyDriver \<Rightarrow> TripRequest) \<Rightarrow> NearbyDriver \<Rightarrow> world \<Rightarrow> world" where
  "offerTrip now tripId request driver w =
     (let d = nd_driverId driver;
          w1 = upsertAttempt now tripId d w;
          w2 = emitToDriver d TripNewRequest (RequestPayload (request driver)) w1
      in cancelTimeoutJob now tripId d w2)"

definition armTimeout ::
  "time \<Rightarrow> ServiceDispatchConfig \<Rightarrow> id \<Rightarrow> ServiceType \<Rightarrow> (NearbyDriver \<Rightarrow> TripRequest) \<Rightarrow> NearbyDriver \<Rightarrow>
   world \<Rightarrow> world" where
  "armTimeout now config tripId serviceType request driver w =
     (let d = nd_driverId driver in
      case scheduleDispatchTimeout now tripId d (dispatchTimeoutMs config) w of
        (timeoutJobId, w') \<Rightarrow>
          emit (DriverNotified tripId d serviceType (rq_pickupAddress (request driver))
                  (rq_estimatedPrice (request driver)))
            (set_keys (redis_set_ex now (DispatchTimeoutJobKey tripId d) (RNum timeoutJobId)
               (- ((- dispatchTimeoutMs config) div 1000) + 30)) w'))"

text \<open>The whole body: \<open>False\<close>, and nothing done, when the lock is taken.\<close>

definition notifyDriver ::
  "time \<Rightarrow> ServiceDispatchConfig \<Rightarrow> id \<Rightarrow> ServiceType \<Rightarrow> (NearbyDriver \<Rightarrow> TripRequest) \<Rightarrow> NearbyDriver \<Rightarrow>
   world \<Rightarrow> bool \<times> world" where
  "notifyDriver now config tripId serviceType request driver w =
     (case redis_set_nx now (DispatchLockKey (nd_driverId driver)) (RStr tripId) (lockTtlSeconds config)
             (redis_keys w) of
        (False, _) \<Rightarrow> (False, w)
      | (True, keys) \<Rightarrow>
          (True, armTimeout now config tripId serviceType request driver
                   (offerTrip now tripId request driver (w\<lparr>redis_keys := keys\<rparr>))))"

fun notifyAll ::
  "time \<Rightarrow> ServiceDispatchConfig \<Rightarrow> id \<Rightarrow> ServiceType \<Rightarrow> (NearbyDriver \<Rightarrow> TripRequest) \<Rightarrow>
   NearbyDriver list \<Rightarrow> world \<Rightarrow> NearbyDriver list \<times> world" where
  "notifyAll now config tripId s request [] w = ([], w)"
| "notifyAll now config tripId s request (driver # rest) w =
     (case notifyDriver now config tripId s request driver w of
        (acquired, w') \<Rightarrow>
          (case notifyAll now config tripId s request rest w' of
             (notified, w'') \<Rightarrow> (if acquired then driver # notified else notified, w'')))"

text \<open>\<open>slice(0, n)\<close>: a negative end counts from the back.\<close>

definition js_slice :: "int \<Rightarrow> 'a list \<Rightarrow> 'a list" where
  "js_slice n xs = take (nat (if n < 0 then int (length xs) + n else n)) xs"

definition attemptDispatch ::
  "distance_fn \<Rightarrow> time \<Rightarrow> id \<Rightarrow> GeoPoint \<Rightarrow> ServiceType \<Rightarrow> id option \<Rightarrow> world \<Rightarrow> world" where
  "attemptDispatch sd now tripId pickup serviceType vehicleTypeId w =
     (let roundsKey = DispatchRoundsKey tripId;
          w1 = set_keys (redis_expire now roundsKey 3600 \<circ> redis_incr now roundsKey) w
      in case getDispatchConfig now serviceType w1 of
           (config, w2) \<Rightarrow>
             (let candidates = findNearbyDrivers sd now pickup (dispatchRadiusMeters config)
                                 (Some serviceType) vehicleTypeId w2
              in if candidates = [] then emitDispatchFailed tripId ''no_drivers_available'' w2
                 else case notifyAll now config tripId serviceType (trip_request tripId pickup serviceType w2)
                             (js_slice (maxDispatchAttempts config) candidates) w2 of
                        (notified, w3) \<Rightarrow>
                          if notified = [] then emitDispatchFailed tripId ''all_drivers_busy'' w3 else w3))"

section \<open>Answers of the drivers\<close>

definition close_attempts :: "time \<Rightarrow> DispatchStatus \<Rightarrow> (DispatchAttempt \<Rightarrow> bool) \<Rightarrow> world \<Rightarrow> world" where
  "close_attempts now st p =
     update_attempts (\<lambda>a. p a \<and> a_status a = driver_notified)
       (\<lambda>a. a\<lparr>a_status := st, a_respondedAt := Some now\<rparr>)"

definition checkAndRetryDispatch :: "distance_fn \<Rightarrow> time \<Rightarrow> id \<Rightarrow> world \<Rightarrow> world" where
  "checkAndRetryDispatch sd now tripId w =
     (case find_trip tripId w of
        None \<Rightarrow> w
      | Some trip \<Rightarrow>
          if t_status trip \<noteq> pending then w
          else if count_where (notified_for tripId) (attempts w) = 0
          then (let roundsSoFar = redis_number (redis_get now (redis_keys w) (DispatchRoundsKey tripId))
                in case getDispatchConfig now (t_serviceType trip) w of
                     (config, w1) \<Rightarrow>
                       if int roundsSoFar \<ge> maxDispatchAttempts config
                       then emitDispatchFailed tripId ''max_attempts_reached'' w1
                       else attemptDispatch sd now tripId (t_pickup trip) (t_serviceType trip)
                              (Some (t_vehicleTypeId trip)) w1)
          else w)"

definition handleDriverTimeout :: "distance_fn \<Rightarrow> time \<Rightarrow> id \<Rightarrow> id \<Rightarrow> world \<Rightarrow> world" where
  "handleDriverTimeout sd now tripId driverId w =
     (let w1 = close_attempts now timed_out (for_pair tripId driverId) w;
          w2 = set_keys (redis_del (DispatchTimeoutJobKey tripId driverId) \<circ> redis_del (DispatchLockKey driverId)) w1
      in checkAndRetryDispatch sd now tripId w2)"

definition handleDriverDecline :: "time \<Rightarrow> id \<Rightarrow> id \<Rightarrow> world \<Rightarrow> world" where
  "handleDriverDecline now tripId driverId w =
     cancelTimeoutJob now tripId driverId
       (set_keys (redis_del (DispatchLockKey driverId))
          (close_attempts now driver_declined (for_pair tripId driverId) w))"

definition handleDriverDeclineAndRetry :: "distance_fn \<Rightarrow> time \<Rightarrow> id \<Rightarrow> id \<Rightarrow> world \<Rightarrow> world" where
  "handleDriverDeclineAndRetry sd now tripId driverId w =
     checkAndRetryDispatch sd now tripId (handleDriverDecline now tripId driverId w)"

definition closeOther :: "time \<Rightarrow> id \<Rightarrow> id \<Rightarrow> world \<Rightarrow> world" where
  "closeOther now tripId other w =
     close_attempts now driver_declined (for_pair tripId other)
       (cancelTimeoutJob now tripId other (set_keys (redis_del (DispatchLockKey other)) w))"

definition handleDriverAccept :: "time \<Rightarrow> id \<Rightarrow> id \<Rightarrow> world \<Rightarrow> world" where
  "handleDriverAccept now tripId driverId w =
     (let lockKey = DispatchLockKey driverId in
      if redis_get now (redis_keys w) lockKey \<noteq> Some (RStr tripId) then w
      else
        (let w1 = close_attempts now driver_accepted (for_pair tripId driverId) w;
             w2 = cancelTimeoutJob now tripId driverId w1;
             otherLocks = map a_driverId (filter (\<lambda>a. notified_for tripId a \<and> a_driverId a \<noteq> driverId) (attempts w2));
             w3 = fold (closeOther now tripId) otherLocks w2;
             w4 = set_keys (redis_del (DispatchRoundsKey tripId) \<circ> redis_del lockKey) w3
         in emit (DriverAssigned tripId driverId) w4))"

definition releaseOne :: "time \<Rightarrow> id \<Rightarrow> id \<Rightarrow> world \<Rightarrow> world" where
  "releaseOne now tripId driverId w =
     cancelTimeoutJob now tripId driverId (set_keys (redis_del (DispatchLockKey driverId)) w)"

definition releaseLocksForTrip :: "time \<Rightarrow> id \<Rightarrow> world \<Rightarrow> world" where
  "releaseLocksForTrip now tripId w =
     close_attempts now timed_out (\<lambda>a. a_tripId a = tripId)
       (fold (releaseOne now tripId) (map a_driverId (filter (notified_for tripId) (attempts w))) w)"

text \<open>The BullMQ worker: a due job leaves the queue and its timeout is handled.\<close>

definition processTimeoutJob :: "distance_fn \<Rightarrow> time \<Rightarrow> Job \<Rightarrow> world \<Rightarrow> world" where
  "processTimeoutJob sd now job w =
     handleDriverTimeout sd now (j_tripId job) (j_driverId job) (cancelDispatchTimeout (j_id job) w)"

definition handleTripCreated :: "distance_fn \<Rightarrow> time \<Rightarrow> TripCreatedEvent \<Rightarrow> world \<Rightarrow> world" where
  "handleTripCreated sd now e =
     attemptDispatch sd now (tc_tripId e) (tc_pickup e) (tc_serviceType e) (Some (tc_vehicleTypeId e))"

section \<open>Catching up after a missed request\<close>

definition rearmable :: "id \<Rightarrow> world \<Rightarrow> DispatchAttempt \<Rightarrow> bool" where
  "rearmable driverId w a \<longleftrightarrow>
     a_driverId a = driverId \<and> a_status a \<in> {driver_notified, timed_out} \<and>
     (case find_trip (a_tripId a) w of None \<Rightarrow> False
      | Some t \<Rightarrow> t_status t = pending \<and> t_driverId t = None)"

definition pending_request :: "Trip \<Rightarrow> world \<Rightarrow> TripRequest" where
  "pending_request trip w =
     (let estimatedPrice = nullish (t_estimatedPrice trip) 0;
          vt = find_vehicleType (t_vehicleTypeId trip) w;
          commissionPct = (case vt of None \<Rightarrow> 0 | Some v \<Rightarrow> vt_commissionPercentage v);
          client = trip_client trip w;
          dd = delivery_of (t_id trip) w
      in \<lparr>rq_tripId = t_id trip, rq_serviceType = t_serviceType trip,
          rq_pickup = Some (t_pickup trip), rq_dropoff = Some (t_dropoff trip),
          rq_pickupAddress = Some (t_pickupAddress trip), rq_dropoffAddress = Some (t_dropoffAddress trip),
          rq_estimatedPrice = estimatedPrice,
          rq_commission = Math_round (estimatedPrice * commissionPct / 100),
          rq_tripDistanceMeters = nullish (t_distanceMeters trip) 0, rq_driverDistanceMeters = None,
          rq_durationSeconds = nullish (t_durationSeconds trip) 0,
          rq_vehicleTypeId = None, rq_vehicleTypeName = map_option vt_name vt,
          rq_clientName = (case client of None \<Rightarrow> [] | Some u \<Rightarrow> full_name u),
          rq_clientPhone = map_option u_phone client,
          rq_recipientName = map_option dd_recipientName dd,
          rq_recipientPhone = map_option dd_recipientPhone dd,
          rq_parcelDescription = Option.bind dd dd_parcelDescription\<rparr>)"

definition getPendingRequestForDriver :: "time \<Rightarrow> id \<Rightarrow> world \<Rightarrow> TripRequest option \<times> world" where
  "getPendingRequestForDriver now userId w =
     (case findDriverByUserId userId w of
        None \<Rightarrow> (None, w)
      | Some driver \<Rightarrow>
          (case find_first_desc a_notifiedAt (rearmable (d_id driver) w) (attempts w) of
             None \<Rightarrow> (None, w)
           | Some attempt \<Rightarrow>
               (case find_trip (a_tripId attempt) w of
                  None \<Rightarrow> (None, w)
                | Some trip \<Rightarrow>
                    if list_ex (\<lambda>a. a_tripId a = t_id trip \<and> a_status a = driver_accepted \<and>
                                    a_driverId a \<noteq> d_id driver) (attempts w)
                    then (None, w)
                    else (Some (pending_request trip w),
                          set_keys (redis_set_ex now (DispatchLockKey (d_id driver)) (RStr (t_id trip)) 75)
                            (update_attempts (for_pair (a_tripId attempt) (a_driverId attempt))
                               (\<lambda>a. a\<lparr>a_status := driver_notified, a_respondedAt := None\<rparr>) w)))))"

section \<open>Frames\<close>

lemma set_keys_frame [world_simps]:
  "redis_keys (set_keys f w) = f (redis_keys w)" "trips (set_keys f w) = trips w"
  "drivers (set_keys f w) = drivers w" "attempts (set_keys f w) = attempts w" "jobs (set_keys f w) = jobs w"
  "nextJob (set_keys f w) = nextJob w" "bus (set_keys f w) = bus w" "users (set_keys f w) = users w"
  "payments (set_keys f w) = payments w" "sent (set_keys f w) = sent w" "vehicles (set_keys f w) = vehicles w"
  "vehicleTypes (set_keys f w) = vehicleTypes w" "deliveryDetails (set_keys f w) = deliveryDetails w"
  "configCache (set_keys f w) = configCache w" "serviceConfigs (set_keys f w) = serviceConfigs w"
  by (simp_all add: set_keys_def)

lemma close_attempts_frame [world_simps]:
  "redis_keys (close_attempts now st p w) = redis_keys w" "trips (close_attempts now st p w) = trips w"
  "drivers (close_attempts now st p w) = drivers w" "jobs (close_attempts now st p w) = jobs w"
  "bus (close_attempts now st p w) = bus w" "users (close_attempts now st p w) = users w"
  "payments (close_attempts now st p w) = payments w" "sent (close_attempts now st p w) = sent w"
  "nextJob (close_attempts now st p w) = nextJob w" "vehicles (close_attempts now st p w) = vehicles w"
  "vehicleTypes (close_attempts now st p w) = vehicleTypes w"
  "attempts (close_attempts now st p w) =
     map (\<lambda>a. if p a \<and> a_status a = driver_notified then a\<lparr>a_status := st, a_respondedAt := Some now\<rparr> else a) (attempts w)"
  by (simp_all add: close_attempts_def update_attempts_def update_where_def)

lemma cancelTimeoutJob_frame [world_simps]:
  "trips (cancelTimeoutJob now t d w) = trips w" "drivers (cancelTimeoutJob now t d w) = drivers w"
  "attempts (cancelTimeoutJob now t d w) = attempts w" "bus (cancelTimeoutJob now t d w) = bus w"
  "users (cancelTimeoutJob now t d w) = users w" "payments (cancelTimeoutJob now t d w) = payments w"
  "sent (cancelTimeoutJob now t d w) = sent w" "nextJob (cancelTimeoutJob now t d w) = nextJob w"
  "vehicles (cancelTimeoutJob now t d w) = vehicles w" "vehicleTypes (cancelTimeoutJob now t d w) = vehicleTypes w"
  by (simp_all add: cancelTimeoutJob_def cancelDispatchTimeout_def set_keys_def Let_def split: option.splits)

lemma cancelTimeoutJob_keys [world_simps]:
  "k \<noteq> DispatchTimeoutJobKey t d \<Longrightarrow> redis_keys (cancelTimeoutJob now t d w) k = redis_keys w k"
  by (simp add: cancelTimeoutJob_def cancelDispatchTimeout_def set_keys_def redis_del_def Let_def split: option.splits)

lemma cancelTimeoutJob_subset:
  "set (jobs (cancelTimeoutJob now t d w)) \<subseteq> set (jobs w)"
  "redis_keys (cancelTimeoutJob now t d w) k = Some x \<Longrightarrow> redis_keys w k = Some x"
  by (auto simp: cancelTimeoutJob_def cancelDispatchTimeout_def set_keys_def redis_del_def delete_where_def
      Let_def split: option.splits if_splits)

text \<open>A job survives the cancellation of another pair unless that pair's key names it.\<close>

lemma cancelTimeoutJob_keeps_job:
  assumes "j \<in> set (jobs w)"
    and "\<And>n e. redis_keys w (DispatchTimeoutJobKey t d) = Some (RNum n, e) \<Longrightarrow> n \<noteq> j_id j"
    and "\<And>v e. redis_keys w (DispatchTimeoutJobKey t d) = Some (v, e) \<Longrightarrow> \<exists>n. v = RNum n"
  shows "j \<in> set (jobs (cancelTimeoutJob now t d w))"
proof (cases "redis_get now (redis_keys w) (DispatchTimeoutJobKey t d)")
  case None
  with assms(1) show ?thesis by (simp add: cancelTimeoutJob_def Let_def)
next
  case (Some v)
  then obtain e where raw: "redis_keys w (DispatchTimeoutJobKey t d) = Some (v, e)"
    by (auto simp: redis_get_def split: option.splits if_splits)
  with assms(3) obtain n where "v = RNum n" by blast
  with raw assms(2) have "redis_number (Some v) \<noteq> j_id j" by (auto simp: redis_number_def)
  with Some assms(1) show ?thesis
    by (simp add: cancelTimeoutJob_def cancelDispatchTimeout_def set_keys_def delete_where_def Let_def)
qed

lemma upsertAttempt_frame [world_simps]:
  "redis_keys (upsertAttempt now t d w) = redis_keys w" "trips (upsertAttempt now t d w) = trips w"
  "drivers (upsertAttempt now t d w) = drivers w" "jobs (upsertAttempt now t d w) = jobs w"
  "bus (upsertAttempt now t d w) = bus w" "users (upsertAttempt now t d w) = users w"
  "payments (upsertAttempt now t d w) = payments w" "nextJob (upsertAttempt now t d w) = nextJob w"
  "vehicles (upsertAttempt now t d w) = vehicles w" "vehicleTypes (upsertAttempt now t d w) = vehicleTypes w"
  by (simp_all add: upsertAttempt_def update_attempts_def)

lemma upsertAttempt_here:
  "\<exists>a \<in> set (attempts (upsertAttempt now t d w)). for_pair t d a \<and> a_status a = driver_notified"
proof (cases "list_ex (for_pair t d) (attempts w)")
  case True
  then obtain a where "a \<in> set (attempts w)" "for_pair t d a" by (auto simp: list_ex_iff)
  then show ?thesis
    by (intro bexI [of _ "a\<lparr>a_status := driver_notified, a_notifiedAt := now, a_respondedAt := None\<rparr>"])
      (auto simp: upsertAttempt_def True update_attempts_def set_update_where for_pair_def image_iff)
next
  case False
  then have "attempts (upsertAttempt now t d w) = attempts w @ [\<lparr>a_tripId = t, a_driverId = d,
      a_status = driver_notified, a_notifiedAt = now, a_respondedAt = None\<rparr>]"
    by (simp only: upsertAttempt_def if_False) simp
  then show ?thesis by (simp add: for_pair_def)
qed

lemma upsertAttempt_elsewhere:
  assumes "a \<in> set (attempts w)" and "\<not> for_pair t d a"
  shows "a \<in> set (attempts (upsertAttempt now t d w))"
  using assms by (auto simp: upsertAttempt_def update_attempts_def set_update_where image_iff)

section \<open>The bookkeeping of the timeout jobs\<close>

text \<open>
  The job keys hold ids of jobs already created, no two keys the same id, and every queued job
  has an id already given out.
\<close>

definition is_job_key :: "string \<Rightarrow> bool" where
  "is_job_key k \<longleftrightarrow> (\<exists>t d. k = DispatchTimeoutJobKey t d)"

definition queue_ok :: "world \<Rightarrow> bool" where
  "queue_ok w \<longleftrightarrow>
     (\<forall>j \<in> set (jobs w). j_id j < nextJob w) \<and>
     (\<forall>k v e. is_job_key k \<longrightarrow> redis_keys w k = Some (v, e) \<longrightarrow> (\<exists>n. v = RNum n \<and> n < nextJob w)) \<and>
     (\<forall>k k' n e e'. is_job_key k \<longrightarrow> is_job_key k' \<longrightarrow> redis_keys w k = Some (RNum n, e) \<longrightarrow>
        redis_keys w k' = Some (RNum n, e') \<longrightarrow> k = k')"

lemma job_key [simp]:
  "is_job_key (DispatchTimeoutJobKey t d)" "\<not> is_job_key (DispatchLockKey d)" "\<not> is_job_key (DispatchRoundsKey t)"
  by (auto simp: is_job_key_def)

lemma queue_ok_subset:
  assumes "queue_ok w" and "set (jobs w') \<subseteq> set (jobs w)" and "nextJob w' = nextJob w"
    and "\<And>k x. is_job_key k \<Longrightarrow> redis_keys w' k = Some x \<Longrightarrow> redis_keys w k = Some x"
  shows "queue_ok w'"
  unfolding queue_ok_def
proof (intro conjI ballI allI impI)
  fix j assume "j \<in> set (jobs w')"
  with assms show "j_id j < nextJob w'" unfolding queue_ok_def by auto
next
  fix k v e assume "is_job_key k" "redis_keys w' k = Some (v, e)"
  with assms show "\<exists>n. v = RNum n \<and> n < nextJob w'" unfolding queue_ok_def by metis
next
  fix k k' n e e' assume "is_job_key k" "is_job_key k'"
    "redis_keys w' k = Some (RNum n, e)" "redis_keys w' k' = Some (RNum n, e')"
  with assms(1,4) show "k = k'" unfolding queue_ok_def by metis
qed

lemma queue_ok_cancel: "queue_ok w \<Longrightarrow> queue_ok (cancelTimeoutJob now t d w)"
  by (erule queue_ok_subset [OF _ cancelTimeoutJob_subset(1) cancelTimeoutJob_frame(8)])
    (erule cancelTimeoutJob_subset(2))

lemma queue_ok_frame:
  assumes "queue_ok w" and "jobs w' = jobs w" and "nextJob w' = nextJob w"
    and "\<And>k. is_job_key k \<Longrightarrow> redis_keys w' k = redis_keys w k"
  shows "queue_ok w'"
  using assms by (intro queue_ok_subset [OF assms(1)]) simp_all

section \<open>One solicitation\<close>

text \<open>A solicited driver: the lock, the open attempt, the timeout job and the key that names it.\<close>

definition armed :: "time \<Rightarrow> time \<Rightarrow> id \<Rightarrow> id \<Rightarrow> world \<Rightarrow> bool" where
  "armed lockEnd due t d w \<longleftrightarrow>
     redis_keys w (DispatchLockKey d) = Some (RStr t, Some lockEnd) \<and>
     (\<exists>a \<in> set (attempts w). for_pair t d a \<and> a_status a = driver_notified) \<and>
     (\<exists>j \<in> set (jobs w). j_tripId j = t \<and> j_driverId j = d \<and> j_due j = due \<and>
        (\<exists>e. redis_keys w (DispatchTimeoutJobKey t d) = Some (RNum (j_id j), Some e) \<and> due < e))"

lemma armedD:
  assumes "armed lockEnd due t d w"
  shows "now < lockEnd \<Longrightarrow> redis_get now (redis_keys w) (DispatchLockKey d) = Some (RStr t)"
    and "\<exists>a \<in> set (attempts w). for_pair t d a \<and> a_status a = driver_notified"
    and "\<exists>j \<in> set (jobs w). j_tripId j = t \<and> j_driverId j = d \<and> j_due j = due"
  using assms by (auto simp: armed_def redis_get_def live_def)

text \<open>The world in which a free driver's lock has been taken.\<close>

abbreviation locked_for :: "time \<Rightarrow> ServiceDispatchConfig \<Rightarrow> id \<Rightarrow> id \<Rightarrow> world \<Rightarrow> world" where
  "locked_for now c t d w \<equiv>
     w\<lparr>redis_keys := redis_set_ex now (DispatchLockKey d) (RStr t) (lockTtlSeconds c) (redis_keys w)\<rparr>"

lemma notifyDriver_eq:
  "notifyDriver now c t s rq n w =
     (if redis_get now (redis_keys w) (DispatchLockKey (nd_driverId n)) = None
      then (True, armTimeout now c t s rq n (offerTrip now t rq n (locked_for now c t (nd_driverId n) w)))
      else (False, w))"
  by (simp add: notifyDriver_def redis_set_nx_cases)

lemma offerTrip_frame [world_simps]:
  "trips (offerTrip now t rq n w) = trips w" "drivers (offerTrip now t rq n w) = drivers w"
  "users (offerTrip now t rq n w) = users w" "payments (offerTrip now t rq n w) = payments w"
  "vehicles (offerTrip now t rq n w) = vehicles w" "vehicleTypes (offerTrip now t rq n w) = vehicleTypes w"
  "bus (offerTrip now t rq n w) = bus w" "nextJob (offerTrip now t rq n w) = nextJob w"
  "k \<noteq> DispatchTimeoutJobKey t (nd_driverId n) \<Longrightarrow> redis_keys (offerTrip now t rq n w) k = redis_keys w k"
  by (simp_all add: offerTrip_def world_simps Let_def)

lemma armTimeout_frame [world_simps]:
  "trips (armTimeout now c t s rq n w) = trips w" "drivers (armTimeout now c t s rq n w) = drivers w"
  "users (armTimeout now c t s rq n w) = users w" "payments (armTimeout now c t s rq n w) = payments w"
  "vehicles (armTimeout now c t s rq n w) = vehicles w"
  "vehicleTypes (armTimeout now c t s rq n w) = vehicleTypes w"
  "attempts (armTimeout now c t s rq n w) = attempts w"
  "bus (armTimeout now c t s rq n w) =
     bus w @ [DriverNotified t (nd_driverId n) s (rq_pickupAddress (rq n)) (rq_estimatedPrice (rq n))]"
  "nextJob (armTimeout now c t s rq n w) = nextJob w + 1"
  "jobs (armTimeout now c t s rq n w) =
     jobs w @ [\<lparr>j_id = nextJob w, j_tripId = t, j_driverId = nd_driverId n, j_due = now + dispatchTimeoutMs c\<rparr>]"
  "redis_keys (armTimeout now c t s rq n w) =
     (redis_keys w)(DispatchTimeoutJobKey t (nd_driverId n) \<mapsto>
        (RNum (nextJob w), Some (now + (- ((- dispatchTimeoutMs c) div 1000) + 30) * 1000)))"
  by (simp_all add: armTimeout_def scheduleDispatchTimeout_def set_keys_def redis_set_ex_def world_simps Let_def)

lemma timeout_key_outlives_job: "now + ms < now + (- ((- ms) div 1000) + 30) * (1000 :: int)"
proof -
  have "1000 * ((- ms) div 1000) \<le> - ms" by (simp add: minus_mod_eq_mult_div [symmetric] mult.commute)
  then show ?thesis by (simp add: distrib_right)
qed

lemma offerTrip_attempt:
  "\<exists>a \<in> set (attempts (offerTrip now t rq n w)). for_pair t (nd_driverId n) a \<and> a_status a = driver_notified"
  using upsertAttempt_here [of now t "nd_driverId n" w] by (simp add: offerTrip_def world_simps Let_def)

lemma offerTrip_attempt_other:
  "a \<in> set (attempts w) \<Longrightarrow> \<not> for_pair t (nd_driverId n) a \<Longrightarrow> a \<in> set (attempts (offerTrip now t rq n w))"
  by (simp add: offerTrip_def world_simps Let_def upsertAttempt_elsewhere)

lemma offerTrip_jobs:
  "set (jobs (offerTrip now t rq n w)) \<subseteq> set (jobs w)"
  "redis_keys (offerTrip now t rq n w) k = Some x \<Longrightarrow> redis_keys w k = Some x"
  using cancelTimeoutJob_subset(1) [of now t "nd_driverId n" "emitToDriver (nd_driverId n) TripNewRequest
      (RequestPayload (rq n)) (upsertAttempt now t (nd_driverId n) w)"]
    cancelTimeoutJob_subset(2) [of now t "nd_driverId n" "emitToDriver (nd_driverId n) TripNewRequest
      (RequestPayload (rq n)) (upsertAttempt now t (nd_driverId n) w)" k x]
  by (simp_all add: offerTrip_def Let_def world_simps)

lemma offerTrip_keeps_job:
  assumes "j \<in> set (jobs w)" and "queue_ok w" and "d \<noteq> nd_driverId n"
    and "redis_keys w (DispatchTimeoutJobKey t d) = Some (RNum (j_id j), e)"
  shows "j \<in> set (jobs (offerTrip now t rq n w))"
  unfolding offerTrip_def Let_def
proof (rule cancelTimeoutJob_keeps_job; simp add: world_simps assms(1))
  let ?k = "DispatchTimeoutJobKey t (nd_driverId n)"
  show "m \<noteq> j_id j" if "redis_keys w ?k = Some (RNum m, e')" for m e'
  proof
    assume "m = j_id j"
    with that assms(2,4) have "?k = DispatchTimeoutJobKey t d" unfolding queue_ok_def by (meson job_key(1))
    with assms(3) show False by simp
  qed
  show "\<exists>m. v = RNum m" if "redis_keys w ?k = Some (v, e')" for v e'
    using that assms(2) unfolding queue_ok_def by (meson job_key(1))
qed

lemma queue_ok_notify:
  assumes "queue_ok w"
  shows "queue_ok (snd (notifyDriver now c t s rq n w))"
proof -
  let ?w3 = "offerTrip now t rq n (locked_for now c t (nd_driverId n) w)"
  have "queue_ok (locked_for now c t (nd_driverId n) w)"
    by (rule queue_ok_frame [OF assms]) (auto simp: redis_set_ex_def)
  then have w3: "queue_ok ?w3"
    by (rule queue_ok_subset [OF _ offerTrip_jobs(1) offerTrip_frame(8)]) (erule offerTrip_jobs(2))
  have "queue_ok (armTimeout now c t s rq n ?w3)"
    unfolding queue_ok_def
  proof (intro conjI ballI allI impI)
    let ?w4 = "armTimeout now c t s rq n ?w3"
    fix j assume "j \<in> set (jobs ?w4)"
    then consider "j \<in> set (jobs ?w3)" | "j_id j = nextJob ?w3" by (auto simp: armTimeout_frame)
    then show "j_id j < nextJob ?w4"
      using w3 by cases (auto simp: queue_ok_def armTimeout_frame)
  next
    fix k v e assume k: "is_job_key k" "redis_keys (armTimeout now c t s rq n ?w3) k = Some (v, e)"
    then show "\<exists>m. v = RNum m \<and> m < nextJob (armTimeout now c t s rq n ?w3)"
      using w3 unfolding queue_ok_def by (auto simp: armTimeout_frame less_Suc_eq split: if_splits) blast
  next
    fix k k' m e e' assume k: "is_job_key k" "is_job_key k'"
      "redis_keys (armTimeout now c t s rq n ?w3) k = Some (RNum m, e)"
      "redis_keys (armTimeout now c t s rq n ?w3) k' = Some (RNum m, e')"
    have "x < nextJob ?w3" if "is_job_key i" "redis_keys ?w3 i = Some (RNum x, f)" for i x f
      using w3 that unfolding queue_ok_def by blast
    with k w3 show "k = k'" unfolding queue_ok_def by (auto simp: armTimeout_frame split: if_splits)
  qed
  with assms show ?thesis by (simp add: notifyDriver_eq)
qed

lemma notifyDriver_frame [world_simps]:
  "trips (snd (notifyDriver now c t s rq n w)) = trips w"
  "drivers (snd (notifyDriver now c t s rq n w)) = drivers w"
  "users (snd (notifyDriver now c t s rq n w)) = users w"
  "payments (snd (notifyDriver now c t s rq n w)) = payments w"
  "vehicles (snd (notifyDriver now c t s rq n w)) = vehicles w"
  "vehicleTypes (snd (notifyDriver now c t s rq n w)) = vehicleTypes w"
  by (simp_all add: notifyDriver_eq armTimeout_frame offerTrip_frame)

lemma notifyDriver_bus:
  "bus (snd (notifyDriver now c t s rq n w)) =
     bus w @ (if fst (notifyDriver now c t s rq n w)
              then [DriverNotified t (nd_driverId n) s (rq_pickupAddress (rq n)) (rq_estimatedPrice (rq n))] else [])"
  by (simp add: notifyDriver_eq armTimeout_frame offerTrip_frame)

lemma notifyDriver_acquired:
  "fst (notifyDriver now c t s rq n w) \<longleftrightarrow> redis_get now (redis_keys w) (DispatchLockKey (nd_driverId n)) = None"
  by (simp add: notifyDriver_eq)

lemma notifyDriver_lock_other:
  "d \<noteq> nd_driverId n \<Longrightarrow>
   redis_keys (snd (notifyDriver now c t s rq n w)) (DispatchLockKey d) = redis_keys w (DispatchLockKey d)"
  by (simp add: notifyDriver_eq armTimeout_frame offerTrip_frame redis_set_ex_def)

lemma notifyDriver_arms:
  assumes "fst (notifyDriver now c t s rq n w)"
  shows "armed (now + lockTtlSeconds c * 1000) (now + dispatchTimeoutMs c) t (nd_driverId n)
           (snd (notifyDriver now c t s rq n w))"
proof -
  let ?w3 = "offerTrip now t rq n (locked_for now c t (nd_driverId n) w)"
  have "\<exists>a \<in> set (attempts ?w3). for_pair t (nd_driverId n) a \<and> a_status a = driver_notified"
    by (rule offerTrip_attempt)
  then have "armed (now + lockTtlSeconds c * 1000) (now + dispatchTimeoutMs c) t (nd_driverId n)
      (armTimeout now c t s rq n ?w3)"
    using timeout_key_outlives_job [of now "dispatchTimeoutMs c"]
    unfolding armed_def by (simp add: armTimeout_frame offerTrip_frame redis_set_ex_def)
  with assms show ?thesis by (simp add: notifyDriver_eq split: if_splits)
qed

lemma armed_notify_other:
  assumes "armed le due t d w" and "queue_ok w" and "d \<noteq> nd_driverId n"
  shows "armed le due t d (snd (notifyDriver now c t s rq n w))"
proof -
  let ?w2 = "locked_for now c t (nd_driverId n) w"
  let ?w3 = "offerTrip now t rq n ?w2"
  from assms(1) obtain a j e where lock: "redis_keys w (DispatchLockKey d) = Some (RStr t, Some le)"
    and a: "a \<in> set (attempts w)" "for_pair t d a" "a_status a = driver_notified"
    and j: "j \<in> set (jobs w)" "j_tripId j = t" "j_driverId j = d" "j_due j = due"
    and key: "redis_keys w (DispatchTimeoutJobKey t d) = Some (RNum (j_id j), Some e)" "due < e"
    unfolding armed_def by blast
  have q2: "queue_ok ?w2" by (rule queue_ok_frame [OF assms(2)]) (auto simp: redis_set_ex_def)
  have key2: "redis_keys ?w2 (DispatchTimeoutJobKey t d) = Some (RNum (j_id j), Some e)"
    using key(1) by (simp add: redis_set_ex_def)
  have "j \<in> set (jobs ?w3)" by (rule offerTrip_keeps_job [OF _ q2 assms(3) key2]) (simp add: j(1))
  moreover have "redis_keys ?w3 (DispatchLockKey d) = Some (RStr t, Some le)"
    using lock assms(3) by (simp add: offerTrip_frame redis_set_ex_def)
  moreover have "redis_keys ?w3 (DispatchTimeoutJobKey t d) = Some (RNum (j_id j), Some e)"
    using key2 assms(3) by (simp add: offerTrip_frame)
  moreover have "a \<in> set (attempts ?w3)"
    by (rule offerTrip_attempt_other) (use a assms(3) in \<open>auto simp: for_pair_def\<close>)
  ultimately have "armed le due t d (armTimeout now c t s rq n ?w3)"
    unfolding armed_def using assms(3) key(2) a(2,3) j(2-4) by (auto simp: armTimeout_frame)
  with assms(1) show ?thesis by (simp add: notifyDriver_eq)
qed

section \<open>A whole round\<close>

lemma notifyAll_frame [world_simps]:
  "trips (snd (notifyAll now c t s rq ns w)) = trips w"
  "drivers (snd (notifyAll now c t s rq ns w)) = drivers w"
  "users (snd (notifyAll now c t s rq ns w)) = users w"
  "payments (snd (notifyAll now c t s rq ns w)) = payments w"
  by (induction ns arbitrary: w; simp add: notifyDriver_frame split: prod.splits; metis notifyDriver_frame snd_conv)+

lemma notifyAll_Cons:
  "notifyAll now c t s rq (n # ns) w =
     (let (acquired, w') = notifyDriver now c t s rq n w;
          (notified, w'') = notifyAll now c t s rq ns w'
      in (if acquired then n # notified else notified, w''))"
  by (simp split: prod.splits)

text \<open>Under a positive lock time every listed driver ends up armed, and was free before.\<close>

lemma notifyAll_sound:
  assumes "queue_ok w" and "0 < lockTtlSeconds c"
    and "notifyAll now c t s rq ns w = (notified, w')"
  shows "queue_ok w' \<and> set notified \<subseteq> set ns \<and> length notified \<le> length ns \<and>
    bus w' = bus w @ map (\<lambda>n. DriverNotified t (nd_driverId n) s (rq_pickupAddress (rq n)) (rq_estimatedPrice (rq n))) notified \<and>
    (\<forall>n \<in> set notified. redis_get now (redis_keys w) (DispatchLockKey (nd_driverId n)) = None) \<and>
    (\<forall>n \<in> set notified. armed (now + lockTtlSeconds c * 1000) (now + dispatchTimeoutMs c) t (nd_driverId n) w') \<and>
    (\<forall>d. armed (now + lockTtlSeconds c * 1000) (now + dispatchTimeoutMs c) t d w \<longrightarrow>
         armed (now + lockTtlSeconds c * 1000) (now + dispatchTimeoutMs c) t d w')"
  using assms(1,3)
proof (induction ns arbitrary: w notified w')
  case Nil
  then show ?case by simp
next
  case (Cons n ns)
  let ?le = "now + lockTtlSeconds c * 1000" and ?due = "now + dispatchTimeoutMs c"
  obtain b w1 where n: "notifyDriver now c t s rq n w = (b, w1)" by (metis surj_pair)
  obtain rest where rest: "notifyAll now c t s rq ns w1 = (rest, w')"
    and notified: "notified = (if b then n # rest else rest)"
    using Cons.prems(2) n by (auto split: prod.splits)
  have q1: "queue_ok w1" using queue_ok_notify [OF Cons.prems(1), of now c t s rq n] n by simp
  note IH = Cons.IH [OF q1 rest]
  have keep: "armed ?le ?due t d w1" if "armed ?le ?due t d w" for d
  proof (cases "d = nd_driverId n")
    case True
    then have "\<not> fst (notifyDriver now c t s rq n w)"
      using armedD(1) [OF that, of now] assms(2) by (simp add: notifyDriver_acquired)
    with n that show ?thesis by (simp add: notifyDriver_eq split: if_splits)
  next
    case False
    then show ?thesis using armed_notify_other [OF that Cons.prems(1)] n by (metis snd_conv)
  qed
  have free: "redis_get now (redis_keys w) (DispatchLockKey (nd_driverId m)) = None"
    if "m \<in> set rest" for m
  proof -
    have m1: "redis_get now (redis_keys w1) (DispatchLockKey (nd_driverId m)) = None" using IH that by blast
    show ?thesis
    proof (cases "nd_driverId m = nd_driverId n")
      case True
      show ?thesis
      proof (cases b)
        case True
        then have "armed ?le ?due t (nd_driverId n) w1" using notifyDriver_arms [of now c t s rq n w] n by simp
        then have "redis_get now (redis_keys w1) (DispatchLockKey (nd_driverId n)) = Some (RStr t)"
          by (rule armedD(1)) (use assms(2) in simp)
        with m1 \<open>nd_driverId m = nd_driverId n\<close> show ?thesis by simp
      next
        case False
        with n m1 show ?thesis by (simp add: notifyDriver_eq split: if_splits)
      qed
    next
      case False
      with m1 n notifyDriver_lock_other [of "nd_driverId m" n now c t s rq w] show ?thesis
        by (simp add: redis_get_def)
    qed
  qed
  have here: "armed ?le ?due t (nd_driverId n) w1" "redis_get now (redis_keys w) (DispatchLockKey (nd_driverId n)) = None"
    if b using notifyDriver_arms [of now c t s rq n w] notifyDriver_acquired [of now c t s rq n w] n that by simp_all
  have bus1: "bus w1 = bus w @ (if b then [DriverNotified t (nd_driverId n) s (rq_pickupAddress (rq n))
      (rq_estimatedPrice (rq n))] else [])"
    using notifyDriver_bus [of now c t s rq n w] n by simp
  show ?case unfolding notified using IH keep free here bus1 by (cases b) auto
qed

lemma getDispatchConfig_cong:
  "configCache w' = configCache w \<Longrightarrow> serviceConfigs w' = serviceConfigs w \<Longrightarrow>
   fst (getDispatchConfig now s w') = fst (getDispatchConfig now s w)"
  by (simp add: getDispatchConfig_def getConfig_def find_config_def Let_def split: option.splits)

lemma findNearbyDrivers_cong:
  assumes "drivers w' = drivers w" and "vehicles w' = vehicles w" and "vehicleTypes w' = vehicleTypes w"
    and "trips w' = trips w"
  shows "findNearbyDrivers sd now p r s vt w' = findNearbyDrivers sd now p r s vt w"
proof -
  have "engaged now i w' = engaged now i w" for i by (simp add: engaged_def assms)
  moreover have "vehicle_matches s vt v w' = vehicle_matches s vt v w" for v
    by (simp add: vehicle_matches_def assms split: option.split)
  ultimately show ?thesis by (simp add: findNearbyDrivers_def eligible_def [abs_def] assms)
qed

lemma emitDispatchFailed_frame [world_simps]:
  "trips (emitDispatchFailed t r w) = trips w" "drivers (emitDispatchFailed t r w) = drivers w"
  "attempts (emitDispatchFailed t r w) = attempts w" "jobs (emitDispatchFailed t r w) = jobs w"
  "users (emitDispatchFailed t r w) = users w" "payments (emitDispatchFailed t r w) = payments w"
  "nextJob (emitDispatchFailed t r w) = nextJob w"
  "bus (emitDispatchFailed t r w) = bus w @ [DispatchFailed t r]"
  "redis_keys (emitDispatchFailed t r w) = redis_del (DispatchRoundsKey t) (redis_keys w)"
  by (simp_all add: emitDispatchFailed_def world_simps)

lemma attemptDispatch_frame [world_simps]:
  "trips (attemptDispatch sd now t p s vt w) = trips w"
  "drivers (attemptDispatch sd now t p s vt w) = drivers w"
  "users (attemptDispatch sd now t p s vt w) = users w"
  "payments (attemptDispatch sd now t p s vt w) = payments w"
  by (simp_all add: attemptDispatch_def Let_def split_beta world_simps)

lemma js_slice_subset: "set (js_slice n xs) \<subseteq> set xs"
  by (auto simp: js_slice_def dest: in_set_takeD)

lemma js_slice_length: "0 \<le> n \<Longrightarrow> length (js_slice n xs) \<le> nat n"
  by (simp add: js_slice_def)

text \<open>The world in which a round of a trip is counted and the settings are read.\<close>

abbreviation counted :: "time \<Rightarrow> id \<Rightarrow> ServiceType \<Rightarrow> world \<Rightarrow> world" where
  "counted now t s w \<equiv> snd (getDispatchConfig now s
     (set_keys (redis_expire now (DispatchRoundsKey t) 3600 \<circ> redis_incr now (DispatchRoundsKey t)) w))"

lemma rounds_raw_other:
  "k \<noteq> DispatchRoundsKey t \<Longrightarrow>
   (redis_expire now (DispatchRoundsKey t) 3600 \<circ> redis_incr now (DispatchRoundsKey t)) r k = r k"
  by (auto simp: redis_expire_def redis_incr_def split: option.splits)

lemma queue_ok_counted: "queue_ok w \<Longrightarrow> queue_ok (counted now t s w)"
proof (erule queue_ok_frame)
  fix k assume "is_job_key k"
  then have "k \<noteq> DispatchRoundsKey t" by auto
  then show "redis_keys (counted now t s w) k = redis_keys w k"
    by (simp add: getDispatchConfig_frame set_keys_frame rounds_raw_other del: o_apply)
qed (simp_all add: world_simps)

lemma counted_lock:
  "redis_get now' (redis_keys (counted now t s w)) (DispatchLockKey d) = redis_get now' (redis_keys w) (DispatchLockKey d)"
  by (simp add: world_simps)

lemma attemptDispatch_eq:
  "attemptDispatch sd now t p s vt w =
     (let c = fst (getDispatchConfig now s w);
          cands = findNearbyDrivers sd now p (dispatchRadiusMeters c) (Some s) vt w;
          w2 = counted now t s w;
          (notified, w3) = notifyAll now c t s (trip_request t p s w2) (js_slice (maxDispatchAttempts c) cands) w2
      in if cands = [] then emitDispatchFailed t ''no_drivers_available'' w2
         else if notified = [] then emitDispatchFailed t ''all_drivers_busy'' w3 else w3)"
proof -
  let ?f = "redis_expire now (DispatchRoundsKey t) 3600 \<circ> redis_incr now (DispatchRoundsKey t)"
  have c: "fst (getDispatchConfig now s (set_keys ?f w)) = fst (getDispatchConfig now s w)"
    by (rule getDispatchConfig_cong) (simp_all add: world_simps)
  have n: "findNearbyDrivers sd now p r (Some s) vt (counted now t s w) = findNearbyDrivers sd now p r (Some s) vt w" for r
    by (rule findNearbyDrivers_cong) (simp_all add: world_simps)
  show ?thesis unfolding attemptDispatch_def Let_def split_beta c n by simp
qed

text \<open>The pair of trip and driver a solicitation event is about.\<close>

fun solicited :: "DomainEvent \<Rightarrow> (id \<times> id) option" where
  "solicited (DriverNotified t d _ _ _) = Some (t, d)"
| "solicited _ = None"

definition rounds :: "time \<Rightarrow> id \<Rightarrow> world \<Rightarrow> nat" where
  "rounds now t w = redis_number (redis_get now (redis_keys w) (DispatchRoundsKey t))"

lemma rounds_counted: "rounds now t (counted now t s w) = rounds now t w + 1"
  by (simp add: rounds_def world_simps redis_number_def)

lemma notifyDriver_rounds_key:
  "redis_keys (snd (notifyDriver now c t s rq n w)) (DispatchRoundsKey t') = redis_keys w (DispatchRoundsKey t')"
  by (simp add: notifyDriver_eq armTimeout_frame offerTrip_frame redis_set_ex_def)

lemma notifyAll_rounds_key:
  "redis_keys (snd (notifyAll now c t s rq ns w)) (DispatchRoundsKey t') = redis_keys w (DispatchRoundsKey t')"
  by (induction ns arbitrary: w) (simp_all add: split_beta notifyDriver_rounds_key)

text \<open>A driver whose lock is held is left alone by a round, and the lock stays.\<close>

lemma notifyAll_held:
  assumes "redis_get now (redis_keys w) (DispatchLockKey d) = Some v"
  shows "d \<notin> nd_driverId ` set (fst (notifyAll now c t s rq ns w))"
  using assms
proof (induction ns arbitrary: w)
  case Nil
  then show ?case by simp
next
  case (Cons n ns)
  show ?case
  proof (cases "nd_driverId n = d")
    case True
    with Cons show ?thesis by (simp add: notifyDriver_eq split_beta)
  next
    case False
    then have "redis_get now (redis_keys (snd (notifyDriver now c t s rq n w))) (DispatchLockKey d) = Some v"
      using Cons.prems notifyDriver_lock_other [of d n now c t s rq w] by (simp add: redis_get_def)
    with False Cons.IH show ?thesis by (auto simp: split_beta)
  qed
qed

lemma notifyAll_bus:
  "map solicited (bus (snd (notifyAll now c t s rq ns w))) =
     map solicited (bus w) @ map (\<lambda>n. Some (t, nd_driverId n)) (fst (notifyAll now c t s rq ns w))"
  by (induction ns arbitrary: w) (simp_all add: split_beta notifyDriver_bus)

lemma attemptDispatch_result:
  obtains ns w3 where "w3 = snd (notifyAll now (fst (getDispatchConfig now s w)) t s
      (trip_request t p s (counted now t s w)) ns (counted now t s w))"
    and "attemptDispatch sd now t p s vt w \<in> {w3, emitDispatchFailed t ''all_drivers_busy'' w3,
      emitDispatchFailed t ''no_drivers_available'' w3}"
proof -
  let ?c = "fst (getDispatchConfig now s w)"
  let ?cands = "findNearbyDrivers sd now p (dispatchRadiusMeters ?c) (Some s) vt w"
  let ?ns = "if ?cands = [] then [] else js_slice (maxDispatchAttempts ?c) ?cands"
  show ?thesis
    by (rule that [of _ ?ns, OF refl]) (auto simp: attemptDispatch_eq Let_def split_beta simp del: o_apply)
qed

lemma attemptDispatch_held:
  assumes "redis_get now (redis_keys w) (DispatchLockKey d) = Some v"
    and sol: "Some (t', d) \<in> set (map solicited (bus (attemptDispatch sd now t p s vt w)))"
  shows "Some (t', d) \<in> set (map solicited (bus w))"
proof (rule attemptDispatch_result [of now s w t p sd vt])
  let ?c = "fst (getDispatchConfig now s w)" and ?w2 = "counted now t s w"
  fix ns w3
  assume w3: "w3 = snd (notifyAll now ?c t s (trip_request t p s ?w2) ns ?w2)"
    and res: "attemptDispatch sd now t p s vt w \<in> {w3, emitDispatchFailed t ''all_drivers_busy'' w3,
      emitDispatchFailed t ''no_drivers_available'' w3}"
  have "redis_get now (redis_keys ?w2) (DispatchLockKey d) = Some v"
    using assms(1) by (simp only: counted_lock)
  then have held: "d \<notin> nd_driverId ` set (fst (notifyAll now ?c t s (trip_request t p s ?w2) ns ?w2))"
    by (rule notifyAll_held)
  have "bus ?w2 = bus w" by (simp add: world_simps)
  then have bus3: "map solicited (bus w3) = map solicited (bus w) @
      map (\<lambda>n. Some (t, nd_driverId n)) (fst (notifyAll now ?c t s (trip_request t p s ?w2) ns ?w2))"
    unfolding w3 notifyAll_bus by simp
  from res sol have "Some (t', d) \<in> set (map solicited (bus w3))" by (auto simp: emitDispatchFailed_frame)
  then show ?thesis unfolding bus3 using held by auto
qed

lemma attemptDispatch_sound:
  assumes "queue_ok w" and c: "c = fst (getDispatchConfig now s w)"
    and "0 < lockTtlSeconds c" and "0 \<le> maxDispatchAttempts c"
    and cands: "cands = findNearbyDrivers sd now p (dispatchRadiusMeters c) (Some s) vt w"
    and w': "w' = attemptDispatch sd now t p s vt w"
  shows "\<exists>notified evs. bus w' = bus w @ evs \<and>
    (if notified = []
     then evs = [DispatchFailed t (if cands = [] then ''no_drivers_available'' else ''all_drivers_busy'')]
     else map solicited evs = map (\<lambda>d. Some (t, d)) notified) \<and>
    set notified \<subseteq> nd_driverId ` set cands \<and> int (length notified) \<le> maxDispatchAttempts c \<and>
    (\<forall>d \<in> set notified. redis_get now (redis_keys w) (DispatchLockKey d) = None \<and>
       armed (now + lockTtlSeconds c * 1000) (now + dispatchTimeoutMs c) t d w') \<and>
    (notified \<noteq> [] \<longrightarrow> rounds now t w' = rounds now t w + 1)"
proof (cases "cands = []")
  case True
  then have "bus w' = bus w @ [DispatchFailed t ''no_drivers_available'']"
    unfolding w' attemptDispatch_eq Let_def split_beta c [symmetric] cands [symmetric] by (simp add: world_simps)
  with True assms(4) show ?thesis by (intro exI [of _ "[]"] exI [of _ "[DispatchFailed t ''no_drivers_available'']"]) simp
next
  case False
  let ?w2 = "counted now t s w"
  let ?rq = "trip_request t p s ?w2" and ?ns = "js_slice (maxDispatchAttempts c) cands"
  obtain ns w3 where n: "notifyAll now c t s ?rq ?ns ?w2 = (ns, w3)" by (metis surj_pair)
  note sound = notifyAll_sound [OF queue_ok_counted [OF assms(1)] assms(3) n]
  let ?evs = "map (\<lambda>n. DriverNotified t (nd_driverId n) s (rq_pickupAddress (?rq n)) (rq_estimatedPrice (?rq n))) ns"
  have bus2: "bus ?w2 = bus w" by (simp add: world_simps)
  have bus3: "bus w3 = bus w @ ?evs" using sound [THEN conjunct2, THEN conjunct2, THEN conjunct2, THEN conjunct1]
    unfolding bus2 .
  have w'_eq: "w' = (if ns = [] then emitDispatchFailed t ''all_drivers_busy'' w3 else w3)"
    unfolding w' attemptDispatch_eq Let_def split_beta c [symmetric] cands [symmetric] n fst_conv snd_conv
    using False by (simp only: if_False)
  have sub: "set ns \<subseteq> set cands"
    by (rule subset_trans [OF sound [THEN conjunct2, THEN conjunct1] js_slice_subset])
  have "length ns \<le> nat (maxDispatchAttempts c)"
    by (rule order_trans [OF sound [THEN conjunct2, THEN conjunct2, THEN conjunct1] js_slice_length [OF assms(4)]])
  then have len: "int (length ns) \<le> maxDispatchAttempts c" using assms(4) by linarith
  have free: "\<forall>m \<in> set ns. redis_get now (redis_keys w) (DispatchLockKey (nd_driverId m)) = None"
    using sound [THEN conjunct2, THEN conjunct2, THEN conjunct2, THEN conjunct2, THEN conjunct1]
    unfolding counted_lock .
  show ?thesis
  proof (cases "ns = []")
    case True
    then have "w' = emitDispatchFailed t ''all_drivers_busy'' w3" and "bus w3 = bus w"
      using w'_eq bus3 by simp_all
    then have "bus w' = bus w @ [DispatchFailed t ''all_drivers_busy'']"
      by (simp only: emitDispatchFailed_frame)
    with False assms(4) show ?thesis
      by (intro exI [of _ "[]"] exI [of _ "[DispatchFailed t ''all_drivers_busy'']"]) simp
  next
    case nonempty: False
    from nonempty w'_eq have w3: "w' = w3" by simp
    from bus3 have bus': "bus w' = bus w @ ?evs" unfolding w3 .
    have arm: "\<forall>m \<in> set ns. armed (now + lockTtlSeconds c * 1000) (now + dispatchTimeoutMs c) t (nd_driverId m) w'"
      unfolding w3
      by (rule sound [THEN conjunct2, THEN conjunct2, THEN conjunct2, THEN conjunct2, THEN conjunct2, THEN conjunct1])
    have e: "if map nd_driverId ns = []
        then ?evs = [DispatchFailed t (if cands = [] then ''no_drivers_available'' else ''all_drivers_busy'')]
        else map solicited ?evs = map (\<lambda>d. Some (t, d)) (map nd_driverId ns)" using nonempty by simp
    have sub': "set (map nd_driverId ns) \<subseteq> nd_driverId ` set cands" using sub by auto
    have len': "int (length (map nd_driverId ns)) \<le> maxDispatchAttempts c" using len by simp
    have all: "\<forall>d \<in> set (map nd_driverId ns). redis_get now (redis_keys w) (DispatchLockKey d) = None \<and>
        armed (now + lockTtlSeconds c * 1000) (now + dispatchTimeoutMs c) t d w'"
      using free arm by simp
    have "redis_keys w' (DispatchRoundsKey t) = redis_keys ?w2 (DispatchRoundsKey t)"
      using notifyAll_rounds_key [of now c t s ?rq ?ns ?w2 t] unfolding w3 n snd_conv .
    then have r: "map nd_driverId ns \<noteq> [] \<longrightarrow> rounds now t w' = rounds now t w + 1"
      using rounds_counted [of now t s w] unfolding rounds_def redis_get_def by simp
    show ?thesis by (intro exI conjI) (rule bus' e sub' len' all r)+
  qed
qed

text \<open>
  C2. What one round of a dispatch does. It never ends in silence: either at least one driver is
  solicited, or exactly one \<open>DispatchFailed\<close> event follows, with the reason. Only candidates of
  the search whose lock was free are solicited, at most \<open>maxDispatchAttempts\<close> of them, and each
  one ends up with its lock held for this trip, an open attempt, and a queued timeout job whose
  id is kept under a key that outlives it; and the round is counted.
\<close>

theorem dispatch_round_outcome:
  assumes "queue_ok w" and c: "c = fst (getDispatchConfig now s w)"
    and "0 < lockTtlSeconds c" and "0 \<le> maxDispatchAttempts c"
    and cands: "cands = findNearbyDrivers sd now p (dispatchRadiusMeters c) (Some s) vt w"
    and w': "w' = attemptDispatch sd now t p s vt w"
  shows "\<exists>notified evs. bus w' = bus w @ evs \<and>
    (if notified = []
     then evs = [DispatchFailed t (if cands = [] then ''no_drivers_available'' else ''all_drivers_busy'')]
     else map solicited evs = map (\<lambda>d. Some (t, d)) notified) \<and>
    set notified \<subseteq> nd_driverId ` set cands \<and> int (length notified) \<le> maxDispatchAttempts c \<and>
    (\<forall>d \<in> set notified. redis_get now (redis_keys w) (DispatchLockKey d) = None \<and>
       armed (now + lockTtlSeconds c * 1000) (now + dispatchTimeoutMs c) t d w') \<and>
    (notified \<noteq> [] \<longrightarrow> rounds now t w' = rounds now t w + 1)"
  by (rule attemptDispatch_sound [OF assms])

lemma sample_queue_ok: "queue_ok sample_world"
  by (simp add: queue_ok_def sample_defs)

lemma sample_config: "fst (getDispatchConfig 0 ride sample_world) = DEFAULT_CONFIG"
  by (simp add: getDispatchConfig_def getConfig_def find_config_def sample_defs dispatch_config_of_def Let_def)

theorem dispatch_round_outcome_witness:
  "bus (attemptDispatch (\<lambda>_ _. 7) 0 ''t1'' \<lparr>lat = 12, lng = -8\<rparr> ride (Some ''moto'') sample_world) \<noteq> []"
proof
  let ?w' = "attemptDispatch (\<lambda>_ _. 7) 0 ''t1'' \<lparr>lat = 12, lng = -8\<rparr> ride (Some ''moto'') sample_world"
  assume none: "bus ?w' = []"
  have "0 < lockTtlSeconds DEFAULT_CONFIG" and "0 \<le> maxDispatchAttempts DEFAULT_CONFIG"
    by (simp_all add: DEFAULT_CONFIG_def)
  from dispatch_round_outcome [OF sample_queue_ok sample_config [symmetric] this refl refl,
      where sd = "\<lambda>_ _. 7" and p = "\<lparr>lat = 12, lng = -8\<rparr>" and vt = "Some ''moto''" and t = "''t1''"]
  obtain evs where "bus ?w' = bus sample_world @ evs" and "evs \<noteq> []"
    by (elim exE conjE) (fastforce split: if_splits)
  with none show False by simp
qed

text \<open>
  C15. One request at a time per driver, as long as his lock is left alone: a driver who is armed for
  one trip is not solicited by a dispatch of any trip before the lock's time is up, whatever else has
  changed in between, provided that nothing has deleted or rewritten this driver's lock. (A refusal
  or a time limit of another trip deletes it, see \<open>refusal_frees_foreign_lock\<close> in \<open>Trips\<close>.)
\<close>

theorem no_double_solicitation:
  assumes "armed lockEnd due t d w1" and "redis_keys w2 (DispatchLockKey d) = redis_keys w1 (DispatchLockKey d)"
    and "now2 < lockEnd"
    and "Some (t', d) \<in> set (map solicited (bus (attemptDispatch sd now2 t2 p s vt w2)))"
  shows "Some (t', d) \<in> set (map solicited (bus w2))"
proof -
  have "redis_get now2 (redis_keys w2) (DispatchLockKey d) = Some (RStr t)"
    using armedD(1) [OF assms(1,3)] assms(2) by (simp add: redis_get_def)
  then show ?thesis using assms(4) by (rule attemptDispatch_held)
qed

definition busy_world :: world where
  "busy_world = sample_world\<lparr>redis_keys := [DispatchLockKey ''d1'' \<mapsto> (RStr ''t1'', Some 75000),
       DispatchTimeoutJobKey ''t1'' ''d1'' \<mapsto> (RNum 0, Some 90000)],
     attempts := [\<lparr>a_tripId = ''t1'', a_driverId = ''d1'', a_status = driver_notified, a_notifiedAt = 0, a_respondedAt = None\<rparr>],
     jobs := [\<lparr>j_id = 0, j_tripId = ''t1'', j_driverId = ''d1'', j_due = 60000\<rparr>], nextJob := 1\<rparr>"

theorem no_double_solicitation_witness:
  "Some (''t2'', ''d1'') \<notin> set (map solicited
     (bus (attemptDispatch (\<lambda>_ _. 7) 1000 ''t2'' \<lparr>lat = 12, lng = -8\<rparr> ride (Some ''moto'') busy_world)))"
proof
  assume "Some (''t2'', ''d1'') \<in> set (map solicited
     (bus (attemptDispatch (\<lambda>_ _. 7) 1000 ''t2'' \<lparr>lat = 12, lng = -8\<rparr> ride (Some ''moto'') busy_world)))"
  moreover have "armed 75000 60000 ''t1'' ''d1'' busy_world"
    by (simp add: armed_def busy_world_def for_pair_def)
  ultimately have "Some (''t2'', ''d1'') \<in> set (map solicited (bus busy_world))"
    using no_double_solicitation [of 75000 60000 "''t1''" "''d1''" busy_world busy_world 1000] by auto
  then show False by (simp add: busy_world_def sample_defs)
qed

section \<open>Timeouts and refusals\<close>

lemma getConfig_again:
  "fst (getConfig now s b (snd (getConfig now s b w))) = fst (getConfig now s b w)"
  by (auto simp: getConfig_def Let_def cacheTtlMs_def split: option.splits)

lemma getDispatchConfig_again:
  "fst (getDispatchConfig now s (snd (getDispatchConfig now s w))) = fst (getDispatchConfig now s w)"
  by (simp add: getDispatchConfig_def getConfig_again)

definition open_attempt :: "id \<Rightarrow> world \<Rightarrow> bool" where
  "open_attempt t w \<longleftrightarrow> (\<exists>a \<in> set (attempts w). notified_for t a)"

lemma count_open: "count_where (notified_for t) (attempts w) = 0 \<longleftrightarrow> \<not> open_attempt t w"
  by (simp add: count_where_zero open_attempt_def)

lemma attemptDispatch_progress:
  assumes "queue_ok w" and "c = fst (getDispatchConfig now s w)"
    and "0 < lockTtlSeconds c" and "0 \<le> maxDispatchAttempts c"
    and "w' = attemptDispatch sd now t p s vt w"
  shows "(\<exists>r. bus w' = bus w @ [DispatchFailed t r]) \<or>
    (\<exists>d. armed (now + lockTtlSeconds c * 1000) (now + dispatchTimeoutMs c) t d w' \<and>
         rounds now t w' = rounds now t w + 1)"
proof -
  let ?cands = "findNearbyDrivers sd now p (dispatchRadiusMeters c) (Some s) vt w"
  obtain notified evs where b: "bus w' = bus w @ evs"
    and e: "if notified = []
      then evs = [DispatchFailed t (if ?cands = [] then ''no_drivers_available'' else ''all_drivers_busy'')]
      else map solicited evs = map (\<lambda>d. Some (t, d)) notified"
    and a: "\<forall>d \<in> set notified. redis_get now (redis_keys w) (DispatchLockKey d) = None \<and>
      armed (now + lockTtlSeconds c * 1000) (now + dispatchTimeoutMs c) t d w'"
    and r: "notified \<noteq> [] \<longrightarrow> rounds now t w' = rounds now t w + 1"
    using attemptDispatch_sound [OF assms(1-4) refl assms(5)] by (elim exE conjE) (rule that; assumption)
  show ?thesis
  proof (cases notified)
    case Nil
    with b e show ?thesis by auto
  next
    case (Cons d ds)
    with a r show ?thesis by auto
  qed
qed

text \<open>The retry check in full: idle, out of rounds, or a new round that does not end in silence.\<close>

lemma checkAndRetry_progress:
  assumes trip: "find_trip t w = Some trip" "t_status trip = pending" and q: "queue_ok w"
    and c: "c = fst (getDispatchConfig now (t_serviceType trip) w)"
    and pos: "0 < lockTtlSeconds c" "0 \<le> maxDispatchAttempts c"
    and w': "w' = checkAndRetryDispatch sd now t w"
  shows "(open_attempt t w \<longrightarrow> w' = w) \<and>
    (\<not> open_attempt t w \<longrightarrow>
       (if maxDispatchAttempts c \<le> int (rounds now t w)
        then bus w' = bus w @ [DispatchFailed t ''max_attempts_reached'']
        else (\<exists>r. bus w' = bus w @ [DispatchFailed t r]) \<or>
          (\<exists>d. armed (now + lockTtlSeconds c * 1000) (now + dispatchTimeoutMs c) t d w' \<and>
               rounds now t w' = rounds now t w + 1 \<and> int (rounds now t w') \<le> maxDispatchAttempts c)))"
proof (intro conjI impI)
  assume "open_attempt t w"
  with trip show "w' = w" by (simp add: w' checkAndRetryDispatch_def count_open)
next
  let ?s = "t_serviceType trip"
  let ?w1 = "snd (getDispatchConfig now ?s w)"
  assume "\<not> open_attempt t w"
  then have eq: "w' = (if int (rounds now t w) \<ge> maxDispatchAttempts c
      then emitDispatchFailed t ''max_attempts_reached'' ?w1
      else attemptDispatch sd now t (t_pickup trip) ?s (Some (t_vehicleTypeId trip)) ?w1)"
    using trip by (simp add: w' checkAndRetryDispatch_def count_open rounds_def c Let_def split_beta)
  have r1: "rounds now t ?w1 = rounds now t w" by (simp add: rounds_def world_simps)
  show "if maxDispatchAttempts c \<le> int (rounds now t w)
        then bus w' = bus w @ [DispatchFailed t ''max_attempts_reached'']
        else (\<exists>r. bus w' = bus w @ [DispatchFailed t r]) \<or>
          (\<exists>d. armed (now + lockTtlSeconds c * 1000) (now + dispatchTimeoutMs c) t d w' \<and>
               rounds now t w' = rounds now t w + 1 \<and> int (rounds now t w') \<le> maxDispatchAttempts c)"
  proof (cases "maxDispatchAttempts c \<le> int (rounds now t w)")
    case True
    with eq show ?thesis by (simp add: world_simps)
  next
    case False
    let ?cands = "findNearbyDrivers sd now (t_pickup trip) (dispatchRadiusMeters c) (Some ?s) (Some (t_vehicleTypeId trip)) ?w1"
    have q1: "queue_ok ?w1" by (rule queue_ok_frame [OF q]) (simp_all add: world_simps)
    have c1: "c = fst (getDispatchConfig now ?s ?w1)" by (simp add: c getDispatchConfig_again)
    from False eq have w'1: "w' = attemptDispatch sd now t (t_pickup trip) ?s (Some (t_vehicleTypeId trip)) ?w1"
      by simp
    have "bus ?w1 = bus w" by (simp add: world_simps)
    with attemptDispatch_progress [OF q1 c1 pos w'1] r1 False show ?thesis by auto
  qed
qed

lemma open_after_close:
  "st \<noteq> driver_notified \<Longrightarrow> open_attempt t (close_attempts now st (for_pair t d) w) \<longleftrightarrow>
     (\<exists>a \<in> set (attempts w). notified_for t a \<and> a_driverId a \<noteq> d)"
  unfolding open_attempt_def close_attempts_frame set_map bex_simps(7)
  by (rule bex_cong [OF refl]) (auto simp: notified_for_def for_pair_def)

lemma open_attempt_cong: "attempts w' = attempts w \<Longrightarrow> open_attempt t w' = open_attempt t w"
  by (simp add: open_attempt_def)

text \<open>The world a timeout or a refusal hands to the retry check.\<close>

definition after_timeout :: "time \<Rightarrow> id \<Rightarrow> id \<Rightarrow> world \<Rightarrow> world" where
  "after_timeout now t d w =
     set_keys (redis_del (DispatchTimeoutJobKey t d) \<circ> redis_del (DispatchLockKey d))
       (close_attempts now timed_out (for_pair t d) w)"

lemma after_timeout_facts:
  "queue_ok w \<Longrightarrow> queue_ok (after_timeout now t d w)"
  "bus (after_timeout now t d w) = bus w" "trips (after_timeout now t d w) = trips w"
  "rounds now' t' (after_timeout now t d w) = rounds now' t' w"
  "configCache (after_timeout now t d w) = configCache w"
  "serviceConfigs (after_timeout now t d w) = serviceConfigs w"
  "open_attempt t (after_timeout now t d w) \<longleftrightarrow> (\<exists>a \<in> set (attempts w). notified_for t a \<and> a_driverId a \<noteq> d)"
proof -
  assume q: "queue_ok w"
  show "queue_ok (after_timeout now t d w)"
    by (rule queue_ok_subset [OF q])
      (auto simp: after_timeout_def set_keys_frame close_attempts_frame redis_del_def split: if_splits)
next
  show "open_attempt t (after_timeout now t d w) \<longleftrightarrow> (\<exists>a \<in> set (attempts w). notified_for t a \<and> a_driverId a \<noteq> d)"
    using open_after_close [of timed_out t now d w] open_attempt_cong [of "after_timeout now t d w"]
    by (simp add: after_timeout_def set_keys_frame)
qed (simp_all add: after_timeout_def world_simps rounds_def close_attempts_def update_attempts_def)

lemma after_decline_facts:
  "queue_ok w \<Longrightarrow> queue_ok (handleDriverDecline now t d w)"
  "bus (handleDriverDecline now t d w) = bus w" "trips (handleDriverDecline now t d w) = trips w"
  "rounds now' t' (handleDriverDecline now t d w) = rounds now' t' w"
  "configCache (handleDriverDecline now t d w) = configCache w"
  "serviceConfigs (handleDriverDecline now t d w) = serviceConfigs w"
  "open_attempt t (handleDriverDecline now t d w) \<longleftrightarrow> (\<exists>a \<in> set (attempts w). notified_for t a \<and> a_driverId a \<noteq> d)"
proof -
  assume q: "queue_ok w"
  show "queue_ok (handleDriverDecline now t d w)"
    unfolding handleDriverDecline_def
    by (rule queue_ok_cancel, rule queue_ok_subset [OF q])
      (auto simp: set_keys_frame close_attempts_frame redis_del_def split: if_splits)
next
  show "open_attempt t (handleDriverDecline now t d w) \<longleftrightarrow> (\<exists>a \<in> set (attempts w). notified_for t a \<and> a_driverId a \<noteq> d)"
    using open_after_close [of driver_declined t now d w] open_attempt_cong [of "handleDriverDecline now t d w"]
    by (simp add: handleDriverDecline_def set_keys_frame cancelTimeoutJob_frame)
next
  show "rounds now' t' (handleDriverDecline now t d w) = rounds now' t' w"
    by (simp add: handleDriverDecline_def rounds_def redis_get_def cancelTimeoutJob_keys set_keys_frame
        close_attempts_frame redis_del_def)
qed (simp_all add: handleDriverDecline_def world_simps close_attempts_def update_attempts_def
      cancelTimeoutJob_def cancelDispatchTimeout_def set_keys_def Let_def split: option.splits)

text \<open>
  C3. A refusal or a timeout never leaves a pending search hanging. While another driver's
  request is still open it only closes this one; otherwise, with all rounds used up, the trip
  fails with \<open>max_attempts_reached\<close>, and with rounds left either a failure is emitted or a new
  round is counted (never more than \<open>maxDispatchAttempts\<close>) and some driver is armed for the trip.
\<close>

theorem search_progresses:
  assumes "find_trip t w = Some trip" and "t_status trip = pending" and "queue_ok w"
    and c: "c = fst (getDispatchConfig now (t_serviceType trip) w)"
    and "0 < lockTtlSeconds c" and "0 \<le> maxDispatchAttempts c"
    and w': "w' = handleDriverTimeout sd now t d w \<or> w' = handleDriverDeclineAndRetry sd now t d w"
  shows "if \<exists>a \<in> set (attempts w). notified_for t a \<and> a_driverId a \<noteq> d then bus w' = bus w
    else if maxDispatchAttempts c \<le> int (rounds now t w)
    then bus w' = bus w @ [DispatchFailed t ''max_attempts_reached'']
    else (\<exists>r. bus w' = bus w @ [DispatchFailed t r]) \<or>
      (\<exists>d'. armed (now + lockTtlSeconds c * 1000) (now + dispatchTimeoutMs c) t d' w' \<and>
            rounds now t w' = rounds now t w + 1 \<and> int (rounds now t w') \<le> maxDispatchAttempts c)"
proof -
  obtain w0 where w0: "w' = checkAndRetryDispatch sd now t w0"
    and choice: "w0 = after_timeout now t d w \<or> w0 = handleDriverDecline now t d w"
    using w' by (auto simp: handleDriverTimeout_def handleDriverDeclineAndRetry_def after_timeout_def Let_def)
  have "queue_ok w0 \<and> bus w0 = bus w \<and> trips w0 = trips w \<and> rounds now t w0 = rounds now t w \<and>
      configCache w0 = configCache w \<and> serviceConfigs w0 = serviceConfigs w \<and>
      (open_attempt t w0 \<longleftrightarrow> (\<exists>a \<in> set (attempts w). notified_for t a \<and> a_driverId a \<noteq> d))"
    using choice by (elim disjE) (simp_all add: after_timeout_facts after_decline_facts assms(3))
  then have q: "queue_ok w0" and f: "bus w0 = bus w" "trips w0 = trips w" "rounds now t w0 = rounds now t w"
      "configCache w0 = configCache w" "serviceConfigs w0 = serviceConfigs w"
      "open_attempt t w0 \<longleftrightarrow> (\<exists>a \<in> set (attempts w). notified_for t a \<and> a_driverId a \<noteq> d)"
    by blast+
  have trip: "find_trip t w0 = Some trip" using assms(1) f(2) by (simp add: find_trip_def)
  have c0: "c = fst (getDispatchConfig now (t_serviceType trip) w0)"
    unfolding c by (rule getDispatchConfig_cong [symmetric]) (simp_all add: f)
  show ?thesis
    using checkAndRetry_progress [OF trip assms(2) q c0 assms(5,6) w0] unfolding f(1,3,6)
    by (auto simp: f(1))
qed

definition sample_trip :: "id \<Rightarrow> Trip" where
  "sample_trip i = \<lparr>t_id = i, t_clientId = ''c1'', t_driverId = None, t_vehicleTypeId = ''moto'',
     t_serviceType = ride, t_status = pending, t_pickup = \<lparr>lat = 12, lng = -8\<rparr>, t_pickupAddress = ''A'',
     t_dropoff = \<lparr>lat = 13, lng = -8\<rparr>, t_dropoffAddress = ''B'', t_estimatedPrice = Some 1000,
     t_finalPrice = None, t_paymentMethod = cash, t_distanceMeters = Some 3000, t_durationSeconds = Some 600,
     t_acceptedAt = None, t_driverArrivedAt = None, t_startedAt = None, t_completedAt = None,
     t_cancelledAt = None, t_cancelReason = None, t_paymentReceivedAt = None, t_paymentReceivedAmount = None,
     t_commissionAmount = None, t_deliveryConfirmedAt = None, t_deliveryIssueReported = None,
     t_createdAt = 0, t_updatedAt = 0\<rparr>"

lemma busy_world_queue_ok: "queue_ok (busy_world\<lparr>trips := ts\<rparr>)"
  by (auto simp: queue_ok_def busy_world_def split: if_splits)

theorem search_progresses_witness:
  "0 < length (bus (handleDriverTimeout (\<lambda>_ _. 7) 60000 ''t1'' ''d1'' (busy_world\<lparr>trips := [sample_trip ''t1'']\<rparr>))) \<or>
   (\<exists>d. armed 135000 120000 ''t1'' d
      (handleDriverTimeout (\<lambda>_ _. 7) 60000 ''t1'' ''d1'' (busy_world\<lparr>trips := [sample_trip ''t1'']\<rparr>)))"
proof -
  let ?w = "busy_world\<lparr>trips := [sample_trip ''t1'']\<rparr>"
  have trip: "find_trip ''t1'' ?w = Some (sample_trip ''t1'')" "t_status (sample_trip ''t1'') = pending"
    by (simp_all add: find_trip_def sample_trip_def)
  have c: "DEFAULT_CONFIG = fst (getDispatchConfig 60000 (t_serviceType (sample_trip ''t1'')) ?w)"
    by (simp add: getDispatchConfig_def getConfig_def find_config_def busy_world_def sample_defs
        dispatch_config_of_def Let_def)
  have pos: "0 < lockTtlSeconds DEFAULT_CONFIG" "0 \<le> maxDispatchAttempts DEFAULT_CONFIG"
    by (simp_all add: DEFAULT_CONFIG_def)
  have alone: "\<not> (\<exists>a \<in> set (attempts ?w). notified_for ''t1'' a \<and> a_driverId a \<noteq> ''d1'')"
    by (simp add: busy_world_def)
  have fresh: "rounds 60000 ''t1'' ?w = 0"
    by (simp add: rounds_def busy_world_def redis_get_def redis_number_def key_defs)
  show ?thesis
    using search_progresses [OF trip busy_world_queue_ok c pos disjI1 [OF refl],
        where sd = "\<lambda>_ _. 7" and d = "''d1''"]
    unfolding if_not_P [OF alone] fresh by (auto simp: DEFAULT_CONFIG_def)
qed

section \<open>Acceptance\<close>

lemma closeOther_attempts:
  "attempts (closeOther now t x w) =
     map (\<lambda>a. if notified_for t a \<and> a_driverId a = x
              then a\<lparr>a_status := driver_declined, a_respondedAt := Some now\<rparr> else a) (attempts w)"
  by (auto simp: closeOther_def world_simps for_pair_def notified_for_def)

lemma closeOther_lock:
  "redis_keys (closeOther now t x w) (DispatchLockKey y) =
     (if y = x then None else redis_keys w (DispatchLockKey y))"
  by (simp add: closeOther_def world_simps redis_del_def)

lemma closeOther_bus: "bus (closeOther now t x w) = bus w"
  by (simp add: closeOther_def world_simps)

lemma fold_closeOther_attempts:
  "attempts (fold (closeOther now t) xs w) =
     map (\<lambda>a. if notified_for t a \<and> a_driverId a \<in> set xs
              then a\<lparr>a_status := driver_declined, a_respondedAt := Some now\<rparr> else a) (attempts w)"
proof (induction xs arbitrary: w)
  case Nil
  then show ?case by (simp cong: map_cong)
next
  case (Cons x xs)
  have "attempts (fold (closeOther now t) xs (closeOther now t x w)) =
     map (\<lambda>a. if notified_for t a \<and> a_driverId a \<in> set xs
              then a\<lparr>a_status := driver_declined, a_respondedAt := Some now\<rparr> else a)
       (attempts (closeOther now t x w))" by (rule Cons.IH)
  then show ?case by (auto simp: closeOther_attempts notified_for_def)
qed

lemma fold_closeOther_lock:
  "redis_keys (fold (closeOther now t) xs w) (DispatchLockKey y) =
     (if y \<in> set xs then None else redis_keys w (DispatchLockKey y))"
  by (induction xs arbitrary: w) (auto simp: closeOther_lock)

lemma fold_closeOther_bus: "bus (fold (closeOther now t) xs w) = bus w"
  by (induction xs arbitrary: w) (auto simp: closeOther_bus)

text \<open>The job a live key names is gone once the pair is cancelled, and stays gone.\<close>

lemma cancelTimeoutJob_removes:
  assumes "redis_get now (redis_keys w) (DispatchTimeoutJobKey t x) = Some (RNum m)"
  shows "\<forall>j \<in> set (jobs (cancelTimeoutJob now t x w)). j_id j \<noteq> m"
  using assms by (simp add: cancelTimeoutJob_def cancelDispatchTimeout_def set_keys_def delete_where_def redis_number_def)

lemma closeOther_jobs_subset: "set (jobs (closeOther now t x w)) \<subseteq> set (jobs w)"
  using cancelTimeoutJob_subset(1) [of now t x "set_keys (redis_del (DispatchLockKey x)) w"]
  by (simp add: closeOther_def close_attempts_frame set_keys_frame)

lemma fold_closeOther_jobs_subset: "set (jobs (fold (closeOther now t) xs w)) \<subseteq> set (jobs w)"
  by (induction xs arbitrary: w) (use closeOther_jobs_subset in fastforce)+

lemma fold_closeOther_cancels:
  assumes "x \<in> set xs" and "redis_get now (redis_keys w) (DispatchTimeoutJobKey t x) = Some (RNum m)"
  shows "\<forall>j \<in> set (jobs (fold (closeOther now t) xs w)). j_id j \<noteq> m"
  using assms
proof (induction xs arbitrary: w)
  case Nil
  then show ?case by simp
next
  case (Cons y ys)
  show ?case
  proof (cases "y = x")
    case True
    have "redis_get now (redis_keys (set_keys (redis_del (DispatchLockKey x)) w)) (DispatchTimeoutJobKey t x) = Some (RNum m)"
      using Cons.prems(2) by (simp add: set_keys_frame)
    then have "\<forall>j \<in> set (jobs (closeOther now t x w)). j_id j \<noteq> m"
      using cancelTimeoutJob_removes by (simp add: closeOther_def close_attempts_frame)
    with True fold_closeOther_jobs_subset [of now t ys "closeOther now t x w"] show ?thesis by auto
  next
    case False
    have "redis_get now (redis_keys (closeOther now t y w)) (DispatchTimeoutJobKey t x) = Some (RNum m)"
      using Cons.prems(2) False
      by (simp add: closeOther_def close_attempts_frame redis_get_def cancelTimeoutJob_keys set_keys_frame redis_del_def)
    with Cons False show ?thesis by simp
  qed
qed

lemma accept_attempt:
  assumes "notified_for t a \<Longrightarrow> a_driverId a \<in> X \<longleftrightarrow> a_driverId a \<noteq> d"
  shows "((\<lambda>a. if notified_for t a \<and> a_driverId a \<in> X
              then a\<lparr>a_status := driver_declined, a_respondedAt := Some now\<rparr> else a) \<circ>
          (\<lambda>a. if for_pair t d a \<and> a_status a = driver_notified
              then a\<lparr>a_status := driver_accepted, a_respondedAt := Some now\<rparr> else a)) a =
        (if notified_for t a
         then a\<lparr>a_status := (if a_driverId a = d then driver_accepted else driver_declined),
                a_respondedAt := Some now\<rparr> else a)"
  using assms by (auto simp: notified_for_def for_pair_def)

lemma others_after_close:
  "filter (\<lambda>a. notified_for t a \<and> a_driverId a \<noteq> d) (attempts (close_attempts now st (for_pair t d) w)) =
   filter (\<lambda>a. notified_for t a \<and> a_driverId a \<noteq> d) (attempts w)"
proof -
  have "filter (\<lambda>a. notified_for t a \<and> a_driverId a \<noteq> d)
      (map (\<lambda>a. if for_pair t d a \<and> a_status a = driver_notified
               then a\<lparr>a_status := st, a_respondedAt := Some now\<rparr> else a) as) =
    filter (\<lambda>a. notified_for t a \<and> a_driverId a \<noteq> d) as" for as
    by (induction as) (auto simp: for_pair_def notified_for_def)
  then show ?thesis by (simp only: close_attempts_frame)
qed

text \<open>The steps of an acceptance that goes through, and the drivers it turns away.\<close>

abbreviation "turned_away t d w \<equiv>
  map a_driverId (filter (\<lambda>a. notified_for t a \<and> a_driverId a \<noteq> d) (attempts w))"

abbreviation "accepting now t d w \<equiv>
  cancelTimeoutJob now t d (close_attempts now driver_accepted (for_pair t d) w)"

lemma handleDriverAccept_held:
  assumes "redis_get now (redis_keys w) (DispatchLockKey d) = Some (RStr t)"
  shows "handleDriverAccept now t d w = emit (DriverAssigned t d)
    (set_keys (redis_del (DispatchRoundsKey t) \<circ> redis_del (DispatchLockKey d))
      (fold (closeOther now t) (turned_away t d w) (accepting now t d w)))"
  using assms by (simp add: handleDriverAccept_def Let_def cancelTimeoutJob_frame others_after_close)

lemma set_turned_away: "x \<in> set (turned_away t d w) \<longleftrightarrow> (\<exists>a \<in> set (attempts w). notified_for t a \<and> a_driverId a = x \<and> x \<noteq> d)"
  by auto

lemma accept_attempts:
  assumes "redis_get now (redis_keys w) (DispatchLockKey d) = Some (RStr t)"
  shows "attempts (handleDriverAccept now t d w) = map (\<lambda>a. if notified_for t a
     then a\<lparr>a_status := (if a_driverId a = d then driver_accepted else driver_declined), a_respondedAt := Some now\<rparr> else a) (attempts w)"
proof -
  have "attempts (handleDriverAccept now t d w) = map (\<lambda>a. if notified_for t a \<and> a_driverId a \<in> set (turned_away t d w)
      then a\<lparr>a_status := driver_declined, a_respondedAt := Some now\<rparr> else a)
      (attempts (close_attempts now driver_accepted (for_pair t d) w))"
    by (simp only: handleDriverAccept_held [OF assms] emit_frame set_keys_frame fold_closeOther_attempts cancelTimeoutJob_frame)
  also have "\<dots> = map (\<lambda>a. if notified_for t a
     then a\<lparr>a_status := (if a_driverId a = d then driver_accepted else driver_declined), a_respondedAt := Some now\<rparr> else a) (attempts w)"
    unfolding close_attempts_frame map_map
  proof (rule map_cong [OF refl])
    fix a assume "a \<in> set (attempts w)"
    then have "notified_for t a \<Longrightarrow> a_driverId a \<in> set (turned_away t d w) \<longleftrightarrow> a_driverId a \<noteq> d"
      unfolding set_turned_away by blast
    then show "((\<lambda>a. if notified_for t a \<and> a_driverId a \<in> set (turned_away t d w)
            then a\<lparr>a_status := driver_declined, a_respondedAt := Some now\<rparr> else a) \<circ>
        (\<lambda>a. if for_pair t d a \<and> a_status a = driver_notified
            then a\<lparr>a_status := driver_accepted, a_respondedAt := Some now\<rparr> else a)) a =
      (if notified_for t a
       then a\<lparr>a_status := (if a_driverId a = d then driver_accepted else driver_declined), a_respondedAt := Some now\<rparr> else a)"
      by (rule accept_attempt)
  qed
  finally show ?thesis .
qed

lemma accept_locks:
  assumes held: "redis_get now (redis_keys w) (DispatchLockKey d) = Some (RStr t)"
    and "x = d \<or> (\<exists>a \<in> set (attempts w). notified_for t a \<and> a_driverId a = x)"
  shows "redis_get now (redis_keys (handleDriverAccept now t d w)) (DispatchLockKey x) = None"
proof -
  have "x = d \<or> x \<in> set (turned_away t d w)" using assms(2) unfolding set_turned_away by blast
  then show ?thesis
    by (auto simp: handleDriverAccept_held [OF held] emit_frame set_keys_frame redis_get_def redis_del_def fold_closeOther_lock)
qed

lemma accept_jobs:
  assumes held: "redis_get now (redis_keys w) (DispatchLockKey d) = Some (RStr t)"
    and "x = d \<or> (\<exists>a \<in> set (attempts w). notified_for t a \<and> a_driverId a = x)"
    and k: "redis_get now (redis_keys w) (DispatchTimeoutJobKey t x) = Some (RNum m)"
  shows "\<forall>j \<in> set (jobs (handleDriverAccept now t d w)). j_id j \<noteq> m"
proof -
  have jobs': "jobs (handleDriverAccept now t d w) = jobs (fold (closeOther now t) (turned_away t d w) (accepting now t d w))"
    by (simp add: handleDriverAccept_held [OF held] emit_frame set_keys_frame)
  show ?thesis
  proof (cases "x = d")
    case True
    with k have "\<forall>j \<in> set (jobs (accepting now t d w)). j_id j \<noteq> m"
      by (intro cancelTimeoutJob_removes) (simp add: close_attempts_frame)
    with fold_closeOther_jobs_subset [of now t "turned_away t d w" "accepting now t d w"] show ?thesis unfolding jobs' by auto
  next
    case False
    then have "x \<in> set (turned_away t d w)" using assms(2) unfolding set_turned_away by blast
    moreover have "redis_get now (redis_keys (accepting now t d w)) (DispatchTimeoutJobKey t x) = Some (RNum m)"
      using k False by (simp add: redis_get_def cancelTimeoutJob_keys close_attempts_frame)
    ultimately show ?thesis unfolding jobs' by (rule fold_closeOther_cancels)
  qed
qed

text \<open>
  C4. What an acceptance does. If the driver's lock is not held for this trip nothing happens at
  all. Otherwise \<open>DriverAssigned\<close> is emitted, every open attempt of the trip is closed (accepted
  for this driver, declined for the others) and no other attempt changes, the locks of all these
  drivers are free again, the timeout jobs their keys name leave the queue, and the rounds are
  reset.
\<close>

theorem accept_closes_search:
  assumes "w' = handleDriverAccept now t d w"
  shows "if redis_get now (redis_keys w) (DispatchLockKey d) \<noteq> Some (RStr t) then w' = w
    else bus w' = bus w @ [DriverAssigned t d] \<and>
      attempts w' = map (\<lambda>a. if notified_for t a
         then a\<lparr>a_status := (if a_driverId a = d then driver_accepted else driver_declined),
                a_respondedAt := Some now\<rparr> else a) (attempts w) \<and>
      \<not> open_attempt t w' \<and> rounds now t w' = 0 \<and>
      (\<forall>x. x = d \<or> (\<exists>a \<in> set (attempts w). notified_for t a \<and> a_driverId a = x) \<longrightarrow>
         redis_get now (redis_keys w') (DispatchLockKey x) = None \<and>
         (\<forall>m. redis_get now (redis_keys w) (DispatchTimeoutJobKey t x) = Some (RNum m) \<longrightarrow>
              (\<forall>j \<in> set (jobs w'). j_id j \<noteq> m)))"
proof (cases "redis_get now (redis_keys w) (DispatchLockKey d) = Some (RStr t)")
  case False
  with assms show ?thesis by (simp add: handleDriverAccept_def)
next
  case True
  have "bus w' = bus w @ [DriverAssigned t d]"
    by (simp add: assms handleDriverAccept_held [OF True] emit_frame set_keys_frame fold_closeOther_bus cancelTimeoutJob_frame
        close_attempts_frame)
  moreover have att: "attempts w' = map (\<lambda>a. if notified_for t a
         then a\<lparr>a_status := (if a_driverId a = d then driver_accepted else driver_declined),
                a_respondedAt := Some now\<rparr> else a) (attempts w)"
    unfolding assms by (rule accept_attempts [OF True])
  moreover have "\<not> open_attempt t w'"
    unfolding open_attempt_def att set_map bex_simps(7) by (simp add: notified_for_def)
  moreover have "rounds now t w' = 0"
    by (simp add: rounds_def assms handleDriverAccept_held [OF True] emit_frame set_keys_frame redis_number_def)
  moreover have "\<not> redis_get now (redis_keys w) (DispatchLockKey d) \<noteq> Some (RStr t)" using True by simp
  ultimately show ?thesis
    using accept_locks [OF True] accept_jobs [OF True] unfolding assms by simp
qed

theorem accept_closes_search_witness:
  "\<not> open_attempt ''t1'' (handleDriverAccept 1000 ''t1'' ''d1'' busy_world) \<and>
   jobs (handleDriverAccept 1000 ''t1'' ''d1'' busy_world) = []"
proof -
  have lock: "\<not> redis_get 1000 (redis_keys busy_world) (DispatchLockKey ''d1'') \<noteq> Some (RStr ''t1'')"
    by (simp add: busy_world_def redis_get_def live_def)
  have sub: "set (jobs (handleDriverAccept 1000 ''t1'' ''d1'' busy_world)) \<subseteq> {\<lparr>j_id = 0, j_tripId = ''t1'', j_driverId = ''d1'', j_due = 60000\<rparr>}"
    by (simp add: handleDriverAccept_def busy_world_def redis_get_def live_def cancelTimeoutJob_def
        cancelDispatchTimeout_def set_keys_def delete_where_def redis_number_def close_attempts_def
        update_attempts_def update_where_def for_pair_def notified_for_def emit_def Let_def)
  have key: "redis_get 1000 (redis_keys busy_world) (DispatchTimeoutJobKey ''t1'' ''d1'') = Some (RNum 0)"
    by (simp add: busy_world_def redis_get_def live_def)
  from accept_closes_search [OF refl, where now = 1000 and t = "''t1''" and d = "''d1''" and w = busy_world,
      unfolded if_not_P [OF lock]]
  have "\<not> open_attempt ''t1'' (handleDriverAccept 1000 ''t1'' ''d1'' busy_world)"
    and "\<forall>j \<in> set (jobs (handleDriverAccept 1000 ''t1'' ''d1'' busy_world)). j_id j \<noteq> 0"
    using key by blast+
  moreover from this(2) subset_singletonD [OF sub]
  have "set (jobs (handleDriverAccept 1000 ''t1'' ''d1'' busy_world)) = {}" by auto
  ultimately show ?thesis by simp
qed

end
