(* ===== verification/Trip_Lifecycle.thy ===== *)
theory Trip_Lifecycle
  imports Prisma_Schema
begin

text \<open>
  The status machine of a trip (\<open>trips/interfaces/trip-lifecycle.interface.ts\<close>): the table of
  allowed transitions and its two readers. The locale \<open>ranked_machine\<close> is the contract of a
  transition table in which every move makes progress; it gives termination, absence of
  cycles and the fact that every state can finish, and the trip table interprets it.
\<close>

fun TRANSITIONS :: "TripStatus \<Rightarrow> TripStatus list" where
  "TRANSITIONS pending = [accepted, cancelled_by_client, cancelled_by_driver, cancelled_auto]"
| "TRANSITIONS accepted = [driver_arriving, cancelled_by_client, cancelled_by_driver]"
| "TRANSITIONS driver_arriving = [in_progress, cancelled_by_client, cancelled_by_driver]"
| "TRANSITIONS in_progress = [completed]"
| "TRANSITIONS completed = []"
| "TRANSITIONS cancelled_by_client = []"
| "TRANSITIONS cancelled_by_driver = []"
| "TRANSITIONS cancelled_auto = []"

definition canTransition :: "TripStatus \<Rightarrow> TripStatus \<Rightarrow> bool" where
  "canTransition src_st tgt \<longleftrightarrow> tgt \<in> set (TRANSITIONS src_st)"

definition getValidTransitions :: "TripStatus \<Rightarrow> TripStatus list" where
  "getValidTransitions src_st = TRANSITIONS src_st"

definition terminal :: "TripStatus \<Rightarrow> bool" where
  "terminal s \<longleftrightarrow> getValidTransitions s = []"

lemma terminal_iff: "terminal s \<longleftrightarrow> s = completed \<or> cancelled_status s"
  by (cases s) (auto simp: terminal_def getValidTransitions_def)

lemma canTransition_simps [simp]:
  "canTransition pending u \<longleftrightarrow> u \<in> {accepted, cancelled_by_client, cancelled_by_driver, cancelled_auto}"
  "canTransition accepted u \<longleftrightarrow> u \<in> {driver_arriving, cancelled_by_client, cancelled_by_driver}"
  "canTransition driver_arriving u \<longleftrightarrow> u \<in> {in_progress, cancelled_by_client, cancelled_by_driver}"
  "canTransition in_progress u \<longleftrightarrow> u = completed"
  "\<not> canTransition completed u" "\<not> canTransition cancelled_by_client u"
  "\<not> canTransition cancelled_by_driver u" "\<not> canTransition cancelled_auto u"
  by (auto simp: canTransition_def)

lemma canTransition_valid: "canTransition s u \<longleftrightarrow> u \<in> set (getValidTransitions s)"
  by (simp add: canTransition_def getValidTransitions_def)

lemma canTransition_not_terminal: "canTransition s u \<Longrightarrow> \<not> terminal s"
  by (auto simp: canTransition_def terminal_def getValidTransitions_def)

lemma canTransition_into:
  "canTransition s accepted \<longleftrightarrow> s = pending"
  "canTransition s driver_arriving \<longleftrightarrow> s = accepted"
  "canTransition s in_progress \<longleftrightarrow> s = driver_arriving"
  "canTransition s completed \<longleftrightarrow> s = in_progress"
  "canTransition s cancelled_auto \<longleftrightarrow> s = pending"
  "\<not> canTransition s pending"
  by (cases s; simp)+

section \<open>Transition tables that make progress\<close>

locale ranked_machine =
  fixes nexts :: "'s \<Rightarrow> 's list"
    and rank :: "'s \<Rightarrow> nat"
  assumes rank_next: "u \<in> set (nexts s) \<Longrightarrow> rank u < rank s"
begin

inductive walk :: "'s \<Rightarrow> 's list \<Rightarrow> 's \<Rightarrow> bool" where
  stay: "walk s [] s"
| move: "u \<in> set (nexts s) \<Longrightarrow> walk u us v \<Longrightarrow> walk s (u # us) v"

text \<open>A run is no longer than the rank of its first state, and ends lower unless it is empty.\<close>

lemma walk_bounded: "walk s us v \<Longrightarrow> length us + rank v \<le> rank s"
  by (induction rule: walk.induct) (auto dest: rank_next)

lemma walk_no_return: "walk s us s \<Longrightarrow> us = []"
  using walk_bounded [of s us s] by simp

lemma walk_append: "walk s us u \<Longrightarrow> walk u vs v \<Longrightarrow> walk s (us @ vs) v"
  by (induction rule: walk.induct) (auto intro: walk.intros)

text \<open>Every state can finish: there is a run to a state without successors.\<close>

lemma can_finish: "\<exists>us v. walk s us v \<and> nexts v = []"
proof (induction "rank s" arbitrary: s rule: less_induct)
  case less
  show ?case
  proof (cases "nexts s")
    case Nil
    then show ?thesis by (blast intro: walk.stay)
  next
    case (Cons u rest)
    then have u: "u \<in> set (nexts s)" by simp
    then obtain us v where "walk u us v" "nexts v = []"
      using less [of u] rank_next by blast
    with u show ?thesis by (blast intro: walk.move)
  qed
qed

end

fun trip_rank :: "TripStatus \<Rightarrow> nat" where
  "trip_rank pending = 4"
| "trip_rank accepted = 3"
| "trip_rank driver_arriving = 2"
| "trip_rank in_progress = 1"
| "trip_rank _ = 0"

lemma trip_rank_next: "canTransition s u \<Longrightarrow> trip_rank u < trip_rank s"
  by (cases s) auto

interpretation lifecycle: ranked_machine getValidTransitions trip_rank
  by unfold_locales (use trip_rank_next in \<open>auto simp: canTransition_valid\<close>)

inductive trip_run :: "TripStatus \<Rightarrow> TripStatus list \<Rightarrow> TripStatus \<Rightarrow> bool" where
  trip_stay: "trip_run s [] s"
| trip_move: "canTransition s u \<Longrightarrow> trip_run u us v \<Longrightarrow> trip_run s (u # us) v"

inductive_cases trip_run_NilE: "trip_run s [] v"
inductive_cases trip_run_ConsE: "trip_run s (u # us) v"

lemma trip_run_lifecycle: "trip_run s us v \<longleftrightarrow> lifecycle.walk s us v"
proof
  show "trip_run s us v \<Longrightarrow> lifecycle.walk s us v"
    by (induction rule: trip_run.induct) (auto intro: lifecycle.walk.intros simp: canTransition_valid)
  show "lifecycle.walk s us v \<Longrightarrow> trip_run s us v"
    by (induction rule: lifecycle.walk.induct) (auto intro: trip_run.intros simp: canTransition_valid)
qed

lemma trip_run_terminal: "terminal s \<Longrightarrow> trip_run s us v \<Longrightarrow> us = [] \<and> v = s"
  by (cases us) (auto elim: trip_run_NilE trip_run_ConsE dest: canTransition_not_terminal)

lemma trip_run_last: "trip_run s us v \<Longrightarrow> v = last (s # us)"
  by (induction rule: trip_run.induct) auto

lemma run_to_completed:
  "trip_run in_progress us completed \<longleftrightarrow> us = [completed]"
  "trip_run driver_arriving us completed \<longleftrightarrow> us = [in_progress, completed]"
  "trip_run accepted us completed \<longleftrightarrow> us = [driver_arriving, in_progress, completed]"
proof -
  have fin: "trip_run completed vs completed \<longleftrightarrow> vs = []" for vs
    using trip_run_terminal [of completed vs completed]
    by (auto simp: terminal_iff intro: trip_run.intros)
  have dead: "\<not> trip_run s vs completed" if "cancelled_status s" for s vs
    using trip_run_terminal [of s vs completed] that by (auto simp: terminal_iff)
  show ip: "trip_run in_progress us completed \<longleftrightarrow> us = [completed]" for us
    by (cases us) (auto elim!: trip_run_NilE trip_run_ConsE intro!: trip_run.intros simp: fin)
  show da: "trip_run driver_arriving us completed \<longleftrightarrow> us = [in_progress, completed]" for us
    by (cases us) (auto elim!: trip_run_NilE trip_run_ConsE intro!: trip_run.intros simp: ip dead)
  show "trip_run accepted us completed \<longleftrightarrow> us = [driver_arriving, in_progress, completed]"
    by (cases us) (auto elim!: trip_run_NilE trip_run_ConsE intro!: trip_run.intros simp: da dead)
qed

text \<open>
  C11. The only way from a new trip to a completed one is through \<open>accepted\<close>,
  \<open>driver_arriving\<close> and \<open>in_progress\<close>, in this order, and no sequence of transitions at all
  is longer than four moves or comes back to a status it has left.
\<close>

theorem lifecycle_runs:
  "(trip_run pending us completed \<longleftrightarrow> us = [accepted, driver_arriving, in_progress, completed])
   \<and> (\<forall>s vs v. \<not> trip_run s vs v \<or> (length vs \<le> 4 \<and> (v = s \<longleftrightarrow> vs = [])))"
proof -
  have dead: "\<not> trip_run s vs completed" if "cancelled_status s" for s vs
    using trip_run_terminal [of s vs completed] that by (auto simp: terminal_iff)
  have full: "trip_run pending us completed \<longleftrightarrow> us = [accepted, driver_arriving, in_progress, completed]"
    by (cases us) (auto elim!: trip_run_NilE trip_run_ConsE intro!: trip_run.intros
        simp: run_to_completed dead)
  have bound: "length vs \<le> 4 \<and> (v = s \<longleftrightarrow> vs = [])" if r: "trip_run s vs v" for s vs v
  proof -
    have "length vs + trip_rank v \<le> trip_rank s"
      using r lifecycle.walk_bounded by (simp add: trip_run_lifecycle)
    moreover have "trip_rank s \<le> 4" by (cases s) simp_all
    moreover have "vs = [] \<Longrightarrow> v = s" using trip_run_last [OF r] by simp
    ultimately show ?thesis by auto
  qed
  from full bound show ?thesis by blast
qed

theorem lifecycle_runs_witness:
  "trip_run pending [accepted, driver_arriving, in_progress, completed] completed
   \<and> \<not> trip_run pending [accepted, in_progress, completed] completed"
  using lifecycle_runs [of "[accepted, driver_arriving, in_progress, completed]"]
    lifecycle_runs [of "[accepted, in_progress, completed]"] by simp

text \<open>
  A trip can always be brought to an end: from every status some sequence of allowed
  transitions leads to a status without successors, which is \<open>completed\<close> or one of the three
  cancelled ones; and these four are exactly the statuses nothing leaves.
\<close>

theorem lifecycle_can_finish:
  "(\<exists>us v. trip_run s us v \<and> getValidTransitions v = []) \<and>
   (getValidTransitions s = [] \<longleftrightarrow> s = completed \<or> cancelled_status s)"
  using lifecycle.can_finish [of s] terminal_iff [of s] by (auto simp: trip_run_lifecycle terminal_def)

end
