(* ===== verification/Dispatch_Recovery.thy ===== *)
theory Dispatch_Recovery
  imports Dispatch Trip_Lifecycle
begin

text \<open>
  \<open>DispatchRecoveryService\<close>: the sweeps that take up searches and assignments nothing else moves
  any more, and what a driver who missed a request gets back (\<open>getPendingRequestForDriver\<close>). The
  sweeps answer nothing; a database failure, which only makes them stop, is not modelled.
\<close>

definition REDISPATCH_MAX_AGE_MS :: int where "REDISPATCH_MAX_AGE_MS = 2 * 60 * 1000"
definition REDISPATCH_MIN_AGE_MS :: int where "REDISPATCH_MIN_AGE_MS = 90000"
definition STALE_ASSIGNED_MS :: int where "STALE_ASSIGNED_MS = 45 * 60 * 1000"

lemmas recovery_constants = REDISPATCH_MAX_AGE_MS_def REDISPATCH_MIN_AGE_MS_def STALE_ASSIGNED_MS_def

section \<open>Assigned trips that do not move\<close>

definition stale_assigned :: "time \<Rightarrow> Trip \<Rightarrow> bool" where
  "stale_assigned now t \<longleftrightarrow>
     t_status t \<in> {accepted, driver_arriving} \<and> t_updatedAt t < now - STALE_ASSIGNED_MS"

definition cancelStale :: "time \<Rightarrow> Trip \<Rightarrow> world \<Rightarrow> world" where
  "cancelStale now trip w =
     (let w1 = update_trip now (t_id trip)
                 (\<lambda>t. t\<lparr>t_status := cancelled_auto, t_cancelReason := Some ''driver_unresponsive''\<rparr>) w;
          w2 = releaseLocksForTrip now (t_id trip) w1
      in case getWsEventForService (t_serviceType trip) cancelled_auto of
           None \<Rightarrow> w2
         | Some wsEvent \<Rightarrow> emitToTrip (t_id trip) wsEvent (CancelMsg (t_id trip) ''driver_unresponsive'') w2)"

definition sweepStaleAssigned :: "time \<Rightarrow> world \<Rightarrow> world" where
  "sweepStaleAssigned now w = fold (cancelStale now) (filter (stale_assigned now) (trips w)) w"

section \<open>Searches nobody answers\<close>

definition getPickup :: "id \<Rightarrow> world \<Rightarrow> GeoPoint option" where
  "getPickup tripId w = map_option t_pickup (find_trip tripId w)"

definition recoverTrip :: "distance_fn \<Rightarrow> bool \<Rightarrow> time \<Rightarrow> Trip \<Rightarrow> world \<Rightarrow> world" where
  "recoverTrip sd quiet now trip w =
     (let failReason = (if quiet then ''no_drivers_available'' else ''server_restarted'');
          ageMs = now - t_createdAt trip
      in if quiet \<and> ageMs < REDISPATCH_MIN_AGE_MS then w
         else if ageMs > REDISPATCH_MAX_AGE_MS then failTrip (t_id trip) failReason w
         else (let w1 = releaseLocksForTrip now (t_id trip) w
               in case getPickup (t_id trip) w1 of
                    None \<Rightarrow> failTrip (t_id trip) ''server_restarted'' w1
                  | Some pickup \<Rightarrow>
                      attemptDispatch sd now (t_id trip) pickup (t_serviceType trip)
                        (Some (t_vehicleTypeId trip)) w1))"

definition run :: "distance_fn \<Rightarrow> bool \<Rightarrow> time \<Rightarrow> world \<Rightarrow> world" where
  "run sd quiet now w =
     fold (recoverTrip sd quiet now)
       (sort_key t_createdAt (filter (\<lambda>t. t_status t = pending) (trips w))) w"

text \<open>One tick of the interval timer: both sweeps, one after the other.\<close>

definition sweep :: "distance_fn \<Rightarrow> time \<Rightarrow> world \<Rightarrow> world" where
  "sweep sd now w = sweepStaleAssigned now (run sd True now w)"

section \<open>Frames\<close>

lemma releaseOne_frame [world_simps]:
  "trips (releaseOne now t d w) = trips w" "bus (releaseOne now t d w) = bus w"
  "attempts (releaseOne now t d w) = attempts w" "drivers (releaseOne now t d w) = drivers w"
  "payments (releaseOne now t d w) = payments w"
  by (simp_all add: releaseOne_def world_simps)

lemma fold_releaseOne_frame [world_simps]:
  "trips (fold (releaseOne now t) ds w) = trips w" "bus (fold (releaseOne now t) ds w) = bus w"
  "attempts (fold (releaseOne now t) ds w) = attempts w" "drivers (fold (releaseOne now t) ds w) = drivers w"
  "payments (fold (releaseOne now t) ds w) = payments w"
  by (induction ds arbitrary: w) (simp_all add: world_simps)

lemma releaseLocksForTrip_frame [world_simps]:
  "trips (releaseLocksForTrip now t w) = trips w" "bus (releaseLocksForTrip now t w) = bus w"
  "drivers (releaseLocksForTrip now t w) = drivers w" "payments (releaseLocksForTrip now t w) = payments w"
  by (simp_all add: releaseLocksForTrip_def world_simps)

lemma releaseLocksForTrip_closes:
  "\<not> open_attempt t (releaseLocksForTrip now t w)"
  unfolding open_attempt_def releaseLocksForTrip_def close_attempts_frame set_map bex_simps(7)
  by (simp add: notified_for_def)

lemma fold_releaseOne_lock:
  "redis_keys (fold (releaseOne now t) ds w) (DispatchLockKey x) =
     (if x \<in> set ds then None else redis_keys w (DispatchLockKey x))"
  by (induction ds arbitrary: w)
    (auto simp: releaseOne_def cancelTimeoutJob_keys set_keys_frame redis_del_def)

lemma releaseLocksForTrip_lock:
  "redis_keys (releaseLocksForTrip now t w) (DispatchLockKey x) =
     (if \<exists>a \<in> set (attempts w). notified_for t a \<and> a_driverId a = x then None
      else redis_keys w (DispatchLockKey x))"
  by (auto simp: releaseLocksForTrip_def close_attempts_frame fold_releaseOne_lock)

lemma recoverTrip_trips [world_simps]: "trips (recoverTrip sd q now t w) = trips w"
  by (simp add: recoverTrip_def failTrip_def world_simps Let_def split: option.splits)

text \<open>Nothing emitted is lost: the bus of one world continues that of another.\<close>

definition bus_extends :: "world \<Rightarrow> world \<Rightarrow> bool" where
  "bus_extends w w' \<longleftrightarrow> (\<exists>evs. bus w' = bus w @ evs)"

lemma bus_extends_append: "bus w' = bus w @ evs \<Longrightarrow> bus_extends w w'"
  by (simp add: bus_extends_def)

lemma bus_extends_same: "bus w' = bus w \<Longrightarrow> bus_extends w w'"
  by (simp add: bus_extends_def)

lemma bus_extends_trans [trans]: "bus_extends u v \<Longrightarrow> bus_extends v w \<Longrightarrow> bus_extends u w"
  by (auto simp: bus_extends_def)

lemma bus_extends_set: "bus_extends w w' \<Longrightarrow> set (bus w) \<subseteq> set (bus w')"
  by (auto simp: bus_extends_def)

lemma bus_extends_fold: "(\<And>x v. bus_extends v (f x v)) \<Longrightarrow> bus_extends w (fold f xs w)"
  by (induction xs arbitrary: w) (auto intro: bus_extends_same bus_extends_trans)

lemma notifyAll_bus_extends: "bus_extends v (snd (notifyAll now c t s rq ns v))"
proof (induction ns arbitrary: v)
  case Nil
  then show ?case by (simp add: bus_extends_same)
next
  case (Cons n ns)
  have "bus_extends v (snd (notifyDriver now c t s rq n v))"
    by (rule bus_extends_append) (rule notifyDriver_bus)
  also have "bus_extends \<dots> (snd (notifyAll now c t s rq ns (snd (notifyDriver now c t s rq n v))))"
    by (rule Cons.IH)
  finally show ?case by (simp add: split_beta)
qed

lemma attemptDispatch_bus_extends: "bus_extends w (attemptDispatch sd now t p s vt w)"
proof (rule attemptDispatch_result [of now s w t p sd vt])
  fix ns w3
  assume w3: "w3 = snd (notifyAll now (fst (getDispatchConfig now s w)) t s
      (trip_request t p s (counted now t s w)) ns (counted now t s w))"
    and res: "attemptDispatch sd now t p s vt w \<in> {w3, emitDispatchFailed t ''all_drivers_busy'' w3,
      emitDispatchFailed t ''no_drivers_available'' w3}"
  have "bus_extends w (counted now t s w)" by (rule bus_extends_same) (simp add: world_simps)
  also have "bus_extends \<dots> w3" unfolding w3 by (rule notifyAll_bus_extends)
  also have "bus_extends w3 (attemptDispatch sd now t p s vt w)"
    using res by (auto intro: bus_extends_same bus_extends_append simp: emitDispatchFailed_frame)
  finally show ?thesis .
qed

lemma recoverTrip_bus_extends: "bus_extends w (recoverTrip sd q now t w)"
proof -
  let ?w1 = "releaseLocksForTrip now (t_id t) w"
  have one: "bus_extends w ?w1" by (rule bus_extends_same) (rule releaseLocksForTrip_frame)
  then have "bus_extends w (attemptDispatch sd now (t_id t) p (t_serviceType t) (Some (t_vehicleTypeId t)) ?w1)" for p
    by (rule bus_extends_trans) (rule attemptDispatch_bus_extends)
  moreover have "bus_extends w (emitDispatchFailed (t_id t) r ?w1)" for r
    using one by (rule bus_extends_trans) (rule bus_extends_append, rule emitDispatchFailed_frame)
  moreover have "bus_extends w (emitDispatchFailed (t_id t) r w)" for r
    by (rule bus_extends_append) (rule emitDispatchFailed_frame)
  ultimately show ?thesis
    by (simp add: recoverTrip_def failTrip_def Let_def bus_extends_same split: option.split)
qed

lemma fold_recover_bus_mono: "set (bus w) \<subseteq> set (bus (fold (recoverTrip sd q now) ts w))"
  by (rule bus_extends_set, rule bus_extends_fold, rule recoverTrip_bus_extends)

lemma fold_recover_fails:
  assumes "t \<in> set ts" and "REDISPATCH_MAX_AGE_MS < now - t_createdAt t"
  shows "DispatchFailed (t_id t) (if q then ''no_drivers_available'' else ''server_restarted'')
    \<in> set (bus (fold (recoverTrip sd q now) ts w))"
  using assms
proof (induction ts arbitrary: w)
  case Nil
  then show ?case by simp
next
  case (Cons u ts)
  show ?case
  proof (cases "t = u")
    case True
    have "DispatchFailed (t_id u) (if q then ''no_drivers_available'' else ''server_restarted'')
        \<in> set (bus (recoverTrip sd q now u w))"
      using Cons.prems(2) True
      by (auto simp: recoverTrip_def failTrip_def emitDispatchFailed_frame recovery_constants Let_def)
    with fold_recover_bus_mono [of "recoverTrip sd q now u w" sd q now ts] True show ?thesis by auto
  next
    case False
    with Cons show ?thesis by simp
  qed
qed

text \<open>
  No search outlives two minutes and a sweep: every trip still pending more than
  \<open>REDISPATCH_MAX_AGE_MS\<close> after its creation gets a \<open>DispatchFailed\<close> event from the next sweep,
  whatever requests are still open for it (so a third round of one-minute requests is cut
  short), and the sweep itself changes no trip.
\<close>

theorem sweep_fails_old_searches:
  assumes "t \<in> set (trips w)" and "t_status t = pending" and "t_createdAt t < now - 120000"
  shows "DispatchFailed (t_id t) ''no_drivers_available'' \<in> set (bus (run sd True now w)) \<and>
    trips (run sd True now w) = trips w"
proof
  have "t \<in> set (sort_key t_createdAt (filter (\<lambda>t. t_status t = pending) (trips w)))"
    using assms(1,2) by simp
  from fold_recover_fails [OF this, of now True sd w] assms(3)
  show "DispatchFailed (t_id t) ''no_drivers_available'' \<in> set (bus (run sd True now w))"
    by (simp add: run_def recovery_constants)
  have "trips (fold (recoverTrip sd True now) ts v) = trips v" for ts v
    by (induction ts arbitrary: v) (simp_all add: recoverTrip_trips)
  then show "trips (run sd True now w) = trips w" by (simp add: run_def)
qed

theorem sweep_fails_old_searches_witness:
  "open_attempt ''t1'' (busy_world\<lparr>trips := [sample_trip ''t1'']\<rparr>) \<and>
   DispatchFailed ''t1'' ''no_drivers_available'' \<in>
     set (bus (run (\<lambda>_ _. 7) True 121000 (busy_world\<lparr>trips := [sample_trip ''t1'']\<rparr>)))"
  using sweep_fails_old_searches [of "sample_trip ''t1''" "busy_world\<lparr>trips := [sample_trip ''t1'']\<rparr>" 121000]
  by (simp add: sample_trip_def open_attempt_def notified_for_def busy_world_def)

section \<open>What the second sweep does to a trip\<close>

lemma cancelStale_trips:
  "trips (cancelStale now t w) = update_where (\<lambda>u. t_id u = t_id t)
     (\<lambda>u. u\<lparr>t_status := cancelled_auto, t_cancelReason := Some ''driver_unresponsive'', t_updatedAt := now\<rparr>) (trips w)"
  by (simp add: cancelStale_def Let_def world_simps split: option.split)

lemma cancelStale_bus: "bus (cancelStale now t w) = bus w"
  by (simp add: cancelStale_def Let_def world_simps split: option.split)

lemma fold_cancelStale_bus: "bus (fold (cancelStale now) ts w) = bus w"
  by (induction ts arbitrary: w) (simp_all add: cancelStale_bus)

lemma fold_cancelStale_trips:
  "trips (fold (cancelStale now) ts w) =
     map (\<lambda>u. if t_id u \<in> t_id ` set ts
              then u\<lparr>t_status := cancelled_auto, t_cancelReason := Some ''driver_unresponsive'', t_updatedAt := now\<rparr>
              else u) (trips w)"
proof (induction ts arbitrary: w)
  case Nil
  then show ?case by simp
next
  case (Cons t ts)
  show ?case unfolding fold_simps o_apply Cons.IH cancelStale_trips update_where_def map_map
    by (rule map_cong [OF refl]) simp
qed

lemma sweepStaleAssigned_trips:
  assumes "distinct (map t_id (trips w))"
  shows "trips (sweepStaleAssigned now w) = update_where (stale_assigned now)
    (\<lambda>t. t\<lparr>t_status := cancelled_auto, t_cancelReason := Some ''driver_unresponsive'', t_updatedAt := now\<rparr>) (trips w)"
proof -
  have same: "t_id t \<in> t_id ` set (filter (stale_assigned now) (trips w)) \<longleftrightarrow> stale_assigned now t"
    if "t \<in> set (trips w)" for t
    using that assms by (auto simp: distinct_map inj_on_def)
  show ?thesis
    unfolding sweepStaleAssigned_def fold_cancelStale_trips update_where_def
    by (rule map_cong [OF refl], subst same) simp_all
qed

text \<open>
  C17. The sweep of stuck assignments changes exactly the trips that are accepted or arriving
  and have not been written for 45 minutes: they become \<open>cancelled_auto\<close> with the reason
  \<open>driver_unresponsive\<close>, and nothing else of them changes (\<open>cancelledAt\<close> stays empty, although
  the transition table has no such move); running trips are never touched, and no domain event
  is emitted, so nobody is notified by push.
\<close>

theorem stale_assignments_cancelled:
  assumes "distinct (map t_id (trips w))"
  shows "trips (sweepStaleAssigned now w) =
      map (\<lambda>t. if t_status t \<in> {accepted, driver_arriving} \<and> t_updatedAt t < now - 2700000
               then t\<lparr>t_status := cancelled_auto, t_cancelReason := Some ''driver_unresponsive'', t_updatedAt := now\<rparr>
               else t) (trips w) \<and>
    bus (sweepStaleAssigned now w) = bus w \<and>
    \<not> canTransition accepted cancelled_auto \<and> \<not> canTransition driver_arriving cancelled_auto"
  using sweepStaleAssigned_trips [OF assms, of now]
  by (simp add: sweepStaleAssigned_def fold_cancelStale_bus update_where_def stale_assigned_def recovery_constants)

theorem stale_assignments_cancelled_witness:
  "map t_status (trips (sweepStaleAssigned 2700001
     (sample_world\<lparr>trips := [(sample_trip ''t1'')\<lparr>t_status := accepted\<rparr>, (sample_trip ''t2'')\<lparr>t_status := in_progress\<rparr>]\<rparr>))) =
   [cancelled_auto, in_progress]"
  using stale_assignments_cancelled [of "sample_world\<lparr>trips := [(sample_trip ''t1'')\<lparr>t_status := accepted\<rparr>,
     (sample_trip ''t2'')\<lparr>t_status := in_progress\<rparr>]\<rparr>" 2700001]
  by (simp add: sample_trip_def)

section \<open>Requests given back\<close>

text \<open>
  A request given back to a driver who missed it can be accepted: it is for a trip that is
  still pending and has no driver, no other driver has accepted it, the driver's attempt is
  open again, and for 75 seconds an acceptance assigns the trip. The lock is taken over even
  from another trip.
\<close>

theorem missed_request_acceptable:
  assumes got: "getPendingRequestForDriver now u w = (Some rq, w')" and "now' < now + 75000"
  shows "\<exists>driver trip. findDriverByUserId u w = Some driver \<and> find_trip (rq_tripId rq) w = Some trip \<and>
    t_status trip = pending \<and> t_driverId trip = None \<and>
    (\<forall>a \<in> set (attempts w). \<not> (a_tripId a = rq_tripId rq \<and> a_status a = driver_accepted \<and> a_driverId a \<noteq> d_id driver)) \<and>
    (\<exists>a \<in> set (attempts w'). for_pair (rq_tripId rq) (d_id driver) a \<and> a_status a = driver_notified) \<and>
    DriverAssigned (rq_tripId rq) (d_id driver) \<in> set (bus (handleDriverAccept now' (rq_tripId rq) (d_id driver) w'))"
proof -
  from got obtain driver attempt trip where
    driver: "findDriverByUserId u w = Some driver"
    and attempt: "find_first_desc a_notifiedAt (rearmable (d_id driver) w) (attempts w) = Some attempt"
    and trip: "find_trip (a_tripId attempt) w = Some trip"
    and others: "\<not> list_ex (\<lambda>a. a_tripId a = t_id trip \<and> a_status a = driver_accepted \<and>
                                    a_driverId a \<noteq> d_id driver) (attempts w)"
    and rq: "rq = pending_request trip w"
    and w': "w' = set_keys (redis_set_ex now (DispatchLockKey (d_id driver)) (RStr (t_id trip)) 75)
                   (update_attempts (for_pair (a_tripId attempt) (a_driverId attempt))
                      (\<lambda>a. a\<lparr>a_status := driver_notified, a_respondedAt := None\<rparr>) w)"
    by (auto simp: getPendingRequestForDriver_def split: option.splits if_splits)
  have id: "rq_tripId rq = t_id trip" "t_id trip = a_tripId attempt"
    using rq find_trip_id [OF trip] by (simp_all add: pending_request_def Let_def)
  from find_first_desc_Some [OF attempt] trip
  have a: "attempt \<in> set (attempts w)" "a_driverId attempt = d_id driver"
    and t: "t_status trip = pending" "t_driverId trip = None"
    by (auto simp: rearmable_def)
  have "\<exists>a \<in> set (attempts w'). for_pair (rq_tripId rq) (d_id driver) a \<and> a_status a = driver_notified"
    using a(1) by (intro bexI [of _ "attempt\<lparr>a_status := driver_notified, a_respondedAt := None\<rparr>"])
      (auto simp: w' set_keys_frame update_frame set_update_where for_pair_def id a(2) image_iff)
  moreover have "redis_get now' (redis_keys w') (DispatchLockKey (d_id driver)) = Some (RStr (rq_tripId rq))"
    using assms(2) by (simp add: w' set_keys_frame id)
  then have "bus (handleDriverAccept now' (rq_tripId rq) (d_id driver) w') =
      bus w' @ [DriverAssigned (rq_tripId rq) (d_id driver)]"
    by (simp add: handleDriverAccept_def Let_def emit_frame set_keys_frame fold_closeOther_bus
        cancelTimeoutJob_frame close_attempts_frame)
  moreover have "\<forall>a \<in> set (attempts w). \<not> (a_tripId a = rq_tripId rq \<and> a_status a = driver_accepted \<and>
      a_driverId a \<noteq> d_id driver)"
    using others by (simp add: id(1) list_ex_iff)
  ultimately show ?thesis
    using driver trip t id by (intro exI [of _ driver] exI [of _ trip]) simp
qed

definition missed_world :: world where
  "missed_world = busy_world\<lparr>trips := [sample_trip ''t1''], redis_keys := Map.empty,
     attempts := [\<lparr>a_tripId = ''t1'', a_driverId = ''d1'', a_status = timed_out, a_notifiedAt = 0, a_respondedAt = Some 60000\<rparr>]\<rparr>"

theorem missed_request_acceptable_witness:
  "\<exists>w'. getPendingRequestForDriver 61000 ''u1'' missed_world = (Some (pending_request (sample_trip ''t1'') missed_world), w') \<and>
     DriverAssigned ''t1'' ''d1'' \<in> set (bus (handleDriverAccept 62000 ''t1'' ''d1'' w'))"
proof -
  obtain w' where got: "getPendingRequestForDriver 61000 ''u1'' missed_world =
      (Some (pending_request (sample_trip ''t1'') missed_world), w')"
    by (simp add: getPendingRequestForDriver_def missed_world_def busy_world_def sample_defs findDriverByUserId_def
        find_first_desc_def rearmable_def find_trip_def sample_trip_def)
  moreover have "findDriverByUserId ''u1'' missed_world = Some (sample_driver ''d1'' ''u1'')"
    by (simp add: missed_world_def busy_world_def sample_defs findDriverByUserId_def)
  ultimately show ?thesis
    using missed_request_acceptable [OF got, of 62000]
    by (auto simp: pending_request_def sample_trip_def sample_driver_def Let_def)
qed

end
