(* ===== verification/Distance_Provider.thy ===== *)
theory Distance_Provider
  imports Prisma_Schema
begin

text \<open>
  The distance providers (\<open>providers/distance/\<close>): the great-circle formula that the mock
  provider uses and that the Google provider falls back to, and the route loop both share.
  The display texts of a result are left out. \<open>distance_provider\<close> is the contract the
  pricing relies on; the mock provider interprets it.
\<close>

record DistanceMatrixResult =
  dm_origin :: GeoPoint
  dm_destination :: GeoPoint
  dm_distanceMeters :: real
  dm_durationSeconds :: real

definition toRad :: "real \<Rightarrow> real" where
  "toRad deg = deg * pi / 180"

definition haversine_h :: "GeoPoint \<Rightarrow> GeoPoint \<Rightarrow> real" where
  "haversine_h a b =
     (sin (toRad (lat b - lat a) / 2))\<^sup>2 +
     (sin (toRad (lng b - lng a) / 2))\<^sup>2 * cos (toRad (lat a)) * cos (toRad (lat b))"

definition haversine :: "GeoPoint \<Rightarrow> GeoPoint \<Rightarrow> real" where
  "haversine a b = Math_round (2 * 6371000 * arcsin (sqrt (haversine_h a b)))"

definition mock_getDistanceMatrix :: "GeoPoint \<Rightarrow> GeoPoint \<Rightarrow> DistanceMatrixResult" where
  "mock_getDistanceMatrix origin destination =
     (let distanceMeters = haversine origin destination;
          durationSeconds = Math_round (distanceMeters / 1000 / 30 * 3600)
      in \<lparr>dm_origin = origin, dm_destination = destination,
          dm_distanceMeters = distanceMeters, dm_durationSeconds = durationSeconds\<rparr>)"

definition getRouteDistance ::
  "(GeoPoint \<Rightarrow> GeoPoint \<Rightarrow> DistanceMatrixResult) \<Rightarrow> GeoPoint list \<Rightarrow>
   real \<times> real \<times> DistanceMatrixResult list" where
  "getRouteDistance matrix waypoints =
     foldl (\<lambda>(totalDistanceMeters, totalDurationSeconds, legs) i.
              let leg = matrix (waypoints ! i) (waypoints ! (i + 1))
              in (totalDistanceMeters + dm_distanceMeters leg,
                  totalDurationSeconds + dm_durationSeconds leg, legs @ [leg]))
       (0, 0, []) [0..<length waypoints - 1]"

definition in_range :: "GeoPoint \<Rightarrow> bool" where
  "in_range p \<longleftrightarrow> -90 \<le> lat p \<and> lat p \<le> 90 \<and> -180 \<le> lng p \<and> lng p \<le> 180"

section \<open>The formula stays in the domain of the arcsine\<close>

lemma cos_toRad_nonneg: "in_range p \<Longrightarrow> 0 \<le> cos (toRad (lat p))"
proof -
  assume "in_range p"
  then have "- 90 \<le> lat p" and "lat p \<le> 90" by (simp_all add: in_range_def)
  then have "pi * (- 90) \<le> pi * lat p" and "pi * lat p \<le> pi * 90"
    by (simp_all only: mult_left_mono pi_ge_zero)
  then show ?thesis by (intro cos_ge_zero) (simp_all add: toRad_def field_simps)
qed

lemma cos_times_le: "cos x * cos y \<le> (cos ((y - x) / 2))\<^sup>2" for x y :: real
proof -
  have "2 * (cos x * cos y) = cos (x - y) + cos (x + y)" by (simp add: cos_diff cos_add)
  also have "\<dots> \<le> cos (x - y) + 1" by simp
  also have "cos (x - y) = 2 * (cos ((y - x) / 2))\<^sup>2 - 1"
    using cos_double_cos [of "(y - x) / 2"] cos_minus [of "x - y"] by (simp add: diff_divide_distrib)
  finally show ?thesis by simp
qed

lemma haversine_h_range:
  assumes "in_range a" and "in_range b"
  shows "0 \<le> haversine_h a b \<and> haversine_h a b \<le> 1"
proof -
  let ?s = "(sin (toRad (lng b - lng a) / 2))\<^sup>2" and ?u = "toRad (lat b - lat a) / 2"
  let ?c = "cos (toRad (lat a)) * cos (toRad (lat b))"
  have c0: "0 \<le> ?c" using assms by (simp add: cos_toRad_nonneg)
  have "?u = (toRad (lat b) - toRad (lat a)) / 2" by (simp add: toRad_def field_simps)
  then have c1: "?c \<le> (cos ?u)\<^sup>2" using cos_times_le [of "toRad (lat a)" "toRad (lat b)"] by simp
  have "?s \<le> 1" using sin_squared_eq [of "toRad (lng b - lng a) / 2"] by simp
  then have "?s * ?c \<le> (cos ?u)\<^sup>2"
    using mult_mono [of ?s 1 ?c "(cos ?u)\<^sup>2"] c0 c1 by simp
  then have "haversine_h a b \<le> (sin ?u)\<^sup>2 + (cos ?u)\<^sup>2"
    unfolding haversine_h_def mult.assoc by (rule add_left_mono)
  moreover have "0 \<le> haversine_h a b" using c0 by (simp add: haversine_h_def mult.assoc)
  ultimately show ?thesis using sin_cos_squared_add [of ?u] by linarith
qed

lemma haversine_h_commute: "haversine_h a b = haversine_h b a"
proof -
  have neg: "toRad (x - y) / 2 = - (toRad (y - x) / 2)" for x y
    by (simp add: toRad_def field_simps)
  have "sin (toRad (lat b - lat a) / 2) = - sin (toRad (lat a - lat b) / 2)"
    and "sin (toRad (lng b - lng a) / 2) = - sin (toRad (lng a - lng b) / 2)"
    by (simp_all only: neg [of "lat b"] neg [of "lng b"] sin_minus)
  then show ?thesis by (simp add: haversine_h_def mult.commute mult.left_commute)
qed

lemma haversine_nonneg:
  assumes "in_range a" and "in_range b"
  shows "0 \<le> haversine a b"
proof -
  have "0 \<le> sqrt (haversine_h a b)" and "sqrt (haversine_h a b) \<le> 1"
    using haversine_h_range [OF assms] by simp_all
  then have "0 \<le> arcsin (sqrt (haversine_h a b))"
    using arcsin_le_arcsin [of 0 "sqrt (haversine_h a b)"] by simp
  then show ?thesis unfolding haversine_def by (intro Math_round_nonneg) simp
qed

lemma haversine_upper:
  assumes "in_range a" and "in_range b"
  shows "haversine a b \<le> 2 * 6371000 * (pi / 2) + 1 / 2"
proof -
  let ?q = "sqrt (haversine_h a b)"
  have "?q \<le> 1" and "0 \<le> ?q" using haversine_h_range [OF assms] by simp_all
  then have "-1 \<le> ?q" and "?q \<le> 1" by linarith+
  then have "arcsin ?q \<le> pi / 2" by (rule arcsin_ubound)
  then show ?thesis
    using Math_round_near [of "2 * 6371000 * arcsin (sqrt (haversine_h a b))"]
    unfolding haversine_def by linarith
qed

section \<open>The contract of a provider\<close>

locale distance_provider =
  fixes matrix :: "GeoPoint \<Rightarrow> GeoPoint \<Rightarrow> DistanceMatrixResult"
  assumes distance_nonneg: "in_range a \<Longrightarrow> in_range b \<Longrightarrow> 0 \<le> dm_distanceMeters (matrix a b)"
    and duration_nonneg: "in_range a \<Longrightarrow> in_range b \<Longrightarrow> 0 \<le> dm_durationSeconds (matrix a b)"
    and endpoints: "dm_origin (matrix a b) = a" "dm_destination (matrix a b) = b"
begin

text \<open>The loop of \<open>getRouteDistance\<close> up to the i-th leg.\<close>

lemma route_prefix:
  "foldl (\<lambda>(td, tt, legs) i. let leg = matrix (ws ! i) (ws ! (i + 1))
      in (td + dm_distanceMeters leg, tt + dm_durationSeconds leg, legs @ [leg])) (0, 0, []) [0..<n] =
   (let legs = map (\<lambda>i. matrix (ws ! i) (ws ! (i + 1))) [0..<n]
    in (sum_list (map dm_distanceMeters legs), sum_list (map dm_durationSeconds legs), legs))"
  by (induction n) (simp_all add: Let_def)

lemma route_totals:
  assumes "getRouteDistance matrix ws = (td, tt, legs)"
  shows "legs = map (\<lambda>i. matrix (ws ! i) (ws ! (i + 1))) [0..<length ws - 1]"
    and "td = sum_list (map dm_distanceMeters legs)" and "tt = sum_list (map dm_durationSeconds legs)"
  using assms unfolding getRouteDistance_def route_prefix by (auto simp: Let_def comp_def)

lemma route_connected:
  assumes "getRouteDistance matrix ws = (td, tt, legs)"
  shows "map dm_origin legs = butlast ws \<and> map dm_destination legs = tl ws"
proof -
  have "map dm_origin legs = map ((!) ws) [0..<length ws - 1]"
    by (simp add: route_totals [OF assms] endpoints comp_def)
  moreover have "map dm_destination legs = map (\<lambda>i. ws ! (i + 1)) [0..<length ws - 1]"
    by (simp add: route_totals [OF assms] endpoints comp_def)
  ultimately show ?thesis
    by (auto intro!: nth_equalityI simp: nth_butlast nth_tl)
qed

lemma route_nonneg:
  assumes "getRouteDistance matrix ws = (td, tt, legs)" and "\<forall>p \<in> set ws. in_range p"
  shows "0 \<le> td \<and> 0 \<le> tt"
proof -
  have "\<forall>leg \<in> set legs. 0 \<le> dm_distanceMeters leg \<and> 0 \<le> dm_durationSeconds leg"
    using assms(2) by (auto simp: route_totals [OF assms(1)] intro!: distance_nonneg duration_nonneg)
  then show ?thesis
    unfolding route_totals(2,3) [OF assms(1)] by (auto intro!: sum_list_nonneg)
qed

end

interpretation mock_distance: distance_provider mock_getDistanceMatrix
proof
  fix a b assume "in_range a" and "in_range b"
  then have "0 \<le> haversine a b" by (rule haversine_nonneg)
  then show "0 \<le> dm_distanceMeters (mock_getDistanceMatrix a b)"
    and "0 \<le> dm_durationSeconds (mock_getDistanceMatrix a b)"
    by (simp_all add: mock_getDistanceMatrix_def Let_def Math_round_nonneg)
qed (simp_all add: mock_getDistanceMatrix_def Let_def)

text \<open>
  The great-circle distance of the fallback formula is well behaved on valid coordinates:
  the argument of \<open>Math.sqrt\<close>/\<open>Math.asin\<close> stays in the unit interval (no NaN), the result is a
  whole number of metres between 0 and half the circumference of the Earth, 0 for equal points,
  and the same in both directions.
\<close>

theorem haversine_well_behaved:
  assumes "in_range a" and "in_range b"
  shows "0 \<le> haversine_h a b \<and> haversine_h a b \<le> 1 \<and> haversine a b \<in> \<int> \<and>
    0 \<le> haversine a b \<and> haversine a b \<le> 6371000 * pi + 1 / 2 \<and>
    haversine a a = 0 \<and> haversine a b = haversine b a"
  using haversine_h_range [OF assms] haversine_nonneg [OF assms] haversine_upper [OF assms]
    haversine_h_commute [of a b]
  by (simp add: haversine_def haversine_h_def [of a a] toRad_def)

theorem haversine_well_behaved_witness:
  "0 \<le> haversine \<lparr>lat = 12, lng = -8\<rparr> \<lparr>lat = 13, lng = -7\<rparr>"
  using haversine_well_behaved [of "\<lparr>lat = 12, lng = -8\<rparr>" "\<lparr>lat = 13, lng = -7\<rparr>"]
  by (simp add: in_range_def)

text \<open>
  A route is priced leg by leg: the legs go from each waypoint to the next, in order, and
  the totals are the sums over the legs, never negative on valid waypoints; fewer than two
  waypoints give an empty route with zero totals.
\<close>

theorem route_distance_sums_legs:
  assumes "getRouteDistance mock_getDistanceMatrix ws = (td, tt, legs)"
    and "\<forall>p \<in> set ws. in_range p"
  shows "map dm_origin legs = butlast ws \<and> map dm_destination legs = tl ws \<and>
    td = sum_list (map dm_distanceMeters legs) \<and> tt = sum_list (map dm_durationSeconds legs) \<and>
    0 \<le> td \<and> 0 \<le> tt"
  using mock_distance.route_connected [OF assms(1)] mock_distance.route_totals(2,3) [OF assms(1)]
    mock_distance.route_nonneg [OF assms] by simp

theorem route_distance_sums_legs_witness:
  "map dm_destination (snd (snd (getRouteDistance mock_getDistanceMatrix
     [\<lparr>lat = 12, lng = -8\<rparr>, \<lparr>lat = 13, lng = -7\<rparr>, \<lparr>lat = 12, lng = -8\<rparr>]))) =
   [\<lparr>lat = 13, lng = -7\<rparr>, \<lparr>lat = 12, lng = -8\<rparr>]"
proof -
  let ?ws = "[\<lparr>lat = 12, lng = -8\<rparr>, \<lparr>lat = 13, lng = -7\<rparr>, \<lparr>lat = 12, lng = -8\<rparr>] :: GeoPoint list"
  obtain td tt legs where r: "getRouteDistance mock_getDistanceMatrix ?ws = (td, tt, legs)"
    by (metis surj_pair)
  from route_distance_sums_legs [OF r] have "map dm_destination legs = tl ?ws"
    by (simp add: in_range_def)
  with r show ?thesis by simp
qed

end
