(* ===== verification/Pricing.thy ===== *)
theory Pricing
  imports Telima_World Distance_Provider
begin

text \<open>
  The fare pipeline (\<open>modules/pricing/\<close>): the rules, the engine that runs them by priority, the
  surge multiplier computed from zones and time ranges behind a one-minute cache, and the quote
  of \<open>PricingService\<close>. The locale \<open>pricing_rule\<close> is what the engine needs of a registered rule.
\<close>

record PricingContext =
  cx_serviceType :: ServiceType
  cx_vehicleTypeId :: id
  cx_baseFare :: real
  cx_pricePerKm :: real
  cx_pricePerMin :: real
  cx_commissionPercentage :: real
  cx_distanceMeters :: real
  cx_durationSeconds :: real
  cx_pickup :: GeoPoint
  cx_dropoff :: GeoPoint
  cx_requestedAt :: time
  cx_surgeMultiplier :: "real option"

record PricingBreakdown =
  b_baseFare :: real
  b_distanceCost :: real
  b_durationCost :: real
  b_surgeMultiplier :: real
  b_total :: real

record PricingResult =
  res_estimatedPrice :: real
  res_commissionAmount :: real
  res_distanceMeters :: real
  res_durationSeconds :: real
  res_breakdown :: PricingBreakdown

record PricingRule =
  rule_name :: string
  rule_priority :: int
  isApplicable :: "PricingContext \<Rightarrow> bool"
  apply_rule :: "PricingContext \<Rightarrow> PricingBreakdown \<Rightarrow> PricingBreakdown"

section \<open>The rules and the engine\<close>

definition BaseFareRule :: PricingRule where
  "BaseFareRule = \<lparr>rule_name = ''BaseFare'', rule_priority = 10,
     isApplicable = (\<lambda>_. True),
     apply_rule = (\<lambda>context currentBreakdown.
       let distanceKm = cx_distanceMeters context / 1000;
           durationMin = cx_durationSeconds context / 60;
           distanceCost = distanceKm * cx_pricePerKm context;
           durationCost = durationMin * cx_pricePerMin context;
           total = cx_baseFare context + distanceCost + durationCost
       in \<lparr>b_baseFare = cx_baseFare context, b_distanceCost = distanceCost,
           b_durationCost = durationCost, b_surgeMultiplier = b_surgeMultiplier currentBreakdown,
           b_total = Math_round total\<rparr>)\<rparr>"

definition SurgeMultiplierRule :: PricingRule where
  "SurgeMultiplierRule = \<lparr>rule_name = ''SurgeMultiplier'', rule_priority = 20,
     isApplicable = (\<lambda>context. nullish (cx_surgeMultiplier context) 1 \<noteq> 1),
     apply_rule = (\<lambda>context currentBreakdown.
       let surge = nullish (cx_surgeMultiplier context) 1
       in currentBreakdown\<lparr>b_surgeMultiplier := surge,
            b_total := Math_round (b_total currentBreakdown * surge)\<rparr>)\<rparr>"

text \<open>\<open>registerRule\<close> pushes and re-sorts (JavaScript's sort is stable); the constructor registers two.\<close>

definition registerRule :: "PricingRule \<Rightarrow> PricingRule list \<Rightarrow> PricingRule list" where
  "registerRule rule rules = sort_key rule_priority (rules @ [rule])"

definition engine_rules :: "PricingRule list" where
  "engine_rules = registerRule SurgeMultiplierRule (registerRule BaseFareRule [])"

definition initialBreakdown :: PricingBreakdown where
  "initialBreakdown = \<lparr>b_baseFare = 0, b_distanceCost = 0, b_durationCost = 0, b_surgeMultiplier = 1, b_total = 0\<rparr>"

definition rule_step :: "PricingRule \<Rightarrow> PricingContext \<Rightarrow> PricingBreakdown \<Rightarrow> PricingBreakdown" where
  "rule_step rule context breakdown =
     (if isApplicable rule context then apply_rule rule context breakdown else breakdown)"

definition run_rules :: "PricingRule list \<Rightarrow> PricingContext \<Rightarrow> PricingBreakdown \<Rightarrow> PricingBreakdown" where
  "run_rules rules context b =
     foldl (\<lambda>breakdown rule. rule_step rule context breakdown) b rules"

definition calculate :: "PricingRule list \<Rightarrow> PricingContext \<Rightarrow> PricingResult" where
  "calculate rules context =
     (let breakdown = run_rules rules context initialBreakdown;
          commissionAmount = Math_round (b_total breakdown * (cx_commissionPercentage context / 100))
      in \<lparr>res_estimatedPrice = b_total breakdown, res_commissionAmount = commissionAmount,
          res_distanceMeters = cx_distanceMeters context, res_durationSeconds = cx_durationSeconds context,
          res_breakdown = breakdown\<rparr>)"

section \<open>Surge from zones and rules\<close>

definition PRICING_CACHE_TTL_MS :: int where "PRICING_CACHE_TTL_MS = 60000"

definition loadData :: "time \<Rightarrow> world \<Rightarrow> (ZoneEntry list \<times> RuleEntry list) \<times> world" where
  "loadData now w =
     (let load = \<lparr>pc_zones = map (\<lambda>z. \<lparr>ze_id = z_id z, ze_centerLat = z_centerLat z, ze_centerLng = z_centerLng z,
                                    ze_radiusKm = z_radiusKm z, ze_surgeMultiplier = z_surgeMultiplier z\<rparr>)
                            (filter z_isActive (serviceZones w)),
                   pc_rules = map (\<lambda>r. \<lparr>re_serviceType = pr_serviceType r, re_vehicleTypeId = pr_vehicleTypeId r,
                                    re_zoneId = pr_zoneId r, re_condition = pr_condition r, re_modifier = pr_modifier r\<rparr>)
                            (sort_key pr_priority (filter pr_isActive (pricingRules w))),
                   pc_loadedAt = now\<rparr>;
          fresh = ((pc_zones load, pc_rules load), w\<lparr>pricingCache := Some load\<rparr>)
      in case pricingCache w of
           None \<Rightarrow> fresh
         | Some c \<Rightarrow> if now - pc_loadedAt c < PRICING_CACHE_TTL_MS then ((pc_zones c, pc_rules c), w) else fresh)"

definition invalidateCache :: "world \<Rightarrow> world" where
  "invalidateCache w = w\<lparr>pricingCache := None\<rparr>"

text \<open>\<open>const [h, m] = s.split(':').map(Number)\<close>, then \<open>h * 60 + m\<close>; a missing part is \<open>NaN\<close>.\<close>

definition minutes_of :: "string \<Rightarrow> int option" where
  "minutes_of s =
     (case map js_Number (js_split (CHR '':'') s) of
        Some h # Some m # _ \<Rightarrow> Some (h * 60 + m)
      | _ \<Rightarrow> None)"

text \<open>\<open>getHours() * 60 + getMinutes()\<close>; \<open>tz\<close> is the offset of the server's local time.\<close>

definition minute_of_day :: "(time \<Rightarrow> int) \<Rightarrow> time \<Rightarrow> int" where
  "minute_of_day tz stamp =
     (let local = stamp + tz stamp; hh = (local div 3600000) mod 24; mm = (local div 60000) mod 60
      in hh * 60 + mm)"

definition isConditionMatched ::
  "(time \<Rightarrow> int) \<Rightarrow> DynamicCondition \<Rightarrow> PricingContext \<Rightarrow> id option \<Rightarrow> bool" where
  "isConditionMatched tz condition context matchedZoneId =
     (case condition of
        JNoCondition \<Rightarrow> False
      | JZone zoneId \<Rightarrow> zoneId \<noteq> None \<and> zoneId = matchedZoneId
      | JTimeRange from to \<Rightarrow>
          if \<not> truthy from \<or> \<not> truthy to then False
          else (let now = minute_of_day tz (cx_requestedAt context)
                in case (minutes_of (the from), minutes_of (the to)) of
                     (Some f, Some t) \<Rightarrow> f \<le> now \<and> now < t
                   | _ \<Rightarrow> False)
      | JOtherType _ \<Rightarrow> False)"

text \<open>Outside the unit interval \<open>Math.asin(Math.sqrt(a))\<close> is \<open>NaN\<close> and the comparison is false.\<close>

definition isWithinRadius :: "real \<Rightarrow> real \<Rightarrow> ZoneEntry \<Rightarrow> bool" where
  "isWithinRadius lt lg zone =
     (let dLat = toRad (ze_centerLat zone - lt);
          dLng = toRad (ze_centerLng zone - lg);
          a = (sin (dLat / 2))\<^sup>2 + cos (toRad lt) * cos (toRad (ze_centerLat zone)) * (sin (dLng / 2))\<^sup>2;
          distance = 2 * 6371 * arcsin (sqrt a)
      in 0 \<le> a \<and> a \<le> 1 \<and> distance \<le> ze_radiusKm zone)"

definition rule_matches :: "(time \<Rightarrow> int) \<Rightarrow> PricingContext \<Rightarrow> id option \<Rightarrow> RuleEntry \<Rightarrow> bool" where
  "rule_matches tz context zoneId rule \<longleftrightarrow>
     (case re_serviceType rule of None \<Rightarrow> True | Some s \<Rightarrow> s = cx_serviceType context) \<and>
     (\<not> truthy (re_vehicleTypeId rule) \<or> re_vehicleTypeId rule = Some (cx_vehicleTypeId context)) \<and>
     isConditionMatched tz (re_condition rule) context zoneId"

definition getSurgeMultiplier ::
  "(time \<Rightarrow> int) \<Rightarrow> time \<Rightarrow> PricingContext \<Rightarrow> world \<Rightarrow> real \<times> world" where
  "getSurgeMultiplier tz now context w =
     (case loadData now w of
        ((zones, rules), w') \<Rightarrow>
          (let containingZone = find (isWithinRadius (lat (cx_pickup context)) (lng (cx_pickup context))) zones;
               start = (case containingZone of None \<Rightarrow> 1 | Some z \<Rightarrow> 1 * ze_surgeMultiplier z);
               multiplier = foldl (\<lambda>m rule. if rule_matches tz context (map_option ze_id containingZone) rule
                                            then m * re_modifier rule else m) start rules
           in (Math_round (multiplier * 100) / 100, w')))"

section \<open>The quote\<close>

record PriceQuoteInput =
  q_serviceType :: ServiceType
  q_vehicleTypeId :: id
  q_pickup :: GeoPoint
  q_dropoff :: GeoPoint

definition pricing_context :: "PriceQuoteInput \<Rightarrow> VehicleType \<Rightarrow> DistanceMatrixResult \<Rightarrow> time \<Rightarrow> PricingContext" where
  "pricing_context input vt m now =
     \<lparr>cx_serviceType = q_serviceType input, cx_vehicleTypeId = q_vehicleTypeId input,
      cx_baseFare = vt_baseFare vt, cx_pricePerKm = vt_pricePerKm vt, cx_pricePerMin = vt_pricePerMin vt,
      cx_commissionPercentage = vt_commissionPercentage vt,
      cx_distanceMeters = dm_distanceMeters m, cx_durationSeconds = dm_durationSeconds m,
      cx_pickup = q_pickup input, cx_dropoff = q_dropoff input,
      cx_requestedAt = now, cx_surgeMultiplier = None\<rparr>"

definition calculatePrice ::
  "(GeoPoint \<Rightarrow> GeoPoint \<Rightarrow> DistanceMatrixResult) \<Rightarrow> (time \<Rightarrow> int) \<Rightarrow> time \<Rightarrow> PriceQuoteInput \<Rightarrow> world \<Rightarrow>
   (PricingResult, world) outcome" where
  "calculatePrice matrix tz now input w =
     (case find (\<lambda>vt. vt_id vt = q_vehicleTypeId input \<and> vt_isActive vt \<and> vt_serviceType vt = q_serviceType input)
             (vehicleTypes w) of
        None \<Rightarrow> throw (NotFoundException (''Type de vehicule introuvable ou inactif: '' @ q_vehicleTypeId input)) w
      | Some vehicleType \<Rightarrow>
          (let distanceResult = matrix (q_pickup input) (q_dropoff input);
               context = pricing_context input vehicleType distanceResult now
           in case getSurgeMultiplier tz now context w of
                (surge, w') \<Rightarrow>
                  return ((calculate engine_rules (context\<lparr>cx_surgeMultiplier := Some surge\<rparr>))
                            \<lparr>res_distanceMeters := dm_distanceMeters distanceResult,
                             res_durationSeconds := dm_durationSeconds distanceResult\<rparr>) w'))"

section \<open>The contract of a rule\<close>

text \<open>A context whose amounts are not negative, and the order of two such contexts by trip length.\<close>

definition fair_context :: "PricingContext \<Rightarrow> bool" where
  "fair_context cx \<longleftrightarrow> 0 \<le> cx_baseFare cx \<and> 0 \<le> cx_pricePerKm cx \<and> 0 \<le> cx_pricePerMin cx \<and>
     0 \<le> cx_distanceMeters cx \<and> 0 \<le> cx_durationSeconds cx \<and> 0 \<le> nullish (cx_surgeMultiplier cx) 1"

definition longer_trip :: "PricingContext \<Rightarrow> PricingContext \<Rightarrow> bool" where
  "longer_trip cx cx' \<longleftrightarrow>
     (\<exists>m s. cx' = cx\<lparr>cx_distanceMeters := m, cx_durationSeconds := s\<rparr> \<and>
            cx_distanceMeters cx \<le> m \<and> cx_durationSeconds cx \<le> s)"

locale pricing_rule =
  fixes rule :: PricingRule
  assumes total_whole: "b_total b \<in> \<int> \<Longrightarrow> b_total (apply_rule rule cx b) \<in> \<int>"
    and total_nonneg: "fair_context cx \<Longrightarrow> 0 \<le> b_total b \<Longrightarrow> 0 \<le> b_total (apply_rule rule cx b)"
    and total_mono: "fair_context cx \<Longrightarrow> longer_trip cx cx' \<Longrightarrow> b_total b \<le> b_total b' \<Longrightarrow> 0 \<le> b_total b \<Longrightarrow>
      b_total (apply_rule rule cx b) \<le> b_total (apply_rule rule cx' b')"
    and applicable_longer: "longer_trip cx cx' \<Longrightarrow> isApplicable rule cx' = isApplicable rule cx"
begin

lemma step_whole: "b_total b \<in> \<int> \<Longrightarrow> b_total (rule_step rule cx b) \<in> \<int>"
  by (simp add: rule_step_def total_whole)

lemma step_nonneg: "fair_context cx \<Longrightarrow> 0 \<le> b_total b \<Longrightarrow> 0 \<le> b_total (rule_step rule cx b)"
  by (simp add: rule_step_def total_nonneg)

lemma step_mono:
  "fair_context cx \<Longrightarrow> longer_trip cx cx' \<Longrightarrow> b_total b \<le> b_total b' \<Longrightarrow> 0 \<le> b_total b \<Longrightarrow>
   b_total (rule_step rule cx b) \<le> b_total (rule_step rule cx' b')"
  by (simp add: rule_step_def total_mono applicable_longer)

end

lemma longer_trip_simps [simp]:
  assumes "longer_trip cx cx'"
  shows "cx_baseFare cx' = cx_baseFare cx" "cx_pricePerKm cx' = cx_pricePerKm cx"
    "cx_pricePerMin cx' = cx_pricePerMin cx" "cx_surgeMultiplier cx' = cx_surgeMultiplier cx"
    "cx_commissionPercentage cx' = cx_commissionPercentage cx"
    "cx_distanceMeters cx \<le> cx_distanceMeters cx'" "cx_durationSeconds cx \<le> cx_durationSeconds cx'"
  using assms by (auto simp: longer_trip_def)

interpretation base_fare: pricing_rule BaseFareRule
proof
  fix cx cx' and b b' :: PricingBreakdown
  assume "fair_context cx" and l: "longer_trip cx cx'"
  then show "b_total (apply_rule BaseFareRule cx b) \<le> b_total (apply_rule BaseFareRule cx' b')"
    by (auto simp: BaseFareRule_def Let_def fair_context_def intro!: Math_round_mono add_mono mult_right_mono
        divide_right_mono)
qed (auto simp: BaseFareRule_def Let_def fair_context_def intro!: Math_round_nonneg)

interpretation surge: pricing_rule SurgeMultiplierRule
proof
  fix cx cx' and b b' :: PricingBreakdown
  assume "fair_context cx" and l: "longer_trip cx cx'" and "b_total b \<le> b_total b'" and "0 \<le> b_total b"
  then show "b_total (apply_rule SurgeMultiplierRule cx b) \<le> b_total (apply_rule SurgeMultiplierRule cx' b')"
    by (auto simp: SurgeMultiplierRule_def Let_def fair_context_def intro!: Math_round_mono mult_right_mono)
qed (auto simp: SurgeMultiplierRule_def Let_def fair_context_def intro!: Math_round_nonneg)

section \<open>Any set of registered rules\<close>

lemma run_rules_simps [simp]:
  "run_rules [] cx b = b"
  "run_rules (r # rs) cx b = run_rules rs cx (rule_step r cx b)"
  by (simp_all add: run_rules_def)

lemma run_rules_whole:
  "\<forall>r \<in> set rs. pricing_rule r \<Longrightarrow> b_total b \<in> \<int> \<Longrightarrow> b_total (run_rules rs cx b) \<in> \<int>"
  by (induction rs arbitrary: b) (auto simp: pricing_rule.step_whole)

lemma run_rules_nonneg:
  "\<forall>r \<in> set rs. pricing_rule r \<Longrightarrow> fair_context cx \<Longrightarrow> 0 \<le> b_total b \<Longrightarrow> 0 \<le> b_total (run_rules rs cx b)"
  by (induction rs arbitrary: b) (auto simp: pricing_rule.step_nonneg)

lemma run_rules_mono:
  assumes "\<forall>r \<in> set rs. pricing_rule r" and "fair_context cx" and "longer_trip cx cx'"
    and "b_total b \<le> b_total b'" and "0 \<le> b_total b"
  shows "b_total (run_rules rs cx b) \<le> b_total (run_rules rs cx' b')"
  using assms
proof (induction rs arbitrary: b b')
  case Nil
  then show ?case by simp
next
  case (Cons r rs)
  then have "pricing_rule r" by simp
  with Cons.prems have "b_total (rule_step r cx b) \<le> b_total (rule_step r cx' b')"
    and "0 \<le> b_total (rule_step r cx b)"
    by (simp_all add: pricing_rule.step_mono pricing_rule.step_nonneg)
  with Cons show ?case by simp
qed

lemma set_registerRule [simp]: "set (registerRule r rs) = insert r (set rs)"
  by (auto simp: registerRule_def)

lemma registerRule_sorted: "sorted (map rule_priority (registerRule r rs))"
  by (simp add: registerRule_def)

lemma engine_rules_eq: "engine_rules = [BaseFareRule, SurgeMultiplierRule]"
  by (simp add: engine_rules_def registerRule_def BaseFareRule_def SurgeMultiplierRule_def)

lemma engine_rules_contract: "\<forall>r \<in> set engine_rules. pricing_rule r"
  by (simp add: engine_rules_eq base_fare.pricing_rule_axioms surge.pricing_rule_axioms)

text \<open>
  C13. Any set of registered rules that keep the contract gives a whole price that is never
  negative, a whole commission between zero and the price for a percentage between 0 and 100,
  and a price that does not fall when the trip gets longer in distance and duration.
\<close>

theorem engine_prices_sound:
  assumes "\<forall>r \<in> set rules. pricing_rule r" and "fair_context cx" and "longer_trip cx cx'"
    and "0 \<le> cx_commissionPercentage cx" and "cx_commissionPercentage cx \<le> 100"
  shows "res_estimatedPrice (calculate rules cx) \<in> \<int> \<and> 0 \<le> res_commissionAmount (calculate rules cx) \<and>
    res_commissionAmount (calculate rules cx) \<in> \<int> \<and>
    res_commissionAmount (calculate rules cx) \<le> res_estimatedPrice (calculate rules cx) \<and>
    res_estimatedPrice (calculate rules cx) \<le> res_estimatedPrice (calculate rules cx')"
proof -
  let ?t = "b_total (run_rules rules cx initialBreakdown)"
  have whole: "?t \<in> \<int>" and pos: "0 \<le> ?t"
    using run_rules_whole [OF assms(1)] run_rules_nonneg [OF assms(1,2)] by (simp_all add: initialBreakdown_def)
  have "?t * (cx_commissionPercentage cx / 100) \<le> ?t * 1"
    using pos assms(5) by (intro mult_left_mono) simp_all
  then have "Math_round (?t * (cx_commissionPercentage cx / 100)) \<le> ?t"
    using whole by (intro Math_round_le_Ints) simp_all
  moreover have "?t \<le> b_total (run_rules rules cx' initialBreakdown)"
    by (rule run_rules_mono [OF assms(1-3)]) (simp_all add: initialBreakdown_def)
  ultimately show ?thesis
    using whole pos assms(4) by (simp add: calculate_def Let_def Math_round_nonneg)
qed

definition sample_context :: PricingContext where
  "sample_context = \<lparr>cx_serviceType = ride, cx_vehicleTypeId = ''moto'', cx_baseFare = 200,
     cx_pricePerKm = 150, cx_pricePerMin = 25, cx_commissionPercentage = 15, cx_distanceMeters = 3000,
     cx_durationSeconds = 600, cx_pickup = \<lparr>lat = 12, lng = -8\<rparr>, cx_dropoff = \<lparr>lat = 13, lng = -8\<rparr>,
     cx_requestedAt = 0, cx_surgeMultiplier = Some (3 / 2)\<rparr>"

theorem engine_prices_sound_witness:
  "res_commissionAmount (calculate engine_rules sample_context) \<le>
     res_estimatedPrice (calculate engine_rules sample_context)"
proof -
  have "fair_context sample_context" and "longer_trip sample_context sample_context"
    by (simp_all add: fair_context_def longer_trip_def sample_context_def)
  from engine_prices_sound [OF engine_rules_contract this] show ?thesis
    by (simp add: sample_context_def)
qed

lemma fold_registerRule:
  "set (fold registerRule rs acc) = set rs \<union> set acc \<and> length (fold registerRule rs acc) = length rs + length acc"
  by (induction rs arbitrary: acc) (auto simp: registerRule_def)

lemma fold_registerRule_sorted:
  "sorted (map rule_priority acc) \<Longrightarrow> sorted (map rule_priority (fold registerRule rs acc))"
  by (induction rs arbitrary: acc) (auto simp: registerRule_sorted)

text \<open>
  The order in which rules are registered does not matter: two registrations of the same
  rules with distinct priorities leave the same pipeline, in ascending priority, and so the
  same result for every context.
\<close>

theorem registration_order_irrelevant:
  assumes "distinct (map rule_priority rs)" and "distinct (map rule_priority rs')" and "set rs = set rs'"
  shows "sorted (map rule_priority (fold registerRule rs [])) \<and>
    calculate (fold registerRule rs []) cx = calculate (fold registerRule rs' []) cx"
proof -
  have dist: "distinct (map rule_priority (fold registerRule xs []))"
    if d: "distinct (map rule_priority xs)" for xs
  proof -
    have "card (set (map rule_priority (fold registerRule xs []))) = length (fold registerRule xs [])"
      using fold_registerRule [of xs "[]"] distinct_card [OF d] by simp
    then show ?thesis by (intro card_distinct) simp
  qed
  have "map rule_priority (fold registerRule rs []) = map rule_priority (fold registerRule rs' [])"
    using assms fold_registerRule [of rs "[]"] fold_registerRule [of rs' "[]"]
    by (intro sorted_distinct_set_unique fold_registerRule_sorted dist) simp_all
  moreover have "inj_on rule_priority (set (fold registerRule rs []) \<union> set (fold registerRule rs' []))"
    using assms(1,3) fold_registerRule [of rs "[]"] fold_registerRule [of rs' "[]"]
    by (simp add: distinct_map)
  ultimately have "fold registerRule rs [] = fold registerRule rs' []" by (rule map_inj_on)
  moreover have "sorted (map rule_priority (fold registerRule rs []))" by (rule fold_registerRule_sorted) simp
  ultimately show ?thesis by simp
qed

theorem registration_order_irrelevant_witness:
  "calculate (fold registerRule [SurgeMultiplierRule, BaseFareRule] []) sample_context =
   calculate (fold registerRule [BaseFareRule, SurgeMultiplierRule] []) sample_context"
  using registration_order_irrelevant [of "[SurgeMultiplierRule, BaseFareRule]" "[BaseFareRule, SurgeMultiplierRule]"]
  by (auto simp: BaseFareRule_def SurgeMultiplierRule_def)

section \<open>Zones and time ranges\<close>

text \<open>
  A time range applies from its first minute to just before its last one, on the server's
  clock. So a range that crosses midnight never applies at all, at any time of any day.
\<close>

theorem night_range_never_applies:
  assumes "minutes_of from = Some f" and "minutes_of to = Some t" and "from \<noteq> []" and "to \<noteq> []"
  shows "isConditionMatched tz (JTimeRange (Some from) (Some to)) cx zone =
      (f \<le> minute_of_day tz (cx_requestedAt cx) \<and> minute_of_day tz (cx_requestedAt cx) < t) \<and>
    0 \<le> minute_of_day tz (cx_requestedAt cx) \<and> minute_of_day tz (cx_requestedAt cx) < 1440 \<and>
    (t \<le> f \<longrightarrow> \<not> isConditionMatched tz (JTimeRange (Some from) (Some to)) cx zone)"
proof -
  let ?l = "cx_requestedAt cx + tz (cx_requestedAt cx)"
  have "0 \<le> (?l div 3600000) mod 24" "(?l div 3600000) mod 24 < 24"
    "0 \<le> (?l div 60000) mod 60" "(?l div 60000) mod 60 < 60" by simp_all
  then have "0 \<le> minute_of_day tz (cx_requestedAt cx)" "minute_of_day tz (cx_requestedAt cx) < 1440"
    unfolding minute_of_day_def Let_def by linarith+
  with assms show ?thesis by (auto simp: isConditionMatched_def Let_def)
qed

lemma minutes_of_samples:
  "minutes_of ''22:00'' = Some 1320" "minutes_of ''06:30'' = Some 390" "minutes_of ''22'' = None"
  by (simp_all add: minutes_of_def js_Number_def js_trim_def is_space_def is_digit_def digits_value_def)

theorem night_range_never_applies_witness:
  "\<not> isConditionMatched (\<lambda>_. 0) (JTimeRange (Some ''22:00'') (Some ''06:30'')) sample_context None"
  using night_range_never_applies [OF minutes_of_samples(1,2), of "\<lambda>_. 0" sample_context None] by simp

lemma loadData_frame [world_simps]:
  "trips (snd (loadData now w)) = trips w" "drivers (snd (loadData now w)) = drivers w"
  "attempts (snd (loadData now w)) = attempts w" "bus (snd (loadData now w)) = bus w"
  "redis_keys (snd (loadData now w)) = redis_keys w" "jobs (snd (loadData now w)) = jobs w"
  "payments (snd (loadData now w)) = payments w" "users (snd (loadData now w)) = users w"
  "sent (snd (loadData now w)) = sent w" "vehicleTypes (snd (loadData now w)) = vehicleTypes w"
  by (simp_all add: loadData_def Let_def split: option.splits)

definition active_zones :: "world \<Rightarrow> ZoneEntry list" where
  "active_zones w = fst (fst (loadData 0 (invalidateCache w)))"

definition active_rules :: "world \<Rightarrow> RuleEntry list" where
  "active_rules w = snd (fst (loadData 0 (invalidateCache w)))"

lemma loadData_uncached:
  "fst (loadData now (invalidateCache w)) = (active_zones w, active_rules w)"
  by (simp add: active_zones_def active_rules_def loadData_def invalidateCache_def Let_def)

lemma surge_fold:
  "foldl (\<lambda>m r. if p r then m * g r else m) (x :: real) rs = x * prod_list (map g (filter p rs))"
  by (induction rs arbitrary: x) simp_all

lemma prod_list_map_nonneg: "\<forall>x \<in> set xs. 0 \<le> g x \<Longrightarrow> 0 \<le> prod_list (map g xs)" for g :: "'a \<Rightarrow> real"
  by (induction xs) simp_all

text \<open>
  The surge factor right after an administrator's change (every change empties the cache):
  it is the product of the surge of the first active zone around the pickup point and of the
  modifiers of all active rules that apply, rounded to two decimals, and is not negative when
  these are not.
\<close>

theorem surge_is_rounded_product:
  assumes "getSurgeMultiplier tz now cx (invalidateCache w) = (surge, w')"
    and "\<forall>z \<in> set (active_zones w). 0 \<le> ze_surgeMultiplier z"
    and "\<forall>r \<in> set (active_rules w). 0 \<le> re_modifier r"
  shows "let zone = find (isWithinRadius (lat (cx_pickup cx)) (lng (cx_pickup cx))) (active_zones w);
             factor = (case zone of None \<Rightarrow> 1 | Some z \<Rightarrow> ze_surgeMultiplier z) *
               prod_list (map re_modifier (filter (rule_matches tz cx (map_option ze_id zone)) (active_rules w)))
         in surge = Math_round (factor * 100) / 100 \<and> \<bar>surge - factor\<bar> \<le> 1 / 200 \<and> 0 \<le> surge"
proof -
  let ?zone = "find (isWithinRadius (lat (cx_pickup cx)) (lng (cx_pickup cx))) (active_zones w)"
  let ?mods = "map re_modifier (filter (rule_matches tz cx (map_option ze_id ?zone)) (active_rules w))"
  let ?factor = "(case ?zone of None \<Rightarrow> 1 | Some z \<Rightarrow> ze_surgeMultiplier z) * prod_list ?mods"
  have surge: "surge = Math_round (?factor * 100) / 100"
    using assms(1) loadData_uncached [of now w]
    by (cases "loadData now (invalidateCache w)")
      (simp add: getSurgeMultiplier_def Let_def surge_fold split: option.splits)
  have "0 \<le> (case ?zone of None \<Rightarrow> 1 | Some z \<Rightarrow> ze_surgeMultiplier z)"
    using assms(2) by (auto split: option.splits dest: find_SomeD)
  moreover have "0 \<le> prod_list ?mods"
    using assms(3) by (intro prod_list_map_nonneg) simp
  ultimately have "0 \<le> surge" by (simp add: surge Math_round_nonneg)
  moreover have "\<bar>surge - ?factor\<bar> \<le> 1 / 200"
    using Math_round_near [of "?factor * 100"] unfolding surge by (simp add: abs_le_iff field_simps)
  ultimately show ?thesis unfolding Let_def using surge by blast
qed

definition rush_hour :: PricingRuleRow where
  "rush_hour = \<lparr>pr_id = ''r1'', pr_name = ''rush hour'', pr_serviceType = Some ride, pr_vehicleTypeId = None, pr_zoneId = None,
     pr_condition = JTimeRange (Some ''22:00'') (Some ''23:30''), pr_modifier = 2, pr_priority = 100,
     pr_isActive = True\<rparr>"

theorem surge_is_rounded_product_witness:
  "fst (getSurgeMultiplier (\<lambda>_. 79200000) 0 sample_context
     (invalidateCache (empty_world\<lparr>pricingRules := [rush_hour]\<rparr>))) = 2"
proof -
  let ?w = "empty_world\<lparr>pricingRules := [rush_hour]\<rparr>"
  have z: "active_zones ?w = []" and r: "map re_modifier (active_rules ?w) = [2]"
    and f: "filter (rule_matches (\<lambda>_. 79200000) sample_context None) (active_rules ?w) = active_rules ?w"
    by (simp_all add: active_zones_def active_rules_def loadData_def invalidateCache_def rush_hour_def
        empty_world_def rule_matches_def isConditionMatched_def minutes_of_def js_Number_def js_trim_def
        is_space_def is_digit_def digits_value_def minute_of_day_def sample_context_def)
  have m: "re_modifier x = 2" if "x \<in> set (active_rules ?w)" for x
    using arg_cong [OF r, of set] that by auto
  obtain surge w' where s: "getSurgeMultiplier (\<lambda>_. 79200000) 0 sample_context (invalidateCache ?w) = (surge, w')"
    by (metis surj_pair)
  have "surge = 2"
    using surge_is_rounded_product [OF s] Math_round_of_int [of 200] by (simp add: z r f m Let_def)
  with s show ?thesis by simp
qed

section \<open>The quote\<close>

lemma two_step_round:
  "res_estimatedPrice (calculate engine_rules cx) =
     Math_round (Math_round (cx_baseFare cx + cx_distanceMeters cx / 1000 * cx_pricePerKm cx +
        cx_durationSeconds cx / 60 * cx_pricePerMin cx) * nullish (cx_surgeMultiplier cx) 1)"
  by (simp add: calculate_def engine_rules_eq rule_step_def BaseFareRule_def SurgeMultiplierRule_def
      Let_def Math_round_id)

text \<open>
  C12. What a quote answers: 404 when no active vehicle type has that id and service, and
  otherwise the fare of that type for the provider's distance and duration: base plus kilometres
  plus minutes, rounded, times the surge factor of that moment, rounded again, with the rounded
  commission share; the distance and duration are the provider's.
\<close>

theorem quote_formula:
  "case find (\<lambda>vt. vt_id vt = q_vehicleTypeId input \<and> vt_isActive vt \<and> vt_serviceType vt = q_serviceType input)
          (vehicleTypes w) of
     None \<Rightarrow> map_sum http_status id (fst (calculatePrice matrix tz now input w)) = Inl 404
   | Some vt \<Rightarrow>
       (let m = matrix (q_pickup input) (q_dropoff input);
            surge = fst (getSurgeMultiplier tz now (pricing_context input vt m now) w);
            price = Math_round (Math_round (vt_baseFare vt + dm_distanceMeters m / 1000 * vt_pricePerKm vt +
              dm_durationSeconds m / 60 * vt_pricePerMin vt) * surge)
        in \<exists>r. fst (calculatePrice matrix tz now input w) = Inr r \<and>
             res_estimatedPrice r = price \<and>
             res_commissionAmount r = Math_round (price * (vt_commissionPercentage vt / 100)) \<and>
             res_distanceMeters r = dm_distanceMeters m \<and> res_durationSeconds r = dm_durationSeconds m)"
proof (cases "find (\<lambda>vt. vt_id vt = q_vehicleTypeId input \<and> vt_isActive vt \<and>
    vt_serviceType vt = q_serviceType input) (vehicleTypes w)")
  case None
  then show ?thesis by (simp add: calculatePrice_def)
next
  case (Some vt)
  let ?m = "matrix (q_pickup input) (q_dropoff input)"
  obtain surge w' where s: "getSurgeMultiplier tz now (pricing_context input vt ?m now) w = (surge, w')"
    by (metis surj_pair)
  let ?cx = "(pricing_context input vt ?m now)\<lparr>cx_surgeMultiplier := Some surge\<rparr>"
  have "res_commissionAmount (calculate engine_rules ?cx) =
      Math_round (res_estimatedPrice (calculate engine_rules ?cx) * (vt_commissionPercentage vt / 100))"
    by (simp add: calculate_def Let_def pricing_context_def)
  with Some s show ?thesis
    by (simp add: calculatePrice_def Let_def two_step_round pricing_context_def)
qed

text \<open>
  The surge settings of a service are not consulted: whatever the \<open>ServiceConfig\<close> table
  and its cache say of \<open>surgeEnabled\<close> and \<open>maxSurgeMultiplier\<close>, the quote is the same.
\<close>

theorem quote_ignores_surge_settings:
  "fst (calculatePrice matrix tz now input (w\<lparr>serviceConfigs := rows, configCache := cache\<rparr>)) =
   fst (calculatePrice matrix tz now input w)"
  by (simp add: calculatePrice_def getSurgeMultiplier_def loadData_def Let_def throw_def return_def
      split: option.splits)

end
