(* ===== verification/Trips.thy ===== *)
theory Trips
  imports Trip_Repository Dispatch_Recovery Pricing
begin

text \<open>
  \<open>TripsService\<close> and the listeners of \<open>trip-event.handler.ts\<close>: creation of a trip, the status
  changes with their guards, what is broadcast for each of them, payment, rating, delivery
  confirmation and the emergency alert. A request is one step on the world: its guards are read
  and its writes made at one moment \<open>now\<close>.
\<close>

record CreateTripDto =
  ct_serviceType :: ServiceType
  ct_vehicleTypeId :: id
  ct_pickup :: GeoPoint
  ct_pickupAddress :: string
  ct_dropoff :: GeoPoint
  ct_dropoffAddress :: string
  ct_recipientName :: "string option"
  ct_recipientPhone :: "string option"
  ct_parcelDescription :: "string option"
  ct_parcelWeightKg :: "real option"
  ct_parcelDimensions :: "string option"
  ct_isFragile :: "bool option"
  ct_passengerCount :: "int option"
  ct_notes :: "string option"

record UpdateTripStatusDto =
  us_status :: TripStatus
  us_cancelReason :: "string option"

section \<open>Creation and reading\<close>

definition getTrip :: "id \<Rightarrow> world \<Rightarrow> (Trip, world) outcome" where
  "getTrip tripId w =
     (case findById tripId w of
        None \<Rightarrow> throw (NotFoundException ''Course introuvable'') w
      | Some trip \<Rightarrow> return trip w)"

definition serviceDetails :: "id \<Rightarrow> CreateTripDto \<Rightarrow> world \<Rightarrow> world" where
  "serviceDetails tripId dto w =
     (if ct_serviceType dto = delivery \<or> ct_serviceType dto = food then
        createDeliveryDetails \<lparr>dd_tripId = tripId, dd_recipientName = nullish (ct_recipientName dto) [],
          dd_recipientPhone = nullish (ct_recipientPhone dto) [],
          dd_parcelDescription = ct_parcelDescription dto, dd_parcelWeightKg = ct_parcelWeightKg dto,
          dd_parcelDimensions = ct_parcelDimensions dto, dd_isFragile = nullish (ct_isFragile dto) False,
          dd_notes = ct_notes dto\<rparr> w
      else if ct_serviceType dto = ride \<or> ct_serviceType dto = intercity then
        createRideDetails \<lparr>rd_tripId = tripId, rd_passengerCount = nullish (ct_passengerCount dto) 1,
          rd_notes = ct_notes dto\<rparr> w
      else w)"

definition createTrip ::
  "(GeoPoint \<Rightarrow> GeoPoint \<Rightarrow> DistanceMatrixResult) \<Rightarrow> (time \<Rightarrow> int) \<Rightarrow> id \<Rightarrow> time \<Rightarrow> id \<Rightarrow> CreateTripDto \<Rightarrow> world \<Rightarrow>
   (Trip, world) outcome" where
  "createTrip matrix tz newId now clientId dto w =
     andThen (calculatePrice matrix tz now \<lparr>q_serviceType = ct_serviceType dto, q_vehicleTypeId = ct_vehicleTypeId dto,
                q_pickup = ct_pickup dto, q_dropoff = ct_dropoff dto\<rparr> w)
       (\<lambda>priceResult w1.
          case insertWithGeometry newId now
                 \<lparr>c_clientId = clientId, c_vehicleTypeId = ct_vehicleTypeId dto, c_serviceType = ct_serviceType dto,
                  c_pickup = ct_pickup dto, c_pickupAddress = ct_pickupAddress dto,
                  c_dropoff = ct_dropoff dto, c_dropoffAddress = ct_dropoffAddress dto,
                  c_estimatedPrice = res_estimatedPrice priceResult,
                  c_distanceMeters = res_distanceMeters priceResult,
                  c_durationSeconds = res_durationSeconds priceResult, c_paymentMethod = cash\<rparr> w1 of
            (tripId, w2) \<Rightarrow>
              andThen (getTrip tripId (serviceDetails tripId dto w2))
                (\<lambda>trip w3.
                   return trip
                     (emit (TripCreated \<lparr>tc_tripId = t_id trip, tc_clientId = clientId,
                        tc_serviceType = ct_serviceType dto, tc_vehicleTypeId = ct_vehicleTypeId dto,
                        tc_pickup = ct_pickup dto, tc_pickupAddress = ct_pickupAddress dto,
                        tc_dropoff = ct_dropoff dto, tc_dropoffAddress = ct_dropoffAddress dto,
                        tc_estimatedPrice = res_estimatedPrice priceResult,
                        tc_distanceMeters = res_distanceMeters priceResult,
                        tc_durationSeconds = res_durationSeconds priceResult\<rparr>) w3)))"

record TripPage =
  tp_data :: "Trip list"
  tp_total :: nat
  tp_page :: int
  tp_limit :: int

definition listMyTrips ::
  "id \<Rightarrow> UserRole \<Rightarrow> int \<Rightarrow> int \<Rightarrow> TripStatus option \<Rightarrow> world \<Rightarrow> (TripPage, world) outcome" where
  "listMyTrips userId role page limit status w =
     (let skip = (page - 1) * limit;
          wrap = (\<lambda>(rows, total). return \<lparr>tp_data = rows, tp_total = total, tp_page = page, tp_limit = limit\<rparr>)
      in if role = role_driver then
           (case findDriverByUserId userId w of
              None \<Rightarrow> return \<lparr>tp_data = [], tp_total = 0, tp_page = page, tp_limit = limit\<rparr> w
            | Some driver \<Rightarrow> andThen (findManyByDriver (d_id driver) skip limit status w) wrap)
         else andThen (findManyByClient userId skip limit status w) wrap)"

section \<open>What a status change says\<close>

definition emitStatusEvent :: "Trip \<Rightarrow> id \<Rightarrow> string option \<Rightarrow> world \<Rightarrow> world" where
  "emitStatusEvent trip userId cancelReason =
     (case t_status trip of
        driver_arriving \<Rightarrow> emit (TripArrived (t_id trip) (t_driverId trip) (t_clientId trip))
      | in_progress \<Rightarrow> emit (TripStarted (t_id trip) (t_driverId trip) (t_clientId trip))
      | completed \<Rightarrow>
          emit (TripCompleted (t_id trip) (t_driverId trip) (t_clientId trip) (nullish (t_finalPrice trip) 0))
      | cancelled_by_client \<Rightarrow> emit (TripCancelled (t_id trip) userId (nullish cancelReason (nullish (t_cancelReason trip) [])))
      | cancelled_by_driver \<Rightarrow> emit (TripCancelled (t_id trip) userId (nullish cancelReason (nullish (t_cancelReason trip) [])))
      | cancelled_auto \<Rightarrow> emit (TripCancelled (t_id trip) userId (nullish cancelReason (nullish (t_cancelReason trip) [])))
      | _ \<Rightarrow> (\<lambda>w. w))"

definition notifyDispatchedDriversOfCancellation :: "id \<Rightarrow> ServiceType \<Rightarrow> string \<Rightarrow> world \<Rightarrow> world" where
  "notifyDispatchedDriversOfCancellation tripId serviceType reason w =
     (case getWsEventForService serviceType cancelled_by_client of
        None \<Rightarrow> w
      | Some wsEvent \<Rightarrow>
          fold (\<lambda>a. emitToDriver (a_driverId a) wsEvent (CancelMsg tripId reason))
            (filter (notified_for tripId) (attempts w)) w)"

definition status_payload :: "Trip \<Rightarrow> TripStatus \<Rightarrow> string option \<Rightarrow> world \<Rightarrow> StatusPayload" where
  "status_payload trip status cancelReason w =
     (let driverName = (case driver_user trip w of None \<Rightarrow> [] | Some u \<Rightarrow> full_name u)
      in \<lparr>sp_tripId = t_id trip, sp_status = status,
          sp_cancelledBy = (if status = cancelled_by_driver then Some by_driver
                            else if status = cancelled_by_client then Some by_client
                            else if status = cancelled_auto then Some by_system else None),
          sp_pickupAddress = t_pickupAddress trip, sp_dropoffAddress = t_dropoffAddress trip,
          sp_deliveryAddress = t_dropoffAddress trip,
          sp_estimatedPrice = t_estimatedPrice trip, sp_finalPrice = t_finalPrice trip,
          sp_driverName = (if driverName = [] then None else Some driverName),
          sp_driverPhone = map_option u_phone (driver_user trip w),
          sp_driverPhoto = Option.bind (driver_of_trip trip w) d_photoUrl,
          sp_rating = map_option d_rating (driver_of_trip trip w),
          sp_vehiclePlate = map_option v_plateNumber (driver_vehicle trip w),
          sp_vehicleType = map_option vt_name (driver_vehicleType trip w),
          sp_recipientName = map_option dd_recipientName (delivery_of (t_id trip) w),
          sp_recipientPhone = map_option dd_recipientPhone (delivery_of (t_id trip) w),
          sp_packageType = Option.bind (delivery_of (t_id trip) w) dd_parcelDescription,
          sp_reason = (case cancelReason of Some r \<Rightarrow> Some r | None \<Rightarrow> t_cancelReason trip)\<rparr>)"

definition broadcastStatusEvent :: "Trip \<Rightarrow> TripStatus \<Rightarrow> string option \<Rightarrow> world \<Rightarrow> world" where
  "broadcastStatusEvent trip status cancelReason w =
     (case getWsEventForService (t_serviceType trip) status of
        None \<Rightarrow> w
      | Some wsEvent \<Rightarrow>
          (let payload = status_payload trip status cancelReason w;
               w1 = emitToTrip (t_id trip) wsEvent (StatusMsg payload) w;
               w2 = (if t_clientId trip \<noteq> [] then emitToUser (t_clientId trip) wsEvent (StatusMsg payload) w1 else w1);
               w3 = (if truthy (t_driverId trip)
                     then emitToDriver (the (t_driverId trip)) wsEvent (StatusMsg payload) w2 else w2)
           in emitToAdmin AdminTripUpdate (StatusAdminMsg payload (t_serviceType trip)) w3))"

section \<open>Status changes\<close>

definition set_reason :: "string option \<Rightarrow> Trip \<Rightarrow> Trip" where
  "set_reason r t = (case r of None \<Rightarrow> t | Some _ \<Rightarrow> t\<lparr>t_cancelReason := r\<rparr>)"

text \<open>The \<open>switch\<close> of \<open>updateStatus\<close>: the guards and the data to write, with the calls made before it.\<close>

definition prepareStatus ::
  "time \<Rightarrow> Trip \<Rightarrow> id \<Rightarrow> UserRole \<Rightarrow> UpdateTripStatusDto \<Rightarrow> world \<Rightarrow> (Trip \<Rightarrow> Trip, world) outcome" where
  "prepareStatus now trip userId role dto w =
     (case us_status dto of
        accepted \<Rightarrow>
          if role \<noteq> role_driver then throw (ForbiddenException ''Seul un chauffeur peut accepter une course'') w
          else (case findDriverByUserId userId w of
                  None \<Rightarrow> throw (ForbiddenException ''Profil chauffeur introuvable'') w
                | Some driver \<Rightarrow>
                    if \<not> hasActiveDispatchAttempt (t_id trip) (d_id driver) w
                    then throw (ForbiddenException ''Cette course ne vous est pas assignee (dispatch)'') w
                    else return (\<lambda>t. t\<lparr>t_status := accepted, t_driverId := Some (d_id driver), t_acceptedAt := Some now\<rparr>)
                           (handleDriverAccept now (t_id trip) (d_id driver) w))
      | cancelled_by_client \<Rightarrow>
          if role \<noteq> role_client \<and> userId \<noteq> t_clientId trip
          then throw (ForbiddenException ''Seul le client peut annuler'') w
          else return (\<lambda>t. set_reason (us_cancelReason dto) (t\<lparr>t_status := cancelled_by_client, t_cancelledAt := Some now\<rparr>))
                 (notifyDispatchedDriversOfCancellation (t_id trip) (t_serviceType trip)
                    (nullish (us_cancelReason dto) ''client'') (releaseLocksForTrip now (t_id trip) w))
      | cancelled_by_driver \<Rightarrow>
          if role \<noteq> role_driver then throw (ForbiddenException ''Seul un chauffeur peut annuler'') w
          else (case findDriverByUserId userId w of
                  None \<Rightarrow> throw (ForbiddenException ''Vous n'etes pas le chauffeur assigne a cette course'') w
                | Some driver \<Rightarrow>
                    if t_driverId trip \<noteq> Some (d_id driver)
                    then throw (ForbiddenException ''Vous n'etes pas le chauffeur assigne a cette course'') w
                    else return (\<lambda>t. set_reason (us_cancelReason dto)
                                       (t\<lparr>t_status := cancelled_by_driver, t_cancelledAt := Some now\<rparr>)) w)
      | cancelled_auto \<Rightarrow>
          return (\<lambda>t. t\<lparr>t_status := cancelled_auto, t_cancelledAt := Some now,
                        t_cancelReason := Some (nullish (us_cancelReason dto) ''auto'')\<rparr>)
            (notifyDispatchedDriversOfCancellation (t_id trip) (t_serviceType trip)
               (nullish (us_cancelReason dto) ''auto'') (releaseLocksForTrip now (t_id trip) w))
      | pending \<Rightarrow> return (\<lambda>t. t\<lparr>t_status := pending\<rparr>) w
      | _ \<Rightarrow>
          if role \<noteq> role_driver then throw (ForbiddenException ''Seul un chauffeur peut faire avancer une course'') w
          else (case findDriverByUserId userId w of
                  None \<Rightarrow> throw (ForbiddenException ''Vous n'etes pas le chauffeur assigne a cette course'') w
                | Some driver \<Rightarrow>
                    if t_driverId trip \<noteq> Some (d_id driver)
                    then throw (ForbiddenException ''Vous n'etes pas le chauffeur assigne a cette course'') w
                    else return
                      (if us_status dto = driver_arriving
                       then (\<lambda>t. t\<lparr>t_status := driver_arriving, t_driverArrivedAt := Some now\<rparr>)
                       else if us_status dto = in_progress
                       then (\<lambda>t. t\<lparr>t_status := in_progress, t_startedAt := Some now\<rparr>)
                       else (\<lambda>t. t\<lparr>t_status := completed, t_completedAt := Some now,
                                   t_finalPrice := t_estimatedPrice trip\<rparr>)) w))"

definition updateStatus ::
  "time \<Rightarrow> id \<Rightarrow> id \<Rightarrow> UserRole \<Rightarrow> UpdateTripStatusDto \<Rightarrow> world \<Rightarrow> (Trip, world) outcome" where
  "updateStatus now tripId userId role dto w =
     andThen (getTrip tripId w)
       (\<lambda>trip w.
          if \<not> canTransition (t_status trip) (us_status dto)
          then throw (BadRequestException ''Transition invalide'') w
          else andThen (prepareStatus now trip userId role dto w)
                 (\<lambda>updateData w1.
                    andThen (repo_update now tripId updateData w1)
                      (\<lambda>updated w2.
                         return updated
                           (broadcastStatusEvent updated (us_status dto) (us_cancelReason dto)
                              (emitStatusEvent updated userId (us_cancelReason dto) w2)))))"

definition acceptTrip :: "time \<Rightarrow> id \<Rightarrow> id \<Rightarrow> world \<Rightarrow> (Trip, world) outcome" where
  "acceptTrip now tripId userId =
     updateStatus now tripId userId role_driver \<lparr>us_status = accepted, us_cancelReason = None\<rparr>"

definition declineTrip :: "distance_fn \<Rightarrow> time \<Rightarrow> id \<Rightarrow> id \<Rightarrow> world \<Rightarrow> (id, world) outcome" where
  "declineTrip sd now tripId userId w =
     andThen (getTrip tripId w)
       (\<lambda>trip w.
          case findDriverByUserId userId w of
            None \<Rightarrow> throw (ForbiddenException ''Profil chauffeur introuvable'') w
          | Some driver \<Rightarrow>
              if \<not> hasActiveDispatchAttempt tripId (d_id driver) w
              then throw (ForbiddenException ''Cette course ne vous est pas assignee (dispatch)'') w
              else return (t_id trip) (handleDriverDeclineAndRetry sd now tripId (d_id driver) w))"

section \<open>Reactions to the dispatch\<close>

definition handleDispatchFailed :: "time \<Rightarrow> id \<Rightarrow> string \<Rightarrow> world \<Rightarrow> world" where
  "handleDispatchFailed now tripId reason w =
     (let w1 = snd (updateStatusIfPending now tripId cancelled_auto reason w);
          trip = findById tripId w1
      in case getWsEventForService (case trip of None \<Rightarrow> ride | Some t \<Rightarrow> t_serviceType t) cancelled_auto of
           None \<Rightarrow> w1
         | Some wsEvent \<Rightarrow> emitToTrip tripId wsEvent (CancelMsg tripId reason) w1)"

definition eta_minutes :: "real \<Rightarrow> real" where
  "eta_minutes distMeters = max 1 (Math_ceil (distMeters * (14 / 10) / (25000 / 60)))"

definition accepted_payload :: "distance_fn \<Rightarrow> Trip \<Rightarrow> id \<Rightarrow> world \<Rightarrow> AcceptedPayload" where
  "accepted_payload sd trip driverId w =
     (let driverPos = getDriverLocation driverId w;
          pickupCoords = getPickupCoordinates (t_id trip) w;
          vehicle = driver_vehicle trip w
      in \<lparr>ap_tripId = t_id trip, ap_driverId = driverId,
          ap_driverName = (case driver_user trip w of None \<Rightarrow> [] | Some u \<Rightarrow> full_name u),
          ap_driverPhone = map_option u_phone (driver_user trip w),
          ap_driverPhoto = Option.bind (driver_of_trip trip w) d_photoUrl,
          ap_rating = map_option d_rating (driver_of_trip trip w),
          ap_vehiclePlate = map_option v_plateNumber vehicle,
          ap_vehicleModel = map_option (\<lambda>v. v_brand v @ '' '' @ v_model v) vehicle,
          ap_vehicleType = map_option vt_name (driver_vehicleType trip w),
          ap_etaMinutes = (case (driverPos, pickupCoords) of
             (Some p, Some q) \<Rightarrow> Some (eta_minutes (calculateDistance sd p q)) | _ \<Rightarrow> None),
          ap_driverLat = map_option lat driverPos, ap_driverLng = map_option lng driverPos,
          ap_estimatedPrice = t_estimatedPrice trip,
          ap_pickupAddress = t_pickupAddress trip, ap_deliveryAddress = t_dropoffAddress trip,
          ap_dropoffAddress = t_dropoffAddress trip,
          ap_recipientName = map_option dd_recipientName (delivery_of (t_id trip) w),
          ap_recipientPhone = map_option dd_recipientPhone (delivery_of (t_id trip) w),
          ap_packageType = Option.bind (delivery_of (t_id trip) w) dd_parcelDescription\<rparr>)"

definition handleDriverAssigned :: "distance_fn \<Rightarrow> time \<Rightarrow> id \<Rightarrow> id \<Rightarrow> world \<Rightarrow> (unit, world) outcome" where
  "handleDriverAssigned sd now tripId driverId w =
     andThen (assignDriver now tripId driverId w)
       (\<lambda>trip w1.
          let w2 = (case getWsEventForService (t_serviceType trip) accepted of
                 None \<Rightarrow> w1
               | Some wsEvent \<Rightarrow>
                   (let acceptedPayload = accepted_payload sd trip driverId w1
                    in emitToAdmin AdminTripUpdate (AcceptedAdminMsg acceptedPayload (t_serviceType trip) accepted)
                         (emitToTrip (t_id trip) wsEvent (AcceptedMsg acceptedPayload)
                            (emitToUser (t_clientId trip) wsEvent (AcceptedMsg acceptedPayload) w1))))
          in return () (emit (TripAccepted (t_id trip) driverId (t_clientId trip)) w2))"

text \<open>The \<open>trip:accept\<close> relay catches every exception; what was written before it stays.\<close>

definition handleWsDriverAcceptRequested :: "time \<Rightarrow> id \<Rightarrow> id \<Rightarrow> world \<Rightarrow> world" where
  "handleWsDriverAcceptRequested now tripId userId w =
     snd (updateStatus now tripId userId role_driver \<lparr>us_status = accepted, us_cancelReason = None\<rparr> w)"

section \<open>Payment, rating and delivery\<close>

text \<open>The guard shared by the two payment operations: the driver of this running trip.\<close>

definition assertDriverOfRunningTrip ::
  "string \<Rightarrow> string \<Rightarrow> id \<Rightarrow> id \<Rightarrow> UserRole \<Rightarrow> world \<Rightarrow> (Trip, world) outcome" where
  "assertDriverOfRunningTrip roleText statusText tripId userId role w =
     (if role \<noteq> role_driver then throw (ForbiddenException roleText) w
      else andThen (getTrip tripId w)
        (\<lambda>trip w.
           case findDriverByUserId userId w of
             None \<Rightarrow> throw (ForbiddenException ''Ce n'est pas votre course'') w
           | Some driver \<Rightarrow>
               if t_driverId trip \<noteq> Some (d_id driver)
               then throw (ForbiddenException ''Ce n'est pas votre course'') w
               else if t_status trip \<noteq> in_progress
               then throw (BadRequestException statusText) w
               else return trip w))"

definition confirmPaymentReceived ::
  "time \<Rightarrow> id \<Rightarrow> id \<Rightarrow> UserRole \<Rightarrow> real \<Rightarrow> world \<Rightarrow> (Trip, world) outcome" where
  "confirmPaymentReceived now tripId userId role amount w =
     andThen (assertDriverOfRunningTrip ''Seul un chauffeur peut confirmer un paiement''
         ''Paiement impossible depuis le statut actuel'' tripId userId role w)
       (\<lambda>trip w. markPaymentReceived now tripId amount w)"

definition completeTrip ::
  "time \<Rightarrow> id \<Rightarrow> id \<Rightarrow> UserRole \<Rightarrow> real \<Rightarrow> world \<Rightarrow> (Trip, world) outcome" where
  "completeTrip now tripId userId role amount w =
     andThen (assertDriverOfRunningTrip ''Seul un chauffeur peut terminer une course''
         ''Terminaison impossible depuis le statut actuel'' tripId userId role w)
       (\<lambda>trip w.
          if \<not> canTransition (t_status trip) completed then throw (BadRequestException ''Transition invalide'') w
          else andThen (repo_update now tripId
                 (\<lambda>t. t\<lparr>t_status := completed, t_completedAt := Some now, t_finalPrice := t_estimatedPrice trip,
                        t_paymentReceivedAt := Some now, t_paymentReceivedAmount := Some amount\<rparr>) w)
                 (\<lambda>updated w1.
                    return updated
                      (broadcastStatusEvent updated completed None (emitStatusEvent updated userId None w1))))"

definition rateTrip ::
  "id \<Rightarrow> id \<Rightarrow> UserRole \<Rightarrow> int \<Rightarrow> string list option \<Rightarrow> world \<Rightarrow> (TripRating, world) outcome" where
  "rateTrip tripId userId role stars tags w =
     andThen (getTrip tripId w)
       (\<lambda>trip w.
          let own = (if role = role_driver
                     then (case findDriverByUserId userId w of None \<Rightarrow> False
                           | Some driver \<Rightarrow> t_driverId trip = Some (d_id driver))
                     else t_clientId trip = userId);
              raterRole = (if role = role_driver then sender_driver else sender_client)
          in if \<not> own then throw (ForbiddenException ''Ce n'est pas votre course'') w
             else if t_status trip \<noteq> completed
             then throw (BadRequestException ''La course doit etre terminee pour etre notee'') w
             else if findRating tripId userId w \<noteq> None
             then throw (ConflictException ''Cette course a deja ete notee'') w
             else (case createRating \<lparr>r_tripId = tripId, r_raterId = userId, r_raterRole = raterRole,
                           r_rating = stars, r_tags = nullish tags []\<rparr> w of
                     (rating, w1) \<Rightarrow>
                       return rating (emit (TripRated tripId userId raterRole stars (nullish tags [])) w1)))"

definition confirmDelivery :: "time \<Rightarrow> id \<Rightarrow> id \<Rightarrow> world \<Rightarrow> (unit, world) outcome" where
  "confirmDelivery now tripId userId w =
     andThen (getTrip tripId w)
       (\<lambda>trip w.
          if t_clientId trip \<noteq> userId then throw (ForbiddenException ''Ce n'est pas votre course'') w
          else if t_serviceType trip \<noteq> delivery
          then throw (BadRequestException ''Cette action est reservee aux livraisons'') w
          else if t_status trip \<noteq> completed
          then throw (BadRequestException ''La livraison doit etre terminee pour etre confirmee'') w
          else if t_deliveryConfirmedAt trip \<noteq> None
          then throw (ConflictException ''Cette livraison a deja ete confirmee'') w
          else (let w1 = update_trip now tripId (\<lambda>t. t\<lparr>t_deliveryConfirmedAt := Some now\<rparr>) w;
                    w2 = emitToTrip tripId DeliveryClientConfirmed (ConfirmedMsg tripId) w1;
                    w3 = (if truthy (t_driverId trip)
                          then emitToDriver (the (t_driverId trip)) DeliveryClientConfirmed (ConfirmedMsg tripId) w2
                          else w2)
                in return () w3))"

definition reportDeliveryIssue :: "time \<Rightarrow> id \<Rightarrow> id \<Rightarrow> string option \<Rightarrow> world \<Rightarrow> (unit, world) outcome" where
  "reportDeliveryIssue now tripId userId reason w =
     andThen (getTrip tripId w)
       (\<lambda>trip w.
          if t_clientId trip \<noteq> userId then throw (ForbiddenException ''Ce n'est pas votre course'') w
          else if t_serviceType trip \<noteq> delivery
          then throw (BadRequestException ''Cette action est reservee aux livraisons'') w
          else return () (update_trip now tripId
                 (\<lambda>t. case reason of None \<Rightarrow> t | Some _ \<Rightarrow> t\<lparr>t_deliveryIssueReported := reason\<rparr>) w))"

definition raiseSos ::
  "time \<Rightarrow> id \<Rightarrow> id \<Rightarrow> UserRole \<Rightarrow> real option \<Rightarrow> real option \<Rightarrow> string option \<Rightarrow> world \<Rightarrow> (unit, world) outcome" where
  "raiseSos now tripId userId role lt lg message w =
     andThen (getTrip tripId w)
       (\<lambda>trip w.
          let driver = (if role = role_driver then findDriverByUserId userId w else None);
              isParty = (t_clientId trip = userId \<or>
                (case driver of None \<Rightarrow> False | Some d \<Rightarrow> t_driverId trip = Some (d_id d)));
              clientName = (case trip_client trip w of None \<Rightarrow> [] | Some u \<Rightarrow> full_name u);
              driverName = (case driver_user trip w of None \<Rightarrow> [] | Some u \<Rightarrow> full_name u)
          in if \<not> isParty then throw (ForbiddenException ''Ce n'est pas votre course'') w
             else return () (emitToAdmin AdminAlert (AlertMsg
               \<lparr>al_tripId = tripId,
                al_raisedBy = (if t_clientId trip = userId then sender_client else sender_driver),
                al_raisedAt = now, al_status = t_status trip, al_serviceType = t_serviceType trip,
                al_lat = lt, al_lng = lg, al_message = message,
                al_clientName = (if clientName = [] then None else Some clientName),
                al_clientPhone = map_option u_phone (trip_client trip w),
                al_driverName = (if driverName = [] then None else Some driverName),
                al_driverPhone = map_option u_phone (driver_user trip w),
                al_driverPlate = map_option v_plateNumber (driver_vehicle trip w),
                al_pickupAddress = t_pickupAddress trip, al_dropoffAddress = t_dropoffAddress trip\<rparr>) w))"

section \<open>Frames\<close>

lemma closeOther_frame [world_simps]:
  "trips (closeOther now t x w) = trips w" "drivers (closeOther now t x w) = drivers w"
  "users (closeOther now t x w) = users w" "payments (closeOther now t x w) = payments w"
  by (simp_all add: closeOther_def world_simps)

lemma fold_closeOther_frame [world_simps]:
  "trips (fold (closeOther now t) xs w) = trips w" "drivers (fold (closeOther now t) xs w) = drivers w"
  "users (fold (closeOther now t) xs w) = users w" "payments (fold (closeOther now t) xs w) = payments w"
  by (induction xs arbitrary: w) (simp_all add: closeOther_frame)

lemma handleDriverAccept_frame [world_simps]:
  "trips (handleDriverAccept now t d w) = trips w" "drivers (handleDriverAccept now t d w) = drivers w"
  "users (handleDriverAccept now t d w) = users w" "payments (handleDriverAccept now t d w) = payments w"
  by (simp_all add: handleDriverAccept_def Let_def world_simps)

lemma handleDriverDecline_frame [world_simps]:
  "trips (handleDriverDecline now t d w) = trips w" "drivers (handleDriverDecline now t d w) = drivers w"
  "payments (handleDriverDecline now t d w) = payments w"
  by (simp_all add: handleDriverDecline_def world_simps)

lemma checkAndRetryDispatch_frame [world_simps]:
  "trips (checkAndRetryDispatch sd now t w) = trips w" "drivers (checkAndRetryDispatch sd now t w) = drivers w"
  "payments (checkAndRetryDispatch sd now t w) = payments w"
  by (simp_all add: checkAndRetryDispatch_def Let_def split_beta world_simps split: option.split)

lemma handleDriverTimeout_frame [world_simps]:
  "trips (handleDriverTimeout sd now t d w) = trips w" "drivers (handleDriverTimeout sd now t d w) = drivers w"
  "payments (handleDriverTimeout sd now t d w) = payments w"
  by (simp_all add: handleDriverTimeout_def Let_def world_simps)

lemma handleDriverDeclineAndRetry_frame [world_simps]:
  "trips (handleDriverDeclineAndRetry sd now t d w) = trips w"
  "drivers (handleDriverDeclineAndRetry sd now t d w) = drivers w"
  "payments (handleDriverDeclineAndRetry sd now t d w) = payments w"
  by (simp_all add: handleDriverDeclineAndRetry_def world_simps)

lemma emitStatusEvent_frame [world_simps]:
  "trips (emitStatusEvent t u r w) = trips w" "drivers (emitStatusEvent t u r w) = drivers w"
  "users (emitStatusEvent t u r w) = users w" "payments (emitStatusEvent t u r w) = payments w"
  "attempts (emitStatusEvent t u r w) = attempts w" "redis_keys (emitStatusEvent t u r w) = redis_keys w"
  "jobs (emitStatusEvent t u r w) = jobs w" "nextJob (emitStatusEvent t u r w) = nextJob w"
  "sent (emitStatusEvent t u r w) = sent w" "ratings (emitStatusEvent t u r w) = ratings w"
  by (simp_all add: emitStatusEvent_def world_simps split: TripStatus.split)

lemma broadcastStatusEvent_frame [world_simps]:
  "trips (broadcastStatusEvent t st r w) = trips w" "drivers (broadcastStatusEvent t st r w) = drivers w"
  "users (broadcastStatusEvent t st r w) = users w" "payments (broadcastStatusEvent t st r w) = payments w"
  "attempts (broadcastStatusEvent t st r w) = attempts w" "bus (broadcastStatusEvent t st r w) = bus w"
  "redis_keys (broadcastStatusEvent t st r w) = redis_keys w" "jobs (broadcastStatusEvent t st r w) = jobs w"
  "nextJob (broadcastStatusEvent t st r w) = nextJob w" "ratings (broadcastStatusEvent t st r w) = ratings w"
  by (simp_all add: broadcastStatusEvent_def Let_def world_simps split: option.split)

lemma fold_send_frame:
  "trips (fold (\<lambda>a. ws_send (r a) e (m a)) as w) = trips w"
  "drivers (fold (\<lambda>a. ws_send (r a) e (m a)) as w) = drivers w"
  "users (fold (\<lambda>a. ws_send (r a) e (m a)) as w) = users w"
  "payments (fold (\<lambda>a. ws_send (r a) e (m a)) as w) = payments w"
  "attempts (fold (\<lambda>a. ws_send (r a) e (m a)) as w) = attempts w"
  "bus (fold (\<lambda>a. ws_send (r a) e (m a)) as w) = bus w"
  "redis_keys (fold (\<lambda>a. ws_send (r a) e (m a)) as w) = redis_keys w"
  "jobs (fold (\<lambda>a. ws_send (r a) e (m a)) as w) = jobs w"
  "nextJob (fold (\<lambda>a. ws_send (r a) e (m a)) as w) = nextJob w"
  by (induction as arbitrary: w) (simp_all add: ws_frame)

lemma notifyDispatched_frame [world_simps]:
  "trips (notifyDispatchedDriversOfCancellation t s r w) = trips w"
  "drivers (notifyDispatchedDriversOfCancellation t s r w) = drivers w"
  "users (notifyDispatchedDriversOfCancellation t s r w) = users w"
  "payments (notifyDispatchedDriversOfCancellation t s r w) = payments w"
  "attempts (notifyDispatchedDriversOfCancellation t s r w) = attempts w"
  "bus (notifyDispatchedDriversOfCancellation t s r w) = bus w"
  "redis_keys (notifyDispatchedDriversOfCancellation t s r w) = redis_keys w"
  "jobs (notifyDispatchedDriversOfCancellation t s r w) = jobs w"
  "nextJob (notifyDispatchedDriversOfCancellation t s r w) = nextJob w"
  by (simp_all add: notifyDispatchedDriversOfCancellation_def emitTo_ws_send fold_send_frame split: option.split)

section \<open>Status changes, case by case\<close>

text \<open>Who may ask for a status, read off the guards.\<close>

definition authorised :: "Trip \<Rightarrow> id \<Rightarrow> UserRole \<Rightarrow> TripStatus \<Rightarrow> world \<Rightarrow> bool" where
  "authorised trip userId role status w \<longleftrightarrow>
     (case status of
        accepted \<Rightarrow> role = role_driver \<and>
          (\<exists>d. findDriverByUserId userId w = Some d \<and> hasActiveDispatchAttempt (t_id trip) (d_id d) w)
      | cancelled_by_client \<Rightarrow> role = role_client \<or> userId = t_clientId trip
      | cancelled_auto \<Rightarrow> True
      | pending \<Rightarrow> True
      | _ \<Rightarrow> role = role_driver \<and> (\<exists>d. findDriverByUserId userId w = Some d \<and> t_driverId trip = Some (d_id d)))"

text \<open>The row a successful request writes, without its \<open>updatedAt\<close>.\<close>

definition new_row :: "time \<Rightarrow> Trip \<Rightarrow> id \<Rightarrow> UpdateTripStatusDto \<Rightarrow> world \<Rightarrow> Trip" where
  "new_row now trip userId dto w =
     (case us_status dto of
        pending \<Rightarrow> trip\<lparr>t_status := pending\<rparr>
      | accepted \<Rightarrow> trip\<lparr>t_status := accepted, t_driverId := map_option d_id (findDriverByUserId userId w),
                       t_acceptedAt := Some now\<rparr>
      | driver_arriving \<Rightarrow> trip\<lparr>t_status := driver_arriving, t_driverArrivedAt := Some now\<rparr>
      | in_progress \<Rightarrow> trip\<lparr>t_status := in_progress, t_startedAt := Some now\<rparr>
      | completed \<Rightarrow> trip\<lparr>t_status := completed, t_completedAt := Some now, t_finalPrice := t_estimatedPrice trip\<rparr>
      | cancelled_by_client \<Rightarrow>
          set_reason (us_cancelReason dto) (trip\<lparr>t_status := cancelled_by_client, t_cancelledAt := Some now\<rparr>)
      | cancelled_by_driver \<Rightarrow>
          set_reason (us_cancelReason dto) (trip\<lparr>t_status := cancelled_by_driver, t_cancelledAt := Some now\<rparr>)
      | cancelled_auto \<Rightarrow> trip\<lparr>t_status := cancelled_auto, t_cancelledAt := Some now,
                              t_cancelReason := Some (nullish (us_cancelReason dto) ''auto'')\<rparr>)"

lemma set_reason_sel [simp]:
  "t_id (set_reason r t) = t_id t" "t_status (set_reason r t) = t_status t"
  "t_clientId (set_reason r t) = t_clientId t" "t_driverId (set_reason r t) = t_driverId t"
  "t_cancelledAt (set_reason r t) = t_cancelledAt t" "t_acceptedAt (set_reason r t) = t_acceptedAt t"
  "t_estimatedPrice (set_reason r t) = t_estimatedPrice t" "t_finalPrice (set_reason r t) = t_finalPrice t"
  "t_driverArrivedAt (set_reason r t) = t_driverArrivedAt t" "t_startedAt (set_reason r t) = t_startedAt t"
  "t_completedAt (set_reason r t) = t_completedAt t" "t_commissionAmount (set_reason r t) = t_commissionAmount t"
  by (simp_all add: set_reason_def split: option.split)

lemma prepareStatus_error: "prepareStatus now t u role dto w = (Inl e, w') \<Longrightarrow> w' = w"
  by (auto simp: prepareStatus_def split: TripStatus.splits if_splits option.splits)

lemma prepareStatus_ok:
  assumes "prepareStatus now t u role dto w = (Inr f, w')"
  shows "authorised t u role (us_status dto) w \<and> trips w' = trips w \<and> f t = new_row now t u dto w \<and>
    (\<forall>x. t_id (f x) = t_id x)"
  using assms
  by (cases "us_status dto")
    (auto simp: prepareStatus_def authorised_def new_row_def world_simps split: if_splits option.splits)

lemma prepareStatus_refused:
  assumes "\<not> authorised t u role (us_status dto) w"
  shows "\<exists>text. prepareStatus now t u role dto w = (Inl (ForbiddenException text), w)"
  using assms
  by (cases "us_status dto")
    (auto simp: prepareStatus_def authorised_def throw_def split: option.splits)

lemma prepareStatus_accepts:
  assumes "authorised t u role (us_status dto) w"
  obtains f w' where "prepareStatus now t u role dto w = (Inr f, w')"
  using assms
  by (cases "us_status dto") (auto simp: prepareStatus_def authorised_def return_def split: option.splits)

lemma updateStatus_missing:
  "find_trip i w = None \<Longrightarrow> updateStatus now i u role dto w = (Inl (NotFoundException ''Course introuvable''), w)"
  by (simp add: updateStatus_def getTrip_def findById_def throw_def)

lemma updateStatus_invalid:
  "find_trip i w = Some t \<Longrightarrow> \<not> canTransition (t_status t) (us_status dto) \<Longrightarrow>
   updateStatus now i u role dto w = (Inl (BadRequestException ''Transition invalide''), w)"
  by (simp add: updateStatus_def getTrip_def findById_def throw_def)

lemma updateStatus_refused:
  assumes "find_trip i w = Some t" and "canTransition (t_status t) (us_status dto)"
    and "\<not> authorised t u role (us_status dto) w"
  shows "\<exists>text. updateStatus now i u role dto w = (Inl (ForbiddenException text), w)"
  using prepareStatus_refused [OF assms(3), of now] assms(1,2)
  by (auto simp: updateStatus_def getTrip_def findById_def)

lemma find_update_row:
  "distinct (map t_id ts) \<Longrightarrow> find (\<lambda>x. t_id x = i) ts = Some t \<Longrightarrow> (\<And>x. t_id (f x) = t_id x) \<Longrightarrow>
   update_where (\<lambda>x. t_id x = i) (\<lambda>x. (f x)\<lparr>t_updatedAt := now\<rparr>) ts =
     map (\<lambda>x. if t_id x = i then (f t)\<lparr>t_updatedAt := now\<rparr> else x) ts"
proof -
  assume d: "distinct (map t_id ts)" and f: "find (\<lambda>x. t_id x = i) ts = Some t"
  have "x = t" if "x \<in> set ts" "t_id x = i" for x
    using find_distinct [OF d that(1)] f that(2) by simp
  then show ?thesis by (auto simp: update_where_def)
qed

lemma updateStatus_done:
  assumes "distinct (map t_id (trips w))" and "find_trip i w = Some t"
    and "canTransition (t_status t) (us_status dto)" and auth: "authorised t u role (us_status dto) w"
    and t': "t' = (new_row now t u dto w)\<lparr>t_updatedAt := now\<rparr>"
  obtains f w1 where "prepareStatus now t u role dto w = (Inr f, w1)"
    and "updateStatus now i u role dto w = (Inr t',
      broadcastStatusEvent t' (us_status dto) (us_cancelReason dto)
        (emitStatusEvent t' u (us_cancelReason dto) (update_trip now i f w1)))"
    and "trips (update_trip now i f w1) = map (\<lambda>x. if t_id x = i then t' else x) (trips w)"
proof -
  from auth obtain f w1 where p: "prepareStatus now t u role dto w = (Inr f, w1)" by (rule prepareStatus_accepts)
  note ok = prepareStatus_ok [OF p]
  have id: "\<And>x. t_id (f x) = t_id x" using ok by blast
  have find1: "find_trip i w1 = Some t" using assms(2) ok by (simp add: find_trip_def)
  have row: "(f t)\<lparr>t_updatedAt := now\<rparr> = t'" using ok t' by simp
  have "updateStatus now i u role dto w = (Inr t',
      broadcastStatusEvent t' (us_status dto) (us_cancelReason dto)
        (emitStatusEvent t' u (us_cancelReason dto) (update_trip now i f w1)))"
    using assms(2,3) p find1 row
    by (simp add: updateStatus_def getTrip_def findById_def repo_update_cases [OF id] return_def andThen_def)
  moreover have "trips (update_trip now i f w1) = map (\<lambda>x. if t_id x = i then t' else x) (trips w)"
    using find_update_row [OF assms(1) _ id, of i t now] assms(2) ok row
    by (simp add: update_frame find_trip_def)
  ultimately show ?thesis using that p by blast
qed

lemma updateStatus_ok_iff:
  assumes "distinct (map t_id (trips w))" and "find_trip i w = Some t"
  shows "ok (updateStatus now i u role dto w) \<longleftrightarrow>
    canTransition (t_status t) (us_status dto) \<and> authorised t u role (us_status dto) w"
proof (cases "canTransition (t_status t) (us_status dto) \<and> authorised t u role (us_status dto) w")
  case True
  then have c: "canTransition (t_status t) (us_status dto)" and a: "authorised t u role (us_status dto) w" by simp_all
  have "ok (updateStatus now i u role dto w)"
    by (rule updateStatus_done [OF assms c a refl, of now]) simp
  with True show ?thesis by simp
next
  case False
  then have "\<exists>e. updateStatus now i u role dto w = (Inl e, w)"
    using updateStatus_invalid [OF assms(2)] updateStatus_refused [OF assms(2)] by blast
  then have "\<not> ok (updateStatus now i u role dto w)" by auto
  with False show ?thesis by simp
qed

text \<open>
  C1. A status request is decided by the transition table and the guards alone, and in this
  order: 404 for an unknown trip, 400 for a transition the table lacks, 403 where the caller is
  not authorised, and in all three cases the world is untouched; otherwise exactly the row of
  this trip changes, to the requested status with its time stamp (and its driver, on
  acceptance), and no driver account or payment does.
\<close>

theorem status_change_decided:
  assumes "distinct (map t_id (trips w))"
  shows "case find_trip i w of
     None \<Rightarrow> updateStatus now i u role dto w = (Inl (NotFoundException ''Course introuvable''), w)
   | Some t \<Rightarrow>
       if \<not> canTransition (t_status t) (us_status dto)
       then updateStatus now i u role dto w = (Inl (BadRequestException ''Transition invalide''), w)
       else if \<not> authorised t u role (us_status dto) w
       then \<exists>text. updateStatus now i u role dto w = (Inl (ForbiddenException text), w)
       else \<exists>w'. updateStatus now i u role dto w = (Inr ((new_row now t u dto w)\<lparr>t_updatedAt := now\<rparr>), w') \<and>
              t_status (new_row now t u dto w) = us_status dto \<and>
              trips w' = map (\<lambda>x. if t_id x = i then (new_row now t u dto w)\<lparr>t_updatedAt := now\<rparr> else x) (trips w) \<and>
              drivers w' = drivers w \<and> payments w' = payments w"
proof (cases "find_trip i w")
  case None
  then show ?thesis by (simp add: updateStatus_missing)
next
  case (Some t)
  let ?t' = "(new_row now t u dto w)\<lparr>t_updatedAt := now\<rparr>"
  show ?thesis
  proof (cases "canTransition (t_status t) (us_status dto) \<and> authorised t u role (us_status dto) w")
    case False
    with Some updateStatus_invalid [OF Some] updateStatus_refused [OF Some] show ?thesis by auto
  next
    case True
    obtain f w1 where p: "prepareStatus now t u role dto w = (Inr f, w1)"
      and u: "updateStatus now i u role dto w = (Inr ?t',
        broadcastStatusEvent ?t' (us_status dto) (us_cancelReason dto)
          (emitStatusEvent ?t' u (us_cancelReason dto) (update_trip now i f w1)))"
      and tr: "trips (update_trip now i f w1) = map (\<lambda>x. if t_id x = i then ?t' else x) (trips w)"
      using updateStatus_done [OF assms Some _ _ refl] True by blast
    have "drivers w1 = drivers w \<and> payments w1 = payments w"
      using p by (cases "us_status dto") (auto simp: prepareStatus_def world_simps split: if_splits option.splits)
    moreover have "t_status (new_row now t u dto w) = us_status dto"
      by (cases "us_status dto") (simp_all add: new_row_def)
    ultimately show ?thesis using True u tr
      by (simp add: Some broadcastStatusEvent_frame emitStatusEvent_frame update_frame)
  qed
qed

definition running_world :: world where
  "running_world = sample_world\<lparr>trips := [(sample_trip ''t1'')\<lparr>t_status := in_progress, t_driverId := Some ''d1''\<rparr>]\<rparr>"

theorem status_change_decided_witness:
  "map t_finalPrice (trips (snd (updateStatus 5 ''t1'' ''u1'' role_driver
     \<lparr>us_status = completed, us_cancelReason = None\<rparr> running_world))) = [Some 1000] \<and>
   ok (updateStatus 5 ''t1'' ''u1'' role_driver \<lparr>us_status = completed, us_cancelReason = None\<rparr> running_world)"
proof -
  let ?dto = "\<lparr>us_status = completed, us_cancelReason = None\<rparr>"
  let ?t = "(sample_trip ''t1'')\<lparr>t_status := in_progress, t_driverId := Some ''d1''\<rparr>"
  have d: "distinct (map t_id (trips running_world))" by (simp add: running_world_def)
  have f: "find_trip ''t1'' running_world = Some ?t"
    by (simp add: running_world_def find_trip_def sample_trip_def)
  have a: "authorised ?t ''u1'' role_driver completed running_world"
    by (simp add: authorised_def running_world_def findDriverByUserId_def sample_defs)
  from status_change_decided [OF d, where i = "''t1''" and now = 5 and u = "''u1''" and role = role_driver
      and dto = ?dto] show ?thesis
    using f a by (auto simp: running_world_def new_row_def sample_trip_def)
qed

text \<open>
  C22. Who may cancel. Any user with the client role can cancel any trip that has not started,
  his own or not (the guard joins its two conditions with \<open>&&\<close>), and any user at all can put any
  pending trip to \<open>cancelled_auto\<close>.
\<close>

theorem strangers_can_cancel:
  assumes "distinct (map t_id (trips w))" and "find_trip i w = Some t"
  shows "(t_status t \<in> {pending, accepted, driver_arriving} \<longrightarrow>
      ok (updateStatus now i stranger role_client \<lparr>us_status = cancelled_by_client, us_cancelReason = r\<rparr> w)) \<and>
    (t_status t = pending \<longrightarrow>
      ok (updateStatus now i stranger role \<lparr>us_status = cancelled_auto, us_cancelReason = r\<rparr> w))"
  using updateStatus_ok_iff [OF assms] by (auto simp: authorised_def)

theorem strangers_can_cancel_witness:
  "ok (updateStatus 9 ''t1'' ''nobody'' role_client \<lparr>us_status = cancelled_by_client, us_cancelReason = None\<rparr>
     (sample_world\<lparr>trips := [sample_trip ''t1'']\<rparr>))"
  using strangers_can_cancel [of "sample_world\<lparr>trips := [sample_trip ''t1'']\<rparr>" "''t1''" "sample_trip ''t1''"]
  by (simp add: find_trip_def sample_trip_def)

section \<open>Locks that change hands\<close>

text \<open>
  C20. A refusal frees the driver's lock without looking at the trip it is held for. So a driver with
  an open request for one pending trip who refuses another one keeps the open attempt but loses the
  lock, and the dispatch then ignores his acceptance of the open request. The acceptance itself
  goes through: the trip is accepted and given to him. But nothing of what an acceptance does to the
  search happens: every attempt stays as it is, the open ones included, no lock is freed, no timeout
  job is cancelled and no \<open>DriverAssigned\<close> is put on the bus.
\<close>

theorem refusal_frees_foreign_lock:
  assumes "t \<noteq> t'" and a: "a \<in> set (attempts w)" "for_pair t d a" "a_status a = driver_notified"
    and trip: "find_trip t w = Some trip" "t_status trip = pending"
    and driver: "findDriverByUserId u w = Some dr" "d_id dr = d"
    and w1: "w1 = handleDriverDecline now t' d w"
  shows "a \<in> set (attempts w1) \<and> redis_get later (redis_keys w1) (DispatchLockKey d) = None \<and>
    handleDriverAccept later t d w1 = w1 \<and>
    (\<exists>trip' w2. updateStatus later t u role_driver \<lparr>us_status = accepted, us_cancelReason = r\<rparr> w1 = (Inr trip', w2) \<and>
      trip' = trip\<lparr>t_status := accepted, t_driverId := Some d, t_acceptedAt := Some later, t_updatedAt := later\<rparr> \<and>
      find_trip t w2 = Some trip' \<and> attempts w2 = attempts w1 \<and> jobs w2 = jobs w1 \<and> redis_keys w2 = redis_keys w1 \<and>
      bus w2 = bus w1)"
proof -
  let ?dto = "\<lparr>us_status = accepted, us_cancelReason = r\<rparr>"
  have free: "redis_get later (redis_keys w1) (DispatchLockKey d) = None"
    by (simp add: w1 handleDriverDecline_def redis_get_def cancelTimeoutJob_keys set_keys_frame redis_del_def)
  have "\<not> for_pair t' d a" using assms(1) a(2) by (simp add: for_pair_def)
  then have kept: "a \<in> set (attempts w1)"
    using a(1) by (auto simp: w1 handleDriverDecline_def cancelTimeoutJob_frame set_keys_frame
        close_attempts_frame image_iff intro!: bexI [of _ a])
  have ignored: "handleDriverAccept later t d w1 = w1" using free by (simp add: handleDriverAccept_def)
  have same: "find_trip t w1 = Some trip" "findDriverByUserId u w1 = Some dr"
    using trip driver by (simp_all add: w1 finder_defs handleDriverDecline_frame)
  have attempt: "hasActiveDispatchAttempt t d w1"
    using kept a(2,3) by (auto simp: hasActiveDispatchAttempt_def list_ex_iff for_pair_def)
  let ?f = "\<lambda>x. x\<lparr>t_status := accepted, t_driverId := Some d, t_acceptedAt := Some later\<rparr>"
  let ?trip' = "trip\<lparr>t_status := accepted, t_driverId := Some d, t_acceptedAt := Some later, t_updatedAt := later\<rparr>"
  have id: "t_id trip = t" using trip(1) by (auto simp: find_trip_def dest: find_SomeD)
  have "updateStatus later t u role_driver ?dto w1 = (Inr ?trip',
      broadcastStatusEvent ?trip' accepted r (emitStatusEvent ?trip' u r (update_trip later t ?f w1)))"
    using same trip(2) attempt driver(2) ignored
    by (simp add: updateStatus_def getTrip_def findById_def prepareStatus_def id repo_update_cases [of ?f] return_def andThen_def)
  moreover have "find_trip t (update_trip later t ?f w1) = Some ?trip'"
    using same(1) unfolding find_trip_def update_frame by (subst find_update_same [where k = t_id]) auto
  ultimately show ?thesis
    using kept free ignored
    by (simp add: broadcastStatusEvent_frame emitStatusEvent_frame find_trip_def update_frame emitStatusEvent_def [of ?trip'])
qed

abbreviation "ordering_world \<equiv> busy_world\<lparr>trips := [sample_trip ''t1'']\<rparr>"

theorem refusal_frees_foreign_lock_witness:
  "redis_get 1000 (redis_keys ordering_world) (DispatchLockKey ''d1'') = Some (RStr ''t1'') \<and>
   (\<exists>trip' w2. updateStatus 2000 ''t1'' ''u1'' role_driver \<lparr>us_status = accepted, us_cancelReason = None\<rparr>
      (handleDriverDecline 1000 ''t9'' ''d1'' ordering_world) = (Inr trip', w2) \<and> t_driverId trip' = Some ''d1'' \<and>
      bus w2 = bus (handleDriverDecline 1000 ''t9'' ''d1'' ordering_world))"
proof -
  have "findDriverByUserId ''u1'' ordering_world = Some (sample_driver ''d1'' ''u1'')"
    by (simp add: busy_world_def sample_defs findDriverByUserId_def)
  moreover have "find_trip ''t1'' ordering_world = Some (sample_trip ''t1'')" by (simp add: find_trip_def sample_trip_def)
  ultimately show ?thesis
    using refusal_frees_foreign_lock [of "''t1''" "''t9''" "hd (attempts busy_world)" ordering_world "''d1''" "sample_trip ''t1''" "''u1''"
        "sample_driver ''d1'' ''u1''" "handleDriverDecline 1000 ''t9'' ''d1'' ordering_world" 1000 2000 None]
    by (auto simp: busy_world_def for_pair_def redis_get_def live_def sample_trip_def sample_driver_def)
qed

section \<open>What a cancellation tells the drivers\<close>

lemma cancelTimeoutJob_sent: "sent (cancelTimeoutJob now t d w) = sent w"
  by (rule cancelTimeoutJob_frame)

lemma fold_releaseOne_sent: "sent (fold (releaseOne now t) ds w) = sent w"
  by (induction ds arbitrary: w) (simp_all add: releaseOne_def cancelTimeoutJob_frame set_keys_frame)

lemma releaseLocksForTrip_sent: "sent (releaseLocksForTrip now t w) = sent w"
  by (simp add: releaseLocksForTrip_def close_attempts_frame fold_releaseOne_sent)

lemma nobody_left_to_notify:
  "notifyDispatchedDriversOfCancellation t s r (releaseLocksForTrip now t w) = releaseLocksForTrip now t w"
proof -
  have "filter (notified_for t) (attempts (releaseLocksForTrip now t w)) = []"
    using releaseLocksForTrip_closes [of t now w] by (auto simp: open_attempt_def filter_empty_conv)
  then show ?thesis by (simp add: notifyDispatchedDriversOfCancellation_def split: option.split)
qed

lemma ws_send_room: "m \<in> set (sent (ws_send r e p w)) \<Longrightarrow> m \<in> set (sent w) \<or> m_room m = r"
  by (auto simp: ws_send_def split: if_splits)

lemma broadcast_rooms:
  assumes "m \<in> set (sent (broadcastStatusEvent t st r w))"
  shows "m \<in> set (sent w) \<or> m_room m \<in> {getTripRoom (t_id t), getUserRoom (t_clientId t), getAdminRoom} \<or>
    (\<exists>d. t_driverId t = Some d \<and> m_room m = getDriverRoom d)"
  using assms
  by (auto simp: broadcastStatusEvent_def Let_def emitTo_ws_send split: option.splits if_splits
      dest!: ws_send_room)
    (cases "t_driverId t"; simp)+

text \<open>
  C21. The drivers who have a request for the trip on their screen never hear of its
  cancellation: \<open>releaseLocksForTrip\<close> closes their attempts before the loop that should notify
  them looks for open ones, so cancelling a pending trip (by its client or automatically) adds no
  message to any driver's room.
\<close>

theorem cancellation_reaches_no_driver:
  assumes "distinct (map t_id (trips w))" and "find_trip i w = Some t" and "t_status t = pending"
    and "t_driverId t = None" and "us_status dto \<in> {cancelled_by_client, cancelled_auto}"
    and "updateStatus now i u role dto w = (Inr t', w')"
    and "m \<in> set (sent w')" and "m_room m = getDriverRoom d"
  shows "m \<in> set (sent w)"
proof -
  from assms(6) have "ok (updateStatus now i u role dto w)" by simp
  then have c: "canTransition (t_status t) (us_status dto)" and a: "authorised t u role (us_status dto) w"
    using updateStatus_ok_iff [OF assms(1,2)] by simp_all
  let ?t' = "(new_row now t u dto w)\<lparr>t_updatedAt := now\<rparr>"
  obtain f w1 where p: "prepareStatus now t u role dto w = (Inr f, w1)"
    and up: "updateStatus now i u role dto w = (Inr ?t',
        broadcastStatusEvent ?t' (us_status dto) (us_cancelReason dto)
          (emitStatusEvent ?t' u (us_cancelReason dto) (update_trip now i f w1)))"
    by (rule updateStatus_done [OF assms(1,2) c a refl])
  have "w1 = releaseLocksForTrip now (t_id t) w"
    using p assms(5) by (auto simp: prepareStatus_def nobody_left_to_notify split: if_splits)
  then have s1: "sent w1 = sent w" by (simp add: releaseLocksForTrip_sent)
  have none: "t_driverId ?t' = None" using assms(4,5) by (auto simp: new_row_def)
  from up assms(6) have "w' = broadcastStatusEvent ?t' (us_status dto) (us_cancelReason dto)
      (emitStatusEvent ?t' u (us_cancelReason dto) (update_trip now i f w1))" by simp
  with assms(7) have "m \<in> set (sent (broadcastStatusEvent ?t' (us_status dto) (us_cancelReason dto)
      (emitStatusEvent ?t' u (us_cancelReason dto) (update_trip now i f w1))))" by simp
  from broadcast_rooms [OF this] show ?thesis
    using none assms(8) s1 by (auto simp: emitStatusEvent_frame update_frame)
qed

theorem cancellation_reaches_no_driver_witness:
  "open_attempt ''t1'' (busy_world\<lparr>trips := [sample_trip ''t1'']\<rparr>) \<and>
   ok (updateStatus 9 ''t1'' ''c1'' role_client \<lparr>us_status = cancelled_by_client, us_cancelReason = None\<rparr>
     (busy_world\<lparr>trips := [sample_trip ''t1'']\<rparr>)) \<and>
   getDriverRoom ''d1'' \<notin> m_room ` set (sent (snd (updateStatus 9 ''t1'' ''c1'' role_client
     \<lparr>us_status = cancelled_by_client, us_cancelReason = None\<rparr> (busy_world\<lparr>trips := [sample_trip ''t1'']\<rparr>))))"
proof -
  let ?w = "busy_world\<lparr>trips := [sample_trip ''t1'']\<rparr>"
  let ?dto = "\<lparr>us_status = cancelled_by_client, us_cancelReason = None\<rparr>"
  have d: "distinct (map t_id (trips ?w))" by simp
  have f: "find_trip ''t1'' ?w = Some (sample_trip ''t1'')" by (simp add: find_trip_def sample_trip_def)
  have o: "open_attempt ''t1'' ?w" by (simp add: open_attempt_def notified_for_def busy_world_def)
  have k: "ok (updateStatus 9 ''t1'' ''c1'' role_client ?dto ?w)"
    using updateStatus_ok_iff [OF d f] by (simp add: authorised_def sample_trip_def)
  then obtain t' w' where u: "updateStatus 9 ''t1'' ''c1'' role_client ?dto ?w = (Inr t', w')"
    by (cases "updateStatus 9 ''t1'' ''c1'' role_client ?dto ?w") (auto simp: ok_def split: sum.splits)
  have "m \<in> set (sent ?w)" if "m \<in> set (sent w')" "m_room m = getDriverRoom ''d1''" for m
    by (rule cancellation_reaches_no_driver [OF d f _ _ _ u that]) (simp_all add: sample_trip_def)
  moreover have "sent ?w = []" by (simp add: busy_world_def sample_defs)
  ultimately have "getDriverRoom ''d1'' \<notin> m_room ` set (sent w')" by force
  with o k u show ?thesis by simp
qed

text \<open>
  A failed dispatch cancels the trip only if it is still pending, and then with the reason
  of the failure; but the cancellation is announced in the trip's room in every case, also for a
  trip that meanwhile has a driver or is finished.
\<close>

theorem dispatch_failure_effect:
  "trips (handleDispatchFailed now i r w) =
     map (\<lambda>t. if t_id t = i \<and> t_status t = pending
              then t\<lparr>t_status := cancelled_auto, t_cancelledAt := Some now, t_cancelReason := Some r, t_updatedAt := now\<rparr>
              else t) (trips w) \<and>
   (if hasServer w
    then \<exists>e \<in> {RideCancelled, DeliveryCancelled}. sent (handleDispatchFailed now i r w) =
           sent w @ [\<lparr>m_room = getTripRoom i, m_event = e, m_payload = CancelMsg i r\<rparr>]
    else sent (handleDispatchFailed now i r w) = sent w)"
proof -
  have e: "\<exists>e \<in> {RideCancelled, DeliveryCancelled}. getWsEventForService s cancelled_auto = Some e" for s
    by (cases s) (simp_all add: getWsEventForService_def)
  let ?w1 = "snd (updateStatusIfPending now i cancelled_auto r w)"
  obtain e where e': "e \<in> {RideCancelled, DeliveryCancelled}"
    "getWsEventForService (case findById i ?w1 of None \<Rightarrow> ride | Some t \<Rightarrow> t_serviceType t) cancelled_auto = Some e"
    using e by blast
  have h: "handleDispatchFailed now i r w = emitToTrip i e (CancelMsg i r) ?w1"
    using e'(2) by (simp add: handleDispatchFailed_def Let_def)
  have "trips (handleDispatchFailed now i r w) = trips ?w1" unfolding h by (simp add: world_simps)
  moreover have "trips ?w1 = map (\<lambda>t. if t_id t = i \<and> t_status t = pending
              then t\<lparr>t_status := cancelled_auto, t_cancelledAt := Some now, t_cancelReason := Some r, t_updatedAt := now\<rparr>
              else t) (trips w)"
    by (simp add: updateStatusIfPending_def Let_def update_where_def)
  moreover have "sent (handleDispatchFailed now i r w) =
      (if hasServer w then sent w @ [\<lparr>m_room = getTripRoom i, m_event = e, m_payload = CancelMsg i r\<rparr>] else sent w)"
    unfolding h by (simp add: emitTo_ws_send ws_send_def updateStatusIfPending_frame)
  ultimately show ?thesis using e'(1) by auto
qed

section \<open>Payment and completion\<close>

lemma assertDriver_cases:
  "assertDriverOfRunningTrip x y i u role w =
     (if role \<noteq> role_driver then (Inl (ForbiddenException x), w)
      else case find_trip i w of
        None \<Rightarrow> (Inl (NotFoundException ''Course introuvable''), w)
      | Some t \<Rightarrow>
          (case findDriverByUserId u w of
             None \<Rightarrow> (Inl (ForbiddenException ''Ce n'est pas votre course''), w)
           | Some d \<Rightarrow> if t_driverId t \<noteq> Some (d_id d) then (Inl (ForbiddenException ''Ce n'est pas votre course''), w)
               else if t_status t \<noteq> in_progress then (Inl (BadRequestException y), w) else (Inr t, w)))"
  by (simp add: assertDriverOfRunningTrip_def getTrip_def findById_def throw_def return_def split: option.split)

text \<open>The trip a driver may charge and finish.\<close>

definition chargeable :: "id \<Rightarrow> id \<Rightarrow> UserRole \<Rightarrow> world \<Rightarrow> Trip \<Rightarrow> bool" where
  "chargeable i u role w t \<longleftrightarrow> role = role_driver \<and> find_trip i w = Some t \<and> t_status t = in_progress \<and>
     (\<exists>d. findDriverByUserId u w = Some d \<and> t_driverId t = Some (d_id d))"

lemma assertDriver_ok: "assertDriverOfRunningTrip x y i u role w = (Inr t, w') \<longleftrightarrow> chargeable i u role w t \<and> w' = w"
  by (auto simp: assertDriver_cases chargeable_def split: option.splits)

lemma assertDriver_error: "\<not> chargeable i u role w t \<Longrightarrow> find_trip i w = Some t \<or> find_trip i w = None \<Longrightarrow>
    \<exists>e. assertDriverOfRunningTrip x y i u role w = (Inl e, w)"
  by (auto simp: assertDriver_cases chargeable_def split: option.splits)

lemma update_trip_twice:
  assumes "\<And>t. t_id (f t) = t_id t"
  shows "update_trip now i g (update_trip now i f w) = update_trip now i (\<lambda>t. g ((f t)\<lparr>t_updatedAt := now\<rparr>)) w"
  using assms by (simp add: update_trip_def update_where_def comp_def if_distrib cong: if_cong)

lemma payment_first:
  "x\<lparr>t_paymentReceivedAt := a, t_paymentReceivedAmount := b, t_status := c, t_completedAt := d, t_finalPrice := e,
     t_updatedAt := g\<rparr> =
   x\<lparr>t_status := c, t_completedAt := d, t_finalPrice := e, t_paymentReceivedAt := a, t_paymentReceivedAmount := b,
     t_updatedAt := g\<rparr>" for x :: Trip
  by (cases x) simp

lemma completeTrip_done:
  assumes "chargeable i u role w t"
    and t': "t' = t\<lparr>t_status := completed, t_completedAt := Some now, t_finalPrice := t_estimatedPrice t,
               t_paymentReceivedAt := Some now, t_paymentReceivedAmount := Some amount, t_updatedAt := now\<rparr>"
  shows "completeTrip now i u role amount w = (Inr t',
    broadcastStatusEvent t' completed None (emitStatusEvent t' u None (update_trip now i
      (\<lambda>t'. t'\<lparr>t_status := completed, t_completedAt := Some now, t_finalPrice := t_estimatedPrice t,
             t_paymentReceivedAt := Some now, t_paymentReceivedAmount := Some amount\<rparr>) w)))"
proof -
  have f: "find_trip i w = Some t" "t_status t = in_progress" using assms(1) by (simp_all add: chargeable_def)
  have a: "assertDriverOfRunningTrip ''Seul un chauffeur peut terminer une course''
         ''Terminaison impossible depuis le statut actuel'' i u role w = (Inr t, w)"
    using assms(1) by (simp add: assertDriver_ok)
  show ?thesis unfolding completeTrip_def a
    by (simp add: f t' repo_update_cases return_def andThen_def)
qed

text \<open>
  C5. Finishing a trip in one request is the same as reporting its payment and then changing
  its status: on a trip its driver may charge, \<open>completeTrip\<close> succeeds and gives the answer and
  the world, events and messages included, of \<open>confirmPaymentReceived\<close> followed by
  \<open>updateStatus completed\<close> at the same moment; on any other trip both are refused and change
  nothing.
\<close>

theorem complete_is_payment_then_status:
  assumes "distinct (map t_id (trips w))"
  shows "let both = andThen (confirmPaymentReceived now i u role amount w)
           (\<lambda>_. updateStatus now i u role \<lparr>us_status = completed, us_cancelReason = None\<rparr>)
         in if (\<exists>t. chargeable i u role w t)
            then ok both \<and> completeTrip now i u role amount w = both
            else \<exists>e e'. both = (Inl e, w) \<and> completeTrip now i u role amount w = (Inl e', w)"
proof (cases "\<exists>t. chargeable i u role w t")
  case False
  have "\<exists>e. assertDriverOfRunningTrip x y i u role w = (Inl e, w)" for x y
    using assertDriver_error [of i u role w _ x y] False by (cases "find_trip i w") blast+
  then obtain e e' where
    "assertDriverOfRunningTrip ''Seul un chauffeur peut confirmer un paiement''
       ''Paiement impossible depuis le statut actuel'' i u role w = (Inl e, w)"
    and "assertDriverOfRunningTrip ''Seul un chauffeur peut terminer une course''
       ''Terminaison impossible depuis le statut actuel'' i u role w = (Inl e', w)" by blast
  then have "confirmPaymentReceived now i u role amount w = (Inl e, w)"
    and "completeTrip now i u role amount w = (Inl e', w)"
    by (simp_all only: confirmPaymentReceived_def completeTrip_def andThen_simps)
  with False show ?thesis by (simp add: Let_def)
next
  case True
  then obtain t where t: "chargeable i u role w t" by blast
  then obtain d where f: "find_trip i w = Some t" "t_status t = in_progress" "role = role_driver"
    and d: "findDriverByUserId u w = Some d" "t_driverId t = Some (d_id d)" by (auto simp: chargeable_def)
  let ?pay = "\<lambda>t. t\<lparr>t_paymentReceivedAt := Some now, t_paymentReceivedAmount := Some amount\<rparr>"
  let ?t1 = "(?pay t)\<lparr>t_updatedAt := now\<rparr>" and ?w1 = "update_trip now i ?pay w"
  let ?dto = "\<lparr>us_status = completed, us_cancelReason = None\<rparr>"
  have pay: "confirmPaymentReceived now i u role amount w = (Inr ?t1, ?w1)"
    using t unfolding confirmPaymentReceived_def markPaymentReceived_def
    by (simp add: iffD2 [OF assertDriver_ok] repo_update_cases f return_def)
  have f1: "find_trip i ?w1 = Some ?t1" by (simp add: find_trip_update_same f)
  let ?fin = "\<lambda>x. x\<lparr>t_status := completed, t_completedAt := Some now, t_finalPrice := t_estimatedPrice t\<rparr>"
  have prep: "prepareStatus now ?t1 u role ?dto ?w1 = (Inr ?fin, ?w1)"
    using d f(3) by (simp add: prepareStatus_def find_frames return_def)
  let ?t' = "(?fin ?t1)\<lparr>t_updatedAt := now\<rparr>"
  have w2: "update_trip now i ?fin ?w1 = update_trip now i
      (\<lambda>t'. t'\<lparr>t_status := completed, t_completedAt := Some now, t_finalPrice := t_estimatedPrice t,
             t_paymentReceivedAt := Some now, t_paymentReceivedAmount := Some amount\<rparr>) w"
    by (simp add: update_trip_twice) (simp add: update_trip_def payment_first)
  have "updateStatus now i u role ?dto ?w1 = (Inr ?t',
      broadcastStatusEvent ?t' completed None (emitStatusEvent ?t' u None (update_trip now i ?fin ?w1)))"
    using f(2) f1 prep
    by (simp add: updateStatus_def getTrip_def findById_def repo_update_cases return_def andThen_def)
  with pay completeTrip_done [OF t refl, of now amount] True show ?thesis
    unfolding w2 by (simp add: Let_def payment_first)
qed

theorem complete_is_payment_then_status_witness:
  "completeTrip 5 ''t1'' ''u1'' role_driver 1000 running_world =
   andThen (confirmPaymentReceived 5 ''t1'' ''u1'' role_driver 1000 running_world)
     (\<lambda>_. updateStatus 5 ''t1'' ''u1'' role_driver \<lparr>us_status = completed, us_cancelReason = None\<rparr>)"
proof -
  have d: "distinct (map t_id (trips running_world))" by (simp add: running_world_def)
  have "chargeable ''t1'' ''u1'' role_driver running_world ((sample_trip ''t1'')\<lparr>t_status := in_progress, t_driverId := Some ''d1''\<rparr>)"
    by (simp add: chargeable_def running_world_def find_trip_def findDriverByUserId_def sample_trip_def sample_defs)
  then have "\<exists>t. chargeable ''t1'' ''u1'' role_driver running_world t" by blast
  with complete_is_payment_then_status [OF d, where now = 5 and i = "''t1''" and u = "''u1''"
      and role = role_driver and amount = 1000] show ?thesis
    by (simp add: Let_def)
qed

section \<open>Ratings and new trips\<close>

lemma rateTrip_done:
  assumes "rateTrip i u role stars tags w = (Inr x, w')"
  shows "\<exists>t. find_trip i w = Some t \<and> t_status t = completed \<and> findRating i u w = None \<and>
    (if role = role_driver then \<exists>d. findDriverByUserId u w = Some d \<and> t_driverId t = Some (d_id d)
     else t_clientId t = u) \<and>
    r_tripId x = i \<and> r_raterId x = u \<and> r_rating x = stars \<and> ratings w' = ratings w @ [x] \<and>
    trips w' = trips w \<and> drivers w' = drivers w"
  using assms
  by (auto simp: rateTrip_def getTrip_def findById_def createRating_def Let_def emit_frame return_def throw_def
      split: option.splits if_splits)

text \<open>
  C19. A rating is given once, for a finished trip, by one of its two parties: a successful call
  appends exactly one rating of this trip by this user, keeps the pairs (trip, rater) of the
  table distinct, and any second attempt by the same user is refused with 409 and changes
  nothing.
\<close>

theorem rating_once:
  assumes first: "rateTrip i u role stars tags w = (Inr x, w')"
    and "distinct (map (\<lambda>r. (r_tripId r, r_raterId r)) (ratings w))"
  shows "\<exists>t. find_trip i w = Some t \<and> t_status t = completed \<and>
    (t_clientId t = u \<or> (\<exists>d. findDriverByUserId u w = Some d \<and> t_driverId t = Some (d_id d))) \<and>
    ratings w' = ratings w @ [x] \<and> r_rating x = stars \<and>
    distinct (map (\<lambda>r. (r_tripId r, r_raterId r)) (ratings w')) \<and>
    rateTrip i u role stars' tags' w' = (Inl (ConflictException ''Cette course a deja ete notee''), w')"
proof -
  from rateTrip_done [OF first] obtain t where t: "find_trip i w = Some t" "t_status t = completed"
    and free: "findRating i u w = None"
    and own: "if role = role_driver then \<exists>d. findDriverByUserId u w = Some d \<and> t_driverId t = Some (d_id d)
     else t_clientId t = u"
    and x: "r_tripId x = i" "r_raterId x = u" "r_rating x = stars" "ratings w' = ratings w @ [x]"
    and f: "trips w' = trips w" "drivers w' = drivers w" by blast
  have "(i, u) \<notin> (\<lambda>r. (r_tripId r, r_raterId r)) ` set (ratings w)"
    using free by (auto simp: findRating_def find_None_iff)
  with assms(2) x have dist: "distinct (map (\<lambda>r. (r_tripId r, r_raterId r)) (ratings w'))" by simp
  have "findRating i u w' \<noteq> None"
    using x free by (simp add: findRating_def find_append)
  then have again: "rateTrip i u role stars' tags' w' = (Inl (ConflictException ''Cette course a deja ete notee''), w')"
    using t own f by (auto simp: rateTrip_def getTrip_def findById_def find_trip_def findDriverByUserId_def
        throw_def Let_def split: if_splits option.splits)
  show ?thesis using t own x dist again by (auto split: if_splits)
qed

definition finished_world :: world where
  "finished_world = sample_world\<lparr>trips := [(sample_trip ''t1'')\<lparr>t_status := completed, t_driverId := Some ''d1''\<rparr>]\<rparr>"

theorem rating_once_witness:
  "fst (rateTrip ''t1'' ''c1'' role_client 1 None (snd (rateTrip ''t1'' ''c1'' role_client 5 None finished_world))) =
   Inl (ConflictException ''Cette course a deja ete notee'')"
proof -
  obtain x w' where r: "rateTrip ''t1'' ''c1'' role_client 5 None finished_world = (Inr x, w')"
    by (simp add: rateTrip_def getTrip_def findById_def find_trip_def findRating_def finished_world_def
        sample_trip_def sample_defs return_def createRating_def)
  have "distinct (map (\<lambda>r. (r_tripId r, r_raterId r)) (ratings finished_world))"
    by (simp add: finished_world_def sample_defs)
  from rating_once [OF r this, of 1 None] r show ?thesis by auto
qed

lemma calculatePrice_frame:
  "trips (snd (calculatePrice matrix tz now q w)) = trips w" "bus (snd (calculatePrice matrix tz now q w)) = bus w"
  "drivers (snd (calculatePrice matrix tz now q w)) = drivers w"
  "payments (snd (calculatePrice matrix tz now q w)) = payments w"
  by (simp_all add: calculatePrice_def getSurgeMultiplier_def Let_def split_beta loadData_frame split: option.split)

lemma serviceDetails_frame:
  "trips (serviceDetails i dto w) = trips w" "bus (serviceDetails i dto w) = bus w"
  "drivers (serviceDetails i dto w) = drivers w" "payments (serviceDetails i dto w) = payments w"
  by (simp_all add: serviceDetails_def createDeliveryDetails_def createRideDetails_def)

text \<open>
  C18. Creating a trip: without a quote (no active vehicle type) the request is refused with 404
  and no row or event appears; otherwise exactly one row is appended, pending, without a driver,
  in cash and at the quoted price, distance and duration, and exactly one \<open>TripCreated\<close> event
  follows that carries the same data.
\<close>

theorem trip_creation:
  assumes "i \<notin> t_id ` set (trips w)"
  shows "case fst (calculatePrice matrix tz now \<lparr>q_serviceType = ct_serviceType dto, q_vehicleTypeId = ct_vehicleTypeId dto,
                q_pickup = ct_pickup dto, q_dropoff = ct_dropoff dto\<rparr> w) of
     Inl e \<Rightarrow> http_status e = 404 \<and> fst (createTrip matrix tz i now client dto w) = Inl e \<and>
       trips (snd (createTrip matrix tz i now client dto w)) = trips w \<and>
       bus (snd (createTrip matrix tz i now client dto w)) = bus w
   | Inr q \<Rightarrow>
       \<exists>t ev w'. createTrip matrix tz i now client dto w = (Inr t, w') \<and> trips w' = trips w @ [t] \<and>
         bus w' = bus w @ [TripCreated ev] \<and>
         t_id t = i \<and> t_status t = pending \<and> t_driverId t = None \<and> t_clientId t = client \<and>
         t_paymentMethod t = cash \<and> t_estimatedPrice t = Some (res_estimatedPrice q) \<and>
         t_distanceMeters t = Some (res_distanceMeters q) \<and> t_durationSeconds t = Some (res_durationSeconds q) \<and>
         tc_tripId ev = i \<and> tc_clientId ev = client \<and> tc_pickup ev = t_pickup t \<and>
         tc_serviceType ev = t_serviceType t \<and> tc_vehicleTypeId ev = t_vehicleTypeId t \<and>
         tc_estimatedPrice ev = res_estimatedPrice q"
proof -
  let ?q = "\<lparr>q_serviceType = ct_serviceType dto, q_vehicleTypeId = ct_vehicleTypeId dto,
                q_pickup = ct_pickup dto, q_dropoff = ct_dropoff dto\<rparr>"
  obtain r w1 where r: "calculatePrice matrix tz now ?q w = (r, w1)" by (metis surj_pair)
  have f: "trips w1 = trips w" "bus w1 = bus w" using calculatePrice_frame [of matrix tz now ?q w] r by simp_all
  show ?thesis
  proof (cases r)
    case (Inl e)
    then have "http_status e = 404"
      using r by (auto simp: calculatePrice_def throw_def return_def Let_def split_beta split: option.splits)
    with Inl r f show ?thesis by (simp add: createTrip_def)
  next
    case (Inr q)
    have "find (\<lambda>t. t_id t = i) (trips w) = None" using assms by (auto simp: find_None_iff)
    with Inr r f show ?thesis
      by (simp add: createTrip_def insertWithGeometry_def getTrip_def findById_def find_trip_def
          serviceDetails_frame find_append emit_frame return_def)
  qed
qed

theorem trip_creation_witness:
  "map t_status (trips (snd (createTrip mock_getDistanceMatrix (\<lambda>_. 0) ''t1'' 0 ''c1''
     \<lparr>ct_serviceType = ride, ct_vehicleTypeId = ''moto'', ct_pickup = \<lparr>lat = 12, lng = -8\<rparr>, ct_pickupAddress = ''A'',
      ct_dropoff = \<lparr>lat = 13, lng = -8\<rparr>, ct_dropoffAddress = ''B'', ct_recipientName = None,
      ct_recipientPhone = None, ct_parcelDescription = None, ct_parcelWeightKg = None,
      ct_parcelDimensions = None, ct_isFragile = None, ct_passengerCount = None, ct_notes = None\<rparr>
     sample_world))) = [pending]"
  (is "map t_status (trips (snd (createTrip ?m ?tz _ _ _ ?dto _))) = _")
proof -
  have fresh: "''t1'' \<notin> t_id ` set (trips sample_world)" by (simp add: sample_defs)
  have none: "trips sample_world = []" by (simp add: sample_defs)
  have "\<exists>r. fst (calculatePrice ?m ?tz 0 \<lparr>q_serviceType = ride, q_vehicleTypeId = ''moto'',
      q_pickup = \<lparr>lat = 12, lng = -8\<rparr>, q_dropoff = \<lparr>lat = 13, lng = -8\<rparr>\<rparr> sample_world) = Inr r"
    by (simp add: calculatePrice_def sample_defs Let_def split_beta return_def)
  then show ?thesis
    using trip_creation [OF fresh, where matrix = ?m and tz = ?tz and now = 0 and dto = ?dto and client = "''c1''"] none
    by auto
qed

end
