(* ===== verification/Json_Values.thy ===== *)
theory Json_Values
  imports Telima_Prelude
begin

text \<open>
  Values the code reads without a type: bodies of HTTP answers and of the public webhook. An
  absent member (\<open>undefined\<close>) is \<open>None\<close>. Reading a member of \<open>null\<close> raises a \<open>TypeError\<close>;
  other values that are no object have none of the members the code asks for.
\<close>

datatype json =
    JNull
  | JBool bool
  | JNum real
  | JString string
  | JArray "json list"
  | JObject "(string \<times> json) list"

text \<open>\<open>JSON.parse\<close> keeps the last of two members with the same name.\<close>

fun member :: "string \<Rightarrow> json \<Rightarrow> json option" where
  "member k (JObject fields) = map_of (rev fields) k"
| "member k _ = None"

definition js_get :: "string \<Rightarrow> json \<Rightarrow> http_error + json option" where
  "js_get k j = (if j = JNull then Inl (InternalError ''TypeError'') else Inr (member k j))"

fun js_truthy :: "json option \<Rightarrow> bool" where
  "js_truthy None = False"
| "js_truthy (Some JNull) = False"
| "js_truthy (Some (JBool b)) = b"
| "js_truthy (Some (JNum n)) = (n \<noteq> 0)"
| "js_truthy (Some (JString s)) = (s \<noteq> [])"
| "js_truthy (Some (JArray _)) = True"
| "js_truthy (Some (JObject _)) = True"

text \<open>\<open>x ?? y\<close> on values that may be \<open>null\<close> or \<open>undefined\<close>.\<close>

fun js_coalesce :: "json option \<Rightarrow> json option \<Rightarrow> json option" where
  "js_coalesce None y = y"
| "js_coalesce (Some JNull) y = y"
| "js_coalesce (Some v) y = Some v"

fun json_string :: "json option \<Rightarrow> string option" where
  "json_string (Some (JString s)) = Some s"
| "json_string _ = None"

lemma js_coalesce_truthy: "js_truthy x \<Longrightarrow> js_coalesce x y = x"
  by (cases x rule: js_truthy.cases) simp_all

lemma js_get_simps [simp]:
  "js_get k (JObject fields) = Inr (map_of (rev fields) k)"
  "js_get k JNull = Inl (InternalError ''TypeError'')"
  by (simp_all add: js_get_def)

text \<open>\<open>toUpperCase\<close> on ASCII letters.\<close>

definition upper_char :: "char \<Rightarrow> char" where
  "upper_char c =
     (let n = of_char c :: nat in if 97 \<le> n \<and> n \<le> 122 then char_of (n - 32) else c)"

definition js_toUpperCase :: "string \<Rightarrow> string" where
  "js_toUpperCase s = map upper_char s"

end
