(* ===== verification/Auth.thy ===== *)
theory Auth
  imports Json_Values Telima_World
begin

text \<open>
  Signing in: \<open>AuthService\<close>, the JulakAI client it delegates to, and the helpers
  \<open>phone.util.ts\<close> and \<open>crypto.util.ts\<close>. JWT, bcrypt, SHA-256, HMAC, the random source, the SMS
  provider and the HTTP exchange with JulakAI are parameters; new row ids are arguments.
\<close>

section \<open>Configuration and libraries\<close>

datatype JulakaiApp = app_client | app_driver

record JulakaiCredentials =
  appKey :: string
  appSecret :: string

record AuthConfig =
  OTP_PROVIDER :: "string option"
  OTP_LENGTH :: "nat option"
  OTP_EXPIRES_MINUTES :: "int option"
  OTP_RESEND_COOLDOWN_SECONDS :: "int option"
  OTP_MAX_ATTEMPTS :: "nat option"
  OTP_LOCK_MINUTES :: "int option"
  OTP_EXPOSE_IN_RESPONSE :: "bool option"
  NODE_ENV :: "string option"
  JWT_ACCESS_SECRET :: string
  JWT_ACCESS_EXPIRES_IN :: string
  JWT_REFRESH_SECRET :: string
  JWT_REFRESH_EXPIRES_IN :: "string option"
  JULAKAI_CLIENT_APP_KEY :: "string option"
  JULAKAI_CLIENT_APP_SECRET :: "string option"
  JULAKAI_DRIVER_APP_KEY :: "string option"
  JULAKAI_DRIVER_APP_SECRET :: "string option"

record JwtPayload =
  sub :: id
  jp_phone :: string
  jp_role :: UserRole

record TokenPair =
  accessToken :: string
  refreshToken :: string

text \<open>A JWT carries the second of its issue: signing depends on the secret, the lifetime, that second and the payload.\<close>

record Libraries =
  jwt_sign :: "string \<Rightarrow> string \<Rightarrow> int \<Rightarrow> JwtPayload \<Rightarrow> string"
  jwt_verify :: "string \<Rightarrow> time \<Rightarrow> string \<Rightarrow> JwtPayload option"
  bcrypt_hash :: "string \<Rightarrow> string"
  bcrypt_compare :: "string \<Rightarrow> string \<Rightarrow> bool"
  hashToken :: "string \<Rightarrow> string"
  hmac_sha256 :: "string \<Rightarrow> string \<Rightarrow> string"

datatype SmsOutcome = SmsSent "string option" | SmsServiceUnavailable string | SmsFailed

section \<open>Helpers\<close>

definition phone_char :: "char \<Rightarrow> bool" where
  "phone_char c \<longleftrightarrow> is_digit c \<or> c = CHR ''+''"

definition normalizePhone :: "string \<Rightarrow> string" where
  "normalizePhone rawPhone =
     (let digitsOnly = filter phone_char rawPhone
      in if take 4 digitsOnly = ''+223'' then digitsOnly
         else if take 3 digitsOnly = ''223'' then ''+'' @ digitsOnly
         else ''+223'' @ digitsOnly)"

definition isValidMaliPhone :: "string \<Rightarrow> bool" where
  "isValidMaliPhone rawPhone =
     (let n = normalizePhone rawPhone
      in take 4 n = ''+223'' \<and> length (drop 4 n) = 8 \<and> list_all is_digit (drop 4 n))"

text \<open>\<open>String(randomInt(min, max + 1))\<close> for the number \<open>r\<close> drawn.\<close>

definition generateOtpCode :: "nat \<Rightarrow> string" where
  "generateOtpCode r = show_nat r"

definition otp_range :: "nat \<Rightarrow> nat set" where
  "otp_range n = {10 ^ (n - 1) ..< 10 ^ n}"

definition parseExpiryToDate :: "time \<Rightarrow> string \<Rightarrow> time" where
  "parseExpiryToDate now expiresIn =
     (let ds = butlast expiresIn; u = last expiresIn
      in if expiresIn = [] \<or> ds = [] \<or> \<not> list_all is_digit ds \<or> u \<notin> set ''smhd''
         then now + 30 * 24 * 60 * 60 * 1000
         else now + digits_value ds *
                (if u = CHR ''s'' then 1000 else if u = CHR ''m'' then 60000
                 else if u = CHR ''h'' then 3600000 else 86400000))"

section \<open>JulakAI\<close>

record JulakaiRequest =
  jr_app :: JulakaiApp
  jr_path :: string
  jr_key :: string
  jr_timestamp :: string
  jr_signature :: string
  jr_body :: string

type_synonym julakai_fetch = "JulakaiRequest \<Rightarrow> (nat \<times> json option) option"

definition loadCredentials :: "string option \<Rightarrow> string option \<Rightarrow> JulakaiCredentials option" where
  "loadCredentials key secret =
     (if truthy key \<and> truthy secret then Some \<lparr>appKey = the key, appSecret = the secret\<rparr> else None)"

fun credentials :: "AuthConfig \<Rightarrow> JulakaiApp \<Rightarrow> JulakaiCredentials option" where
  "credentials cfg app_client = loadCredentials (JULAKAI_CLIENT_APP_KEY cfg) (JULAKAI_CLIENT_APP_SECRET cfg)"
| "credentials cfg app_driver = loadCredentials (JULAKAI_DRIVER_APP_KEY cfg) (JULAKAI_DRIVER_APP_SECRET cfg)"

definition julakai_isConfigured :: "AuthConfig \<Rightarrow> JulakaiApp \<Rightarrow> bool" where
  "julakai_isConfigured cfg app \<longleftrightarrow> credentials cfg app \<noteq> None"

definition sign :: "Libraries \<Rightarrow> string \<Rightarrow> string \<Rightarrow> string \<Rightarrow> string \<Rightarrow> string \<Rightarrow> string" where
  "sign lib secret verb path timestamp rawBody = hmac_sha256 lib secret (verb @ path @ timestamp @ rawBody)"

text \<open>The answer's status and body; a body that is no JSON is read as \<open>{}\<close>, a network failure or timeout is a 503.\<close>

definition call_julakai ::
  "Libraries \<Rightarrow> julakai_fetch \<Rightarrow> AuthConfig \<Rightarrow> time \<Rightarrow> JulakaiApp \<Rightarrow> string \<Rightarrow> string \<Rightarrow> http_error + (nat \<times> json)" where
  "call_julakai lib fetch cfg now app path rawBody =
     (case credentials cfg app of
        None \<Rightarrow> Inl (ServiceUnavailableException ''JulakAI non configure'')
      | Some creds \<Rightarrow>
          (let timestamp = show_nat (nat (now div 1000));
               signature = sign lib (appSecret creds) ''POST'' path timestamp rawBody
           in case fetch \<lparr>jr_app = app, jr_path = path, jr_key = appKey creds, jr_timestamp = timestamp,
                          jr_signature = signature, jr_body = rawBody\<rparr> of
                None \<Rightarrow> Inl (ServiceUnavailableException ''Service SMS temporairement indisponible'')
              | Some (status, body) \<Rightarrow> Inr (status, case body of None \<Rightarrow> JObject [] | Some j \<Rightarrow> j)))"

definition http_ok :: "nat \<Rightarrow> bool" where
  "http_ok status \<longleftrightarrow> 200 \<le> status \<and> status < 300"

text \<open>The answer is \<open>expiresInSeconds\<close> of the body.\<close>

definition julakai_sendOtp ::
  "Libraries \<Rightarrow> julakai_fetch \<Rightarrow> AuthConfig \<Rightarrow> time \<Rightarrow> string \<Rightarrow> JulakaiApp \<Rightarrow> http_error + json option" where
  "julakai_sendOtp lib fetch cfg now phone app =
     (case call_julakai lib fetch cfg now app ''/v1/otp/send'' (''{\"phone\":\"'' @ phone @ ''\"}'') of
        Inl e \<Rightarrow> Inl e
      | Inr (status, body) \<Rightarrow>
          if status = 429 then Inl (BadRequestException ''Veuillez patienter avant de redemander un code (cooldown JulakAI)'')
          else if status = 402 then Inl (ServiceUnavailableException ''Service SMS temporairement indisponible'')
          else if status = 400 then Inl (BadRequestException ''Numero de telephone invalide'')
          else if \<not> http_ok status then Inl (ServiceUnavailableException ''Service SMS temporairement indisponible'')
          else js_get ''expiresInSeconds'' body)"

text \<open>The answer is whether \<open>verified\<close> of the body is truthy.\<close>

definition julakai_verifyOtp ::
  "Libraries \<Rightarrow> julakai_fetch \<Rightarrow> AuthConfig \<Rightarrow> time \<Rightarrow> string \<Rightarrow> string \<Rightarrow> JulakaiApp \<Rightarrow> http_error + bool" where
  "julakai_verifyOtp lib fetch cfg now phone code app =
     (case call_julakai lib fetch cfg now app ''/v1/otp/verify''
             (''{\"phone\":\"'' @ phone @ ''\",\"code\":\"'' @ code @ ''\"}'') of
        Inl e \<Rightarrow> Inl e
      | Inr (status, body) \<Rightarrow>
          if status = 401 then Inl (UnauthorizedException ''Code OTP invalide ou expire'')
          else if status = 403 then Inl (ForbiddenException ''Trop de tentatives, veuillez redemander un code'')
          else if \<not> http_ok status
          then Inl (ServiceUnavailableException ''Service de verification temporairement indisponible'')
          else map_sum id js_truthy (js_get ''verified'' body))"

definition useJulakai :: "AuthConfig \<Rightarrow> JulakaiApp \<Rightarrow> bool" where
  "useJulakai cfg app \<longleftrightarrow> nullish (OTP_PROVIDER cfg) ''legacy'' = ''julakai'' \<and> julakai_isConfigured cfg app"

section \<open>Tokens\<close>

definition find_token :: "string \<Rightarrow> world \<Rightarrow> RefreshToken option" where
  "find_token hash w = find (\<lambda>r. rt_tokenHash r = hash) (refreshTokens w)"

definition update_token :: "id \<Rightarrow> (RefreshToken \<Rightarrow> RefreshToken) \<Rightarrow> world \<Rightarrow> world" where
  "update_token i f w = w\<lparr>refreshTokens := update_where (\<lambda>r. rt_id r = i) f (refreshTokens w)\<rparr>"

text \<open>\<open>tokenHash\<close> is unique; of the two rows of a rotation each gets the other in \<open>replacedBy\<close>.\<close>

definition issueTokenPair ::
  "Libraries \<Rightarrow> AuthConfig \<Rightarrow> id \<Rightarrow> time \<Rightarrow> id \<Rightarrow> string \<Rightarrow> UserRole \<Rightarrow> id option \<Rightarrow> world \<Rightarrow> (TokenPair, world) outcome" where
  "issueTokenPair lib cfg newId now userId phone role replacedTokenId w =
     (let payload = \<lparr>sub = userId, jp_phone = phone, jp_role = role\<rparr>;
          second = now div 1000;
          access = jwt_sign lib (JWT_ACCESS_SECRET cfg) (JWT_ACCESS_EXPIRES_IN cfg) second payload;
          refreshExpiresIn = nullish (JWT_REFRESH_EXPIRES_IN cfg) ''30d'';
          refresh = jwt_sign lib (JWT_REFRESH_SECRET cfg) refreshExpiresIn second payload;
          row = \<lparr>rt_id = newId, rt_userId = userId, rt_tokenHash = hashToken lib refresh, rt_revokedAt = None,
                 rt_replacedBy = (if truthy replacedTokenId then replacedTokenId else None),
                 rt_expiresAt = parseExpiryToDate now refreshExpiresIn\<rparr>
      in if find_token (hashToken lib refresh) w \<noteq> None
         then throw (InternalError ''Unique constraint failed'') w
         else (let w1 = w\<lparr>refreshTokens := refreshTokens w @ [row]\<rparr>;
                   w2 = (if truthy replacedTokenId
                         then update_token (the replacedTokenId) (\<lambda>r. r\<lparr>rt_replacedBy := Some newId\<rparr>) w1 else w1)
               in return \<lparr>accessToken = access, refreshToken = refresh\<rparr> w2))"

definition refresh :: "Libraries \<Rightarrow> AuthConfig \<Rightarrow> id \<Rightarrow> time \<Rightarrow> string \<Rightarrow> world \<Rightarrow> (TokenPair, world) outcome" where
  "refresh lib cfg newId now token w =
     (case jwt_verify lib (JWT_REFRESH_SECRET cfg) now token of
        None \<Rightarrow> throw (UnauthorizedException ''Refresh token invalide ou expire'') w
      | Some payload \<Rightarrow>
          (case find_token (hashToken lib token) w of
             None \<Rightarrow> throw (UnauthorizedException ''Refresh token invalide, revoque ou expire'') w
           | Some stored \<Rightarrow>
               if rt_revokedAt stored \<noteq> None \<or> rt_expiresAt stored < now
               then throw (UnauthorizedException ''Refresh token invalide, revoque ou expire'') w
               else (let w1 = update_token (rt_id stored) (\<lambda>r. r\<lparr>rt_revokedAt := Some now\<rparr>) w
                     in case find_user (sub payload) w1 of
                          None \<Rightarrow> throw (InternalError ''No User found'') w1
                        | Some user \<Rightarrow>
                            issueTokenPair lib cfg newId now (u_id user) (u_phone user) (u_role user)
                              (Some (rt_id stored)) w1)))"

definition logout :: "Libraries \<Rightarrow> time \<Rightarrow> id \<Rightarrow> string \<Rightarrow> world \<Rightarrow> world" where
  "logout lib now userId token w =
     w\<lparr>refreshTokens := update_where
         (\<lambda>r. rt_userId r = userId \<and> rt_tokenHash r = hashToken lib token \<and> rt_revokedAt r = None)
         (\<lambda>r. r\<lparr>rt_revokedAt := Some now\<rparr>) (refreshTokens w)\<rparr>"

section \<open>One-time codes\<close>

record OtpAnswer =
  oa_phone :: string
  oa_expiresInSeconds :: "json option"
  oa_devOtpCode :: "string option"

record LoginAnswer =
  la_tokens :: TokenPair
  la_isNewUser :: bool
  la_user :: User

definition update_otp :: "id \<Rightarrow> (OtpCode \<Rightarrow> OtpCode) \<Rightarrow> world \<Rightarrow> world" where
  "update_otp i f w = w\<lparr>otpCodes := update_where (\<lambda>oc. o_id oc = i) f (otpCodes w)\<rparr>"

definition last_code :: "string \<Rightarrow> world \<Rightarrow> OtpCode option" where
  "last_code phone w = find_first_desc o_createdAt (\<lambda>oc. o_phone oc = phone) (otpCodes w)"

definition pending_code :: "string \<Rightarrow> world \<Rightarrow> OtpCode option" where
  "pending_code phone w =
     find_first_desc o_createdAt (\<lambda>oc. o_phone oc = phone \<and> o_consumedAt oc = None) (otpCodes w)"

definition new_code :: "Libraries \<Rightarrow> AuthConfig \<Rightarrow> id \<Rightarrow> time \<Rightarrow> string \<Rightarrow> string \<Rightarrow> world \<Rightarrow> OtpCode" where
  "new_code lib cfg newId now phone code w = \<lparr>o_id = newId, o_phone = phone, o_codeHash = bcrypt_hash lib code,
     o_userId = map_option u_id (find (\<lambda>u. u_phone u = phone) (users w)), o_attempts = 0,
     o_expiresAt = now + nullish (OTP_EXPIRES_MINUTES cfg) 5 * 60 * 1000, o_lockedUntil = None,
     o_consumedAt = None, o_smsMessageId = None, o_createdAt = now\<rparr>"

text \<open>\<open>drawn\<close> is the number the random source gives.\<close>

definition requestOtp ::
  "Libraries \<Rightarrow> julakai_fetch \<Rightarrow> (string \<Rightarrow> string \<Rightarrow> SmsOutcome) \<Rightarrow> AuthConfig \<Rightarrow> id \<Rightarrow> nat \<Rightarrow> time \<Rightarrow>
   string \<Rightarrow> JulakaiApp \<Rightarrow> world \<Rightarrow> (OtpAnswer, world) outcome" where
  "requestOtp lib fetch sms cfg newId drawn now rawPhone app w =
     (let phone = normalizePhone rawPhone in
      if useJulakai cfg app
      then (case julakai_sendOtp lib fetch cfg now phone app of
              Inl e \<Rightarrow> throw e w
            | Inr expires \<Rightarrow> return \<lparr>oa_phone = phone, oa_expiresInSeconds = expires, oa_devOtpCode = None\<rparr> w)
      else (let cooldown = nullish (OTP_RESEND_COOLDOWN_SECONDS cfg) 60 * 1000;
                tooSoon = (case last_code phone w of None \<Rightarrow> False | Some oc \<Rightarrow> now - o_createdAt oc < cooldown)
            in if tooSoon then throw (BadRequestException ''Veuillez patienter avant de redemander un code'') w
               else (let code = generateOtpCode drawn;
                         w1 = w\<lparr>otpCodes := otpCodes w @ [new_code lib cfg newId now phone code w]\<rparr>;
                         expose = nullish (OTP_EXPOSE_IN_RESPONSE cfg) False \<and> NODE_ENV cfg \<noteq> Some ''production'';
                         answer = \<lparr>oa_phone = phone,
                           oa_expiresInSeconds = Some (JNum (real_of_int (nullish (OTP_EXPIRES_MINUTES cfg) 5 * 60))),
                           oa_devOtpCode = (if expose then Some code else None)\<rparr>
                     in case sms phone code of
                          SmsSent messageId \<Rightarrow>
                            return answer (if truthy messageId
                                           then update_otp newId (\<lambda>oc. oc\<lparr>o_smsMessageId := messageId\<rparr>) w1 else w1)
                        | SmsServiceUnavailable m \<Rightarrow> throw (ServiceUnavailableException m) w1
                        | SmsFailed \<Rightarrow>
                            throw (ServiceUnavailableException ''Service SMS temporairement indisponible, veuillez reessayer'')
                              (w1\<lparr>otpCodes := delete_where (\<lambda>oc. o_id oc = newId) (otpCodes w1)\<rparr>))))"

definition new_user :: "id \<Rightarrow> time \<Rightarrow> string \<Rightarrow> User" where
  "new_user i now phone = \<lparr>u_id = i, u_phone = phone, u_role = role_client, u_firstName = None, u_lastName = None,
     u_email = None, u_passwordHash = None, u_isActive = True, u_createdAt = now\<rparr>"

definition completeLogin ::
  "Libraries \<Rightarrow> AuthConfig \<Rightarrow> id \<Rightarrow> id \<Rightarrow> time \<Rightarrow> string \<Rightarrow> world \<Rightarrow> (LoginAnswer, world) outcome" where
  "completeLogin lib cfg userId tokenId now phone w =
     (let found = find (\<lambda>u. u_phone u = phone) (users w);
          user = (case found of None \<Rightarrow> new_user userId now phone | Some u \<Rightarrow> u);
          w1 = (if found = None then w\<lparr>users := users w @ [user]\<rparr> else w);
          isNewUser = (found = None \<or> \<not> truthy (u_firstName user) \<or> \<not> truthy (u_lastName user))
      in if \<not> u_isActive user then throw (ForbiddenException ''Ce compte a ete desactive'') w1
         else andThen (issueTokenPair lib cfg tokenId now (u_id user) (u_phone user) (u_role user) None w1) (\<lambda>tokens.
                return \<lparr>la_tokens = tokens, la_isNewUser = isNewUser, la_user = user\<rparr>))"

definition failed_guess :: "AuthConfig \<Rightarrow> time \<Rightarrow> OtpCode \<Rightarrow> OtpCode" where
  "failed_guess cfg now oc =
     oc\<lparr>o_attempts := o_attempts oc + 1,
       o_lockedUntil := (if nullish (OTP_MAX_ATTEMPTS cfg) 3 \<le> o_attempts oc + 1
                         then Some (now + nullish (OTP_LOCK_MINUTES cfg) 30 * 60 * 1000) else o_lockedUntil oc)\<rparr>"

definition verifyOtp ::
  "Libraries \<Rightarrow> julakai_fetch \<Rightarrow> AuthConfig \<Rightarrow> id \<Rightarrow> id \<Rightarrow> time \<Rightarrow> string \<Rightarrow> string \<Rightarrow> JulakaiApp \<Rightarrow> world \<Rightarrow>
   (LoginAnswer, world) outcome" where
  "verifyOtp lib fetch cfg userId tokenId now rawPhone code app w =
     (let phone = normalizePhone rawPhone in
      if useJulakai cfg app
      then (case julakai_verifyOtp lib fetch cfg now phone code app of
              Inl e \<Rightarrow> throw e w
            | Inr verified \<Rightarrow>
                if \<not> verified then throw (UnauthorizedException ''Code OTP invalide ou expire'') w
                else completeLogin lib cfg userId tokenId now phone w)
      else (case pending_code phone w of
              None \<Rightarrow> throw (UnauthorizedException ''Aucun code OTP en attente pour ce numero'') w
            | Some oc \<Rightarrow>
                if (case o_lockedUntil oc of None \<Rightarrow> False | Some t \<Rightarrow> now < t)
                then throw (ForbiddenException ''Trop de tentatives'') w
                else if o_expiresAt oc < now then throw (UnauthorizedException ''Code OTP expire'') w
                else if \<not> bcrypt_compare lib code (o_codeHash oc)
                then (let w1 = update_otp (o_id oc) (failed_guess cfg now) w in
                      if nullish (OTP_MAX_ATTEMPTS cfg) 3 \<le> o_attempts oc + 1
                      then throw (ForbiddenException ''Trop de tentatives'') w1
                      else throw (UnauthorizedException ''Code OTP invalide'') w1)
                else completeLogin lib cfg userId tokenId now phone
                       (update_otp (o_id oc) (\<lambda>oc. oc\<lparr>o_consumedAt := Some now\<rparr>) w)))"

definition adminLogin ::
  "Libraries \<Rightarrow> AuthConfig \<Rightarrow> id \<Rightarrow> time \<Rightarrow> string \<Rightarrow> string \<Rightarrow> world \<Rightarrow> (TokenPair \<times> User, world) outcome" where
  "adminLogin lib cfg tokenId now email password w =
     (case find (\<lambda>u. u_email u = Some email \<and> u_role u = role_admin) (users w) of
        None \<Rightarrow> throw (UnauthorizedException ''Identifiants invalides'') w
      | Some user \<Rightarrow>
          if \<not> truthy (u_passwordHash user) then throw (UnauthorizedException ''Identifiants invalides'') w
          else if \<not> bcrypt_compare lib password (the (u_passwordHash user))
          then throw (UnauthorizedException ''Identifiants invalides'') w
          else if \<not> u_isActive user then throw (ForbiddenException ''Ce compte a ete desactive'') w
          else andThen (issueTokenPair lib cfg tokenId now (u_id user) (u_phone user) (u_role user) None w) (\<lambda>tokens.
                 return (tokens, user)))"

section \<open>Guessing a code\<close>

lemma failed_guess_simps [simp]:
  "o_id (failed_guess cfg now oc) = o_id oc" "o_phone (failed_guess cfg now oc) = o_phone oc"
  "o_createdAt (failed_guess cfg now oc) = o_createdAt oc" "o_consumedAt (failed_guess cfg now oc) = o_consumedAt oc"
  "o_expiresAt (failed_guess cfg now oc) = o_expiresAt oc" "o_codeHash (failed_guess cfg now oc) = o_codeHash oc"
  by (simp_all add: failed_guess_def)

lemma update_otp_frame [world_simps]:
  "otpCodes (update_otp i f w) = update_where (\<lambda>oc. o_id oc = i) f (otpCodes w)"
  "users (update_otp i f w) = users w" "refreshTokens (update_otp i f w) = refreshTokens w"
  by (simp_all add: update_otp_def)

lemma pending_code_update:
  assumes "pending_code phone w = Some oc"
    and "\<And>c. o_createdAt (f c) = o_createdAt c \<and> o_phone (f c) = o_phone c \<and> o_consumedAt (f c) = o_consumedAt c"
  shows "pending_code phone (update_otp (o_id oc) f w) = Some (f oc)"
  using assms(1) unfolding pending_code_def update_otp_frame
  by (subst find_first_desc_update) (simp_all add: assms(2))

text \<open>A locked code that expires before its lock does can never be used again.\<close>

lemma locked_out:
  assumes "\<not> useJulakai cfg app" and "pending_code (normalizePhone raw) w = Some oc"
    and "o_lockedUntil oc = Some t" and "o_expiresAt oc < t"
  shows "\<exists>e. verifyOtp lib fetch cfg ui ti now raw code app w = (Inl e, w) \<and> http_status e \<in> {401, 403}"
  using assms by (auto simp: verifyOtp_def Let_def throw_def)

text \<open>
  A sequence of attempts on one number: for each, the identifiers a sign-in would use, the time and the
  code tried. The answers are collected in order.
\<close>

fun try_codes ::
  "Libraries \<Rightarrow> julakai_fetch \<Rightarrow> AuthConfig \<Rightarrow> string \<Rightarrow> JulakaiApp \<Rightarrow> (id \<times> id \<times> time \<times> string) list \<Rightarrow> world \<Rightarrow>
   (http_error + LoginAnswer) list \<times> world" where
  "try_codes lib fetch cfg raw app [] w = ([], w)"
| "try_codes lib fetch cfg raw app ((ui, ti, now, code) # gs) w =
     (let (r, w1) = verifyOtp lib fetch cfg ui ti now raw code app w;
          (rs, w2) = try_codes lib fetch cfg raw app gs w1
      in (r # rs, w2))"

abbreviation answer_status :: "http_error + LoginAnswer \<Rightarrow> int" where
  "answer_status r \<equiv> (case r of Inl e \<Rightarrow> http_status e | Inr _ \<Rightarrow> 200)"

text \<open>One wrong guess: it is counted, and the one that reaches the limit locks the code.\<close>

lemma wrong_guess:
  assumes "\<not> useJulakai cfg app" and oc: "pending_code (normalizePhone raw) w = Some oc"
    and "o_lockedUntil oc = None" "now \<le> o_expiresAt oc" and "\<not> bcrypt_compare lib code (o_codeHash oc)"
  shows "\<exists>e. verifyOtp lib fetch cfg ui ti now raw code app w = (Inl e, update_otp (o_id oc) (failed_guess cfg now) w) \<and>
      http_status e = (if o_attempts oc + 1 < nullish (OTP_MAX_ATTEMPTS cfg) 3 then 401 else 403)"
    and "pending_code (normalizePhone raw) (update_otp (o_id oc) (failed_guess cfg now) w) = Some (failed_guess cfg now oc)"
  using assms pending_code_update [OF oc, of "failed_guess cfg now"] by (auto simp: verifyOtp_def Let_def throw_def)

lemma failed_guess_counts:
  "o_attempts (failed_guess cfg now oc) = o_attempts oc + 1"
  "o_lockedUntil (failed_guess cfg now oc) = (if o_attempts oc + 1 < nullish (OTP_MAX_ATTEMPTS cfg) 3 then o_lockedUntil oc
     else Some (now + nullish (OTP_LOCK_MINUTES cfg) 30 * 60 * 1000))"
  by (auto simp: failed_guess_def)

lemma wrong_guesses:
  assumes "\<not> useJulakai cfg app" and "pending_code (normalizePhone raw) w = Some oc" and "o_lockedUntil oc = None"
    and "\<forall>(ui, ti, now, code) \<in> set gs. now \<le> o_expiresAt oc \<and> \<not> bcrypt_compare lib code (o_codeHash oc) \<and>
      o_expiresAt oc < now + nullish (OTP_LOCK_MINUTES cfg) 30 * 60 * 1000"
    and "o_attempts oc + length gs \<le> nullish (OTP_MAX_ATTEMPTS cfg) 3"
    and "try_codes lib fetch cfg raw app gs w = (rs, w')"
  shows "map answer_status rs = map (\<lambda>k. if o_attempts oc + k + 1 < nullish (OTP_MAX_ATTEMPTS cfg) 3 then 401 else 403) [0..<length gs] \<and>
    users w' = users w \<and> refreshTokens w' = refreshTokens w \<and>
    (\<exists>c. pending_code (normalizePhone raw) w' = Some c \<and> o_codeHash c = o_codeHash oc \<and> o_expiresAt c = o_expiresAt oc \<and>
      o_attempts c = o_attempts oc + length gs \<and>
      (if gs = [] \<or> o_attempts c < nullish (OTP_MAX_ATTEMPTS cfg) 3 then o_lockedUntil c = None
       else \<exists>t. o_lockedUntil c = Some t \<and> o_expiresAt c < t))"
  using assms(2-)
proof (induction gs arbitrary: w oc rs w')
  case Nil
  then show ?case by auto
next
  case (Cons g gs)
  obtain ui ti now code where g: "g = (ui, ti, now, code)" by (cases g)
  let ?w1 = "update_otp (o_id oc) (failed_guess cfg now) w" and ?c1 = "failed_guess cfg now oc"
  let ?M = "nullish (OTP_MAX_ATTEMPTS cfg) 3"
  from Cons.prems(3) g have now: "now \<le> o_expiresAt oc" "\<not> bcrypt_compare lib code (o_codeHash oc)"
      "o_expiresAt oc < now + nullish (OTP_LOCK_MINUTES cfg) 30 * 60 * 1000" by auto
  note guess = wrong_guess [OF assms(1) Cons.prems(1,2) now(1,2)]
  from guess(1) [of fetch ui ti] obtain e where e: "verifyOtp lib fetch cfg ui ti now raw code app w = (Inl e, ?w1)"
    "http_status e = (if o_attempts oc + 1 < ?M then 401 else 403)" by auto
  obtain rs1 where rs: "rs = Inl e # rs1" and rest: "try_codes lib fetch cfg raw app gs ?w1 = (rs1, w')"
    using Cons.prems(5) by (auto simp: g e(1) split: prod.splits)
  show ?case
  proof (cases "gs = []")
    case True
    with rest have last: "rs1 = []" "w' = ?w1" by simp_all
    show ?thesis unfolding last rs using True e(2) guess(2) now Cons.prems(2) by (simp add: failed_guess_counts world_simps)
  next
    case False
    with Cons.prems(4) have "o_attempts oc + 1 < ?M" by (cases gs) auto
    then have c1: "o_lockedUntil ?c1 = None" "o_attempts ?c1 = o_attempts oc + 1"
      using Cons.prems(2) by (simp_all add: failed_guess_counts)
    have guesses: "\<forall>(ui, ti, now, code) \<in> set gs. now \<le> o_expiresAt ?c1 \<and> \<not> bcrypt_compare lib code (o_codeHash ?c1) \<and>
      o_expiresAt ?c1 < now + nullish (OTP_LOCK_MINUTES cfg) 30 * 60 * 1000" using Cons.prems(3) by auto
    have room: "o_attempts ?c1 + length gs \<le> ?M" using Cons.prems(4) c1 by simp
    from Cons.IH [OF guess(2) c1(1) guesses room rest] False e(2) show ?thesis
      by (simp add: rs c1 map_upt_Suc world_simps del: upt_Suc)
  qed
qed

text \<open>
  C31. A phone number's code can be tried three times (or as often as configured). Wrong guesses on
  an open code are counted one by one: each is answered 401 but the one that reaches the limit,
  which is answered 403, and the stored count grows with each. After the last one, when a code
  lives shorter than the lock, no later attempt succeeds with any code, the right one included,
  and none changes anything.
\<close>

theorem otp_guesses_bounded:
  assumes "\<not> useJulakai cfg app" and "pending_code (normalizePhone raw) w = Some oc"
    and "o_lockedUntil oc = None" and "o_attempts oc < nullish (OTP_MAX_ATTEMPTS cfg) 3"
    and "\<forall>(ui, ti, now, code) \<in> set gs. now \<le> o_expiresAt oc \<and> \<not> bcrypt_compare lib code (o_codeHash oc) \<and>
      o_expiresAt oc < now + nullish (OTP_LOCK_MINUTES cfg) 30 * 60 * 1000"
    and "o_attempts oc + length gs \<le> nullish (OTP_MAX_ATTEMPTS cfg) 3"
    and "try_codes lib fetch cfg raw app gs w = (rs, w')"
  shows "map answer_status rs = map (\<lambda>k. if o_attempts oc + k + 1 < nullish (OTP_MAX_ATTEMPTS cfg) 3 then 401 else 403) [0..<length gs] \<and>
    users w' = users w \<and> refreshTokens w' = refreshTokens w \<and>
    (\<exists>c. pending_code (normalizePhone raw) w' = Some c \<and> o_codeHash c = o_codeHash oc \<and> o_attempts c = o_attempts oc + length gs) \<and>
    (o_attempts oc + length gs = nullish (OTP_MAX_ATTEMPTS cfg) 3 \<longrightarrow>
      (\<forall>later ui ti code. \<exists>e. verifyOtp lib fetch cfg ui ti later raw code app w' = (Inl e, w') \<and> http_status e \<in> {401, 403}))"
proof -
  from wrong_guesses [OF assms(1-3,5-7)] obtain c where c: "pending_code (normalizePhone raw) w' = Some c"
      "o_codeHash c = o_codeHash oc" "o_attempts c = o_attempts oc + length gs"
      "if gs = [] \<or> o_attempts c < nullish (OTP_MAX_ATTEMPTS cfg) 3 then o_lockedUntil c = None
       else \<exists>t. o_lockedUntil c = Some t \<and> o_expiresAt c < t" by blast
  have "\<exists>e. verifyOtp lib fetch cfg ui ti later raw code app w' = (Inl e, w') \<and> http_status e \<in> {401, 403}"
    if all: "o_attempts oc + length gs = nullish (OTP_MAX_ATTEMPTS cfg) 3" for later ui ti code
    proof -
    obtain t where "o_lockedUntil c = Some t" "o_expiresAt c < t" using all c(3,4) assms(4) by (auto split: if_splits)
    with locked_out [OF assms(1) c(1)] show ?thesis by blast
  qed
  with wrong_guesses [OF assms(1-3,5-7)] c show ?thesis by blast
qed

text \<open>
  A code that was just asked for is the pending one, with no attempt on it, and signs in; the answer
  carries it exactly when it may be exposed.
\<close>

lemma requested_code:
  assumes "\<not> useJulakai cfg app"
    and cool: "\<forall>c \<in> set (otpCodes w). o_phone c = normalizePhone raw \<longrightarrow>
        o_createdAt c < now \<and> o_createdAt c + nullish (OTP_RESEND_COOLDOWN_SECONDS cfg) 60 * 1000 \<le> now"
    and sms: "sms (normalizePhone raw) (generateOtpCode n) = SmsSent m"
    and bcrypt: "\<forall>c. bcrypt_compare lib c (bcrypt_hash lib c)"
    and life: "0 \<le> nullish (OTP_EXPIRES_MINUTES cfg) 5"
    and again: "(r, w') = requestOtp lib fetch sms cfg i n now raw app w"
  obtains x c where "r = Inr x" "pending_code (normalizePhone raw) w' = Some c" "o_attempts c = 0"
    "oa_devOtpCode x = (if nullish (OTP_EXPOSE_IN_RESPONSE cfg) False \<and> NODE_ENV cfg \<noteq> Some ''production''
       then Some (generateOtpCode n) else None)"
    "verifyOtp lib fetch cfg ui ti now raw (generateOtpCode n) app w' =
      completeLogin lib cfg ui ti now (normalizePhone raw) (update_otp (o_id c) (\<lambda>c. c\<lparr>o_consumedAt := Some now\<rparr>) w')"
proof -
  let ?c = "new_code lib cfg i now (normalizePhone raw) (generateOtpCode n) w"
  let ?w = "w\<lparr>otpCodes := otpCodes w @ [?c]\<rparr>"
  let ?g = "\<lambda>c. if truthy m \<and> o_id c = i then c\<lparr>o_smsMessageId := m\<rparr> else c"
  have wait: "\<not> (case last_code (normalizePhone raw) w of None \<Rightarrow> False
       | Some oc \<Rightarrow> now - o_createdAt oc < nullish (OTP_RESEND_COOLDOWN_SECONDS cfg) 60 * 1000)"
    using cool by (auto simp: last_code_def dest!: find_first_desc_Some split: option.splits)
  have w': "w' = (if truthy m then update_otp i (\<lambda>oc. oc\<lparr>o_smsMessageId := m\<rparr>) ?w else ?w)"
    using again assms(1) wait by (simp add: requestOtp_def Let_def sms return_def)
  have fields: "o_phone ?c = normalizePhone raw" "o_consumedAt ?c = None" "o_createdAt ?c = now"
    "o_attempts ?c = 0" "o_lockedUntil ?c = None" "now \<le> o_expiresAt ?c"
    "o_codeHash ?c = bcrypt_hash lib (generateOtpCode n)"
    using life by (simp_all add: new_code_def)
  have "pending_code (normalizePhone raw) ?w = Some ?c"
  proof -
    have "otpCodes ?w = otpCodes w @ [?c]" by simp
    then show ?thesis
      unfolding pending_code_def by (simp only:) (rule find_first_desc_newest, use fields cool in auto)
  qed
  then have pending: "pending_code (normalizePhone raw) w' = Some (?g ?c)"
    unfolding w' pending_code_def by (auto simp: update_otp_frame find_first_desc_update)
  have g: "o_lockedUntil (?g ?c) = None" "now \<le> o_expiresAt (?g ?c)" "o_attempts (?g ?c) = 0"
    "o_codeHash (?g ?c) = bcrypt_hash lib (generateOtpCode n)" using fields by simp_all
  have "verifyOtp lib fetch cfg ui ti now raw (generateOtpCode n) app w' = completeLogin lib cfg ui ti now (normalizePhone raw)
      (update_otp (o_id (?g ?c)) (\<lambda>c. c\<lparr>o_consumedAt := Some now\<rparr>) w')"
    using assms(1) bcrypt g unfolding verifyOtp_def Let_def pending by simp
  moreover have "\<exists>x. r = Inr x \<and> oa_devOtpCode x = (if nullish (OTP_EXPOSE_IN_RESPONSE cfg) False \<and> NODE_ENV cfg \<noteq> Some ''production''
       then Some (generateOtpCode n) else None)"
    using again assms(1) wait by (simp add: requestOtp_def Let_def sms return_def)
  ultimately show ?thesis using that pending g(3) by blast
qed

text \<open>
  C32. The lock sits on the code, not on the phone number: once the cooldown of a minute is over,
  whoever was locked out asks for a new code, gets it and is judged by it alone, with a fresh
  count of attempts, while the lock of the earlier code is still running.
\<close>

theorem otp_lock_bypassed:
  assumes "\<not> useJulakai cfg app" and "pending_code (normalizePhone raw) w = Some oc"
    and "o_lockedUntil oc = Some t" and "now < t"
    and cool: "\<forall>c \<in> set (otpCodes w). o_phone c = normalizePhone raw \<longrightarrow>
        o_createdAt c < now \<and> o_createdAt c + nullish (OTP_RESEND_COOLDOWN_SECONDS cfg) 60 * 1000 \<le> now"
    and sms: "sms (normalizePhone raw) (generateOtpCode n) = SmsSent None"
    and bcrypt: "\<forall>c. bcrypt_compare lib c (bcrypt_hash lib c)"
    and life: "0 \<le> nullish (OTP_EXPIRES_MINUTES cfg) 5"
    and again: "(r, w') = requestOtp lib fetch sms cfg i n now raw app w"
  shows "\<exists>x c. r = Inr x \<and> pending_code (normalizePhone raw) w' = Some c \<and> o_attempts c = 0 \<and>
    verifyOtp lib fetch cfg ui ti now raw (generateOtpCode n) app w' =
      completeLogin lib cfg ui ti now (normalizePhone raw) (update_otp (o_id c) (\<lambda>c. c\<lparr>o_consumedAt := Some now\<rparr>) w')"
  by (rule requested_code [OF assms(1) cool sms bcrypt life again, of ui ti]) blast

definition plain_libraries :: Libraries where
  "plain_libraries = \<lparr>
     jwt_sign = (\<lambda>secret life second p. secret @ ''.'' @ show_nat (nat second) @ ''.'' @ sub p),
     jwt_verify = (\<lambda>secret now token. Some \<lparr>sub = ''c1'', jp_phone = ''+22370000000'', jp_role = role_client\<rparr>),
     bcrypt_hash = (\<lambda>c. c), bcrypt_compare = (=), hashToken = (\<lambda>t. t), hmac_sha256 = (\<lambda>k m. m)\<rparr>"

definition legacy_config :: AuthConfig where
  "legacy_config = \<lparr>OTP_PROVIDER = None, OTP_LENGTH = None, OTP_EXPIRES_MINUTES = None,
     OTP_RESEND_COOLDOWN_SECONDS = None, OTP_MAX_ATTEMPTS = None, OTP_LOCK_MINUTES = None,
     OTP_EXPOSE_IN_RESPONSE = None, NODE_ENV = None, JWT_ACCESS_SECRET = ''a'', JWT_ACCESS_EXPIRES_IN = ''15m'',
     JWT_REFRESH_SECRET = ''r'', JWT_REFRESH_EXPIRES_IN = None, JULAKAI_CLIENT_APP_KEY = None,
     JULAKAI_CLIENT_APP_SECRET = None, JULAKAI_DRIVER_APP_KEY = None, JULAKAI_DRIVER_APP_SECRET = None\<rparr>"

definition guessed_world :: world where
  "guessed_world = empty_world\<lparr>otpCodes := [\<lparr>o_id = ''o1'', o_phone = ''+22370000000'', o_codeHash = ''1234'',
     o_userId = None, o_attempts = 2, o_expiresAt = 300000, o_lockedUntil = None, o_consumedAt = None,
     o_smsMessageId = None, o_createdAt = 0\<rparr>]\<rparr>"

lemma sample_phone: "normalizePhone ''70 00 00 00'' = ''+22370000000''"
  by (simp add: normalizePhone_def phone_char_def is_digit_def)

lemma legacy_not_julakai: "\<not> useJulakai legacy_config app_client"
  by (simp add: useJulakai_def legacy_config_def)

lemma guessed_pending:
  "pending_code (normalizePhone ''70 00 00 00'') guessed_world = Some (hd (otpCodes guessed_world))"
  by (simp add: sample_phone pending_code_def find_first_desc_def guessed_world_def)

definition fresh_code_world :: world where
  "fresh_code_world = guessed_world\<lparr>otpCodes := map (\<lambda>c. c\<lparr>o_attempts := 0\<rparr>) (otpCodes guessed_world)\<rparr>"

theorem otp_guesses_bounded_witness:
  "\<exists>rs w' e. try_codes plain_libraries (\<lambda>_. None) legacy_config ''70 00 00 00'' app_client
       [(''u'', ''t'', 1000, ''9999''), (''u'', ''t'', 2000, ''8888''), (''u'', ''t'', 3000, ''7777'')] fresh_code_world = (rs, w') \<and>
     map answer_status rs = [401, 401, 403] \<and>
     verifyOtp plain_libraries (\<lambda>_. None) legacy_config ''u'' ''t'' 4000 ''70 00 00 00'' ''1234'' app_client w' = (Inl e, w')"
proof -
  let ?oc = "hd (otpCodes fresh_code_world)"
  let ?gs = "[(''u'', ''t'', 1000, ''9999''), (''u'', ''t'', 2000, ''8888''), (''u'', ''t'', 3000, ''7777'')]"
  have code: "pending_code (normalizePhone ''70 00 00 00'') fresh_code_world = Some ?oc"
    by (simp add: sample_phone pending_code_def find_first_desc_def guessed_world_def fresh_code_world_def)
  have state: "o_lockedUntil ?oc = None" "o_attempts ?oc < nullish (OTP_MAX_ATTEMPTS legacy_config) 3"
    by (simp_all add: guessed_world_def fresh_code_world_def legacy_config_def)
  have wrong: "\<forall>(ui, ti, now, code) \<in> set ?gs. now \<le> o_expiresAt ?oc \<and> \<not> bcrypt_compare plain_libraries code (o_codeHash ?oc) \<and>
      o_expiresAt ?oc < now + nullish (OTP_LOCK_MINUTES legacy_config) 30 * 60 * 1000"
    by (simp add: guessed_world_def fresh_code_world_def legacy_config_def plain_libraries_def)
  have limit: "o_attempts ?oc + length ?gs \<le> nullish (OTP_MAX_ATTEMPTS legacy_config) 3"
    "o_attempts ?oc + length ?gs = nullish (OTP_MAX_ATTEMPTS legacy_config) 3"
    by (simp_all add: guessed_world_def fresh_code_world_def legacy_config_def)
  have three: "map (\<lambda>k. if o_attempts ?oc + k + 1 < nullish (OTP_MAX_ATTEMPTS legacy_config) 3 then 401 else 403) [0..<length ?gs] =
      [401, 401, 403::int]"
    by (simp add: guessed_world_def fresh_code_world_def legacy_config_def upt_rec)
  from otp_guesses_bounded [OF legacy_not_julakai code state wrong limit(1) surjective_pairing, of "\<lambda>_. None"] limit(2)
  show ?thesis unfolding three by (metis prod.collapse)
qed

definition locked_world :: world where
  "locked_world = guessed_world\<lparr>otpCodes := map (failed_guess legacy_config 1000) (otpCodes guessed_world)\<rparr>"

theorem otp_lock_bypassed_witness:
  "\<exists>c. pending_code ''+22370000000'' (snd (requestOtp plain_libraries (\<lambda>_. None) (\<lambda>_ _. SmsSent None) legacy_config
      ''o2'' 4321 61000 ''70 00 00 00'' app_client locked_world)) = Some c \<and> o_attempts c = 0"
proof -
  let ?oc = "failed_guess legacy_config 1000 (hd (otpCodes guessed_world))"
  have p: "pending_code (normalizePhone ''70 00 00 00'') locked_world = Some ?oc"
    by (simp add: sample_phone pending_code_def find_first_desc_def guessed_world_def locked_world_def)
  have l: "o_lockedUntil ?oc = Some 1801000" "(61000::int) < 1801000"
    by (simp_all add: failed_guess_def legacy_config_def guessed_world_def)
  have c: "\<forall>c \<in> set (otpCodes locked_world). o_phone c = normalizePhone ''70 00 00 00'' \<longrightarrow>
        o_createdAt c < 61000 \<and> o_createdAt c + nullish (OTP_RESEND_COOLDOWN_SECONDS legacy_config) 60 * 1000 \<le> 61000"
    by (simp add: locked_world_def guessed_world_def legacy_config_def)
  have s: "(\<lambda>_ _. SmsSent None) (normalizePhone ''70 00 00 00'') (generateOtpCode 4321) = SmsSent None" by simp
  have b: "\<forall>c. bcrypt_compare plain_libraries c (bcrypt_hash plain_libraries c)" by (simp add: plain_libraries_def)
  have e: "0 \<le> nullish (OTP_EXPIRES_MINUTES legacy_config) 5" by (simp add: legacy_config_def)
  from otp_lock_bypassed [OF legacy_not_julakai p l c s b e surjective_pairing [symmetric], of "\<lambda>_. None" "''o2''"]
  show ?thesis unfolding sample_phone by blast
qed

section \<open>Refresh tokens\<close>

lemma update_token_frame [world_simps]:
  "refreshTokens (update_token i f w) = update_where (\<lambda>r. rt_id r = i) f (refreshTokens w)"
  "users (update_token i f w) = users w" "find_user u (update_token i f w) = find_user u w"
  by (simp_all add: update_token_def find_user_def)

lemma find_token_update:
  "(\<And>r. rt_tokenHash (f r) = rt_tokenHash r) \<Longrightarrow>
   find_token h (update_token i f w) = map_option (\<lambda>r. if rt_id r = i then f r else r) (find_token h w)"
  unfolding find_token_def update_token_frame by (rule find_update_keeping) simp

lemma refresh_revoked:
  assumes "map_option rt_revokedAt (find_token (hashToken lib token) w) = Some (Some t)"
  shows "\<exists>m. refresh lib cfg j now token w = (Inl (UnauthorizedException m), w)"
  using assms by (auto simp: refresh_def throw_def split: option.split)

lemma refresh_refused:
  assumes "jwt_verify lib (JWT_REFRESH_SECRET cfg) now token = None \<or> find_token (hashToken lib token) w = None \<or>
    (\<exists>s. find_token (hashToken lib token) w = Some s \<and> (rt_revokedAt s \<noteq> None \<or> rt_expiresAt s < now))"
  shows "\<exists>m. refresh lib cfg j now token w = (Inl (UnauthorizedException m), w)"
  using assms by (auto simp: refresh_def throw_def split: option.split)

lemma refresh_without_user:
  assumes "jwt_verify lib (JWT_REFRESH_SECRET cfg) now token = Some p" and "find_token (hashToken lib token) w = Some s"
    and "rt_revokedAt s = None" "now \<le> rt_expiresAt s" and "find_user (sub p) w = None"
  shows "\<exists>m. refresh lib cfg j now token w = (Inl (InternalError m), update_token (rt_id s) (\<lambda>r. r\<lparr>rt_revokedAt := Some now\<rparr>) w)"
  using assms by (simp add: refresh_def throw_def Let_def world_simps)

text \<open>
  C34. A refresh token is good for one use. Presented while it is neither revoked nor expired it is
  revoked and exchanged for a new pair, whose row belongs to the same user, is not revoked and
  names the old row; presented again, at any time, it is refused with 401 and nothing changes.
  The account being deactivated does not matter. If the new token has the hash of a stored one,
  as it has when the presented token was issued in the same second, the call ends in a 500 and
  the token is revoked all the same. In any world, a token whose signature does not verify, that
  is not stored, or whose row is revoked or past its date is refused with 401 and nothing changes;
  a good token of a user who is not there any more ends in a 500, and it is revoked.
\<close>

theorem refresh_rotates:
  assumes payload: "jwt_verify lib (JWT_REFRESH_SECRET cfg) now token = Some payload"
    and stored: "find_token (hashToken lib token) w = Some s" "rt_revokedAt s = None" "now \<le> rt_expiresAt s" "rt_id s \<noteq> []"
    and user: "find_user (sub payload) w = Some u"
    and new: "new = jwt_sign lib (JWT_REFRESH_SECRET cfg) (nullish (JWT_REFRESH_EXPIRES_IN cfg) ''30d'') (now div 1000)
        \<lparr>sub = u_id u, jp_phone = u_phone u, jp_role = u_role u\<rparr>"
    and fresh: "i \<noteq> rt_id s"
    and run: "refresh lib cfg i now token w = (r, w')"
  shows "(if find_token (hashToken lib new) w \<noteq> None then r = Inl (InternalError ''Unique constraint failed'')
      else \<exists>pair row. r = Inr pair \<and> refreshToken pair = new \<and> find_token (hashToken lib new) w' = Some row \<and>
        rt_userId row = u_id u \<and> rt_revokedAt row = None \<and> rt_replacedBy row = Some (rt_id s)) \<and>
    map_option rt_revokedAt (find_token (hashToken lib token) w') = Some (Some now) \<and>
    (\<forall>j later. \<exists>m. refresh lib cfg j later token w' = (Inl (UnauthorizedException m), w')) \<and>
    (token = new \<longrightarrow> r = Inl (InternalError ''Unique constraint failed'')) \<and>
    (\<forall>v other later j. jwt_verify lib (JWT_REFRESH_SECRET cfg) later other = None \<or> find_token (hashToken lib other) v = None \<or>
        (\<exists>x. find_token (hashToken lib other) v = Some x \<and> (rt_revokedAt x \<noteq> None \<or> rt_expiresAt x < later)) \<longrightarrow>
      (\<exists>m. refresh lib cfg j later other v = (Inl (UnauthorizedException m), v))) \<and>
    (\<forall>v j. find_token (hashToken lib token) v = Some s \<and> find_user (sub payload) v = None \<longrightarrow>
      (\<exists>m. refresh lib cfg j now token v = (Inl (InternalError m), update_token (rt_id s) (\<lambda>r. r\<lparr>rt_revokedAt := Some now\<rparr>) v)))"
proof -
  have refused: "\<forall>v other later j. jwt_verify lib (JWT_REFRESH_SECRET cfg) later other = None \<or> find_token (hashToken lib other) v = None \<or>
        (\<exists>x. find_token (hashToken lib other) v = Some x \<and> (rt_revokedAt x \<noteq> None \<or> rt_expiresAt x < later)) \<longrightarrow>
      (\<exists>m. refresh lib cfg j later other v = (Inl (UnauthorizedException m), v))"
    using refresh_refused by blast
  have nobody: "\<forall>v j. find_token (hashToken lib token) v = Some s \<and> find_user (sub payload) v = None \<longrightarrow>
      (\<exists>m. refresh lib cfg j now token v = (Inl (InternalError m), update_token (rt_id s) (\<lambda>r. r\<lparr>rt_revokedAt := Some now\<rparr>) v))"
    using refresh_without_user [OF payload _ stored(2,3)] by blast
  let ?w1 = "update_token (rt_id s) (\<lambda>r. r\<lparr>rt_revokedAt := Some now\<rparr>) w"
  have same: "find_token h ?w1 = map_option (\<lambda>r. if rt_id r = rt_id s then r\<lparr>rt_revokedAt := Some now\<rparr> else r) (find_token h w)" for h
    by (rule find_token_update) simp
  have res: "(r, w') = issueTokenPair lib cfg i now (u_id u) (u_phone u) (u_role u) (Some (rt_id s)) ?w1"
    using run stored user payload by (simp add: refresh_def world_simps Let_def)
  show ?thesis
  proof (cases "find_token (hashToken lib new) w = None")
    case False
    then have "r = Inl (InternalError ''Unique constraint failed'')" and w': "w' = ?w1"
      using res by (auto simp: issueTokenPair_def Let_def new same throw_def)
    moreover have old: "map_option rt_revokedAt (find_token (hashToken lib token) w') = Some (Some now)"
      unfolding w' same by (simp add: stored)
    ultimately show ?thesis using False refresh_revoked [OF old] refused nobody by simp
  next
    case True
    then have free: "find_token (hashToken lib new) ?w1 = None" by (simp add: same)
    define row where "row = \<lparr>rt_id = i, rt_userId = u_id u, rt_tokenHash = hashToken lib new,
      rt_revokedAt = None, rt_replacedBy = Some (rt_id s),
      rt_expiresAt = parseExpiryToDate now (nullish (JWT_REFRESH_EXPIRES_IN cfg) ''30d'')\<rparr>"
    have row: "rt_id row = i" "rt_tokenHash row = hashToken lib new" "rt_userId row = u_id u"
        "rt_revokedAt row = None" "rt_replacedBy row = Some (rt_id s)"
      by (simp_all add: row_def)
    have r: "\<exists>pair. r = Inr pair \<and> refreshToken pair = new"
      and w': "w' = update_token (rt_id s) (\<lambda>r. r\<lparr>rt_replacedBy := Some i\<rparr>) (?w1\<lparr>refreshTokens := refreshTokens ?w1 @ [row]\<rparr>)"
      using res free stored(4) by (simp_all add: issueTokenPair_def Let_def new [symmetric] return_def row_def)
    have app: "find_token h (?w1\<lparr>refreshTokens := refreshTokens ?w1 @ [row]\<rparr>) =
        (case find_token h ?w1 of None \<Rightarrow> if rt_tokenHash row = h then Some row else None | Some x \<Rightarrow> Some x)" for h
      by (simp add: find_token_def find_append split: option.split)
    have all: "find_token h w' = map_option (\<lambda>r. if rt_id r = rt_id s then r\<lparr>rt_replacedBy := Some i\<rparr> else r)
        (case find_token h ?w1 of None \<Rightarrow> if rt_tokenHash row = h then Some row else None | Some x \<Rightarrow> Some x)" for h
      unfolding w' by (subst find_token_update) (simp_all add: app)
    have "find_token (hashToken lib new) w' = Some row"
      unfolding all free using row fresh by simp
    moreover have old: "map_option rt_revokedAt (find_token (hashToken lib token) w') = Some (Some now)"
      unfolding all same by (simp add: stored)
    moreover have "token \<noteq> new" using True stored(1) by auto
    ultimately show ?thesis using True r row refresh_revoked [OF old] refused nobody by auto
  qed
qed

definition signed_in_world :: world where
  "signed_in_world = empty_world\<lparr>users := [(new_user ''c1'' 0 ''+22370000000'')\<lparr>u_isActive := False\<rparr>],
     refreshTokens := [\<lparr>rt_id = ''k1'', rt_userId = ''c1'', rt_tokenHash = ''old'', rt_revokedAt = None,
       rt_replacedBy = None, rt_expiresAt = 100000\<rparr>]\<rparr>"

theorem refresh_rotates_witness:
  "\<exists>r w' m. refresh plain_libraries legacy_config ''k2'' 5000 ''old'' signed_in_world = (r, w') \<and> ok (r, w') \<and>
     fst (refresh plain_libraries legacy_config ''k3'' 6000 ''old'' w') = Inl (UnauthorizedException m)"
proof -
  have p: "jwt_verify plain_libraries (JWT_REFRESH_SECRET legacy_config) 5000 ''old'' =
      Some \<lparr>sub = ''c1'', jp_phone = ''+22370000000'', jp_role = role_client\<rparr>"
    by (simp add: plain_libraries_def)
  have s: "find_token (hashToken plain_libraries ''old'') signed_in_world = Some (hd (refreshTokens signed_in_world))"
    "rt_revokedAt (hd (refreshTokens signed_in_world)) = None" "5000 \<le> rt_expiresAt (hd (refreshTokens signed_in_world))"
    "rt_id (hd (refreshTokens signed_in_world)) \<noteq> []"
    by (simp_all add: find_token_def plain_libraries_def signed_in_world_def)
  have u: "find_user (sub \<lparr>sub = ''c1'', jp_phone = ''+22370000000'', jp_role = role_client\<rparr>) signed_in_world =
      Some (hd (users signed_in_world))"
    by (simp add: find_user_def signed_in_world_def new_user_def)
  have i: "''k2'' \<noteq> rt_id (hd (refreshTokens signed_in_world))" by (simp add: signed_in_world_def)
  obtain r w' where run: "refresh plain_libraries legacy_config ''k2'' 5000 ''old'' signed_in_world = (r, w')"
    by (metis surj_pair)
  have sec: "JWT_REFRESH_SECRET legacy_config = ''r''" by (simp add: legacy_config_def)
  have free: "find_token (hashToken plain_libraries (jwt_sign plain_libraries (JWT_REFRESH_SECRET legacy_config) x y z)) signed_in_world = None" for x y z
    by (simp add: find_token_def plain_libraries_def signed_in_world_def sec)
  have all: "(\<exists>pair. r = Inr pair) \<and>
      (\<forall>j later. \<exists>m. refresh plain_libraries legacy_config j later ''old'' w' = (Inl (UnauthorizedException m), w'))"
    using refresh_rotates [OF p s u refl i run] unfolding free by auto
  then obtain pair where pair: "r = Inr pair" by blast
  obtain m where "refresh plain_libraries legacy_config ''k3'' 6000 ''old'' w' = (Inl (UnauthorizedException m), w')"
    using all by blast
  with run pair show ?thesis by auto
qed

end
