(* ===== verification/Accounts.thy ===== *)
theory Accounts
  imports Geolocation
begin

text \<open>
  The services behind the profile screens and the dashboard: users, drivers, vehicle types and
  push tokens (\<open>users.service.ts\<close>, \<open>drivers.service.ts\<close>, \<open>vehicle-types.service.ts\<close>,
  \<open>devices.service.ts\<close>). The storage provider of \<open>uploadDocument\<close> is a parameter.
\<close>

definition update_user :: "id \<Rightarrow> (User \<Rightarrow> User) \<Rightarrow> world \<Rightarrow> world" where
  "update_user i f w = w\<lparr>users := update_where (\<lambda>u. u_id u = i) f (users w)\<rparr>"

section \<open>Users\<close>

text \<open>A member left out of an update keeps its column.\<close>

record UpdateUserDto =
  uu_firstName :: "string option"
  uu_lastName :: "string option"
  uu_email :: "string option"

definition or_keep :: "'a option \<Rightarrow> 'a option \<Rightarrow> 'a option" where
  "or_keep new old = (case new of None \<Rightarrow> old | Some v \<Rightarrow> Some v)"

definition users_findById :: "id \<Rightarrow> world \<Rightarrow> (User, world) outcome" where
  "users_findById i w =
     (case find_user i w of
        None \<Rightarrow> throw (NotFoundException ''Utilisateur introuvable'') w
      | Some user \<Rightarrow> return user w)"

definition updateUser :: "id \<Rightarrow> UpdateUserDto \<Rightarrow> world \<Rightarrow> (User, world) outcome" where
  "updateUser i dto w =
     andThen (users_findById i w) (\<lambda>user w1.
       (let f = (\<lambda>u. u\<lparr>u_firstName := or_keep (uu_firstName dto) (u_firstName u),
                      u_lastName := or_keep (uu_lastName dto) (u_lastName u),
                      u_email := or_keep (uu_email dto) (u_email u)\<rparr>)
        in return (f user) (update_user i f w1)))"

section \<open>Drivers\<close>

record VehicleInputDto =
  vi_vehicleTypeId :: id
  vi_brand :: string
  vi_model :: string
  vi_year :: int
  vi_plateNumber :: string
  vi_energy :: string
  vi_registrationDocUrl :: "string option"

record RegisterDriverDto =
  rd_photoUrl :: "string option"
  rd_licenseUrl :: string
  rd_idCardUrl :: string
  rd_vehicle :: VehicleInputDto

text \<open>What the storage provider is given; it answers the URL of the stored file.\<close>

record UploadInput =
  up_originalName :: string
  up_mimeType :: string
  up_folder :: string

definition uploadDocument ::
  "(UploadInput \<Rightarrow> http_error + string) \<Rightarrow> id \<Rightarrow> string \<Rightarrow> string \<Rightarrow> string \<Rightarrow> http_error + string" where
  "uploadDocument upload userId originalname mimetype documentType =
     (if documentType \<notin> {''license'', ''id_card'', ''photo'', ''registration_doc''}
      then Inl (BadRequestException ''Type de document invalide'')
      else upload \<lparr>up_originalName = originalname, up_mimeType = mimetype,
                   up_folder = ''drivers/'' @ userId @ ''/'' @ documentType\<rparr>)"

definition new_driver :: "id \<Rightarrow> id \<Rightarrow> time \<Rightarrow> RegisterDriverDto \<Rightarrow> Driver" where
  "new_driver i userId now dto = \<lparr>d_id = i, d_userId = userId, d_status = pending_validation, d_rating = 5,
     d_balance = 0, d_commissionDue = 0, d_isOnline = False, d_currentLocation = None, d_lastLocationAt = None,
     d_photoUrl = rd_photoUrl dto, d_licenseUrl = Some (rd_licenseUrl dto), d_idCardUrl = Some (rd_idCardUrl dto),
     d_validatedAt = None, d_suspendedAt = None, d_suspensionReason = None, d_createdAt = now\<rparr>"

definition new_vehicle :: "id \<Rightarrow> VehicleInputDto \<Rightarrow> Vehicle" where
  "new_vehicle driverId v = \<lparr>v_driverId = driverId, v_vehicleTypeId = vi_vehicleTypeId v, v_brand = vi_brand v,
     v_model = vi_model v, v_year = vi_year v, v_plateNumber = vi_plateNumber v, v_energy = vi_energy v,
     v_registrationDocUrl = vi_registrationDocUrl v\<rparr>"

text \<open>One transaction: a plate in use or a missing user undoes all of it.\<close>

definition register :: "id \<Rightarrow> time \<Rightarrow> id \<Rightarrow> RegisterDriverDto \<Rightarrow> world \<Rightarrow> (Driver, world) outcome" where
  "register newId now userId dto w =
     (if findDriverByUserId userId w \<noteq> None
      then throw (ConflictException ''Un profil chauffeur existe deja pour cet utilisateur'') w
      else if find_vehicleType (vi_vehicleTypeId (rd_vehicle dto)) w = None
      then throw (BadRequestException ''Type de vehicule introuvable'') w
      else if list_ex (\<lambda>v. v_plateNumber v = vi_plateNumber (rd_vehicle dto)) (vehicles w)
      then throw (InternalError ''Unique constraint failed'') w
      else if find_user userId w = None then throw (InternalError ''Foreign key constraint failed'') w
      else (let driver = new_driver newId userId now dto
            in return driver (update_user userId (\<lambda>u. u\<lparr>u_role := role_driver\<rparr>)
                 (w\<lparr>drivers := drivers w @ [driver], vehicles := vehicles w @ [new_vehicle newId (rd_vehicle dto)]\<rparr>))))"

definition findByUserId :: "id \<Rightarrow> world \<Rightarrow> (Driver, world) outcome" where
  "findByUserId userId w =
     (case findDriverByUserId userId w of
        None \<Rightarrow> throw (NotFoundException ''Profil chauffeur introuvable'') w
      | Some driver \<Rightarrow> return driver w)"

definition MAX_COMMISSION_DUE :: real where "MAX_COMMISSION_DUE = 50000"

definition updateOnlineStatus :: "id \<Rightarrow> bool \<Rightarrow> world \<Rightarrow> (Driver, world) outcome" where
  "updateOnlineStatus userId isOnline w =
     andThen (findByUserId userId w) (\<lambda>driver w1.
       if d_status driver \<noteq> validated
       then throw (BadRequestException ''Seul un chauffeur valide peut passer en ligne'') w1
       else if isOnline \<and> d_commissionDue driver > MAX_COMMISSION_DUE
       then throw (BadRequestException ''Commission impayee trop elevee'') w1
       else return (driver\<lparr>d_isOnline := isOnline\<rparr>) (update_driver (d_id driver) (\<lambda>d. d\<lparr>d_isOnline := isOnline\<rparr>) w1))"

definition drivers_findById :: "id \<Rightarrow> world \<Rightarrow> (Driver, world) outcome" where
  "drivers_findById i w =
     (case find_driver i w of
        None \<Rightarrow> throw (NotFoundException ''Chauffeur introuvable'') w
      | Some driver \<Rightarrow> return driver w)"

definition validated_driver :: "time \<Rightarrow> Driver \<Rightarrow> Driver" where
  "validated_driver now d = d\<lparr>d_status := validated, d_validatedAt := Some now\<rparr>"

definition suspended_driver :: "time \<Rightarrow> string \<Rightarrow> Driver \<Rightarrow> Driver" where
  "suspended_driver now reason d = d\<lparr>d_status := suspended, d_suspendedAt := Some now,
     d_suspensionReason := Some reason, d_isOnline := False\<rparr>"

definition validate_driver :: "time \<Rightarrow> id \<Rightarrow> world \<Rightarrow> (Driver, world) outcome" where
  "validate_driver now i w =
     andThen (drivers_findById i w) (\<lambda>driver w1.
       return (validated_driver now driver) (update_driver i (validated_driver now) w1))"

definition suspend :: "time \<Rightarrow> id \<Rightarrow> string \<Rightarrow> world \<Rightarrow> (Driver, world) outcome" where
  "suspend now i reason w =
     andThen (drivers_findById i w) (\<lambda>driver w1.
       return (suspended_driver now reason driver) (update_driver i (suspended_driver now reason) w1))"

text \<open>The status filter of the dashboard.\<close>

definition status_filter :: "string option \<Rightarrow> (Driver \<Rightarrow> bool) option" where
  "status_filter status =
     (if \<not> truthy status then Some (\<lambda>d. True)
      else (let s = the status
            in if s = ''inactive'' then Some (\<lambda>d. d_status d = validated \<and> \<not> d_isOnline d)
               else if s = ''active'' then Some (\<lambda>d. d_status d = validated \<and> d_isOnline d)
               else if s = ''pending_validation'' then Some (\<lambda>d. d_status d = pending_validation)
               else if s = ''validated'' then Some (\<lambda>d. d_status d = validated)
               else if s = ''suspended'' then Some (\<lambda>d. d_status d = suspended)
               else if s = ''rejected'' then Some (\<lambda>d. d_status d = rejected)
               else None))"

definition drivers_findAll :: "string option \<Rightarrow> world \<Rightarrow> Driver list" where
  "drivers_findAll status w =
     (case status_filter status of
        None \<Rightarrow> []
      | Some p \<Rightarrow> sort_key (\<lambda>d. - d_createdAt d) (filter p (drivers w)))"

section \<open>Vehicle types\<close>

record CreateVehicleTypeDto =
  cv_name :: string
  cv_serviceType :: ServiceType
  cv_capacity :: int
  cv_baseFare :: real
  cv_pricePerKm :: real
  cv_pricePerMin :: real
  cv_commissionPercentage :: real
  cv_isActive :: "bool option"

record UpdateVehicleTypeDto =
  uv_name :: "string option"
  uv_serviceType :: "ServiceType option"
  uv_capacity :: "int option"
  uv_baseFare :: "real option"
  uv_pricePerKm :: "real option"
  uv_pricePerMin :: "real option"
  uv_commissionPercentage :: "real option"
  uv_isActive :: "bool option"

definition vehicleTypes_findAll :: "bool \<Rightarrow> world \<Rightarrow> VehicleType list" where
  "vehicleTypes_findAll includeInactive w =
     sort_key vt_createdAt (filter (\<lambda>v. includeInactive \<or> vt_isActive v) (vehicleTypes w))"

definition vehicleTypes_findOne :: "id \<Rightarrow> world \<Rightarrow> (VehicleType, world) outcome" where
  "vehicleTypes_findOne i w =
     (case find_vehicleType i w of
        None \<Rightarrow> throw (NotFoundException ''Type de vehicule introuvable'') w
      | Some v \<Rightarrow> return v w)"

text \<open>The pair of name and service is unique.\<close>

definition name_taken :: "id \<Rightarrow> string \<Rightarrow> ServiceType \<Rightarrow> world \<Rightarrow> bool" where
  "name_taken i name s w = list_ex (\<lambda>v. vt_id v \<noteq> i \<and> vt_name v = name \<and> vt_serviceType v = s) (vehicleTypes w)"

definition vehicleTypes_create :: "id \<Rightarrow> time \<Rightarrow> CreateVehicleTypeDto \<Rightarrow> world \<Rightarrow> (VehicleType, world) outcome" where
  "vehicleTypes_create i now dto w =
     (let v = \<lparr>vt_id = i, vt_name = cv_name dto, vt_serviceType = cv_serviceType dto, vt_baseFare = cv_baseFare dto,
               vt_pricePerKm = cv_pricePerKm dto, vt_pricePerMin = cv_pricePerMin dto,
               vt_commissionPercentage = cv_commissionPercentage dto,
               vt_isActive = nullish (cv_isActive dto) True, vt_capacity = cv_capacity dto, vt_createdAt = now\<rparr>
      in if name_taken i (vt_name v) (vt_serviceType v) w then throw (InternalError ''Unique constraint failed'') w
         else return v (w\<lparr>vehicleTypes := vehicleTypes w @ [v]\<rparr>))"

definition update_vehicleType :: "id \<Rightarrow> (VehicleType \<Rightarrow> VehicleType) \<Rightarrow> world \<Rightarrow> world" where
  "update_vehicleType i f w = w\<lparr>vehicleTypes := update_where (\<lambda>v. vt_id v = i) f (vehicleTypes w)\<rparr>"

definition edited_type :: "UpdateVehicleTypeDto \<Rightarrow> VehicleType \<Rightarrow> VehicleType" where
  "edited_type dto v = v\<lparr>vt_name := nullish (uv_name dto) (vt_name v),
     vt_serviceType := nullish (uv_serviceType dto) (vt_serviceType v),
     vt_capacity := nullish (uv_capacity dto) (vt_capacity v),
     vt_baseFare := nullish (uv_baseFare dto) (vt_baseFare v),
     vt_pricePerKm := nullish (uv_pricePerKm dto) (vt_pricePerKm v),
     vt_pricePerMin := nullish (uv_pricePerMin dto) (vt_pricePerMin v),
     vt_commissionPercentage := nullish (uv_commissionPercentage dto) (vt_commissionPercentage v),
     vt_isActive := nullish (uv_isActive dto) (vt_isActive v)\<rparr>"

definition vehicleTypes_update :: "id \<Rightarrow> UpdateVehicleTypeDto \<Rightarrow> world \<Rightarrow> (VehicleType, world) outcome" where
  "vehicleTypes_update i dto w =
     andThen (vehicleTypes_findOne i w) (\<lambda>v w1.
       (let v' = edited_type dto v
        in if name_taken i (vt_name v') (vt_serviceType v') w1 then throw (InternalError ''Unique constraint failed'') w1
           else return v' (update_vehicleType i (edited_type dto) w1)))"

definition vehicleTypes_deactivate :: "id \<Rightarrow> world \<Rightarrow> (VehicleType, world) outcome" where
  "vehicleTypes_deactivate i w =
     andThen (vehicleTypes_findOne i w) (\<lambda>v w1.
       return (v\<lparr>vt_isActive := False\<rparr>) (update_vehicleType i (\<lambda>v. v\<lparr>vt_isActive := False\<rparr>) w1))"

section \<open>Push tokens\<close>

definition devices_register :: "id \<Rightarrow> string \<Rightarrow> DevicePlatform \<Rightarrow> world \<Rightarrow> world" where
  "devices_register userId token platform w =
     (if list_ex (\<lambda>t. dt_token t = token) (deviceTokens w)
      then w\<lparr>deviceTokens := update_where (\<lambda>t. dt_token t = token)
                (\<lambda>t. t\<lparr>dt_userId := userId, dt_platform := platform\<rparr>) (deviceTokens w)\<rparr>
      else w\<lparr>deviceTokens := deviceTokens w @ [\<lparr>dt_userId = userId, dt_token = token, dt_platform = platform\<rparr>]\<rparr>)"

definition devices_unregister :: "string \<Rightarrow> world \<Rightarrow> world" where
  "devices_unregister token w = w\<lparr>deviceTokens := delete_where (\<lambda>t. dt_token t = token) (deviceTokens w)\<rparr>"

end
