(* ===== verification/Realtime.thy ===== *)
theory Realtime
  imports Trips Auth Accounts "HOL-Library.Char_ord" "HOL-Library.List_Lexorder"
begin

text \<open>
  The WebSocket side: presence of drivers in a Redis sorted set, sockets with their identity and
  rooms, the gateway's messages, the grace period after a disconnection, the chat and the GPS
  positions (\<open>events/\<close>, \<open>chat.service.ts\<close>, \<open>tracking.service.ts\<close>). A message handler runs after
  \<open>WsJwtGuard\<close>, which verifies the token of the handshake again.
\<close>

section \<open>Presence\<close>

definition PRESENCE_TTL_SECONDS :: int where "PRESENCE_TTL_SECONDS = 120"

definition zadd :: "time \<Rightarrow> id \<Rightarrow> (id \<times> time) list \<Rightarrow> (id \<times> time) list" where
  "zadd score k z = (k, score) # filter (\<lambda>e. fst e \<noteq> k) z"

definition heartbeat :: "time \<Rightarrow> id \<Rightarrow> world \<Rightarrow> world" where
  "heartbeat now driverId w = w\<lparr>presence := zadd now driverId (presence w)\<rparr>"

definition setOnline :: "time \<Rightarrow> id \<Rightarrow> world \<Rightarrow> world" where
  "setOnline now driverId w =
     update_driver driverId (\<lambda>d. d\<lparr>d_isOnline := True\<rparr>) (w\<lparr>presence := zadd now driverId (presence w)\<rparr>)"

definition setOffline :: "id \<Rightarrow> world \<Rightarrow> world" where
  "setOffline driverId w =
     update_driver driverId (\<lambda>d. d\<lparr>d_isOnline := False\<rparr>)
       (w\<lparr>presence := filter (\<lambda>e. fst e \<noteq> driverId) (presence w)\<rparr>)"

definition isOnline :: "time \<Rightarrow> id \<Rightarrow> world \<Rightarrow> bool" where
  "isOnline now driverId w \<longleftrightarrow>
     (case map_of (presence w) driverId of None \<Rightarrow> False | Some score \<Rightarrow> now - score < PRESENCE_TTL_SECONDS * 1000)"

text \<open>\<open>ZREMRANGEBYSCORE -inf cutoff\<close> is inclusive; \<open>ZRANGE\<close> orders by score, then by name.\<close>

definition getOnlineDriverIds :: "time \<Rightarrow> world \<Rightarrow> id list \<times> world" where
  "getOnlineDriverIds now w =
     (let kept = filter (\<lambda>e. now - PRESENCE_TTL_SECONDS * 1000 < snd e) (presence w)
      in (map fst (sort_key snd (sort_key fst kept)), w\<lparr>presence := kept\<rparr>))"

section \<open>Chat and positions\<close>

definition trip_driver :: "Trip \<Rightarrow> world \<Rightarrow> Driver option" where
  "trip_driver trip w = (case t_driverId trip of None \<Rightarrow> None | Some d \<Rightarrow> find_driver d w)"

definition assertParticipant :: "id \<Rightarrow> id \<Rightarrow> world \<Rightarrow> (unit, world) outcome" where
  "assertParticipant tripId userId w =
     (case find_trip tripId w of
        None \<Rightarrow> throw (BadRequestException ''Course introuvable'') w
      | Some trip \<Rightarrow>
          if t_clientId trip = userId \<or> (case trip_driver trip w of None \<Rightarrow> False | Some d \<Rightarrow> d_userId d = userId)
          then return () w
          else throw (ForbiddenException ''Vous ne participez pas a cette course'') w)"

definition getMessages :: "id \<Rightarrow> id \<Rightarrow> world \<Rightarrow> (ChatMessage list, world) outcome" where
  "getMessages tripId userId w =
     andThen (assertParticipant tripId userId w) (\<lambda>_ w1.
       return (sort_key cm_createdAt (filter (\<lambda>m. cm_tripId m = tripId) (chatMessages w1))) w1)"

definition createMessage ::
  "id \<Rightarrow> time \<Rightarrow> id \<Rightarrow> id \<Rightarrow> SenderRole \<Rightarrow> string option \<Rightarrow> string option \<Rightarrow> world \<Rightarrow> (ChatMessage, world) outcome" where
  "createMessage newId now tripId senderId senderRole content audioUrl w =
     (if \<not> truthy content \<and> \<not> truthy audioUrl then throw (BadRequestException ''content ou audioUrl requis'') w
      else andThen (assertParticipant tripId senderId w) (\<lambda>_ w1.
        (let m = \<lparr>cm_id = newId, cm_tripId = tripId, cm_senderId = senderId, cm_senderRole = senderRole,
                  cm_content = content, cm_audioUrl = audioUrl, cm_createdAt = now\<rparr>;
             w2 = w1\<lparr>chatMessages := chatMessages w1 @ [m]\<rparr>;
             w3 = emitToTrip tripId MessageReceived (ChatMsg m) w2
         in return m (emit (ChatMessageSent newId tripId senderId senderRole) w3))))"

record UpdatePositionDto =
  up_lat :: real
  up_lng :: real
  up_heading :: "real option"
  up_speed :: "real option"
  up_tripId :: "id option"

text \<open>\<open>TrackingService.updatePosition\<close>\<close>

definition updatePosition :: "time \<Rightarrow> id \<Rightarrow> UpdatePositionDto \<Rightarrow> world \<Rightarrow> (unit, world) outcome" where
  "updatePosition now userId dto w =
     (case findDriverByUserId userId w of
        None \<Rightarrow> throw (NotFoundException ''Profil chauffeur introuvable'') w
      | Some driver \<Rightarrow>
          (let w1 = heartbeat now (d_id driver) w;
               w2 = updateDriverLocation now (d_id driver) (up_lat dto) (up_lng dto) w1
           in return () (if truthy (up_tripId dto)
                then emitToTrip (the (up_tripId dto)) DriverLocationUpdate
                       (LocationMsg (d_id driver) (up_lat dto) (up_lng dto) (up_heading dto) (up_speed dto)) w2
                else w2)))"

section \<open>Sockets\<close>

text \<open>What Socket.IO keeps of a connection: the handshake token, the fields the code hangs on it, its rooms.\<close>

record Socket =
  sk_id :: string
  sk_token :: "string option"
  sk_user :: "JwtPayload option"
  sk_driverId :: "id option"
  sk_rooms :: "string list"

record gateway =
  sockets :: "Socket list"
  graceTimers :: "(id \<times> time) list"

definition find_socket :: "string \<Rightarrow> gateway \<Rightarrow> Socket option" where
  "find_socket sid g = find (\<lambda>s. sk_id s = sid) (sockets g)"

definition edit_socket :: "string \<Rightarrow> (Socket \<Rightarrow> Socket) \<Rightarrow> gateway \<Rightarrow> gateway" where
  "edit_socket sid f g = g\<lparr>sockets := update_where (\<lambda>s. sk_id s = sid) f (sockets g)\<rparr>"

definition join_room :: "string \<Rightarrow> Socket \<Rightarrow> Socket" where
  "join_room room s = s\<lparr>sk_rooms := (if room \<in> set (sk_rooms s) then sk_rooms s else room # sk_rooms s)\<rparr>"

definition joinUserRoom :: "id \<Rightarrow> Socket \<Rightarrow> Socket" where "joinUserRoom userId = join_room (getUserRoom userId)"
definition joinDriverRoom :: "id \<Rightarrow> Socket \<Rightarrow> Socket" where "joinDriverRoom driverId = join_room (getDriverRoom driverId)"
definition joinTripRoom :: "id \<Rightarrow> Socket \<Rightarrow> Socket" where "joinTripRoom tripId = join_room (getTripRoom tripId)"
definition joinAdminRoom :: "Socket \<Rightarrow> Socket" where "joinAdminRoom = join_room getAdminRoom"

text \<open>Every room but the one Socket.IO names after the socket itself.\<close>

definition leaveAllRooms :: "Socket \<Rightarrow> Socket" where
  "leaveAllRooms s = s\<lparr>sk_rooms := filter (\<lambda>r. r = sk_id s) (sk_rooms s)\<rparr>"

section \<open>Connecting and disconnecting\<close>

definition GRACE_PERIOD_MS :: int where "GRACE_PERIOD_MS = 60000"

definition cancelGracePeriod :: "id \<Rightarrow> gateway \<Rightarrow> gateway" where
  "cancelGracePeriod driverId g = g\<lparr>graceTimers := filter (\<lambda>t. fst t \<noteq> driverId) (graceTimers g)\<rparr>"

definition scheduleGracePeriod :: "time \<Rightarrow> id \<Rightarrow> gateway \<Rightarrow> gateway" where
  "scheduleGracePeriod now driverId g =
     (let g1 = cancelGracePeriod driverId g
      in g1\<lparr>graceTimers := (driverId, now + GRACE_PERIOD_MS) # graceTimers g1\<rparr>)"

text \<open>A timer that fires: it leaves the map and takes its driver offline.\<close>

definition graceExpired :: "id \<Rightarrow> gateway \<times> world \<Rightarrow> gateway \<times> world" where
  "graceExpired driverId = (\<lambda>(g, w).
     (g\<lparr>graceTimers := filter (\<lambda>t. fst t \<noteq> driverId) (graceTimers g)\<rparr>, setOffline driverId w))"

definition handleConnection ::
  "Libraries \<Rightarrow> AuthConfig \<Rightarrow> time \<Rightarrow> string \<Rightarrow> string option \<Rightarrow> gateway \<times> world \<Rightarrow> gateway \<times> world" where
  "handleConnection lib cfg now sid token = (\<lambda>(g, w).
     if \<not> truthy token then (g, w)
     else (case jwt_verify lib (JWT_ACCESS_SECRET cfg) now (the token) of
        None \<Rightarrow> (g, w)
      | Some user \<Rightarrow>
          (let s0 = \<lparr>sk_id = sid, sk_token = token, sk_user = Some user, sk_driverId = None, sk_rooms = [sid]\<rparr>;
               s1 = joinUserRoom (sub user) s0;
               s2 = (if jp_role user = role_admin then joinAdminRoom s1 else s1)
           in case (if jp_role user = role_driver then findDriverByUserId (sub user) w else None) of
                None \<Rightarrow> (g\<lparr>sockets := s2 # sockets g\<rparr>, w)
              | Some driver \<Rightarrow>
                  (let s3 = joinDriverRoom (d_id driver) (s2\<lparr>sk_driverId := Some (d_id driver)\<rparr>);
                       g1 = cancelGracePeriod (d_id driver) g
                   in (g1\<lparr>sockets := s3 # sockets g1\<rparr>, setOnline now (d_id driver) w)))))"

definition handleDisconnect :: "time \<Rightarrow> string \<Rightarrow> gateway \<Rightarrow> gateway" where
  "handleDisconnect now sid g =
     (case find_socket sid g of
        None \<Rightarrow> g
      | Some client \<Rightarrow>
          (let g1 = g\<lparr>sockets := filter (\<lambda>s. sk_id s \<noteq> sid) (sockets g)\<rparr>
           in if truthy (sk_driverId client) then scheduleGracePeriod now (the (sk_driverId client)) g1 else g1))"

section \<open>Messages\<close>

datatype WsCall =
    CallDriverJoinRoom id
  | CallDriverOnline id
  | CallDriverOffline id
  | CallDriverRejoinRoom id
  | CallDriverPosition id "id option" real real "real option"
  | CallDriverHeartbeat id
  | CallTripJoin id
  | CallTripAccept id
  | CallTripDecline id "string option"
  | CallDeliveryClientConfirmed id
  | CallDeliveryIssueReported id "string option"
  | CallMessageSend id "string option" "string option"

datatype Ack = Rejected | Acknowledged | NotAcknowledged | OnlineAck id | OfflineAck id | JoinedAck id

definition ack_of :: "http_error + 'a \<Rightarrow> Ack" where
  "ack_of r = (case r of Inl _ \<Rightarrow> NotAcknowledged | Inr _ \<Rightarrow> Acknowledged)"

definition ws_canActivate :: "Libraries \<Rightarrow> AuthConfig \<Rightarrow> time \<Rightarrow> Socket \<Rightarrow> JwtPayload option" where
  "ws_canActivate lib cfg now client =
     (if truthy (sk_token client) then jwt_verify lib (JWT_ACCESS_SECRET cfg) now (the (sk_token client)) else None)"

text \<open>One message of a socket; \<open>newId\<close> names the row a chat message creates.\<close>

fun handle_call ::
  "id \<Rightarrow> time \<Rightarrow> Socket \<Rightarrow> JwtPayload \<Rightarrow> WsCall \<Rightarrow> gateway \<times> world \<Rightarrow> Ack \<times> gateway \<times> world" where
  "handle_call newId now client user (CallDriverJoinRoom driverId) (g, w) =
     (OnlineAck driverId, edit_socket (sk_id client) (joinDriverRoom driverId) g, setOnline now driverId w)"
| "handle_call newId now client user (CallDriverOnline driverId) (g, w) =
     (OnlineAck driverId, edit_socket (sk_id client) (joinDriverRoom driverId) g, setOnline now driverId w)"
| "handle_call newId now client user (CallDriverOffline driverId) (g, w) =
     (OfflineAck driverId, g, setOffline driverId w)"
| "handle_call newId now client user (CallDriverRejoinRoom driverId) (g, w) =
     (OnlineAck driverId, edit_socket (sk_id client) (joinDriverRoom driverId) (cancelGracePeriod driverId g),
      setOnline now driverId w)"
| "handle_call newId now client user (CallDriverPosition driverId tripId lt lg heading) (g, w) =
     (let w1 = updateDriverLocation now driverId lt lg (heartbeat now driverId w)
      in (Acknowledged, g,
          if truthy tripId
          then emitToTrip (the tripId) DriverLocationUpdate (LocationMsg driverId lt lg heading None) w1 else w1))"
| "handle_call newId now client user (CallDriverHeartbeat driverId) (g, w) =
     (Acknowledged, g, heartbeat now driverId w)"
| "handle_call newId now client user (CallTripJoin tripId) (g, w) =
     (JoinedAck tripId, edit_socket (sk_id client) (joinTripRoom tripId) g, w)"
| "handle_call newId now client user (CallTripAccept tripId) (g, w) =
     (if \<not> truthy (sk_driverId client) then (NotAcknowledged, g, w)
      else (Acknowledged, g, emit (WsDriverAcceptRequested tripId (the (sk_driverId client)) (sub user)) w))"
| "handle_call newId now client user (CallTripDecline tripId reason) (g, w) =
     (if \<not> truthy (sk_driverId client) then (NotAcknowledged, g, w)
      else (Acknowledged, g, emit (WsDriverDeclineRequested tripId (the (sk_driverId client)) reason) w))"
| "handle_call newId now client user (CallDeliveryClientConfirmed tripId) (g, w) =
     (let (r, w1) = confirmDelivery now tripId (sub user) w in (ack_of r, g, w1))"
| "handle_call newId now client user (CallDeliveryIssueReported deliveryId reason) (g, w) =
     (let (r, w1) = reportDeliveryIssue now deliveryId (sub user) reason w in (ack_of r, g, w1))"
| "handle_call newId now client user (CallMessageSend tripId content audioUrl) (g, w) =
     (let senderRole = (if jp_role user = role_driver then sender_driver else sender_client);
          (r, w1) = createMessage newId now tripId (sub user) senderRole content audioUrl w
      in (ack_of r, g, w1))"

definition on_message ::
  "Libraries \<Rightarrow> AuthConfig \<Rightarrow> id \<Rightarrow> time \<Rightarrow> string \<Rightarrow> WsCall \<Rightarrow> gateway \<times> world \<Rightarrow> Ack \<times> gateway \<times> world" where
  "on_message lib cfg newId now sid call = (\<lambda>(g, w).
     case find_socket sid g of
       None \<Rightarrow> (Rejected, g, w)
     | Some client \<Rightarrow>
         (case ws_canActivate lib cfg now client of
            None \<Rightarrow> (Rejected, g, w)
          | Some user \<Rightarrow>
              handle_call newId now (client\<lparr>sk_user := Some user\<rparr>) user call
                (edit_socket sid (\<lambda>s. s\<lparr>sk_user := Some user\<rparr>) g, w)))"

section \<open>Who speaks on a socket\<close>

lemma find_driver_presence [simp]: "find_driver i (w\<lparr>presence := z\<rparr>) = find_driver i w"
  by (simp add: find_driver_def)

lemma find_driver_set_online:
  "find_driver i (setOnline now d w) =
     map_option (\<lambda>dr. if i = d then dr\<lparr>d_isOnline := True\<rparr> else dr) (find_driver i w)"
  unfolding setOnline_def find_driver_def update_frame
  by (cases "i = d") (simp_all add: table_simps option.map_ident find_update_same [where k = d_id] find_update_other [where k = d_id])

text \<open>The pairs of driver and user: presence and positions leave them alone.\<close>

definition driver_users :: "world \<Rightarrow> (id \<times> id) list" where
  "driver_users w = map (\<lambda>d. (d_id d, d_userId d)) (drivers w)"

lemma driver_users_update:
  "(\<And>d. d_id (f d) = d_id d \<and> d_userId (f d) = d_userId d) \<Longrightarrow> driver_users (update_driver i f w) = driver_users w"
  by (simp add: driver_users_def update_driver_def update_where_def comp_def)

lemma driver_users_same: "drivers w' = drivers w \<Longrightarrow> driver_users w' = driver_users w"
  by (simp add: driver_users_def)

lemma driver_users_frames [simp]:
  "driver_users (setOnline now d w) = driver_users w" "driver_users (setOffline d w) = driver_users w"
  "driver_users (heartbeat now d w) = driver_users w"
  "driver_users (updateDriverLocation now d x y w) = driver_users w"
  "driver_users (emit e w) = driver_users w" "driver_users (ws_send r ev p w) = driver_users w"
  by (simp_all add: setOnline_def setOffline_def heartbeat_def updateDriverLocation_def driver_users_def
      update_where_def comp_def world_simps)

lemma driver_users_confirm: "driver_users (snd (confirmDelivery now t u w)) = driver_users w"
  by (rule driver_users_same)
    (simp add: confirmDelivery_def andThen_def getTrip_def world_simps Let_def split: prod.split sum.split option.split)

lemma driver_users_report: "driver_users (snd (reportDeliveryIssue now t u r w)) = driver_users w"
  by (rule driver_users_same)
    (simp add: reportDeliveryIssue_def andThen_def getTrip_def world_simps Let_def split: prod.split sum.split option.split)

lemma driver_users_message: "driver_users (snd (createMessage i now t u r c a w)) = driver_users w"
  by (rule driver_users_same)
    (simp add: createMessage_def andThen_def assertParticipant_def world_simps Let_def split: prod.split sum.split option.split)

text \<open>A socket speaks for a driver only if its token was verified as one of that driver's user.\<close>

definition identified :: "Libraries \<Rightarrow> AuthConfig \<Rightarrow> world \<Rightarrow> Socket \<Rightarrow> bool" where
  "identified lib cfg w s \<longleftrightarrow> (\<forall>d. sk_driverId s = Some d \<longrightarrow>
     (\<exists>now p. sk_token s \<noteq> None \<and> jwt_verify lib (JWT_ACCESS_SECRET cfg) now (the (sk_token s)) = Some p \<and>
        jp_role p = role_driver \<and> (d, sub p) \<in> set (driver_users w)))"

definition sockets_ok :: "Libraries \<Rightarrow> AuthConfig \<Rightarrow> gateway \<times> world \<Rightarrow> bool" where
  "sockets_ok lib cfg = (\<lambda>(g, w). \<forall>s \<in> set (sockets g). identified lib cfg w s)"

lemma identified_cong:
  "driver_users w' = driver_users w \<Longrightarrow> sk_driverId s' = sk_driverId s \<Longrightarrow> sk_token s' = sk_token s \<Longrightarrow>
   identified lib cfg w' s' = identified lib cfg w s"
  by (simp add: identified_def)

lemma socket_edit_simps [simp]:
  "sk_driverId (join_room r s) = sk_driverId s" "sk_token (join_room r s) = sk_token s" "sk_id (join_room r s) = sk_id s"
  "sk_driverId (joinUserRoom u s) = sk_driverId s" "sk_token (joinUserRoom u s) = sk_token s"
  "sk_driverId (joinDriverRoom d s) = sk_driverId s" "sk_token (joinDriverRoom d s) = sk_token s"
  "sk_driverId (joinTripRoom t s) = sk_driverId s" "sk_token (joinTripRoom t s) = sk_token s"
  "sk_driverId (joinAdminRoom s) = sk_driverId s" "sk_token (joinAdminRoom s) = sk_token s"
  by (simp_all add: join_room_def joinUserRoom_def joinDriverRoom_def joinTripRoom_def joinAdminRoom_def)

lemma socket_ids [simp]:
  "sk_id (joinUserRoom u s) = sk_id s" "sk_id (joinDriverRoom d s) = sk_id s"
  "sk_id (joinTripRoom t s) = sk_id s" "sk_id (joinAdminRoom s) = sk_id s"
  by (simp_all add: joinUserRoom_def joinDriverRoom_def joinTripRoom_def joinAdminRoom_def)

lemma find_socket_edit:
  "(\<And>s. sk_id (f s) = sk_id s) \<Longrightarrow> find_socket sid (edit_socket sid f g) = map_option f (find_socket sid g)"
  unfolding find_socket_def edit_socket_def by (simp add: find_update_same [where k = sk_id])

lemma sockets_edit:
  assumes "sockets_ok lib cfg (g, w)" and "driver_users w' = driver_users w"
    and "\<And>s. sk_driverId (f s) = sk_driverId s \<and> sk_token (f s) = sk_token s"
  shows "sockets_ok lib cfg (edit_socket sid f g, w')"
proof -
  have "identified lib cfg w' (f s) = identified lib cfg w s" "identified lib cfg w' s = identified lib cfg w s" for s
    using assms(2,3) by (simp_all add: identified_def)
  with assms(1) show ?thesis by (auto simp: sockets_ok_def edit_socket_def set_update_where)
qed

lemma sockets_same:
  assumes "sockets_ok lib cfg (g, w)" and "driver_users w' = driver_users w" and "set (sockets g') \<subseteq> set (sockets g)"
  shows "sockets_ok lib cfg (g', w')"
  using assms identified_cong [OF assms(2) refl refl] by (auto simp: sockets_ok_def)

lemma graceTimers_sockets [simp]: "sockets (cancelGracePeriod d g) = sockets g" "sockets (g\<lparr>graceTimers := z\<rparr>) = sockets g"
  by (simp_all add: cancelGracePeriod_def)

lemma handle_call_keeps:
  assumes "sockets_ok lib cfg (g, w)"
  shows "sockets_ok lib cfg (snd (handle_call i now c u call (g, w)))"
  using assms
  by (cases call)
    (auto simp: Let_def split_beta world_simps driver_users_confirm driver_users_report driver_users_message
      intro!: sockets_edit [where w = w] sockets_edit [where g = "cancelGracePeriod _ g" and w = w] intro: sockets_same)

lemma on_message_keeps:
  assumes "sockets_ok lib cfg (g, w)"
  shows "sockets_ok lib cfg (snd (on_message lib cfg i now sid call (g, w)))"
  using assms sockets_edit [OF assms refl, of "\<lambda>s. s\<lparr>sk_user := _\<rparr>"]
  by (auto simp: on_message_def intro!: handle_call_keeps split: option.split)

lemma handleConnection_keeps:
  assumes "sockets_ok lib cfg (g, w)"
  shows "sockets_ok lib cfg (handleConnection lib cfg now sid token (g, w))"
proof -
  have new: "identified lib cfg w s"
    if "sk_token s = Some t" "sk_driverId s = Some (d_id d)" "jwt_verify lib (JWT_ACCESS_SECRET cfg) now t = Some u"
      "jp_role u = role_driver" "findDriverByUserId (sub u) w = Some d" for s t u d
  proof -
    have "(d_id d, sub u) \<in> set (driver_users w)"
      using that(5) by (auto simp: findDriverByUserId_def driver_users_def dest!: find_SomeD)
    with that show ?thesis unfolding identified_def by auto
  qed
  have none: "identified lib cfg w s" if "sk_driverId s = None" for s
    using that by (simp add: identified_def)
  have keep: "identified lib cfg (setOnline now d w) s = identified lib cfg w s" for d s
    by (simp add: identified_def)
  show ?thesis
    using assms unfolding handleConnection_def
    by (auto simp: sockets_ok_def truthy_def Let_def keep none split: option.splits if_splits intro: new)
qed

lemma handleDisconnect_keeps:
  assumes "sockets_ok lib cfg (g, w)"
  shows "sockets_ok lib cfg (handleDisconnect now sid g, w)"
  using assms
  by (auto simp: handleDisconnect_def scheduleGracePeriod_def Let_def sockets_ok_def split: option.splits if_splits)

lemma bus_frames:
  "bus (setOnline now d w) = bus w" "bus (setOffline d w) = bus w" "bus (heartbeat now d w) = bus w"
  "bus (updateDriverLocation now d x y w) = bus w"
  "bus (snd (confirmDelivery now t u w)) = bus w" "bus (snd (reportDeliveryIssue now t u r w)) = bus w"
  by (simp_all add: setOnline_def setOffline_def heartbeat_def updateDriverLocation_def confirmDelivery_def
      reportDeliveryIssue_def andThen_def getTrip_def world_simps Let_def split: prod.split sum.split option.split)

lemma bus_message: "\<exists>evs. bus (snd (createMessage i now t u r c a w)) = bus w @ evs \<and> set evs \<subseteq> {ChatMessageSent i t u r}"
  by (simp add: createMessage_def andThen_def assertParticipant_def world_simps Let_def split: prod.split sum.split option.split)

text \<open>What a message can put on the bus.\<close>

lemma handle_call_events:
  "\<exists>evs. bus (snd (snd (handle_call i now c u call (g, w)))) = bus w @ evs \<and>
     (\<forall>e \<in> set evs. (\<exists>t r. e = ChatMessageSent i t (sub u) r) \<or>
        (\<exists>d. sk_driverId c = Some d \<and> ((\<exists>t. e = WsDriverAcceptRequested t d (sub u)) \<or> (\<exists>t r. e = WsDriverDeclineRequested t d r))))"
proof (cases call)
  case (CallMessageSend t x y)
  obtain evs where "bus (snd (createMessage i now t (sub u) (if jp_role u = role_driver then sender_driver else sender_client) x y w)) = bus w @ evs"
    and "set evs \<subseteq> {ChatMessageSent i t (sub u) (if jp_role u = role_driver then sender_driver else sender_client)}"
    using bus_message by blast
  then show ?thesis unfolding CallMessageSend by (intro exI [of _ evs]) (auto simp: Let_def split_beta)
qed (auto simp: Let_def split_beta bus_frames world_simps truthy_def split: option.splits)

text \<open>
  What can happen around the gateway: sockets connect, send and leave, grace timers fire, and the rest
  of the backend works on the database, where no driver is deleted or given to another user.
\<close>

inductive ws_step :: "Libraries \<Rightarrow> AuthConfig \<Rightarrow> gateway \<times> world \<Rightarrow> gateway \<times> world \<Rightarrow> bool" for lib cfg where
  connects: "ws_step lib cfg s (handleConnection lib cfg now sid token s)"
| sends: "ws_step lib cfg s (snd (on_message lib cfg i now sid call s))"
| leaves: "ws_step lib cfg (g, w) (handleDisconnect now sid g, w)"
| expires: "ws_step lib cfg s (graceExpired d s)"
| works: "set (driver_users w) \<subseteq> set (driver_users w') \<Longrightarrow> ws_step lib cfg (g, w) (g, w')"

lemma graceExpired_keeps: "sockets_ok lib cfg (g, w) \<Longrightarrow> sockets_ok lib cfg (graceExpired d (g, w))"
  by (auto simp: graceExpired_def intro: sockets_same)

lemma works_keeps:
  "sockets_ok lib cfg (g, w) \<Longrightarrow> set (driver_users w) \<subseteq> set (driver_users w') \<Longrightarrow> sockets_ok lib cfg (g, w')"
  unfolding sockets_ok_def identified_def by blast

lemma ws_step_keeps: "ws_step lib cfg s s' \<Longrightarrow> sockets_ok lib cfg s \<Longrightarrow> sockets_ok lib cfg s'"
  by (induction rule: ws_step.induct)
    (metis surj_pair handleConnection_keeps on_message_keeps graceExpired_keeps handleDisconnect_keeps works_keeps)+

text \<open>Whatever has happened since there were no sockets, a socket that speaks for a driver holds a token of that driver's user.\<close>

lemma ws_run_keeps: "(ws_step lib cfg)\<^sup>*\<^sup>* s s' \<Longrightarrow> sockets_ok lib cfg s \<Longrightarrow> sockets_ok lib cfg s'"
  by (induction rule: rtranclp_induct) (blast intro: ws_step_keeps)+

text \<open>
  C36. Acceptances and refusals that arrive by socket are authentic. Start the gateway without
  sockets and let any sequence of connections, messages, disconnections, grace timers and other
  work of the backend pass: when a message then puts an acceptance or a refusal on the bus, the
  driver in it is the one the socket was bound to when it connected, that driver belongs to the
  user of the socket's token, verified again for this message, and the acceptance names this user,
  whatever the message says. A socket without a driver causes neither.
\<close>

theorem ws_requests_authentic:
  assumes start: "sockets g0 = []" and run: "(ws_step lib cfg)\<^sup>*\<^sup>* (g0, w0) (g, w)"
    and fixed: "\<forall>a b t p q. jwt_verify lib (JWT_ACCESS_SECRET cfg) a t = Some p \<longrightarrow>
        jwt_verify lib (JWT_ACCESS_SECRET cfg) b t = Some q \<longrightarrow> sub p = sub q"
    and client: "find_socket sid g = Some client"
  shows "\<exists>evs. bus (snd (snd (on_message lib cfg i now sid call (g, w)))) = bus w @ evs \<and>
    (\<forall>t d u. WsDriverAcceptRequested t d u \<in> set evs \<longrightarrow> sk_driverId client = Some d \<and>
       (\<exists>p. ws_canActivate lib cfg now client = Some p \<and> sub p = u \<and> (d, u) \<in> set (driver_users w))) \<and>
    (\<forall>t d r. WsDriverDeclineRequested t d r \<in> set evs \<longrightarrow> sk_driverId client = Some d \<and>
       (\<exists>p. ws_canActivate lib cfg now client = Some p \<and> (d, sub p) \<in> set (driver_users w)))"
proof (cases "ws_canActivate lib cfg now client")
  case None
  with client show ?thesis by (simp add: on_message_def)
next
  case (Some user)
  have ok: "sockets_ok lib cfg (g, w)" using ws_run_keeps [OF run] start by (simp add: sockets_ok_def)
  have mem: "client \<in> set (sockets g)" using client by (auto simp: find_socket_def dest: find_SomeD)
  have own: "(d, sub user) \<in> set (driver_users w)" if d: "sk_driverId client = Some d" for d
  proof -
    have "identified lib cfg w client" using ok mem by (simp add: sockets_ok_def)
    with d obtain b p where "jwt_verify lib (JWT_ACCESS_SECRET cfg) b (the (sk_token client)) = Some p" "(d, sub p) \<in> set (driver_users w)"
      unfolding identified_def by blast
    moreover have "jwt_verify lib (JWT_ACCESS_SECRET cfg) now (the (sk_token client)) = Some user"
      using Some by (simp add: ws_canActivate_def split: if_splits)
    ultimately show ?thesis using fixed by metis
  qed
  have step: "on_message lib cfg i now sid call (g, w) =
      handle_call i now (client\<lparr>sk_user := Some user\<rparr>) user call (edit_socket sid (\<lambda>s. s\<lparr>sk_user := Some user\<rparr>) g, w)"
    by (simp add: on_message_def client Some)
  obtain evs where evs: "bus (snd (snd (on_message lib cfg i now sid call (g, w)))) = bus w @ evs"
    and e: "\<forall>e \<in> set evs. (\<exists>t r. e = ChatMessageSent i t (sub user) r) \<or>
        (\<exists>d. sk_driverId client = Some d \<and> ((\<exists>t. e = WsDriverAcceptRequested t d (sub user)) \<or> (\<exists>t r. e = WsDriverDeclineRequested t d r)))"
    using handle_call_events [of i now "client\<lparr>sk_user := Some user\<rparr>" user call "edit_socket sid (\<lambda>s. s\<lparr>sk_user := Some user\<rparr>) g" w]
    unfolding step by auto
  have "sk_driverId client = Some d \<and> sub user = u \<and> (d, u) \<in> set (driver_users w)" if "WsDriverAcceptRequested t d u \<in> set evs" for t d u
    using bspec [OF e that] own by auto
  moreover have "sk_driverId client = Some d \<and> (d, sub user) \<in> set (driver_users w)"
    if "WsDriverDeclineRequested t d r \<in> set evs" for t d r
    using bspec [OF e that] own by force
  ultimately show ?thesis using evs Some by blast
qed

definition one_socket :: gateway where
  "one_socket = \<lparr>sockets = [\<lparr>sk_id = ''s1'', sk_token = Some ''tok'', sk_user = None, sk_driverId = None,
      sk_rooms = [''s1'']\<rparr>], graceTimers = []\<rparr>"

abbreviation "driver_libraries \<equiv> plain_libraries\<lparr>jwt_verify := \<lambda>s n t. Some \<lparr>sub = ''u1'', jp_phone = [], jp_role = role_driver\<rparr>\<rparr>"

text \<open>The driver of the user \<open>u1\<close> connects and accepts.\<close>

theorem ws_requests_authentic_witness:
  "\<exists>g w. handleConnection driver_libraries legacy_config 0 ''s1'' (Some ''tok'') (\<lparr>sockets = [], graceTimers = []\<rparr>, sample_world) = (g, w) \<and>
     bus (snd (snd (on_message driver_libraries legacy_config ''m1'' 1 ''s1'' (CallTripAccept ''t1'') (g, w)))) =
       bus w @ [WsDriverAcceptRequested ''t1'' ''d1'' ''u1''] \<and> (''d1'', ''u1'') \<in> set (driver_users w)"
proof -
  let ?g0 = "\<lparr>sockets = [], graceTimers = []\<rparr>"
  obtain g w where c: "handleConnection driver_libraries legacy_config 0 ''s1'' (Some ''tok'') (?g0, sample_world) = (g, w)"
    by (metis surj_pair)
  have run: "(ws_step driver_libraries legacy_config)\<^sup>*\<^sup>* (?g0, sample_world) (g, w)"
    using ws_step.connects [of driver_libraries legacy_config "(?g0, sample_world)" 0 "''s1''" "Some ''tok''"] unfolding c by blast
  have "findDriverByUserId ''u1'' sample_world = Some (sample_driver ''d1'' ''u1'')"
    by (simp add: findDriverByUserId_def sample_world_def sample_driver_def)
  with c have client: "find_socket ''s1'' g = Some (hd (sockets g))" "sk_driverId (hd (sockets g)) = Some ''d1''"
      "sk_token (hd (sockets g)) = Some ''tok''"
    by (auto simp: handleConnection_def Let_def find_socket_def sample_driver_def cancelGracePeriod_def)
  have accept: "bus (snd (snd (on_message driver_libraries legacy_config ''m1'' 1 ''s1'' (CallTripAccept ''t1'') (g, w)))) =
       bus w @ [WsDriverAcceptRequested ''t1'' ''d1'' ''u1'']"
    by (simp add: on_message_def client ws_canActivate_def world_simps)
  have fixed: "\<forall>a b t p q. jwt_verify driver_libraries (JWT_ACCESS_SECRET legacy_config) a t = Some p \<longrightarrow>
        jwt_verify driver_libraries (JWT_ACCESS_SECRET legacy_config) b t = Some q \<longrightarrow> sub p = sub q"
    by simp
  from ws_requests_authentic [OF _ run fixed client(1), of "''m1''" 1 "CallTripAccept ''t1''"] accept
  have "(''d1'', ''u1'') \<in> set (driver_users w)" by fastforce
  with c accept show ?thesis by blast
qed

section \<open>The commission block\<close>

text \<open>
  C37. A driver who owes more than 50000 is refused by \<open>PATCH /drivers/me/online-status\<close>, yet is put
  online by one \<open>driver:online\<close> message. The message is accepted from any socket with a valid
  token, a client's too, and for any driver id; it also brings the sender into that driver's
  room, where the trip requests go.
\<close>

theorem commission_block_bypassed:
  assumes client: "find_socket sid g = Some client" and guard: "ws_canActivate lib cfg now client = Some user"
    and dr: "find_driver d w = Some dr" "findDriverByUserId (d_userId dr) w = Some dr"
    and owes: "MAX_COMMISSION_DUE < d_commissionDue dr" "d_status dr = validated"
    and msg: "(ack, g', w') = on_message lib cfg i now sid (CallDriverOnline d) (g, w)"
  shows "\<exists>e. updateOnlineStatus (d_userId dr) True w = (Inl e, w) \<and> http_status e = 400 \<and>
    ack = OnlineAck d \<and> map_option d_isOnline (find_driver d w') = Some True \<and>
    (\<exists>s. find_socket sid g' = Some s \<and> getDriverRoom d \<in> set (sk_rooms s))"
proof -
  have "updateOnlineStatus (d_userId dr) True w = (Inl (BadRequestException ''Commission impayee trop elevee''), w)"
    using dr owes by (simp add: updateOnlineStatus_def findByUserId_def throw_def)
  moreover have "ack = OnlineAck d" and w': "w' = setOnline now d w"
    and g': "g' = edit_socket (sk_id client) (joinDriverRoom d) (edit_socket sid (\<lambda>s. s\<lparr>sk_user := Some user\<rparr>) g)"
    using msg by (simp_all add: on_message_def client guard)
  moreover have "map_option d_isOnline (find_driver d w') = Some True"
    unfolding w' find_driver_set_online by (simp add: dr)
  moreover have "sk_id client = sid" using client by (auto simp: find_socket_def dest: find_SomeD)
  then have "find_socket sid g' = Some (joinDriverRoom d (client\<lparr>sk_user := Some user\<rparr>))"
    using client unfolding g' by (simp add: find_socket_edit)
  moreover have "getDriverRoom d \<in> set (sk_rooms (joinDriverRoom d s))" for s
    by (simp add: joinDriverRoom_def join_room_def)
  ultimately show ?thesis by auto
qed

theorem commission_block_bypassed_witness:
  "map_option d_isOnline (find_driver ''d1'' (snd (snd (on_message plain_libraries legacy_config ''m1'' 0 ''s1'' (CallDriverOnline ''d1'')
      (one_socket, sample_world\<lparr>drivers := [(sample_driver ''d1'' ''u1'')\<lparr>d_commissionDue := 60000, d_isOnline := False\<rparr>]\<rparr>))))) = Some True"
  (is "map_option _ (find_driver _ (snd (snd (on_message _ _ _ _ _ ?call (_, ?w))))) = _")
proof -
  have s: "find_socket ''s1'' one_socket = Some (hd (sockets one_socket))"
    and guard: "ws_canActivate plain_libraries legacy_config 0 (hd (sockets one_socket)) =
      Some \<lparr>sub = ''c1'', jp_phone = ''+22370000000'', jp_role = role_client\<rparr>"
    by (simp_all add: find_socket_def one_socket_def ws_canActivate_def plain_libraries_def)
  have d: "find_driver ''d1'' ?w = Some (hd (drivers ?w))" "findDriverByUserId (d_userId (hd (drivers ?w))) ?w = Some (hd (drivers ?w))"
    "MAX_COMMISSION_DUE < d_commissionDue (hd (drivers ?w))" "d_status (hd (drivers ?w)) = validated"
    by (simp_all add: find_driver_def findDriverByUserId_def sample_driver_def MAX_COMMISSION_DUE_def)
  obtain ack g' w' where m: "(ack, g', w') = on_message plain_libraries legacy_config ''m1'' 0 ''s1'' ?call (one_socket, ?w)"
    by (metis surj_pair)
  from commission_block_bypassed [OF s guard d m] m [symmetric] show ?thesis by auto
qed

section \<open>The grace period\<close>

text \<open>The timers due at \<open>now\<close> fire.\<close>

definition fire_due :: "time \<Rightarrow> gateway \<times> world \<Rightarrow> gateway \<times> world" where
  "fire_due now = (\<lambda>(g, w). fold graceExpired (map fst (filter (\<lambda>t. snd t \<le> now) (graceTimers g))) (g, w))"

lemma find_driver_set_offline:
  "find_driver i (setOffline d w) =
     map_option (\<lambda>dr. if i = d then dr\<lparr>d_isOnline := False\<rparr> else dr) (find_driver i w)"
  unfolding setOffline_def find_driver_def update_frame
  by (cases "i = d") (simp_all add: table_simps option.map_ident find_update_same [where k = d_id] find_update_other [where k = d_id])

lemma fold_graceExpired:
  "find_driver i (snd (fold graceExpired ds (g, w))) =
     map_option (\<lambda>dr. if i \<in> set ds then dr\<lparr>d_isOnline := False\<rparr> else dr) (find_driver i w)"
proof (induction ds arbitrary: g w)
  case Nil
  then show ?case by (simp add: option.map_ident)
next
  case (Cons d ds)
  then show ?case
    by (simp add: graceExpired_def find_driver_set_offline option.map_comp comp_def) (auto intro: option.map_cong)
qed

lemma fire_due_driver:
  "find_driver i (snd (fire_due now (g, w))) =
     map_option (\<lambda>dr. if \<exists>t \<in> set (graceTimers g). fst t = i \<and> snd t \<le> now then dr\<lparr>d_isOnline := False\<rparr> else dr)
       (find_driver i w)"
  unfolding fire_due_def prod.case fold_graceExpired
  by (rule option.map_cong) auto

lemma disconnect_timers:
  assumes "find_socket sid g = Some client" and "sk_driverId client = Some d" and "d \<noteq> []"
  shows "(\<exists>t \<in> set (graceTimers (handleDisconnect now sid g)). fst t = d \<and> snd t \<le> later) \<longleftrightarrow> now + GRACE_PERIOD_MS \<le> later"
  using assms by (auto simp: handleDisconnect_def scheduleGracePeriod_def cancelGracePeriod_def Let_def)

text \<open>
  C39. A driver's disconnection is forgiven for a minute: until then the driver stays as before;
  after it the driver is taken offline, even if other sockets of the driver are still connected;
  and a new connection of the driver in between cancels the timer, so that the driver is online
  whenever the timers fire.
\<close>

theorem grace_period:
  assumes client: "find_socket sid g = Some client" "sk_driverId client = Some d" "d \<noteq> []"
    and dr: "find_driver d w = Some dr" and g': "g' = handleDisconnect now sid g"
    and token: "jwt_verify lib (JWT_ACCESS_SECRET cfg) back tok = Some user" "tok \<noteq> []" "jp_role user = role_driver"
      "findDriverByUserId (sub user) w = Some dr"
  shows "(\<forall>later. find_driver d (snd (fire_due later (g', w))) =
           Some (if now + 60000 \<le> later then dr\<lparr>d_isOnline := False\<rparr> else dr)) \<and>
    (\<forall>later. map_option d_isOnline (find_driver d (snd (fire_due later
           (handleConnection lib cfg back sid' (Some tok) (g', w))))) = Some True)"
proof -
  have id: "d_id dr = d" using dr by (auto simp: find_driver_def dest: find_SomeD)
  have "handleConnection lib cfg back sid' (Some tok) (g', w) =
      (cancelGracePeriod d g'\<lparr>sockets := x # sockets (cancelGracePeriod d g')\<rparr>, setOnline back d w)"
    if "x = joinDriverRoom d (joinUserRoom (sub user) \<lparr>sk_id = sid', sk_token = Some tok, sk_user = Some user,
      sk_driverId = None, sk_rooms = [sid']\<rparr>\<lparr>sk_driverId := Some d\<rparr>)" for x
    using token id that by (simp add: handleConnection_def Let_def)
  moreover have "\<not> (\<exists>t \<in> set (graceTimers (cancelGracePeriod d g'\<lparr>sockets := y\<rparr>)). fst t = d \<and> snd t \<le> later)" for y later
    by (auto simp: cancelGracePeriod_def)
  ultimately have "map_option d_isOnline (find_driver d (snd (fire_due later
           (handleConnection lib cfg back sid' (Some tok) (g', w))))) = Some True" for later
    by (simp add: fire_due_driver find_driver_set_online dr)
  moreover have "find_driver d (snd (fire_due later (g', w))) =
      Some (if now + 60000 \<le> later then dr\<lparr>d_isOnline := False\<rparr> else dr)" for later
    unfolding fire_due_driver g' disconnect_timers [OF client] by (simp add: dr GRACE_PERIOD_MS_def)
  ultimately show ?thesis by blast
qed

definition driver_gateway :: gateway where
  "driver_gateway = \<lparr>sockets = map (\<lambda>i. \<lparr>sk_id = i, sk_token = Some ''tok'', sk_user = None, sk_driverId = Some ''d1'',
      sk_rooms = [i]\<rparr>) [''s1'', ''s2''], graceTimers = []\<rparr>"

theorem grace_period_witness:
  "map_option d_isOnline (find_driver ''d1'' (snd (fire_due 60000 (handleDisconnect 0 ''s1'' driver_gateway, sample_world)))) = Some False"
proof -
  have c: "find_socket ''s1'' driver_gateway = Some (hd (sockets driver_gateway))"
    "sk_driverId (hd (sockets driver_gateway)) = Some ''d1''" "''d1'' \<noteq> []"
    by (simp_all add: find_socket_def driver_gateway_def)
  have d: "find_driver ''d1'' sample_world = Some (sample_driver ''d1'' ''u1'')"
    "findDriverByUserId ''u1'' sample_world = Some (sample_driver ''d1'' ''u1'')"
    by (simp_all add: find_driver_def findDriverByUserId_def sample_world_def sample_driver_def)
  let ?lib = "plain_libraries\<lparr>jwt_verify := \<lambda>s n t. Some \<lparr>sub = ''u1'', jp_phone = [], jp_role = role_driver\<rparr>\<rparr>"
  have t: "jwt_verify ?lib (JWT_ACCESS_SECRET legacy_config) 9 ''tok'' = Some \<lparr>sub = ''u1'', jp_phone = [], jp_role = role_driver\<rparr>" "''tok'' \<noteq> []"
    by simp_all
  from grace_period [OF c d(1) refl t] d(2) show ?thesis by simp
qed

end
