(* ===== verification/Commissions.thy ===== *)
theory Commissions
  imports Trip_Repository Geolocation
begin

text \<open>
  \<open>CommissionsService\<close>: the platform's share of a finished trip, what a driver owes and has
  earned, and the reports on it. The ledger of a driver ties the three columns together:
  \<open>commissionDue\<close> is what was charged on the trips minus what was paid.
\<close>

section \<open>Operations\<close>

definition commission_of :: "real \<Rightarrow> real \<Rightarrow> real" where
  "commission_of finalPrice percentage = Math_round (finalPrice * (percentage / 100))"

text \<open>
  The two updates run in one transaction: if the driver's row is missing nothing is written.
  The listener answers nobody; a failure is only logged.
\<close>

definition handleTripCompleted :: "time \<Rightarrow> id \<Rightarrow> world \<Rightarrow> world" where
  "handleTripCompleted now tripId w =
     (case find_trip tripId w of
        None \<Rightarrow> w
      | Some trip \<Rightarrow>
          if \<not> truthy (t_driverId trip) then w
          else (case t_finalPrice trip of
            None \<Rightarrow> w
          | Some finalPrice \<Rightarrow>
              (case find_vehicleType (t_vehicleTypeId trip) w of
                 None \<Rightarrow> w
               | Some vehicleType \<Rightarrow>
                   (let driverId = the (t_driverId trip);
                        commissionAmount = commission_of finalPrice (vt_commissionPercentage vehicleType)
                    in if find_driver driverId w = None then w
                       else update_driver driverId
                              (\<lambda>d. d\<lparr>d_commissionDue := d_commissionDue d + commissionAmount,
                                    d_balance := d_balance d + (finalPrice - commissionAmount)\<rparr>)
                              (update_trip now tripId (\<lambda>t. t\<lparr>t_commissionAmount := Some commissionAmount\<rparr>) w)))))"

definition markCommissionPaid :: "id \<Rightarrow> real \<Rightarrow> world \<Rightarrow> (unit, world) outcome" where
  "markCommissionPaid driverId amount w =
     (if find_driver driverId w = None then throw (InternalError ''Record to update not found'') w
      else return () (update_driver driverId (\<lambda>d. d\<lparr>d_commissionDue := d_commissionDue d - amount\<rparr>) w))"

text \<open>
  The calendar of the server: \<open>tz\<close> is its offset from UTC. 1 January 1970 was a Thursday;
  \<open>day_of_month\<close> counts the days of the proleptic Gregorian calendar in eras of 400 years that
  begin on 1 March.
\<close>

definition local_day :: "(time \<Rightarrow> int) \<Rightarrow> time \<Rightarrow> int" where
  "local_day tz now = (now + tz now) div 86400000"

definition getDay :: "int \<Rightarrow> int" where
  "getDay day = (day + 4) mod 7"

definition day_of_month :: "int \<Rightarrow> int" where
  "day_of_month day =
     (let doe = (day + 719468) mod 146097;
          yoe = (doe - doe div 1460 + doe div 36524 - doe div 146096) div 365;
          doy = doe - (365 * yoe + yoe div 4 - yoe div 100);
          mp = (5 * doy + 2) div 153
      in doy - (153 * mp + 2) div 5 + 1)"

definition midnight :: "(time \<Rightarrow> int) \<Rightarrow> time \<Rightarrow> int \<Rightarrow> time" where
  "midnight tz now day = day * 86400000 - tz now"

definition startOfWeek :: "(time \<Rightarrow> int) \<Rightarrow> time \<Rightarrow> time" where
  "startOfWeek tz now = midnight tz now (local_day tz now - getDay (local_day tz now))"

definition startOfMonth :: "(time \<Rightarrow> int) \<Rightarrow> time \<Rightarrow> time" where
  "startOfMonth tz now = midnight tz now (local_day tz now - (day_of_month (local_day tz now) - 1))"

record PeriodReport =
  per_tripsCount :: nat
  per_earnings :: real
  per_commission :: real

record Finances =
  fin_balance :: real
  fin_commissionDue :: real
  fin_week :: PeriodReport
  fin_month :: PeriodReport

definition completed_since :: "id \<Rightarrow> time \<Rightarrow> Trip \<Rightarrow> bool" where
  "completed_since driverId since t \<longleftrightarrow>
     t_driverId t = Some driverId \<and> t_status t = completed \<and>
     (case t_completedAt t of None \<Rightarrow> False | Some c \<Rightarrow> since \<le> c)"

text \<open>\<open>_sum\<close> skips empty columns and is \<open>null\<close>, read as 0, when there is nothing to add.\<close>

definition period_report :: "id \<Rightarrow> time \<Rightarrow> world \<Rightarrow> PeriodReport" where
  "period_report driverId since w =
     \<lparr>per_tripsCount = count_where (completed_since driverId since) (trips w),
      per_earnings = sum_where (completed_since driverId since) (\<lambda>t. nullish (t_finalPrice t) 0) (trips w),
      per_commission = sum_where (completed_since driverId since) (\<lambda>t. nullish (t_commissionAmount t) 0) (trips w)\<rparr>"

definition getDriverFinances :: "(time \<Rightarrow> int) \<Rightarrow> time \<Rightarrow> id \<Rightarrow> world \<Rightarrow> Finances option" where
  "getDriverFinances tz now userId w =
     (case findDriverByUserId userId w of
        None \<Rightarrow> None
      | Some driver \<Rightarrow>
          Some \<lparr>fin_balance = d_balance driver, fin_commissionDue = d_commissionDue driver,
                fin_week = period_report (d_id driver) (startOfWeek tz now) w,
                fin_month = period_report (d_id driver) (startOfMonth tz now) w\<rparr>)"

record PaymentPage =
  pp_data :: "CommissionPayment list"
  pp_total :: nat
  pp_page :: int
  pp_limit :: int
  pp_totalPages :: real

definition listCommissionPayments ::
  "id \<Rightarrow> int \<Rightarrow> int \<Rightarrow> world \<Rightarrow> http_error + PaymentPage option" where
  "listCommissionPayments userId page limit w =
     (case findDriverByUserId userId w of
        None \<Rightarrow> Inr None
      | Some driver \<Rightarrow>
          (let skip = (page - 1) * limit in
           case find_many_page p_createdAt (\<lambda>p. p_driverId p = d_id driver) skip limit (payments w) of
             Inl e \<Rightarrow> Inl e
           | Inr (rows, count) \<Rightarrow>
               Inr (Some \<lparr>pp_data = rows, pp_total = count, pp_page = page, pp_limit = limit,
                          pp_totalPages = Math_ceil (real count / real_of_int limit)\<rparr>)))"

section \<open>The share of one trip\<close>

lemma commission_of_bounds:
  assumes "0 \<le> p" and "p \<le> 100" and "0 \<le> price" and "price \<in> \<int>"
  shows "0 \<le> commission_of price p" and "commission_of price p \<le> price" and "commission_of price p \<in> \<int>"
proof -
  have "price * (p / 100) \<le> price * 1"
    using assms by (intro mult_left_mono) simp_all
  then show "commission_of price p \<le> price"
    unfolding commission_of_def using assms(4) by (intro Math_round_le_Ints) simp_all
  show "0 \<le> commission_of price p"
    unfolding commission_of_def using assms by (intro Math_round_nonneg) simp
qed (simp add: commission_of_def)

definition booked :: "real \<Rightarrow> real \<Rightarrow> Driver \<Rightarrow> Driver" where
  "booked price c d = d\<lparr>d_commissionDue := d_commissionDue d + c, d_balance := d_balance d + (price - c)\<rparr>"

text \<open>What the listener needs to charge a trip.\<close>

definition billable :: "id \<Rightarrow> Trip \<Rightarrow> id \<Rightarrow> real \<Rightarrow> VehicleType \<Rightarrow> world \<Rightarrow> bool" where
  "billable i t d price vt w \<longleftrightarrow> find_trip i w = Some t \<and> t_driverId t = Some d \<and> d \<noteq> [] \<and>
     t_finalPrice t = Some price \<and> find_vehicleType (t_vehicleTypeId t) w = Some vt \<and> find_driver d w \<noteq> None"

lemma handleTripCompleted_billable:
  assumes "billable i t d price vt w"
  shows "handleTripCompleted now i w =
    update_driver d (booked price (commission_of price (vt_commissionPercentage vt)))
      (update_trip now i (\<lambda>t. t\<lparr>t_commissionAmount := Some (commission_of price (vt_commissionPercentage vt))\<rparr>) w)"
  using assms by (auto simp: handleTripCompleted_def billable_def booked_def [abs_def] Let_def)

lemma handleTripCompleted_cases:
  obtains "handleTripCompleted now i w = w" | t d price vt where "billable i t d price vt w"
  unfolding handleTripCompleted_def billable_def
  by (force simp: Let_def truthy_def split: option.splits if_splits)

lemma find_driver_update_same [world_simps]:
  "(\<And>d. d_id (f d) = d_id d) \<Longrightarrow> find_driver i (update_driver i f w) = map_option f (find_driver i w)"
  unfolding find_driver_def update_frame by (rule find_update_same [where k = d_id]) simp

lemma find_driver_update_other [world_simps]:
  "(\<And>d. d_id (f d) = d_id d) \<Longrightarrow> i \<noteq> j \<Longrightarrow> find_driver j (update_driver i f w) = find_driver j w"
  unfolding find_driver_def update_frame by (rule find_update_other [where k = d_id]) simp_all

lemma find_vehicleType_frames [world_simps]:
  "find_vehicleType i (update_driver j g w) = find_vehicleType i w"
  "find_vehicleType i (update_trip now k f w) = find_vehicleType i w"
  by (simp_all add: find_vehicleType_def world_simps)

lemma booked_simps [simp]:
  "d_id (booked p c d) = d_id d" "d_commissionDue (booked p c d) = d_commissionDue d + c"
  "d_balance (booked p c d) = d_balance d + (p - c)"
  by (simp_all add: booked_def)

lemma billable_again:
  assumes "billable i t d price vt w"
  shows "billable i (t\<lparr>t_commissionAmount := Some (commission_of price (vt_commissionPercentage vt)), t_updatedAt := now\<rparr>)
    d price vt (handleTripCompleted now i w)"
  unfolding handleTripCompleted_billable [OF assms] billable_def
  using assms
  by (auto simp: billable_def world_simps)

section \<open>The ledger\<close>

definition paid_by :: "id \<Rightarrow> world \<Rightarrow> real" where
  "paid_by i w = sum_where (\<lambda>p. p_driverId p = i \<and> p_status p = pay_succeeded) p_amount (payments w)"

definition charged_to :: "id \<Rightarrow> world \<Rightarrow> real" where
  "charged_to i w = sum_where (\<lambda>t. t_driverId t = Some i) (\<lambda>t. nullish (t_commissionAmount t) 0) (trips w)"

text \<open>What the books of a driver are off by: nothing, if the columns agree.\<close>

definition ledger_gap :: "id \<Rightarrow> world \<Rightarrow> real option" where
  "ledger_gap i w = map_option (\<lambda>d. d_commissionDue d + paid_by i w - charged_to i w) (find_driver i w)"

lemma charged_to_update:
  assumes "distinct (map t_id (trips w))" and "find_trip k w = Some t" and "t_driverId t = Some d"
  shows "charged_to i (update_trip now k (\<lambda>t. t\<lparr>t_commissionAmount := Some c\<rparr>) w) =
    charged_to i w + (if i = d then c - nullish (t_commissionAmount t) 0 else 0)"
proof -
  have t: "t \<in> set (trips w)" "t_id t = k" using find_trip_id [OF assms(2)] by simp_all
  show ?thesis
    unfolding charged_to_def update_frame sum_where_update_key [where k = t_id, OF assms(1) t]
    using assms(3) by simp
qed

lemma charged_to_driver [world_simps]: "charged_to i (update_driver j g w) = charged_to i w"
  by (simp add: charged_to_def world_simps)

lemma paid_by_frames [world_simps]:
  "paid_by i (update_driver j g w) = paid_by i w" "paid_by i (update_trip now k f w) = paid_by i w"
  by (simp_all add: paid_by_def world_simps)

lemma ledger_handle:
  assumes b: "billable k t d price vt w" and "distinct (map t_id (trips w))"
  shows "ledger_gap i (handleTripCompleted now k w) =
    map_option (\<lambda>g. g + (if i = d then nullish (t_commissionAmount t) 0 else 0)) (ledger_gap i w)"
proof -
  from b have t: "find_trip k w = Some t" "t_driverId t = Some d" by (simp_all add: billable_def)
  show ?thesis
    unfolding ledger_gap_def handleTripCompleted_billable [OF b]
    by (cases "d = i")
      (simp_all add: world_simps charged_to_update [OF assms(2) t] option.map_comp comp_def algebra_simps)
qed

text \<open>
  C28. Charging a finished trip: its commission is the rounded percentage of the final price, a
  whole number between zero and the price; what the driver owes grows by it, what the driver has
  earned by the rest, so the two together grow by exactly the price; nobody else's account
  changes, and the books of every driver stay as far off as they were, that is, not at all.
\<close>

theorem trip_charged:
  assumes b: "billable k t d price vt w" and fresh: "t_commissionAmount t = None"
    and ids: "distinct (map t_id (trips w))"
    and price: "0 \<le> price" "price \<in> \<int>"
    and share: "0 \<le> vt_commissionPercentage vt" "vt_commissionPercentage vt \<le> 100"
    and w': "w' = handleTripCompleted now k w"
  shows "\<exists>c dr dr'. map_option t_commissionAmount (find_trip k w') = Some (Some c) \<and>
    c \<in> \<int> \<and> 0 \<le> c \<and> c \<le> price \<and>
    find_driver d w = Some dr \<and> find_driver d w' = Some dr' \<and>
    d_commissionDue dr' = d_commissionDue dr + c \<and> d_balance dr' = d_balance dr + (price - c) \<and>
    (\<forall>j. j \<noteq> d \<longrightarrow> find_driver j w' = find_driver j w) \<and>
    (\<forall>i. ledger_gap i w' = ledger_gap i w)"
proof -
  let ?c = "commission_of price (vt_commissionPercentage vt)"
  from b obtain dr where dr: "find_driver d w = Some dr" by (auto simp: billable_def)
  have k: "find_trip k w = Some t" using b by (simp add: billable_def)
  have "ledger_gap i w' = ledger_gap i w" for i
    unfolding w' ledger_handle [OF b ids] using fresh by (simp add: option.map_ident)
  moreover have "find_driver j w' = find_driver j w" if "j \<noteq> d" for j
    using that unfolding w' handleTripCompleted_billable [OF b] by (simp add: world_simps)
  moreover have "find_driver d w' = Some (booked price ?c dr)" "map_option t_commissionAmount (find_trip k w') = Some (Some ?c)"
    unfolding w' handleTripCompleted_billable [OF b] by (simp_all add: world_simps dr k)
  ultimately show ?thesis
    using dr commission_of_bounds [OF share price] by (intro exI [of _ ?c] exI [of _ dr] exI [of _ "booked price ?c dr"]) simp
qed

definition charged_world :: world where
  "charged_world = sample_world\<lparr>trips := [\<lparr>t_id = ''t1'', t_clientId = ''c1'', t_driverId = Some ''d1'',
     t_vehicleTypeId = ''moto'', t_serviceType = ride, t_status = completed,
     t_pickup = \<lparr>lat = 12, lng = -8\<rparr>, t_pickupAddress = ''A'', t_dropoff = \<lparr>lat = 13, lng = -8\<rparr>,
     t_dropoffAddress = ''B'', t_estimatedPrice = Some 1000, t_finalPrice = Some 1000,
     t_paymentMethod = cash, t_distanceMeters = None, t_durationSeconds = None, t_acceptedAt = None,
     t_driverArrivedAt = None, t_startedAt = None, t_completedAt = Some 0, t_cancelledAt = None,
     t_cancelReason = None, t_paymentReceivedAt = None, t_paymentReceivedAmount = None,
     t_commissionAmount = None, t_deliveryConfirmedAt = None, t_deliveryIssueReported = None,
     t_createdAt = 0, t_updatedAt = 0\<rparr>]\<rparr>"

lemma charged_world_billable:
  "billable ''t1'' (hd (trips charged_world)) ''d1'' 1000 (sample_vehicleType ''moto'') charged_world"
  by (simp add: billable_def charged_world_def finder_defs sample_defs)

theorem trip_charged_witness:
  "ledger_gap ''d1'' (handleTripCompleted 0 ''t1'' charged_world) = Some 0"
proof -
  have "ledger_gap ''d1'' (handleTripCompleted 0 ''t1'' charged_world) = ledger_gap ''d1'' charged_world"
    using trip_charged [OF charged_world_billable _ _ _ _ _ _ refl, of 0]
    by (auto simp: charged_world_def sample_defs)
  then show ?thesis
    by (simp add: ledger_gap_def paid_by_def charged_to_def sum_where_def charged_world_def finder_defs sample_defs)
qed

end
