(* ===== verification/Payment_Providers.thy ===== *)
theory Payment_Providers
  imports Json_Values Prisma_Schema
begin

text \<open>
  The payment providers behind \<open>PAYMENT_PROVIDER\<close>: the contract of
  \<open>payment-provider.interface.ts\<close>, the Orange Money provider and the mock. The HTTP exchange is
  the parameter \<open>fetch\<close>; \<open>None\<close> is a rejected promise, and a body that is no JSON is read as
  \<open>{}\<close>, as the code does. The locale \<open>payment_provider\<close> states what the payments service
  relies on.
\<close>

section \<open>The interface\<close>

record PaymentInitiation =
  pi_amount :: real
  pi_phoneNumber :: string
  pi_internalRef :: string
  pi_description :: "string option"

record PaymentInitiationResult =
  ir_transactionRef :: string
  ir_status :: CommissionPaymentStatus
  ir_paymentUrl :: "string option"
  ir_notifToken :: "string option"
  ir_orderId :: "string option"

text \<open>Members of a webhook keep the JSON value they came with: nothing validates them.\<close>

record WebhookVerification =
  wv_valid :: bool
  wv_transactionRef :: "string option"
  wv_orderId :: "string option"
  wv_notifToken :: "json option"
  wv_txnid :: "json option"
  wv_status :: "CommissionPaymentStatus option"

definition invalid_webhook :: WebhookVerification where
  "invalid_webhook = \<lparr>wv_valid = False, wv_transactionRef = None, wv_orderId = None,
     wv_notifToken = None, wv_txnid = None, wv_status = None\<rparr>"

text \<open>\<open>'p\<close> is what the provider remembers between calls.\<close>

record 'p PaymentProvider =
  initiate :: "time \<Rightarrow> PaymentInitiation \<Rightarrow> 'p \<Rightarrow> (PaymentInitiationResult, 'p) outcome"
  verifyWebhook :: "json \<Rightarrow> http_error + WebhookVerification"
  checkTransactionStatus ::
    "(time \<Rightarrow> string \<Rightarrow> string \<Rightarrow> real \<Rightarrow> 'p \<Rightarrow> (CommissionPaymentStatus \<times> json option, 'p) outcome) option"

section \<open>Orange Money\<close>

record OmConfig =
  OM_CLIENT_ID :: "string option"
  OM_CLIENT_SECRET :: "string option"
  OM_MERCHANT_KEY :: "string option"
  OM_API_BASE :: "string option"
  OM_CURRENCY :: "string option"
  OM_RETURN_URL :: "string option"
  OM_CANCEL_URL :: "string option"
  OM_NOTIF_URL :: "string option"
  APP_URL :: "string option"

record WebPayment =
  wp_merchant_key :: string
  wp_currency :: string
  wp_order_id :: string
  wp_amount :: int
  wp_return_url :: string
  wp_cancel_url :: string
  wp_notif_url :: string

datatype OmRequest =
    OAuthToken string string
  | PostWebPayment string json WebPayment
  | PostTransactionStatus string json string int string

record HttpResponse =
  hr_status :: nat
  hr_body :: "json option"

definition response_ok :: "HttpResponse \<Rightarrow> bool" where
  "response_ok r \<longleftrightarrow> 200 \<le> hr_status r \<and> hr_status r < 300"

text \<open>\<open>response.json().catch(() => ({}))\<close>\<close>

definition response_json :: "HttpResponse \<Rightarrow> json" where
  "response_json r = (case hr_body r of None \<Rightarrow> JObject [] | Some j \<Rightarrow> j)"

type_synonym om_fetch = "time \<Rightarrow> OmRequest \<Rightarrow> HttpResponse option"

record CachedToken =
  tk_token :: json
  tk_expiresAt :: "real option"

type_synonym om_state = "CachedToken option"

text \<open>The instant at which a cached token stops being used; \<open>NaN\<close> (\<open>None\<close>) compares as false.\<close>

definition token_fresh :: "time \<Rightarrow> CachedToken \<Rightarrow> bool" where
  "token_fresh now c \<longleftrightarrow> (case tk_expiresAt c of None \<Rightarrow> False | Some e \<Rightarrow> real_of_int now < e)"

text \<open>\<open>Number(x)\<close> of a truthy \<open>expires_in\<close>: a number or a numeral; \<open>None\<close> is \<open>NaN\<close>.\<close>

fun expires_number :: "json \<Rightarrow> real option" where
  "expires_number (JNum n) = Some n"
| "expires_number (JString s) = map_option real_of_int (js_Number s)"
| "expires_number (JBool b) = Some (if b then 1 else 0)"
| "expires_number _ = None"

definition isConfigured :: "OmConfig \<Rightarrow> bool" where
  "isConfigured cfg \<longleftrightarrow>
     truthy (OM_CLIENT_ID cfg) \<and> truthy (OM_CLIENT_SECRET cfg) \<and> truthy (OM_MERCHANT_KEY cfg)"

definition apiBase :: "OmConfig \<Rightarrow> string" where
  "apiBase cfg = nullish (OM_API_BASE cfg) ''https://api.orange.com/orange-money-webpay/dev/v1''"

definition currency :: "OmConfig \<Rightarrow> string" where
  "currency cfg = nullish (OM_CURRENCY cfg) ''OUV''"

definition merchantKey :: "OmConfig \<Rightarrow> http_error + string" where
  "merchantKey cfg =
     (if truthy (OM_MERCHANT_KEY cfg) then Inr (the (OM_MERCHANT_KEY cfg))
      else Inl (ServiceUnavailableException ''OM_MERCHANT_KEY non configure''))"

definition network_error :: http_error where "network_error = InternalError ''fetch failed''"

definition cache_ms :: "json option \<Rightarrow> real option" where
  "cache_ms expires =
     map_option (\<lambda>e. min (e - 300) 3300 * 1000)
       (if js_truthy expires then expires_number (the expires) else Some 3600)"

definition getAccessToken :: "OmConfig \<Rightarrow> om_fetch \<Rightarrow> time \<Rightarrow> om_state \<Rightarrow> (json, om_state) outcome" where
  "getAccessToken cfg fetch now st =
     (if st \<noteq> None \<and> token_fresh now (the st) then return (tk_token (the st)) st
      else if \<not> truthy (OM_CLIENT_ID cfg) \<or> \<not> truthy (OM_CLIENT_SECRET cfg)
      then throw (ServiceUnavailableException ''Credentials Orange Money manquants'') st
      else (case fetch now (OAuthToken (the (OM_CLIENT_ID cfg)) (the (OM_CLIENT_SECRET cfg))) of
        None \<Rightarrow> throw network_error st
      | Some response \<Rightarrow>
          (let body = response_json response in
           if \<not> response_ok response \<or> \<not> js_truthy (member ''access_token'' body)
           then throw (ServiceUnavailableException ''Authentification Orange Money impossible'') st
           else (let token = the (member ''access_token'' body);
                     expiresAt = map_option (\<lambda>ms. real_of_int now + ms) (cache_ms (member ''expires_in'' body))
                 in return token (Some \<lparr>tk_token = token, tk_expiresAt = expiresAt\<rparr>)))))"

text \<open>\<open>TL\<close> and the first 28 characters of the payment's id without its dashes.\<close>

definition order_id :: "string \<Rightarrow> string" where
  "order_id internalRef = ''TL'' @ take 28 (filter (\<lambda>c. c \<noteq> CHR ''-'') internalRef)"

definition strip_slash :: "string \<Rightarrow> string" where
  "strip_slash s = (if s \<noteq> [] \<and> last s = CHR ''/'' then butlast s else s)"

definition web_payment :: "OmConfig \<Rightarrow> string \<Rightarrow> PaymentInitiation \<Rightarrow> WebPayment" where
  "web_payment cfg key input =
     (let appUrl = nullish (map_option strip_slash (APP_URL cfg)) []
      in \<lparr>wp_merchant_key = key, wp_currency = currency cfg, wp_order_id = order_id (pi_internalRef input),
          wp_amount = \<lfloor>pi_amount input\<rfloor>,
          wp_return_url = nullish (OM_RETURN_URL cfg) (appUrl @ ''/payment/success''),
          wp_cancel_url = nullish (OM_CANCEL_URL cfg) (appUrl @ ''/payment/cancel''),
          wp_notif_url = nullish (OM_NOTIF_URL cfg) (appUrl @ ''/v1/payments/webhook'')\<rparr>)"

text \<open>
  The three spellings of each member; the payment token has to be a string, because the code
  takes a \<open>substring\<close> of it. The payment URL and the notification token are stored by Prisma,
  which refuses other values than strings; here that shows as the same 500.
\<close>

definition json_text :: "json option \<Rightarrow> http_error + string option" where
  "json_text v =
     (case v of None \<Rightarrow> Inr None | Some JNull \<Rightarrow> Inr None | Some (JString s) \<Rightarrow> Inr (Some s)
      | _ \<Rightarrow> Inl (InternalError ''TypeError''))"

definition read_initiation :: "string \<Rightarrow> json \<Rightarrow> http_error + PaymentInitiationResult" where
  "read_initiation orderId raw =
     (if raw = JNull then Inl (InternalError ''TypeError'')
      else (let payToken = js_coalesce (member ''pay_token'' raw)
                             (js_coalesce (member ''payToken'' raw) (member ''token'' raw));
                paymentUrl = js_coalesce (member ''payment_url'' raw)
                             (js_coalesce (member ''paymentURL'' raw) (member ''paymentUrl'' raw));
                notifToken = js_coalesce (member ''notif_token'' raw) (member ''notifToken'' raw)
            in if \<not> js_truthy payToken \<or> \<not> js_truthy paymentUrl
               then Inl (BadRequestException ''Reponse Orange incomplete (pay_token/payment_url manquants)'')
               else (case (json_text payToken, json_text paymentUrl, json_text notifToken) of
                  (Inr (Some ref), Inr url, Inr tok) \<Rightarrow>
                    Inr \<lparr>ir_transactionRef = ref, ir_status = pay_pending, ir_paymentUrl = url,
                         ir_notifToken = tok, ir_orderId = Some orderId\<rparr>
                | _ \<Rightarrow> Inl (InternalError ''TypeError''))))"

definition om_initiate ::
  "OmConfig \<Rightarrow> om_fetch \<Rightarrow> time \<Rightarrow> PaymentInitiation \<Rightarrow> om_state \<Rightarrow> (PaymentInitiationResult, om_state) outcome" where
  "om_initiate cfg fetch now input st =
     (if \<not> isConfigured cfg
      then throw (ServiceUnavailableException ''Paiement Orange Money indisponible : integration non configuree'') st
      else andThen (getAccessToken cfg fetch now st) (\<lambda>token st1.
        case merchantKey cfg of
          Inl e \<Rightarrow> throw e st1
        | Inr key \<Rightarrow>
            (let requestBody = web_payment cfg key input in
             case fetch now (PostWebPayment (apiBase cfg) token requestBody) of
               None \<Rightarrow> throw network_error st1
             | Some response \<Rightarrow>
                 if \<not> response_ok response then throw (BadRequestException ''Orange WebPay a refuse'') st1
                 else (read_initiation (wp_order_id requestBody) (response_json response), st1))))"

definition mapOrangeStatus :: "string \<Rightarrow> CommissionPaymentStatus" where
  "mapOrangeStatus orangeStatus =
     (let s = js_toUpperCase orangeStatus
      in if s = ''SUCCESS'' then pay_succeeded
         else if s = ''FAILED'' then pay_failed
         else if s = ''EXPIRED'' then pay_expired
         else pay_pending)"

text \<open>\<open>orangeStatus?.toUpperCase()\<close>: absent gives pending, a value without that method a \<open>TypeError\<close>.\<close>

definition map_status_member :: "json option \<Rightarrow> http_error + CommissionPaymentStatus" where
  "map_status_member v =
     (case v of None \<Rightarrow> Inr pay_pending | Some JNull \<Rightarrow> Inr pay_pending
      | Some (JString s) \<Rightarrow> Inr (mapOrangeStatus s)
      | _ \<Rightarrow> Inl (InternalError ''TypeError''))"

definition om_verifyWebhook :: "json \<Rightarrow> http_error + WebhookVerification" where
  "om_verifyWebhook payload =
     (if payload = JNull then Inl (InternalError ''TypeError'')
      else (let status = member ''status'' payload; notifToken = member ''notif_token'' payload;
                txnid = member ''txnid'' payload
            in if \<not> js_truthy status \<or> \<not> js_truthy notifToken then Inr invalid_webhook
               else (case map_status_member status of
                  Inl e \<Rightarrow> Inl e
                | Inr mappedStatus \<Rightarrow>
                    if mappedStatus = pay_pending then Inr invalid_webhook
                    else Inr \<lparr>wv_valid = True, wv_transactionRef = None, wv_orderId = None,
                              wv_notifToken = notifToken, wv_txnid = txnid, wv_status = Some mappedStatus\<rparr>)))"

definition om_checkTransactionStatus ::
  "OmConfig \<Rightarrow> om_fetch \<Rightarrow> time \<Rightarrow> string \<Rightarrow> string \<Rightarrow> real \<Rightarrow> om_state \<Rightarrow>
   (CommissionPaymentStatus \<times> json option, om_state) outcome" where
  "om_checkTransactionStatus cfg fetch now transactionRef orderId amount st =
     andThen (getAccessToken cfg fetch now st) (\<lambda>token st1.
       case fetch now (PostTransactionStatus (apiBase cfg) token orderId \<lfloor>amount\<rfloor> transactionRef) of
         None \<Rightarrow> throw network_error st1
       | Some response \<Rightarrow>
           (let raw = response_json response in
            if \<not> response_ok response then throw (BadRequestException ''Transaction Status API echec'') st1
            else if raw = JNull then throw (InternalError ''TypeError'') st1
            else (case map_status_member (member ''status'' raw) of
                    Inl e \<Rightarrow> throw e st1
                  | Inr mapped \<Rightarrow> return (mapped, member ''txnid'' raw) st1)))"

definition OrangeMoneyProvider :: "OmConfig \<Rightarrow> om_fetch \<Rightarrow> om_state PaymentProvider" where
  "OrangeMoneyProvider cfg fetch =
     \<lparr>initiate = om_initiate cfg fetch, verifyWebhook = om_verifyWebhook,
      checkTransactionStatus = Some (om_checkTransactionStatus cfg fetch)\<rparr>"

section \<open>The mock\<close>

text \<open>It remembers the number of payments it has started.\<close>

definition mock_ref :: "time \<Rightarrow> nat \<Rightarrow> string" where
  "mock_ref now counter = ''MOCK-'' @ show_nat (nat now) @ ''-'' @ show_nat counter"

definition mock_initiate :: "time \<Rightarrow> PaymentInitiation \<Rightarrow> nat \<Rightarrow> (PaymentInitiationResult, nat) outcome" where
  "mock_initiate now input counter =
     return \<lparr>ir_transactionRef = mock_ref now (counter + 1), ir_status = pay_succeeded,
        ir_paymentUrl = None, ir_notifToken = None, ir_orderId = None\<rparr> (counter + 1)"

definition mock_checkTransactionStatus ::
  "time \<Rightarrow> string \<Rightarrow> string \<Rightarrow> real \<Rightarrow> nat \<Rightarrow> (CommissionPaymentStatus \<times> json option, nat) outcome" where
  "mock_checkTransactionStatus now transactionRef orderId amount = return (pay_succeeded, None)"

definition mock_verifyWebhook :: "json \<Rightarrow> http_error + WebhookVerification" where
  "mock_verifyWebhook payload = Inr invalid_webhook"

definition MockPaymentProvider :: "nat PaymentProvider" where
  "MockPaymentProvider =
     \<lparr>initiate = mock_initiate, verifyWebhook = mock_verifyWebhook,
      checkTransactionStatus = Some mock_checkTransactionStatus\<rparr>"

section \<open>The contract\<close>

locale payment_provider =
  fixes provider :: "'p PaymentProvider"
  assumes webhook_terminal: "verifyWebhook provider payload = Inr v \<Longrightarrow> wv_valid v \<Longrightarrow>
      wv_status v \<in> {Some pay_succeeded, Some pay_failed, Some pay_expired}"
    and webhook_identified: "verifyWebhook provider payload = Inr v \<Longrightarrow> wv_valid v \<Longrightarrow>
      js_truthy (wv_notifToken v) \<or> truthy (wv_transactionRef v) \<or> truthy (wv_orderId v)"
    and initiated: "initiate provider now input st = (Inr r, st') \<Longrightarrow>
      ir_transactionRef r \<noteq> [] \<and> ir_status r \<in> {pay_pending, pay_succeeded}"
    and initiated_pending: "initiate provider now input st = (Inr r, st') \<Longrightarrow> ir_status r = pay_pending \<Longrightarrow>
      truthy (ir_orderId r) \<and> checkTransactionStatus provider \<noteq> None"

lemma order_id_nonempty [simp]: "order_id r \<noteq> []"
  by (simp add: order_id_def)

lemma read_initiation_done:
  "read_initiation oid raw = Inr r \<Longrightarrow>
   ir_transactionRef r \<noteq> [] \<and> ir_status r = pay_pending \<and> ir_orderId r = Some oid"
  by (auto simp: read_initiation_def json_text_def Let_def split: if_splits option.splits json.splits sum.splits)

lemma om_initiate_done:
  assumes "om_initiate cfg fetch now input st = (Inr r, st')"
  shows "ir_transactionRef r \<noteq> [] \<and> ir_status r = pay_pending \<and> ir_orderId r = Some (order_id (pi_internalRef input))"
proof -
  have "read_initiation (order_id (pi_internalRef input)) raw = Inr r \<Longrightarrow> ?thesis" for raw
    by (rule read_initiation_done)
  with assms show ?thesis
    by (auto simp: om_initiate_def andThen_def web_payment_def Let_def throw_def
        split: if_splits prod.splits sum.splits option.splits)
qed

lemma om_verify_done:
  assumes "om_verifyWebhook payload = Inr v" and "wv_valid v"
  shows "js_truthy (wv_notifToken v) \<and> wv_notifToken v = member ''notif_token'' payload \<and>
    wv_status v \<in> {Some pay_succeeded, Some pay_failed, Some pay_expired}"
  using assms
  by (auto simp: om_verifyWebhook_def invalid_webhook_def Let_def split: if_splits sum.splits)
    (metis CommissionPaymentStatus.exhaust)

interpretation orange_money: payment_provider "OrangeMoneyProvider cfg fetch"
proof unfold_locales
  fix now input st r st'
  assume "initiate (OrangeMoneyProvider cfg fetch) now input st = (Inr r, st')"
  then have r: "om_initiate cfg fetch now input st = (Inr r, st')" by (simp add: OrangeMoneyProvider_def)
  from om_initiate_done [OF r] show "ir_transactionRef r \<noteq> [] \<and> ir_status r \<in> {pay_pending, pay_succeeded}" by simp
  from om_initiate_done [OF r] show "truthy (ir_orderId r) \<and> checkTransactionStatus (OrangeMoneyProvider cfg fetch) \<noteq> None"
    by (simp add: OrangeMoneyProvider_def)
qed (auto dest!: om_verify_done simp: OrangeMoneyProvider_def)

interpretation mock_payment: payment_provider MockPaymentProvider
  by unfold_locales
    (auto simp: MockPaymentProvider_def mock_verifyWebhook_def invalid_webhook_def mock_initiate_def mock_ref_def return_def)

section \<open>What Orange Money is asked\<close>

lemma order_id_length: "length (order_id r) \<le> 30"
  by (simp add: order_id_def)

lemma order_id_eq:
  "order_id r = order_id s \<longleftrightarrow>
   take 28 (filter (\<lambda>c. c \<noteq> CHR ''-'') r) = take 28 (filter (\<lambda>c. c \<noteq> CHR ''-'') s)"
  by (simp add: order_id_def)

text \<open>
  A token is asked for once and used until five minutes before Orange Money lets it expire, and
  for 55 minutes at most; afterwards a new one is asked for.
\<close>

lemma token_reused:
  assumes "getAccessToken cfg fetch now None = (Inr token, st)"
  shows "\<exists>c. st = Some c \<and> tk_token c = token \<and>
    (token_fresh now' c \<longrightarrow> getAccessToken cfg fetch' now' st = (Inr token, st)) \<and>
    (token_fresh now' c \<longrightarrow> now' < now + 3300000)"
proof -
  have age: "cache_ms e = Some ms \<Longrightarrow> ms \<le> 3300000" for e ms
    by (auto simp: cache_ms_def)
  obtain c where st: "st = Some c" "tk_token c = token" and
    e: "\<exists>x. tk_expiresAt c = map_option (\<lambda>ms. real_of_int now + ms) (cache_ms x)"
    using assms
    by (force simp: getAccessToken_def throw_def return_def Let_def split: if_splits option.splits)
  have "now' < now + 3300000" if "token_fresh now' c"
  proof -
    from e that obtain x ms where "cache_ms x = Some ms" "real_of_int now' < real_of_int now + ms"
      by (auto simp: token_fresh_def split: option.splits)
    with age [of x ms] have "real_of_int now' < real_of_int (now + 3300000)" by simp
    then show ?thesis by linarith
  qed
  with st show ?thesis by (auto simp: getAccessToken_def return_def)
qed

lemma mock_ref_inj: "mock_ref t m = mock_ref u n \<longleftrightarrow> nat t = nat u \<and> m = n"
proof
  assume "mock_ref t m = mock_ref u n"
  then have e: "show_nat (nat t) @ CHR ''-'' # show_nat m = show_nat (nat u) @ CHR ''-'' # show_nat n"
    by (simp add: mock_ref_def)
  have "takeWhile (\<lambda>c. c \<noteq> CHR ''-'') (show_nat a @ CHR ''-'' # y) = show_nat a" for a y
    using show_nat_no_dash [of a] by (simp add: takeWhile_tail) (metis (mono_tags) takeWhile_eq_all_conv)
  with e have "show_nat (nat t) = show_nat (nat u)" by metis
  with e show "nat t = nat u \<and> m = n" by simp
qed (simp add: mock_ref_def)

text \<open>
  A payment that Orange Money accepts: one \<open>webpayment\<close> request was sent with an order id of
  at most 30 characters, which is the one the payment is found by later, and with the amount
  rounded down to whole francs (less than one franc below the amount booked); two payments share
  an order id only if their ids agree on the first 28 characters other than dashes.
\<close>

theorem orange_request:
  assumes "om_initiate cfg fetch now input st = (Inr r, st')"
  shows "\<exists>token body response. fetch now (PostWebPayment (apiBase cfg) token body) = Some response \<and>
    response_ok response \<and> ir_orderId r = Some (wp_order_id body) \<and> length (wp_order_id body) \<le> 30 \<and>
    real_of_int (wp_amount body) \<le> pi_amount input \<and> pi_amount input < real_of_int (wp_amount body) + 1 \<and>
    (\<forall>other. order_id other = wp_order_id body \<longrightarrow>
       take 28 (filter (\<lambda>c. c \<noteq> CHR ''-'') other) = take 28 (filter (\<lambda>c. c \<noteq> CHR ''-'') (pi_internalRef input)))"
proof -
  obtain token key response where sent: "fetch now (PostWebPayment (apiBase cfg) token (web_payment cfg key input)) = Some response"
    "response_ok response"
    using assms
    by (auto simp: om_initiate_def andThen_def Let_def throw_def split: if_splits prod.splits sum.splits option.splits)
  have body: "wp_order_id (web_payment cfg key input) = order_id (pi_internalRef input)"
    "wp_amount (web_payment cfg key input) = \<lfloor>pi_amount input\<rfloor>"
    by (simp_all add: web_payment_def Let_def)
  have amount: "real_of_int \<lfloor>pi_amount input\<rfloor> \<le> pi_amount input" "pi_amount input < real_of_int \<lfloor>pi_amount input\<rfloor> + 1"
    by linarith+
  show ?thesis
    using sent om_initiate_done [OF assms] amount order_id_length [of "pi_internalRef input"]
    by (intro exI [of _ token] exI [of _ "web_payment cfg key input"] exI [of _ response])
      (simp add: body order_id_eq)
qed

definition sample_om_config :: OmConfig where
  "sample_om_config = \<lparr>OM_CLIENT_ID = Some ''id'', OM_CLIENT_SECRET = Some ''secret'', OM_MERCHANT_KEY = Some ''key'',
     OM_API_BASE = None, OM_CURRENCY = None, OM_RETURN_URL = None, OM_CANCEL_URL = None,
     OM_NOTIF_URL = None, APP_URL = Some ''https://t/''\<rparr>"

fun sample_om_fetch :: om_fetch where
  "sample_om_fetch now (OAuthToken i s) =
     Some \<lparr>hr_status = 200, hr_body = Some (JObject [(''access_token'', JString ''tok'')])\<rparr>"
| "sample_om_fetch now (PostWebPayment b t w) =
     Some \<lparr>hr_status = 201, hr_body = Some (JObject [(''pay_token'', JString ''p1''),
       (''payment_url'', JString ''https://pay''), (''notif_token'', JString ''n1'')])\<rparr>"
| "sample_om_fetch now (PostTransactionStatus b t oid a r) =
     Some \<lparr>hr_status = 200, hr_body = Some (JObject [(''status'', JString ''Success'')])\<rparr>"

definition sample_initiation :: PaymentInitiation where
  "sample_initiation = \<lparr>pi_amount = 500, pi_phoneNumber = ''70000000'', pi_internalRef = ''a-b'', pi_description = None\<rparr>"

lemma sample_om_initiate:
  "\<exists>st. om_initiate sample_om_config sample_om_fetch 0 sample_initiation None =
    (Inr \<lparr>ir_transactionRef = ''p1'', ir_status = pay_pending, ir_paymentUrl = Some ''https://pay'',
          ir_notifToken = Some ''n1'', ir_orderId = Some ''TLab''\<rparr>, st)"
  by (simp add: om_initiate_def isConfigured_def sample_om_config_def getAccessToken_def response_ok_def
      response_json_def merchantKey_def read_initiation_def json_text_def web_payment_def order_id_def
      sample_initiation_def Let_def)

theorem orange_request_witness:
  "\<exists>token body response. sample_om_fetch 0 (PostWebPayment (apiBase sample_om_config) token body) = Some response \<and>
     wp_order_id body = ''TLab'' \<and> real_of_int (wp_amount body) \<le> 500"
proof -
  obtain st where r: "om_initiate sample_om_config sample_om_fetch 0 sample_initiation None =
    (Inr \<lparr>ir_transactionRef = ''p1'', ir_status = pay_pending, ir_paymentUrl = Some ''https://pay'',
          ir_notifToken = Some ''n1'', ir_orderId = Some ''TLab''\<rparr>, st)"
    using sample_om_initiate by blast
  have "pi_amount sample_initiation = 500" by (simp add: sample_initiation_def)
  with orange_request [OF r] show ?thesis by auto
qed

end
