(* ===== verification/Payments.thy ===== *)
theory Payments
  imports Commissions Payment_Providers
begin

text \<open>
  \<open>PaymentsService\<close>: a driver pays commission through a provider; the answer comes at once (mock),
  by webhook or by polling. A handler threads the provider's memory and the world. What Prisma
  makes of an untyped JSON value in a filter or in a column is the parameter \<open>PrismaJson\<close>:
  \<open>None\<close> is a validation error.
\<close>

record PrismaJson =
  whereString :: "json \<Rightarrow> (string option \<Rightarrow> bool) option"
  setString :: "json \<Rightarrow> string option option"

record PayCommissionDto =
  pc_amount :: real
  pc_phoneNumber :: string

record PaymentAnswer =
  pa_paymentId :: id
  pa_transactionRef :: string
  pa_orderId :: "string option"
  pa_status :: CommissionPaymentStatus
  pa_amount :: real
  pa_paymentUrl :: "string option"

record WebhookAnswer =
  wa_processed :: bool
  wa_reason :: "string option"
  wa_status :: "CommissionPaymentStatus option"

section \<open>Operations\<close>

definition find_payment :: "id \<Rightarrow> world \<Rightarrow> CommissionPayment option" where
  "find_payment i w = find (\<lambda>p. p_id p = i) (payments w)"

definition update_payment :: "id \<Rightarrow> (CommissionPayment \<Rightarrow> CommissionPayment) \<Rightarrow> world \<Rightarrow> world" where
  "update_payment i f w = w\<lparr>payments := update_where (\<lambda>p. p_id p = i) f (payments w)\<rparr>"

definition applyPaymentSuccess :: "id \<Rightarrow> id \<Rightarrow> real \<Rightarrow> string \<Rightarrow> world \<Rightarrow> (unit, world) outcome" where
  "applyPaymentSuccess paymentId driverId amount transactionRef w =
     andThen (markCommissionPaid driverId amount w) (\<lambda>_ w1.
       (let w2 = emitToDriver driverId PaymentConfirmed (PaymentMsg transactionRef amount driverId) w1;
            w3 = emit (CommissionPaid paymentId driverId amount) w2
        in return () (emit (PaymentSucceeded transactionRef amount driverId) w3)))"

definition new_payment :: "id \<Rightarrow> time \<Rightarrow> id \<Rightarrow> real \<Rightarrow> CommissionPayment" where
  "new_payment i now driverId amount = \<lparr>p_id = i, p_driverId = driverId, p_amount = amount,
     p_status = pay_pending, p_transactionRef = None, p_orderId = None, p_notifToken = None,
     p_paymentUrl = None, p_txnid = None, p_paidAt = None, p_createdAt = now\<rparr>"

text \<open>\<open>transactionRef\<close> and \<open>orderId\<close> are unique columns.\<close>

definition refs_taken :: "id \<Rightarrow> string \<Rightarrow> string option \<Rightarrow> world \<Rightarrow> bool" where
  "refs_taken i ref oid w =
     list_ex (\<lambda>p. p_id p \<noteq> i \<and> (p_transactionRef p = Some ref \<or> (oid \<noteq> None \<and> p_orderId p = oid))) (payments w)"

definition initiated_row :: "time \<Rightarrow> PaymentInitiationResult \<Rightarrow> CommissionPayment \<Rightarrow> CommissionPayment" where
  "initiated_row now r p = p\<lparr>p_transactionRef := Some (ir_transactionRef r), p_orderId := ir_orderId r,
     p_notifToken := ir_notifToken r, p_paymentUrl := ir_paymentUrl r,
     p_status := (if ir_status r = pay_succeeded then pay_succeeded
                  else if ir_status r = pay_failed then pay_failed else pay_pending),
     p_paidAt := (if ir_status r = pay_succeeded then Some now else None)\<rparr>"

definition payCommission ::
  "'p PaymentProvider \<Rightarrow> id \<Rightarrow> time \<Rightarrow> id \<Rightarrow> PayCommissionDto \<Rightarrow> 'p \<times> world \<Rightarrow> (PaymentAnswer, 'p \<times> world) outcome" where
  "payCommission provider i now userId dto = (\<lambda>(st, w).
     case findDriverByUserId userId w of
       None \<Rightarrow> throw (NotFoundException ''Profil chauffeur introuvable'') (st, w)
     | Some driver \<Rightarrow>
         (let w1 = w\<lparr>payments := payments w @ [new_payment i now (d_id driver) (pc_amount dto)]\<rparr>;
              input = \<lparr>pi_amount = pc_amount dto, pi_phoneNumber = pc_phoneNumber dto, pi_internalRef = i,
                       pi_description = Some ''Paiement commission Telima''\<rparr>
          in case initiate provider now input st of
               (Inl e, st1) \<Rightarrow> throw e (st1, w1)
             | (Inr result, st1) \<Rightarrow>
                 if refs_taken i (ir_transactionRef result) (ir_orderId result) w1
                 then throw (InternalError ''Unique constraint failed'') (st1, w1)
                 else (let w2 = update_payment i (initiated_row now result) w1;
                           answer = \<lparr>pa_paymentId = i, pa_transactionRef = ir_transactionRef result,
                             pa_orderId = ir_orderId result,
                             pa_status = p_status (initiated_row now result (new_payment i now (d_id driver) (pc_amount dto))),
                             pa_amount = pc_amount dto, pa_paymentUrl = ir_paymentUrl result\<rparr>
                       in if ir_status result \<noteq> pay_succeeded then return answer (st1, w2)
                          else (case applyPaymentSuccess i (d_id driver) (pc_amount dto) (ir_transactionRef result) w2 of
                              (Inl e, w3) \<Rightarrow> throw e (st1, w3)
                            | (Inr _, w3) \<Rightarrow> return answer (st1, w3)))))"

text \<open>The three ways a webhook names its payment; an unreadable token is a validation error of Prisma.\<close>

definition locate_payment :: "PrismaJson \<Rightarrow> WebhookVerification \<Rightarrow> world \<Rightarrow> http_error + CommissionPayment option" where
  "locate_payment pz v w =
     (let byRef = (\<lambda>p0. if p0 = None \<and> truthy (wv_transactionRef v)
                         then find (\<lambda>p. p_transactionRef p = wv_transactionRef v) (payments w) else p0);
          byOrder = (\<lambda>p0. if p0 = None \<and> truthy (wv_orderId v)
                         then find (\<lambda>p. p_orderId p = wv_orderId v) (payments w) else p0)
      in if js_truthy (wv_notifToken v)
         then (case whereString pz (the (wv_notifToken v)) of
                 None \<Rightarrow> Inl (InternalError ''PrismaClientValidationError'')
               | Some m \<Rightarrow> Inr (byOrder (byRef (find (\<lambda>p. m (p_notifToken p)) (payments w)))))
         else Inr (byOrder (byRef None)))"

text \<open>Where nothing is found the code logs the first characters of the token, which has to be a string for that.\<close>

definition loggable :: "json option \<Rightarrow> bool" where
  "loggable t \<longleftrightarrow> (case t of None \<Rightarrow> True | Some JNull \<Rightarrow> True | Some (JString _) \<Rightarrow> True | _ \<Rightarrow> False)"

definition webhook_status :: "WebhookVerification \<Rightarrow> CommissionPaymentStatus" where
  "webhook_status v =
     (if wv_status v = Some pay_succeeded then pay_succeeded
      else if wv_status v = Some pay_expired then pay_expired else pay_failed)"

definition stored_text :: "PrismaJson \<Rightarrow> json option \<Rightarrow> string option option" where
  "stored_text pz v = (case v of None \<Rightarrow> Some None | Some JNull \<Rightarrow> Some None | Some j \<Rightarrow> setString pz j)"

definition settled_row :: "time \<Rightarrow> CommissionPaymentStatus \<Rightarrow> string option \<Rightarrow> CommissionPayment \<Rightarrow> CommissionPayment" where
  "settled_row now s txnid p = p\<lparr>p_status := s, p_txnid := txnid,
     p_paidAt := (if s = pay_succeeded then Some now else None)\<rparr>"

definition rejected_answer :: WebhookAnswer where
  "rejected_answer = \<lparr>wa_processed = False, wa_reason = None, wa_status = None\<rparr>"

definition replay_answer :: WebhookAnswer where
  "replay_answer = \<lparr>wa_processed = False, wa_reason = Some ''already_processed'', wa_status = None\<rparr>"

definition handleWebhook ::
  "'p PaymentProvider \<Rightarrow> PrismaJson \<Rightarrow> time \<Rightarrow> json \<Rightarrow> world \<Rightarrow> (WebhookAnswer, world) outcome" where
  "handleWebhook provider pz now payload w =
     (case verifyWebhook provider payload of
        Inl e \<Rightarrow> throw e w
      | Inr v \<Rightarrow>
          if \<not> wv_valid v then return rejected_answer w
          else (case locate_payment pz v w of
            Inl e \<Rightarrow> throw e w
          | Inr None \<Rightarrow>
              if loggable (wv_notifToken v) then return rejected_answer w
              else throw (InternalError ''TypeError'') w
          | Inr (Some payment) \<Rightarrow>
              if p_status payment = pay_succeeded then return replay_answer w
              else (case stored_text pz (wv_txnid v) of
                None \<Rightarrow> throw (InternalError ''PrismaClientValidationError'') w
              | Some txnid \<Rightarrow>
                  (let newStatus = webhook_status v;
                       answer = \<lparr>wa_processed = True, wa_reason = None, wa_status = Some newStatus\<rparr>;
                       w1 = update_payment (p_id payment) (settled_row now newStatus txnid) w;
                       ref = nullish (p_transactionRef payment)
                               (nullish (wv_transactionRef v) (nullish (json_string (wv_notifToken v)) []))
                   in if newStatus \<noteq> pay_succeeded then return answer w1
                      else andThen (applyPaymentSuccess (p_id payment) (p_driverId payment) (p_amount payment) ref w1)
                             (\<lambda>_. return answer)))))"

text \<open>
  Polling. The whole exchange with the provider stands in a \<open>try\<close> block: an exception is logged
  and the stored status answered, while what was written before it stays.
\<close>

definition poll :: "'p PaymentProvider \<Rightarrow> PrismaJson \<Rightarrow> time \<Rightarrow> CommissionPayment \<Rightarrow> 'p \<times> world \<Rightarrow>
    (CommissionPaymentStatus option, 'p \<times> world) outcome" where
  "poll provider pz now payment = (\<lambda>(st, w).
     case checkTransactionStatus provider of
       None \<Rightarrow> return None (st, w)
     | Some check \<Rightarrow>
         if \<not> truthy (p_transactionRef payment) \<or> \<not> truthy (p_orderId payment) then return None (st, w)
         else (case check now (the (p_transactionRef payment)) (the (p_orderId payment)) (p_amount payment) st of
             (Inl e, st1) \<Rightarrow> throw e (st1, w)
           | (Inr (newStatus, txn), st1) \<Rightarrow>
               if newStatus = pay_pending then return None (st1, w)
               else (case (if js_coalesce txn None = None then Some (p_txnid payment) else stored_text pz txn) of
                   None \<Rightarrow> throw (InternalError ''PrismaClientValidationError'') (st1, w)
                 | Some txnid \<Rightarrow>
                     (let w1 = update_payment (p_id payment) (settled_row now newStatus txnid) w
                      in if newStatus \<noteq> pay_succeeded then return (Some newStatus) (st1, w1)
                         else (case applyPaymentSuccess (p_id payment) (p_driverId payment) (p_amount payment)
                                      (nullish (p_transactionRef payment) []) w1 of
                             (Inl e, w2) \<Rightarrow> throw e (st1, w2)
                           | (Inr _, w2) \<Rightarrow> return (Some newStatus) (st1, w2))))))"

definition checkPaymentStatus ::
  "'p PaymentProvider \<Rightarrow> PrismaJson \<Rightarrow> time \<Rightarrow> id \<Rightarrow> id \<Rightarrow> 'p \<times> world \<Rightarrow>
   (CommissionPaymentStatus \<times> CommissionPayment, 'p \<times> world) outcome" where
  "checkPaymentStatus provider pz now paymentId userId = (\<lambda>(st, w).
     case find_payment paymentId w of
       None \<Rightarrow> throw (NotFoundException ''Paiement introuvable'') (st, w)
     | Some payment \<Rightarrow>
         (case find_driver (p_driverId payment) w of
            None \<Rightarrow> throw (InternalError ''TypeError'') (st, w)
          | Some driver \<Rightarrow>
              if d_userId driver \<noteq> userId then throw (NotFoundException ''Paiement introuvable'') (st, w)
              else if p_status payment \<in> {pay_succeeded, pay_failed, pay_expired}
              then return (p_status payment, payment) (st, w)
              else (case poll provider pz now payment (st, w) of
                  (Inr (Some newStatus), sw) \<Rightarrow> return (newStatus, payment\<lparr>p_status := newStatus\<rparr>) sw
                | (_, sw) \<Rightarrow> return (p_status payment, payment) sw)))"

section \<open>The books\<close>

text \<open>Payments have ids of their own and belong to drivers that exist (a foreign key).\<close>

definition payments_wf :: "world \<Rightarrow> bool" where
  "payments_wf w \<longleftrightarrow> distinct (map p_id (payments w)) \<and>
     (\<forall>p \<in> set (payments w). find_driver (p_driverId p) w \<noteq> None)"

definition books_kept :: "world \<Rightarrow> world \<Rightarrow> bool" where
  "books_kept w w' \<longleftrightarrow> payments_wf w' \<and> (\<forall>i. ledger_gap i w' = ledger_gap i w)"

lemma books_kept_refl: "payments_wf w \<Longrightarrow> books_kept w w"
  by (simp add: books_kept_def)

lemma books_kept_trans: "books_kept u v \<Longrightarrow> books_kept v w \<Longrightarrow> books_kept u w"
  by (simp add: books_kept_def)

lemma update_payment_frame [world_simps]:
  "payments (update_payment i f w) = update_where (\<lambda>p. p_id p = i) f (payments w)"
  "drivers (update_payment i f w) = drivers w" "trips (update_payment i f w) = trips w"
  "bus (update_payment i f w) = bus w" "users (update_payment i f w) = users w"
  "find_driver d (update_payment i f w) = find_driver d w" "charged_to d (update_payment i f w) = charged_to d w"
  by (simp_all add: update_payment_def find_driver_def charged_to_def)

lemma find_driver_frames [world_simps]:
  "find_driver d (ws_send r e p w) = find_driver d w" "find_driver d (emit ev w) = find_driver d w"
  "charged_to d (ws_send r e p w) = charged_to d w" "charged_to d (emit ev w) = charged_to d w"
  "paid_by d (ws_send r e p w) = paid_by d w" "paid_by d (emit ev w) = paid_by d w"
  by (simp_all add: finder_defs charged_to_def paid_by_def world_simps)

lemma paid_by_update:
  assumes "distinct (map p_id (payments w))" and "p \<in> set (payments w)"
    and "\<And>q. p_driverId (f q) = p_driverId q \<and> p_amount (f q) = p_amount q"
  shows "paid_by i (update_payment (p_id p) f w) = paid_by i w +
    (if p_driverId p = i \<and> p_status (f p) = pay_succeeded then p_amount p else 0) -
    (if p_driverId p = i \<and> p_status p = pay_succeeded then p_amount p else 0)"
  unfolding paid_by_def update_payment_frame
    sum_where_update_key [where k = p_id, OF assms(1,2) refl]
  by (simp add: assms(3))

lemma payments_wf_update:
  assumes "payments_wf w" and "\<And>q. p_id (f q) = p_id q \<and> p_driverId (f q) = p_driverId q"
  shows "payments_wf (update_payment i f w)"
  using assms unfolding payments_wf_def by (auto simp: world_simps table_simps map_key_update_where [of _ p_id])

lemma settle_without_success:
  assumes wf: "payments_wf w" and p: "p \<in> set (payments w)" "p_status p \<noteq> pay_succeeded"
    and f: "\<And>q. p_id (f q) = p_id q \<and> p_driverId (f q) = p_driverId q \<and> p_amount (f q) = p_amount q"
    and "p_status (f p) \<noteq> pay_succeeded"
  shows "books_kept w (update_payment (p_id p) f w)"
proof -
  from wf have d: "distinct (map p_id (payments w))" by (simp add: payments_wf_def)
  have "paid_by i (update_payment (p_id p) f w) = paid_by i w" for i
    using paid_by_update [OF d p(1), of f i] assms(5) p(2) f by simp
  with payments_wf_update [OF wf, of f] f show ?thesis
    by (simp add: books_kept_def ledger_gap_def world_simps)
qed

lemma applyPaymentSuccess_driver:
  assumes "find_driver d w \<noteq> None"
  shows "applyPaymentSuccess i d amount ref w =
    return () (emit (PaymentSucceeded ref amount d) (emit (CommissionPaid i d amount)
      (ws_send (getDriverRoom d) PaymentConfirmed (PaymentMsg ref amount d)
        (update_driver d (\<lambda>dr. dr\<lparr>d_commissionDue := d_commissionDue dr - amount\<rparr>) w))))"
  using assms by (simp add: applyPaymentSuccess_def markCommissionPaid_def Let_def world_simps)

lemma settle_with_success:
  assumes wf: "payments_wf w" and p: "p \<in> set (payments w)" "p_status p \<noteq> pay_succeeded"
    and f: "\<And>q. p_id (f q) = p_id q \<and> p_driverId (f q) = p_driverId q \<and> p_amount (f q) = p_amount q"
    and new: "p_status (f p) = pay_succeeded"
  shows "\<exists>w'. applyPaymentSuccess (p_id p) (p_driverId p) (p_amount p) ref (update_payment (p_id p) f w) = (Inr (), w') \<and>
    books_kept w w' \<and> payments w' = payments (update_payment (p_id p) f w) \<and>
    (\<forall>i. find_driver i w' = map_option (\<lambda>d. if i = p_driverId p then d\<lparr>d_commissionDue := d_commissionDue d - p_amount p\<rparr> else d)
       (find_driver i w))"
proof -
  from wf have d: "distinct (map p_id (payments w))" by (simp add: payments_wf_def)
  let ?w1 = "update_payment (p_id p) f w"
  let ?g = "\<lambda>dr. dr\<lparr>d_commissionDue := d_commissionDue dr - p_amount p\<rparr>"
  have dr: "find_driver (p_driverId p) ?w1 \<noteq> None"
    using wf p(1) by (simp add: payments_wf_def world_simps)
  obtain w' where run: "applyPaymentSuccess (p_id p) (p_driverId p) (p_amount p) ref ?w1 = (Inr (), w')"
    and f1: "\<And>i. find_driver i w' = find_driver i (update_driver (p_driverId p) ?g ?w1)"
    and f2: "\<And>i. charged_to i w' = charged_to i w" "\<And>i. paid_by i w' = paid_by i ?w1" "payments w' = payments ?w1"
    unfolding applyPaymentSuccess_driver [OF dr] by (simp add: return_def world_simps)
  have find: "find_driver i w' = map_option (\<lambda>d. if i = p_driverId p then ?g d else d) (find_driver i w)" for i
    unfolding f1 by (cases "i = p_driverId p") (simp_all add: world_simps option.map_ident)
  have "payments_wf w'"
    using payments_wf_update [OF wf, of f] f unfolding payments_wf_def f2 find by (simp add: world_simps)
  moreover have "ledger_gap i w' = ledger_gap i w" for i
    using paid_by_update [OF d p(1), of f i] p(2) new f unfolding ledger_gap_def f2(1,2) find
    by (cases "find_driver i w") auto
  ultimately show ?thesis using run f2(3) find by (auto simp: books_kept_def)
qed

section \<open>What the operations do to the books\<close>

lemma settled_row_simps [simp]:
  "p_id (settled_row now st x q) = p_id q" "p_driverId (settled_row now st x q) = p_driverId q"
  "p_amount (settled_row now st x q) = p_amount q" "p_status (settled_row now st x q) = st"
  "p_notifToken (settled_row now st x q) = p_notifToken q"
  "p_transactionRef (settled_row now st x q) = p_transactionRef q"
  "p_orderId (settled_row now st x q) = p_orderId q"
  by (simp_all add: settled_row_def)

lemma initiated_row_simps [simp]:
  "p_id (initiated_row now r q) = p_id q" "p_driverId (initiated_row now r q) = p_driverId q"
  "p_amount (initiated_row now r q) = p_amount q"
  "p_status (initiated_row now r q) = pay_succeeded \<longleftrightarrow> ir_status r = pay_succeeded"
  by (simp_all add: initiated_row_def)

lemma locate_payment_in: "locate_payment pz v w = Inr (Some p) \<Longrightarrow> p \<in> set (payments w)"
  by (auto simp: locate_payment_def Let_def dest: find_SomeD split: if_splits option.splits)

lemma handleWebhook_books:
  assumes wf: "payments_wf w"
  shows "books_kept w (snd (handleWebhook provider pz now payload w))"
proof -
  have step: "books_kept w (snd (andThen (applyPaymentSuccess (p_id p) (p_driverId p) (p_amount p) ref
      (update_payment (p_id p) (settled_row now pay_succeeded x) w)) (\<lambda>_. return a)))"
    if "p \<in> set (payments w)" "p_status p \<noteq> pay_succeeded" for p ref x and a :: WebhookAnswer
    using settle_with_success [OF wf that, of "settled_row now pay_succeeded x" ref] by auto
  have other: "books_kept w (update_payment (p_id p) (settled_row now s x) w)"
    if "p \<in> set (payments w)" "p_status p \<noteq> pay_succeeded" "s \<noteq> pay_succeeded" for p s x
    using settle_without_success [OF wf that(1,2), of "settled_row now s x"] that(3) by simp
  show ?thesis
    unfolding handleWebhook_def Let_def
    using books_kept_refl [OF wf] step other
    by (auto dest: locate_payment_in split: sum.split option.split)
qed

lemma poll_books:
  assumes wf: "payments_wf w" and p: "p \<in> set (payments w)" "p_status p \<noteq> pay_succeeded"
  shows "books_kept w (snd (snd (poll provider pz now p (st, w))))"
proof -
  have step: "books_kept w w'"
    if "applyPaymentSuccess (p_id p) (p_driverId p) (p_amount p) ref
          (update_payment (p_id p) (settled_row now pay_succeeded x) w) = (r, w')" for ref x r w'
    using settle_with_success [OF wf p, of "settled_row now pay_succeeded x" ref] that by auto
  have other: "books_kept w (update_payment (p_id p) (settled_row now s x) w)" if "s \<noteq> pay_succeeded" for s x
    using settle_without_success [OF wf p, of "settled_row now s x"] that by simp
  show ?thesis
    unfolding poll_def Let_def
    using books_kept_refl [OF wf] by (auto intro: step other split: sum.split option.split prod.split)
qed

lemma checkPaymentStatus_books:
  assumes wf: "payments_wf w"
  shows "books_kept w (snd (snd (checkPaymentStatus provider pz now i u (st, w))))"
proof -
  have "books_kept w (snd sw)" if "find_payment i w = Some p" "p_status p \<noteq> pay_succeeded"
    "poll provider pz now p (st, w) = (r, sw)" for p r sw
    using poll_books [OF wf _ that(2), of provider pz now st] that(1,3)
    by (auto simp: find_payment_def dest: find_SomeD)
  then show ?thesis
    unfolding checkPaymentStatus_def
    using books_kept_refl [OF wf] by (auto split: sum.split option.split prod.split)
qed

lemma payment_added:
  assumes "payments_wf w" and "find_driver d w \<noteq> None" and "i \<notin> p_id ` set (payments w)"
  shows "books_kept w (w\<lparr>payments := payments w @ [new_payment i now d a]\<rparr>)"
  using assms
  by (simp add: books_kept_def payments_wf_def ledger_gap_def paid_by_def charged_to_def find_driver_def
      new_payment_def table_simps)

lemma payCommission_books:
  assumes wf: "payments_wf w" and fresh: "i \<notin> p_id ` set (payments w)"
  shows "books_kept w (snd (snd (payCommission provider i now u dto (st, w))))"
proof (cases "findDriverByUserId u w")
  case None
  then show ?thesis by (simp add: payCommission_def books_kept_refl [OF wf])
next
  case (Some dr)
  let ?p = "new_payment i now (d_id dr) (pc_amount dto)"
  let ?w1 = "w\<lparr>payments := payments w @ [?p]\<rparr>"
  have "find_driver (d_id dr) w \<noteq> None"
    using Some by (auto simp: finder_defs find_None_iff dest: find_SomeD)
  then have k1: "books_kept w ?w1" by (rule payment_added [OF wf _ fresh])
  then have wf1: "payments_wf ?w1" by (simp add: books_kept_def)
  have p: "?p \<in> set (payments ?w1)" "p_status ?p \<noteq> pay_succeeded"
    and ids: "p_id ?p = i" "p_driverId ?p = d_id dr" "p_amount ?p = pc_amount dto"
    by (simp_all add: new_payment_def)
  have "books_kept ?w1 (update_payment i (initiated_row now r) ?w1)" if "ir_status r \<noteq> pay_succeeded" for r
    using settle_without_success [OF wf1 p, of "initiated_row now r"] that by (simp add: ids)
  moreover have "books_kept ?w1 w3" if "ir_status r = pay_succeeded"
    "applyPaymentSuccess i (d_id dr) (pc_amount dto) ref (update_payment i (initiated_row now r) ?w1) = (x, w3)" for r ref x w3
    using settle_with_success [OF wf1 p, of "initiated_row now r" ref] that by (auto simp: ids)
  ultimately show ?thesis
    using k1 Some unfolding payCommission_def Let_def
    by (auto intro: books_kept_trans [OF k1] split: sum.split prod.split)
qed

section \<open>One settlement per payment\<close>

definition webhook_row :: "id \<Rightarrow> (CommissionPayment \<Rightarrow> CommissionPayment) \<Rightarrow> CommissionPayment \<Rightarrow> CommissionPayment" where
  "webhook_row i f r = (if p_id r = i then f r else r)"

lemma locate_update:
  assumes "payments w' = update_where (\<lambda>p. p_id p = i) f (payments w)"
    and "\<And>q. p_notifToken (f q) = p_notifToken q \<and> p_transactionRef (f q) = p_transactionRef q \<and> p_orderId (f q) = p_orderId q"
    and "locate_payment pz v w = Inr (Some p)"
  shows "locate_payment pz v w' = Inr (Some (webhook_row i f p))"
proof -
  have keep: "find (\<lambda>q. g (h q)) (payments w') = map_option (webhook_row i f) (find (\<lambda>q. g (h q)) (payments w))"
    if "\<And>q. h (f q) = h q" for g and h :: "CommissionPayment \<Rightarrow> string option"
    unfolding assms(1) webhook_row_def [abs_def] by (rule find_update_keeping) (simp add: that)
  have k: "find (\<lambda>q. m (p_notifToken q)) (payments w') = map_option (webhook_row i f) (find (\<lambda>q. m (p_notifToken q)) (payments w))"
    "find (\<lambda>q. p_transactionRef q = x) (payments w') = map_option (webhook_row i f) (find (\<lambda>q. p_transactionRef q = x) (payments w))"
    "find (\<lambda>q. p_orderId q = x) (payments w') = map_option (webhook_row i f) (find (\<lambda>q. p_orderId q = x) (payments w))" for m x
    using keep [of p_notifToken m] keep [of p_transactionRef "\<lambda>y. y = x"] keep [of p_orderId "\<lambda>y. y = x"] assms(2)
    by simp_all
  show ?thesis
    using assms(3) unfolding locate_payment_def Let_def k
    by (auto split: if_splits option.splits)
qed

lemma handleWebhook_success:
  assumes wf: "payments_wf w" and v: "verifyWebhook provider payload = Inr v" "wv_valid v" "wv_status v = Some pay_succeeded"
    and found: "locate_payment pz v w = Inr (Some p)" and open_row: "p_status p \<noteq> pay_succeeded"
    and txn: "stored_text pz (wv_txnid v) = Some x"
  shows "\<exists>w'. handleWebhook provider pz now payload w =
      (Inr \<lparr>wa_processed = True, wa_reason = None, wa_status = Some pay_succeeded\<rparr>, w') \<and>
    payments w' = update_where (\<lambda>q. p_id q = p_id p) (settled_row now pay_succeeded x) (payments w) \<and>
    (\<forall>i. find_driver i w' = map_option (\<lambda>d. if i = p_driverId p then d\<lparr>d_commissionDue := d_commissionDue d - p_amount p\<rparr> else d)
       (find_driver i w))"
proof -
  have s: "webhook_status v = pay_succeeded" using v(3) by (simp add: webhook_status_def)
  let ?ref = "nullish (p_transactionRef p) (nullish (wv_transactionRef v) (nullish (json_string (wv_notifToken v)) []))"
  let ?w1 = "update_payment (p_id p) (settled_row now pay_succeeded x) w"
  obtain w' where run: "applyPaymentSuccess (p_id p) (p_driverId p) (p_amount p) ?ref ?w1 = (Inr (), w')"
    and rows: "payments w' = payments ?w1"
    and accounts: "\<forall>i. find_driver i w' = map_option (\<lambda>d. if i = p_driverId p then d\<lparr>d_commissionDue := d_commissionDue d - p_amount p\<rparr> else d)
       (find_driver i w)"
    using settle_with_success [OF wf locate_payment_in [OF found] open_row, of "settled_row now pay_succeeded x" ?ref]
    by auto
  have "handleWebhook provider pz now payload w =
      (Inr \<lparr>wa_processed = True, wa_reason = None, wa_status = Some pay_succeeded\<rparr>, w')"
    by (simp add: handleWebhook_def v found open_row txn s Let_def run return_def)
  with rows accounts show ?thesis by (simp add: world_simps)
qed

text \<open>
  Whatever touches the payments: a webhook with any payload at any time, a poll of any payment by
  anybody, a new payment.
\<close>

inductive settlement_step :: "'p PaymentProvider \<Rightarrow> PrismaJson \<Rightarrow> 'p \<times> world \<Rightarrow> 'p \<times> world \<Rightarrow> bool" for provider pz where
  delivered: "settlement_step provider pz (st, w) (st, snd (handleWebhook provider pz now payload w))"
| polled: "settlement_step provider pz (st, w) (snd (checkPaymentStatus provider pz now i u (st, w)))"
| begun: "i \<notin> p_id ` set (payments w) \<Longrightarrow> settlement_step provider pz (st, w) (snd (payCommission provider i now u dto (st, w)))"

text \<open>A succeeded payment is never written again.\<close>

lemma applyPaymentSuccess_payments: "payments (snd (applyPaymentSuccess i d a ref w)) = payments w"
  by (auto simp: applyPaymentSuccess_def markCommissionPaid_def Let_def world_simps andThen_def return_def throw_def
      split: option.split sum.split prod.split)

lemma find_payment_other:
  assumes "payments_wf w" and "find_payment i w = Some q" and "p_status q = pay_succeeded"
    and "p \<in> set (payments w)" "p_status p \<noteq> pay_succeeded" and "\<And>r. p_id (f r) = p_id r"
  shows "find (\<lambda>x. p_id x = i) (update_where (\<lambda>x. p_id x = p_id p) f (payments w)) = Some q"
proof -
  have "p_id p \<noteq> i"
  proof
    assume "p_id p = i"
    then have "find_payment i w = Some p"
      using assms(1,4) find_distinct [of p_id "payments w" p] by (simp add: find_payment_def payments_wf_def)
    with assms(2,3,5) show False by simp
  qed
  then show ?thesis
    using assms(2) find_update_other [where k = p_id and i = "p_id p" and j = i and f = f and rows = "payments w"] assms(6) by (simp add: find_payment_def)
qed

lemma handleWebhook_keeps_settled:
  assumes "payments_wf w" and "find_payment i w = Some q" and "p_status q = pay_succeeded"
  shows "find_payment i (snd (handleWebhook provider pz now payload w)) = Some q"
proof -
  have rows: "payments (snd (andThen (applyPaymentSuccess k d a ref v) (\<lambda>_. return y))) = payments v"
    for k d a ref v and y :: WebhookAnswer
    using applyPaymentSuccess_payments [of k d a ref v]
    by (cases "applyPaymentSuccess k d a ref v") (auto simp: andThen_def return_def split: sum.split)
  show ?thesis
    using assms find_payment_other [OF assms]
    by (auto simp: handleWebhook_def Let_def find_payment_def rows update_payment_frame dest: locate_payment_in
        split: sum.split option.split)
qed

lemma checkPaymentStatus_keeps_settled:
  assumes "payments_wf w" and "find_payment i w = Some q" and "p_status q = pay_succeeded"
  shows "find_payment i (snd (snd (checkPaymentStatus provider pz now k u (st, w)))) = Some q"
proof -
  have rows: "payments w' = payments v" if "applyPaymentSuccess x d a ref v = (r, w')" for x d a ref v r w'
    using applyPaymentSuccess_payments [of x d a ref v] that by simp
  have step: "find_payment i (snd (snd (poll provider pz now p (st, w)))) = Some q"
    if "p \<in> set (payments w)" "p_status p \<noteq> pay_succeeded" for p
    using assms(2) find_payment_other [OF assms that]
    by (auto simp: poll_def Let_def find_payment_def update_payment_frame return_def throw_def
        dest!: rows split: option.split if_splits prod.split sum.split)
  have "find_payment i (snd sw) = Some q" if "poll provider pz now p (st, w) = (r, sw)" "find_payment k w = Some p"
    "p_status p \<noteq> pay_succeeded" for p r sw
    using step [of p] that by (auto simp: find_payment_def dest: find_SomeD)
  then show ?thesis
    using assms(2) by (auto simp: checkPaymentStatus_def return_def throw_def split: option.split sum.split prod.split)
qed

lemma payCommission_keeps_settled:
  assumes "payments_wf w" and "find_payment i w = Some q" and "p_status q = pay_succeeded" and "k \<notin> p_id ` set (payments w)"
  shows "find_payment i (snd (snd (payCommission provider k now u dto (st, w)))) = Some q"
proof -
  have rows: "payments w' = payments v" if "applyPaymentSuccess x d a ref v = (r, w')" for x d a ref v r w'
    using applyPaymentSuccess_payments [of x d a ref v] that by simp
  have "q \<in> set (payments w)" "p_id q = i" using assms(2) by (auto simp: find_payment_def dest: find_SomeD)
  then have "k \<noteq> i" using assms(4) by auto
  have new: "find (\<lambda>x. p_id x = i) (payments w @ [p]) = Some q" for p using assms(2) by (simp add: find_payment_def find_append)
  have upd: "find (\<lambda>x. p_id x = i) (update_where (\<lambda>x. p_id x = k) (initiated_row now r) (payments w @ [p])) = Some q" for r p
    using find_update_other [where k = p_id and i = k and j = i and f = "initiated_row now r" and rows = "payments w @ [p]"] \<open>k \<noteq> i\<close> new by simp
  show ?thesis
    using assms(2) new upd
    by (auto simp: payCommission_def Let_def find_payment_def update_payment_frame dest!: rows split: option.split sum.split prod.split)
qed

lemma settlement_run:
  assumes "(settlement_step provider pz)\<^sup>*\<^sup>* (st, w) (st', w')" and "payments_wf w"
    and "find_payment i w = Some q" and "p_status q = pay_succeeded"
  shows "books_kept w w' \<and> find_payment i w' = Some q"
  using assms(1)
proof (induction "(st', w')" arbitrary: st' w' rule: rtranclp_induct)
  case base
  then show ?case using assms by (simp add: books_kept_refl)
next
  case (step s)
  obtain st1 w1 where s: "s = (st1, w1)" by (cases s)
  with step have ih: "books_kept w w1" "find_payment i w1 = Some q" by blast+
  then have wf: "payments_wf w1" by (simp add: books_kept_def)
  from step(2) have "books_kept w1 w' \<and> find_payment i w' = Some q" unfolding s
  proof cases
    case (delivered now payload)
    then show ?thesis using handleWebhook_books [OF wf] handleWebhook_keeps_settled [OF wf ih(2) assms(4)] by auto
  next
    case (polled now k u)
    then show ?thesis
      using checkPaymentStatus_books [OF wf, of provider pz now k u st1]
        checkPaymentStatus_keeps_settled [OF wf ih(2) assms(4), of provider pz now k u st1] by (metis snd_conv)
  next
    case (begun k now u dto)
    then show ?thesis
      using payCommission_books [OF wf begun(2), of provider now u dto st1]
        payCommission_keeps_settled [OF wf ih(2) assms(4) begun(2), of provider now u dto st1] by (metis snd_conv)
  qed
  then show ?case using books_kept_trans [OF ih(1)] by blast
qed

text \<open>
  C26. A webhook that confirms a payment settles it once: the row becomes succeeded with the time,
  exactly its amount is taken off what its driver owes and nobody else's account changes. From
  then on, whatever webhooks are delivered (confirmations, failures, anything), whatever is polled
  and whatever new payments are begun, its row stays as it is; no driver's debt moves but with the
  payments that succeed, among which it counts once; and a webhook that is found to be about it,
  whatever it says, is answered as already processed and changes nothing, like polling it. The
  same webhook delivered again right away is one of these. A payment that had failed or expired
  before is settled in the same way.
\<close>

theorem webhook_settles_once:
  assumes wf: "payments_wf w" and v: "verifyWebhook provider payload = Inr v" "wv_valid v" "wv_status v = Some pay_succeeded"
    and found: "locate_payment pz v w = Inr (Some p)" and open_row: "p_status p \<noteq> pay_succeeded"
    and txn: "stored_text pz (wv_txnid v) = Some x"
  shows "\<exists>w'. handleWebhook provider pz now payload w =
      (Inr \<lparr>wa_processed = True, wa_reason = None, wa_status = Some pay_succeeded\<rparr>, w') \<and>
    find_payment (p_id p) w' = Some (settled_row now pay_succeeded x p) \<and>
    (\<forall>i. find_driver i w' = map_option (\<lambda>d. if i = p_driverId p then d\<lparr>d_commissionDue := d_commissionDue d - p_amount p\<rparr> else d)
       (find_driver i w)) \<and>
    (\<forall>later. handleWebhook provider pz later payload w' = (Inr replay_answer, w')) \<and>
    (\<forall>st st' w''. (settlement_step provider pz)\<^sup>*\<^sup>* (st, w') (st', w'') \<longrightarrow>
       find_payment (p_id p) w'' = Some (settled_row now pay_succeeded x p) \<and>
       (\<forall>d. ledger_gap d w'' = ledger_gap d w') \<and>
       (\<forall>later payload' v' q. verifyWebhook provider payload' = Inr v' \<and> wv_valid v' \<and> locate_payment pz v' w'' = Inr (Some q) \<and>
          p_id q = p_id p \<longrightarrow> handleWebhook provider pz later payload' w'' = (Inr replay_answer, w'')) \<and>
       (\<forall>later u. snd (checkPaymentStatus provider pz later (p_id p) u (st', w'')) = (st', w'')))"
proof -
  let ?row = "settled_row now pay_succeeded x p"
  obtain w' where run: "handleWebhook provider pz now payload w =
      (Inr \<lparr>wa_processed = True, wa_reason = None, wa_status = Some pay_succeeded\<rparr>, w')"
    and rows: "payments w' = update_where (\<lambda>q. p_id q = p_id p) (settled_row now pay_succeeded x) (payments w)"
    and accounts: "\<forall>i. find_driver i w' = map_option (\<lambda>d. if i = p_driverId p then d\<lparr>d_commissionDue := d_commissionDue d - p_amount p\<rparr> else d)
       (find_driver i w)"
    using handleWebhook_success [OF assms] by blast
  have "find_payment (p_id p) w = Some p"
    using wf find_distinct [of p_id "payments w" p] locate_payment_in [OF found]
    by (simp add: find_payment_def payments_wf_def)
  then have settled: "find_payment (p_id p) w' = Some ?row"
    unfolding find_payment_def rows by (subst find_update_same [where k = p_id]) simp_all
  have "locate_payment pz v w' = Inr (Some ?row)"
    using locate_update [OF rows _ found] by (simp add: webhook_row_def)
  then have again: "handleWebhook provider pz later payload w' = (Inr replay_answer, w')" for later
    unfolding handleWebhook_def by (simp add: v return_def)
  have "books_kept w w'" using handleWebhook_books [OF wf, of provider pz now payload] by (simp add: run)
  then have wf': "payments_wf w'" by (simp add: books_kept_def)
  have "find_payment (p_id p) w'' = Some ?row \<and> (\<forall>d. ledger_gap d w'' = ledger_gap d w') \<and>
      (\<forall>later payload' v' q. verifyWebhook provider payload' = Inr v' \<and> wv_valid v' \<and> locate_payment pz v' w'' = Inr (Some q) \<and>
         p_id q = p_id p \<longrightarrow> handleWebhook provider pz later payload' w'' = (Inr replay_answer, w'')) \<and>
      (\<forall>later u. snd (checkPaymentStatus provider pz later (p_id p) u (st', w'')) = (st', w''))"
    if steps: "(settlement_step provider pz)\<^sup>*\<^sup>* (st, w') (st', w'')" for st st' w''
  proof -
    from settlement_run [OF steps wf' settled] have keep: "books_kept w' w''" "find_payment (p_id p) w'' = Some ?row" by simp_all
    have row: "q = ?row" if "locate_payment pz v' w'' = Inr (Some q)" "p_id q = p_id p" for v' q
      using keep find_distinct [of p_id "payments w''" q] locate_payment_in [OF that(1)] that(2)
      by (simp add: books_kept_def payments_wf_def find_payment_def)
    have "handleWebhook provider pz later payload' w'' = (Inr replay_answer, w'')"
      if "verifyWebhook provider payload' = Inr v'" "wv_valid v'" "locate_payment pz v' w'' = Inr (Some q)" "p_id q = p_id p" for later payload' v' q
      unfolding handleWebhook_def using that row [OF that(3,4)] by (simp add: return_def)
    moreover have "snd (checkPaymentStatus provider pz later (p_id p) u (st', w'')) = (st', w'')" for later u
      unfolding checkPaymentStatus_def by (simp add: keep(2) split: option.split)
    ultimately show ?thesis using keep by (auto simp: books_kept_def)
  qed
  with run settled accounts again show ?thesis by blast
qed

text \<open>
  Payments and the books: paying, webhooks and polling never change by how much what a driver
  owes differs from what was charged on the trips less what was paid, whatever the provider
  answers and whichever exception ends the call; the payments keep distinct ids and existing drivers.
\<close>

theorem payments_keep_books:
  assumes "payments_wf w" and "i \<notin> p_id ` set (payments w)"
    and "w' \<in> {snd (snd (payCommission provider i now u dto (st, w))),
                snd (handleWebhook provider pz now payload w),
                snd (snd (checkPaymentStatus provider pz now k u (st, w)))}"
  shows "payments_wf w' \<and> (\<forall>d. ledger_gap d w' = ledger_gap d w)"
  using assms(3) payCommission_books [OF assms(1,2), of provider now u dto st]
    handleWebhook_books [OF assms(1), of provider pz now payload]
    checkPaymentStatus_books [OF assms(1), of provider pz now k u st]
  by (auto simp: books_kept_def)

definition plain_strings :: PrismaJson where
  "plain_strings = \<lparr>
     whereString = (\<lambda>j. case j of JString s \<Rightarrow> Some (\<lambda>c. c = Some s)
        | JObject [(k, JString s)] \<Rightarrow> if k = ''not'' then Some (\<lambda>c. \<exists>x. c = Some x \<and> x \<noteq> s) else None
        | _ \<Rightarrow> None),
     setString = (\<lambda>j. case j of JString s \<Rightarrow> Some (Some s) | _ \<Rightarrow> None)\<rparr>"

definition owing_world :: world where
  "owing_world = sample_world\<lparr>
     drivers := [(sample_driver ''d1'' ''u1'')\<lparr>d_commissionDue := 800\<rparr>],
     payments := [(new_payment ''p1'' 0 ''d1'' 500)\<lparr>p_transactionRef := Some ''ref'', p_orderId := Some ''TLp1'',
                     p_notifToken := Some ''secret''\<rparr>]\<rparr>"

lemma owing_world_wf: "payments_wf owing_world"
  by (simp add: payments_wf_def owing_world_def find_driver_def sample_defs new_payment_def)

abbreviation "sample_orange \<equiv> OrangeMoneyProvider sample_om_config sample_om_fetch"

abbreviation "confirmation \<equiv> JObject [(''status'', JString ''SUCCESS''), (''notif_token'', JString ''secret'')]"

lemma confirmation_verified:
  "verifyWebhook sample_orange confirmation = Inr \<lparr>wv_valid = True, wv_transactionRef = None, wv_orderId = None,
     wv_notifToken = Some (JString ''secret''), wv_txnid = None, wv_status = Some pay_succeeded\<rparr>"
  by (simp add: OrangeMoneyProvider_def om_verifyWebhook_def map_status_member_def mapOrangeStatus_def
      js_toUpperCase_def upper_char_def)

lemma owing_located:
  "locate_payment plain_strings \<lparr>wv_valid = True, wv_transactionRef = None, wv_orderId = None,
     wv_notifToken = Some (JString ''secret''), wv_txnid = None, wv_status = Some pay_succeeded\<rparr> owing_world =
   Inr (Some (hd (payments owing_world)))"
  by (simp add: locate_payment_def plain_strings_def owing_world_def Let_def)

theorem webhook_settles_once_witness:
  "\<exists>w'. handleWebhook sample_orange plain_strings 9 confirmation owing_world =
      (Inr \<lparr>wa_processed = True, wa_reason = None, wa_status = Some pay_succeeded\<rparr>, w') \<and>
    map_option d_commissionDue (find_driver ''d1'' w') = Some 300 \<and>
    fst (handleWebhook sample_orange plain_strings 10 confirmation w') = Inr replay_answer"
  (is "\<exists>w'. ?run w' \<and> _ w' \<and> _ w'")
proof -
  have 1: "p_status (hd (payments owing_world)) \<noteq> pay_succeeded"
    "p_driverId (hd (payments owing_world)) = ''d1''" "p_amount (hd (payments owing_world)) = 500"
    by (simp_all add: owing_world_def new_payment_def)
  obtain w' where run: "?run w'"
    and acc: "find_driver ''d1'' w' = map_option (\<lambda>d. d\<lparr>d_commissionDue := d_commissionDue d - 500\<rparr>) (find_driver ''d1'' owing_world)"
    and again: "handleWebhook sample_orange plain_strings 10 confirmation w' = (Inr replay_answer, w')"
    using webhook_settles_once [OF owing_world_wf confirmation_verified _ _ owing_located, where now = 9 and x = None] 1
    by (auto simp: stored_text_def)
  have "map_option d_commissionDue (find_driver ''d1'' w') = Some 300"
    unfolding acc by (simp add: owing_world_def find_driver_def sample_driver_def)
  with run again show ?thesis by auto
qed

theorem payments_keep_books_witness:
  "ledger_gap ''d1'' (snd (handleWebhook sample_orange plain_strings 9 confirmation owing_world)) = Some 800"
proof -
  have fresh: "''p2'' \<notin> p_id ` set (payments owing_world)" by (simp add: owing_world_def new_payment_def)
  have "ledger_gap ''d1'' owing_world = Some 800"
    by (simp add: ledger_gap_def paid_by_def charged_to_def sum_where_def owing_world_def find_driver_def
        sample_defs new_payment_def)
  then show ?thesis
    using payments_keep_books [OF owing_world_wf fresh,
        where provider = sample_orange and pz = plain_strings and payload = confirmation and now = 9] by auto
qed

section \<open>What the service gets from its provider\<close>

context payment_provider
begin

text \<open>A webhook either changes nothing or stores the status the provider read from it.\<close>

lemma webhook_stores_status:
  assumes "handleWebhook provider pz now payload w = (Inr a, w')" and "wa_processed a"
  shows "\<exists>v. verifyWebhook provider payload = Inr v \<and> wv_valid v \<and> wa_status a = wv_status v"
proof -
  have "wa_status a = wv_status v" if "verifyWebhook provider payload = Inr v" "wv_valid v" "wa_status a = Some (webhook_status v)" for v
    using webhook_terminal [OF that(1,2)] that(3) by (auto simp: webhook_status_def)
  with assms show ?thesis
    by (auto simp: handleWebhook_def throw_def return_def rejected_answer_def replay_answer_def andThen_def Let_def
        split: sum.splits option.splits if_splits prod.splits)
qed

lemma webhook_not_processed:
  assumes "handleWebhook provider pz now payload w = (Inr a, w')" and "\<not> wa_processed a"
  shows "w' = w"
  using assms
  by (auto simp: handleWebhook_def throw_def return_def andThen_def Let_def
      split: sum.splits option.splits if_splits prod.splits)

text \<open>A payment left pending can be asked for: it has a reference and an order id.\<close>

lemma pending_is_pollable:
  assumes run: "payCommission provider i now u dto (st, w) = (Inr a, st', w')" and "i \<notin> p_id ` set (payments w)"
  shows "\<exists>p. find_payment i w' = Some p \<and> p_status p = pa_status a \<and>
    pa_status a \<in> {pay_pending, pay_succeeded} \<and>
    (pa_status a = pay_pending \<longrightarrow>
       truthy (p_transactionRef p) \<and> truthy (p_orderId p) \<and> checkTransactionStatus provider \<noteq> None)"
proof -
  obtain dr where dr: "findDriverByUserId u w = Some dr"
    using run by (cases "findDriverByUserId u w") (auto simp: payCommission_def throw_def)
  let ?p = "new_payment i now (d_id dr) (pc_amount dto)"
  let ?w1 = "w\<lparr>payments := payments w @ [?p]\<rparr>"
  let ?in = "\<lparr>pi_amount = pc_amount dto, pi_phoneNumber = pc_phoneNumber dto, pi_internalRef = i,
               pi_description = Some ''Paiement commission Telima''\<rparr>"
  obtain r where r: "initiate provider now ?in st = (Inr r, st')" and free: "\<not> refs_taken i (ir_transactionRef r) (ir_orderId r) ?w1"
    using run by (auto simp: payCommission_def dr throw_def return_def Let_def split: prod.splits sum.splits if_splits)
  have rest: "pa_status a = p_status (initiated_row now r ?p) \<and> payments w' = payments (update_payment i (initiated_row now r) ?w1)"
  proof (cases "ir_status r = pay_succeeded")
    case False
    with run free show ?thesis
      unfolding payCommission_def by (simp add: dr r return_def Let_def) (auto simp del: initiated_row_simps)
  next
    case True
    with run free have "\<exists>x. applyPaymentSuccess i (d_id dr) (pc_amount dto) (ir_transactionRef r)
        (update_payment i (initiated_row now r) ?w1) = (Inr x, w') \<and> pa_status a = p_status (initiated_row now r ?p)"
      unfolding payCommission_def
      by (simp add: dr r throw_def return_def Let_def split: prod.splits sum.splits) (auto simp del: initiated_row_simps)
    then show ?thesis
      by (auto simp: applyPaymentSuccess_def markCommissionPaid_def return_def throw_def Let_def world_simps split: if_splits)
  qed
  have "find (\<lambda>p. p_id p = i) (payments w) = None" using assms(2) by (auto simp: find_None_iff)
  then have "find_payment i ?w1 = Some ?p" by (simp add: find_payment_def find_append new_payment_def)
  then have found: "find_payment i w' = Some (initiated_row now r ?p)"
    unfolding find_payment_def rest [THEN conjunct2] update_payment_frame
    by (subst find_update_same [where k = p_id]) simp_all
  with initiated [OF r] initiated_pending [OF r] rest show ?thesis
    by (auto simp: initiated_row_def split: if_splits)
qed

end

text \<open>
  A commission payment started with Orange Money: when the call answers, the row of the
  payment has the answered status, pending until a webhook or poll says more, and it carries the
  reference and the order id with which polling can ask for it.
\<close>

theorem orange_payment_pollable:
  assumes "payCommission (OrangeMoneyProvider cfg fetch) i now u dto (st, w) = (Inr a, st', w')"
    and "i \<notin> p_id ` set (payments w)"
  shows "\<exists>p. find_payment i w' = Some p \<and> p_status p = pa_status a \<and>
    pa_status a \<in> {pay_pending, pay_succeeded} \<and>
    (pa_status a = pay_pending \<longrightarrow>
       truthy (p_transactionRef p) \<and> truthy (p_orderId p) \<and>
       checkTransactionStatus (OrangeMoneyProvider cfg fetch) \<noteq> None)"
  using assms by (rule orange_money.pending_is_pollable)

lemma sample_payCommission:
  "fst (payCommission sample_orange ''a-b'' 0 ''u1'' \<lparr>pc_amount = 500, pc_phoneNumber = ''70000000''\<rparr> (None, sample_world)) =
   Inr \<lparr>pa_paymentId = ''a-b'', pa_transactionRef = ''p1'', pa_orderId = Some ''TLab'', pa_status = pay_pending,
        pa_amount = 500, pa_paymentUrl = Some ''https://pay''\<rparr>"
proof -
  have "\<exists>st. om_initiate sample_om_config sample_om_fetch 0
      \<lparr>pi_amount = 500, pi_phoneNumber = ''70000000'', pi_internalRef = ''a-b'', pi_description = Some ''Paiement commission Telima''\<rparr> None =
    (Inr \<lparr>ir_transactionRef = ''p1'', ir_status = pay_pending, ir_paymentUrl = Some ''https://pay'',
          ir_notifToken = Some ''n1'', ir_orderId = Some ''TLab''\<rparr>, st)"
    by (simp add: om_initiate_def isConfigured_def sample_om_config_def getAccessToken_def response_ok_def
      response_json_def merchantKey_def read_initiation_def json_text_def web_payment_def order_id_def Let_def)
  then show ?thesis
    by (auto simp: payCommission_def findDriverByUserId_def sample_defs OrangeMoneyProvider_def refs_taken_def
        new_payment_def initiated_row_def Let_def)
qed

theorem orange_payment_pollable_witness:
  "\<exists>p. find_payment ''a-b'' (snd (snd (payCommission sample_orange ''a-b'' 0 ''u1''
     \<lparr>pc_amount = 500, pc_phoneNumber = ''70000000''\<rparr> (None, sample_world)))) = Some p \<and>
     truthy (p_transactionRef p) \<and> truthy (p_orderId p)"
  (is "\<exists>p. find_payment _ (snd (snd ?run)) = _ \<and> _ p \<and> _ p")
proof -
  obtain a st' w' where run: "?run = (Inr a, st', w')" and a: "pa_status a = pay_pending"
    using sample_payCommission by (metis (no_types, lifting) PaymentAnswer.select_convs(4) prod.collapse)
  have "''a-b'' \<notin> p_id ` set (payments sample_world)" by (simp add: sample_defs)
  from orange_payment_pollable [OF run this] a run show ?thesis by auto
qed

section \<open>The public webhook\<close>

text \<open>
  C30. Nothing makes sure that \<open>notif_token\<close> is a string, and Prisma reads an object in its
  place as a filter. With the documented meaning of \<open>not\<close>, an unauthenticated request that knows
  no token settles the first unpaid payment that has one: the row becomes succeeded and its
  amount is taken off what the driver owes.
\<close>

theorem webhook_filter_injection:
  assumes "whereString pz (JObject [(''not'', JString x)]) = Some (\<lambda>c. \<exists>s. c = Some s \<and> s \<noteq> x)"
    and wf: "payments_wf w"
    and first: "find (\<lambda>p. \<exists>s. p_notifToken p = Some s \<and> s \<noteq> x) (payments w) = Some p"
    and open_row: "p_status p \<noteq> pay_succeeded" and dr: "find_driver (p_driverId p) w = Some dr"
    and w': "w' = snd (handleWebhook (OrangeMoneyProvider cfg fetch) pz now
               (JObject [(''status'', JString ''SUCCESS''), (''notif_token'', JObject [(''not'', JString x)])]) w)"
  shows "map_option p_status (find_payment (p_id p) w') = Some pay_succeeded \<and>
    map_option d_commissionDue (find_driver (p_driverId p) w') = Some (d_commissionDue dr - p_amount p)"
proof -
  let ?payload = "JObject [(''status'', JString ''SUCCESS''), (''notif_token'', JObject [(''not'', JString x)])]"
  let ?v = "\<lparr>wv_valid = True, wv_transactionRef = None, wv_orderId = None,
     wv_notifToken = Some (JObject [(''not'', JString x)]), wv_txnid = None, wv_status = Some pay_succeeded\<rparr>"
  have v: "verifyWebhook (OrangeMoneyProvider cfg fetch) ?payload = Inr ?v"
    by (simp add: OrangeMoneyProvider_def om_verifyWebhook_def map_status_member_def mapOrangeStatus_def
        js_toUpperCase_def upper_char_def)
  have found: "locate_payment pz ?v w = Inr (Some p)"
    using assms(1) first by (simp add: locate_payment_def Let_def)
  from handleWebhook_success [OF wf v _ _ found open_row, of None now]
  have rows: "payments w' = update_where (\<lambda>q. p_id q = p_id p) (settled_row now pay_succeeded None) (payments w)"
    and acc: "find_driver (p_driverId p) w' = Some (dr\<lparr>d_commissionDue := d_commissionDue dr - p_amount p\<rparr>)"
    using dr unfolding w' by (auto simp: stored_text_def)
  have "find_payment (p_id p) w = Some p"
    using wf find_distinct [of p_id "payments w" p] find_SomeD [OF first]
    by (simp add: find_payment_def payments_wf_def)
  then have "find_payment (p_id p) w' = Some (settled_row now pay_succeeded None p)"
    unfolding find_payment_def rows by (subst find_update_same [where k = p_id]) simp_all
  with acc show ?thesis by simp
qed

theorem webhook_filter_injection_witness:
  "map_option d_commissionDue (find_driver ''d1'' (snd (handleWebhook sample_orange plain_strings 9
     (JObject [(''status'', JString ''SUCCESS''), (''notif_token'', JObject [(''not'', JString ''x'')])]) owing_world))) =
   Some 300"
proof -
  have m: "whereString plain_strings (JObject [(''not'', JString ''x'')]) = Some (\<lambda>c. \<exists>s. c = Some s \<and> s \<noteq> ''x'')"
    by (simp add: plain_strings_def)
  have p: "find (\<lambda>p. \<exists>s. p_notifToken p = Some s \<and> s \<noteq> ''x'') (payments owing_world) = Some (hd (payments owing_world))"
    "p_status (hd (payments owing_world)) \<noteq> pay_succeeded"
    "p_driverId (hd (payments owing_world)) = ''d1''" "p_amount (hd (payments owing_world)) = 500"
    by (simp_all add: owing_world_def new_payment_def)
  have d: "find_driver (p_driverId (hd (payments owing_world))) owing_world =
      Some ((sample_driver ''d1'' ''u1'')\<lparr>d_commissionDue := 800\<rparr>)"
    by (simp add: owing_world_def new_payment_def find_driver_def sample_driver_def)
  from webhook_filter_injection [OF m owing_world_wf p(1,2) d refl, where now = 9 and cfg = sample_om_config and fetch = sample_om_fetch]
  show ?thesis by (simp add: p(3,4))
qed

end
