(* ===== verification/Notifications.thy ===== *)
theory Notifications
  imports Realtime Payments
begin

text \<open>
  The listeners of the domain events: \<open>NotificationHandler\<close>, which turns events into push
  messages, and the delivery of one event to all its \<open>@OnEvent\<close> listeners. A push is a line of
  the log \<open>pushed\<close>; the providers (FCM, mock) only send it.
\<close>

section \<open>Push notifications\<close>

record Notification =
  nt_title :: string
  nt_body :: "PushText list"
  nt_data :: "(string \<times> PushText) list"
  nt_high :: bool

text \<open>One message per device of the user; \<open>sendMulticast\<close> gets them all, and what it answers is dropped.\<close>

definition sendToUser :: "id \<Rightarrow> Notification \<Rightarrow> world \<Rightarrow> world" where
  "sendToUser userId n w =
     w\<lparr>pushed := pushed w @ map (\<lambda>t. \<lparr>pm_token = dt_token t, pm_title = nt_title n, pm_body = nt_body n,
                                        pm_data = nt_data n, pm_high = nt_high n\<rparr>)
                             (filter (\<lambda>t. dt_userId t = userId) (deviceTokens w))\<rparr>"

definition notify_driver :: "id \<Rightarrow> Notification \<Rightarrow> world \<Rightarrow> world" where
  "notify_driver driverId n w =
     (case find_driver driverId w of None \<Rightarrow> w | Some d \<Rightarrow> sendToUser (d_userId d) n w)"

text \<open>The party a message is for; a trip without a driver has nobody on that side.\<close>

definition notify_party :: "bool \<Rightarrow> Trip \<Rightarrow> Notification \<Rightarrow> world \<Rightarrow> world" where
  "notify_party to_driver trip n w =
     (case (if to_driver then map_option d_userId (trip_driver trip w) else Some (t_clientId trip)) of
        None \<Rightarrow> w
      | Some u \<Rightarrow> if u = [] then w else sendToUser u n w)"

definition trip_data :: "id \<Rightarrow> string \<Rightarrow> (string \<times> PushText) list" where
  "trip_data tripId type = [(''tripId'', Plain tripId), (''type'', Plain type)]"

fun push_listener :: "DomainEvent \<Rightarrow> world \<Rightarrow> world" where
  "push_listener (DriverNotified tripId driverId serviceType pickupAddress price) w =
     notify_driver driverId
       \<lparr>nt_title = (if serviceType = delivery then ''Nouvelle livraison'' else ''Nouvelle course''),
        nt_body = (if truthy pickupAddress then [Plain (''Prise en charge : '' @ the pickupAddress)]
                   else [Plain ''Une demande vous attend. Ouvrez l'application pour repondre.'']),
        nt_data = trip_data tripId ''trip_new_request'' @ [(''serviceType'', Service serviceType)], nt_high = True\<rparr> w"
| "push_listener (TripAccepted tripId driverId clientId) w =
     sendToUser clientId
       \<lparr>nt_title = ''Chauffeur en route'', nt_body = [Plain ''Votre chauffeur a accepte la course et se dirige vers vous.''],
        nt_data = trip_data tripId ''trip_accepted'', nt_high = True\<rparr> w"
| "push_listener (TripArrived tripId driverId clientId) w =
     sendToUser clientId
       \<lparr>nt_title = ''Chauffeur arrive'', nt_body = [Plain ''Votre chauffeur est arrive sur le lieu de prise en charge.''],
        nt_data = trip_data tripId ''trip_arrived'', nt_high = True\<rparr> w"
| "push_listener (TripStarted tripId driverId clientId) w =
     sendToUser clientId
       \<lparr>nt_title = ''Course en cours'', nt_body = [Plain ''Votre course a demarre. Bon trajet !''],
        nt_data = trip_data tripId ''trip_started'', nt_high = False\<rparr> w"
| "push_listener (TripCompleted tripId driverId clientId finalPrice) w =
     sendToUser clientId
       \<lparr>nt_title = ''Course terminee'',
        nt_body = [Plain ''Votre course est terminee. Prix: '', Amount finalPrice,
                   Plain '' FCFA. N'oubliez pas de noter votre chauffeur.''],
        nt_data = trip_data tripId ''trip_completed'' @ [(''finalPrice'', Amount finalPrice)], nt_high = False\<rparr> w"
| "push_listener (TripCancelled tripId cancelledBy reason) w =
     (case find_trip tripId w of
        None \<Rightarrow> w
      | Some trip \<Rightarrow> notify_party (cancelledBy = t_clientId trip) trip
          \<lparr>nt_title = ''Course annulee'',
           nt_body = [Plain (''La course a ete annulee. Raison: '' @ (if reason = [] then ''non precisee'' else reason))],
           nt_data = trip_data tripId ''trip_cancelled'', nt_high = False\<rparr> w)"
| "push_listener (CommissionPaid paymentId driverId amount) w =
     notify_driver driverId
       \<lparr>nt_title = ''Paiement confirme'',
        nt_body = [Plain ''Votre paiement de commission de '', Amount amount, Plain '' FCFA a ete confirme.''],
        nt_data = [(''type'', Plain ''payment_confirmed''), (''amount'', Amount amount)], nt_high = False\<rparr> w"
| "push_listener (ChatMessageSent messageId tripId senderId senderRole) w =
     (case find_trip tripId w of
        None \<Rightarrow> w
      | Some trip \<Rightarrow> notify_party (senderRole = sender_client) trip
          \<lparr>nt_title = ''Nouveau message'', nt_body = [Plain ''Vous avez recu un nouveau message.''],
           nt_data = trip_data tripId ''chat_message'', nt_high = False\<rparr> w)"
| "push_listener _ w = w"

section \<open>Delivery of an event\<close>

record 'p Env =
  e_spherical :: distance_fn
  e_matrix :: "GeoPoint \<Rightarrow> GeoPoint \<Rightarrow> DistanceMatrixResult"
  e_tz :: "time \<Rightarrow> int"
  e_provider :: "'p PaymentProvider"
  e_prisma :: PrismaJson

fun deliver :: "'p Env \<Rightarrow> time \<Rightarrow> DomainEvent \<Rightarrow> world \<Rightarrow> world" where
  "deliver env now (TripCreated e) w = handleTripCreated (e_spherical env) now e w"
| "deliver env now (DispatchFailed tripId reason) w = handleDispatchFailed now tripId reason w"
| "deliver env now (DriverAssigned tripId driverId) w =
     snd (handleDriverAssigned (e_spherical env) now tripId driverId w)"
| "deliver env now (WsDriverAcceptRequested tripId driverId userId) w =
     handleWsDriverAcceptRequested now tripId userId w"
| "deliver env now (WsDriverDeclineRequested tripId driverId reason) w =
     handleDriverDeclineAndRetry (e_spherical env) now tripId driverId w"
| "deliver env now (TripCompleted tripId driverId clientId finalPrice) w =
     push_listener (TripCompleted tripId driverId clientId finalPrice) (handleTripCompleted now tripId w)"
| "deliver env now e w = push_listener e w"

lemma sendToUser_frame [world_simps]:
  "trips (sendToUser u n w) = trips w" "drivers (sendToUser u n w) = drivers w"
  "payments (sendToUser u n w) = payments w" "bus (sendToUser u n w) = bus w"
  by (simp_all add: sendToUser_def)

lemma push_listener_frame [world_simps]:
  "trips (push_listener e w) = trips w" "drivers (push_listener e w) = drivers w"
  "payments (push_listener e w) = payments w" "bus (push_listener e w) = bus w"
  by (cases e; simp add: notify_driver_def notify_party_def world_simps split: option.split)+

end
