(* ===== verification/Telima_System.thy ===== *)
theory Telima_System
  imports Notifications
begin

text \<open>
  The services together: one step is one request, one delivered event, one due timeout job, one
  sweep or one socket message. The rows of the trips follow an abstract status machine, and what
  it promises of a row holds in every reachable world.
\<close>

section \<open>The abstract machine of a trip\<close>

text \<open>
  Beyond the transition table a status changes in two ways: a delivered \<open>DriverAssigned\<close> sets
  \<open>accepted\<close> whatever the status is, and the sweep ends stale assignments.
\<close>

definition status_step :: "TripStatus \<Rightarrow> TripStatus \<Rightarrow> bool" where
  "status_step s s' \<longleftrightarrow> canTransition s s' \<or> s' = accepted \<or> (s \<in> {accepted, driver_arriving} \<and> s' = cancelled_auto)"

text \<open>What the columns of a row say about its status.\<close>

definition trip_ok :: "Trip \<Rightarrow> bool" where
  "trip_ok t \<longleftrightarrow> (case t_status t of
     pending \<Rightarrow> t_driverId t = None
   | accepted \<Rightarrow> t_driverId t \<noteq> None \<and> t_acceptedAt t \<noteq> None
   | driver_arriving \<Rightarrow> t_driverId t \<noteq> None \<and> t_acceptedAt t \<noteq> None \<and> t_driverArrivedAt t \<noteq> None
   | in_progress \<Rightarrow> t_driverId t \<noteq> None \<and> t_acceptedAt t \<noteq> None \<and> t_driverArrivedAt t \<noteq> None \<and>
       t_startedAt t \<noteq> None
   | completed \<Rightarrow> t_driverId t \<noteq> None \<and> t_acceptedAt t \<noteq> None \<and> t_driverArrivedAt t \<noteq> None \<and>
       t_startedAt t \<noteq> None \<and> t_completedAt t \<noteq> None \<and> t_finalPrice t = t_estimatedPrice t
   | cancelled_by_client \<Rightarrow> t_cancelledAt t \<noteq> None
   | cancelled_by_driver \<Rightarrow> t_driverId t \<noteq> None \<and> t_cancelledAt t \<noteq> None
   | cancelled_auto \<Rightarrow> t_cancelReason t \<noteq> None)"

definition row_step :: "Trip \<Rightarrow> Trip \<Rightarrow> bool" where
  "row_step t t' \<longleftrightarrow> t_id t' = t_id t \<and> t_clientId t' = t_clientId t \<and> t_estimatedPrice t' = t_estimatedPrice t \<and>
     (t_status t' = t_status t \<or> status_step (t_status t) (t_status t')) \<and> (trip_ok t \<longrightarrow> trip_ok t')"

definition fresh_row :: "Trip \<Rightarrow> bool" where
  "fresh_row t \<longleftrightarrow> t_status t = pending \<and> t_commissionAmount t = None \<and> trip_ok t"

text \<open>Every row makes at most one move of the machine, new rows start it.\<close>

definition rows_follow :: "world \<Rightarrow> world \<Rightarrow> bool" where
  "rows_follow w w' \<longleftrightarrow> (\<exists>old new. trips w' = old @ new \<and> list_all2 row_step (trips w) old \<and>
     (\<forall>t \<in> set new. fresh_row t) \<and> distinct (map t_id (trips w')))"

lemma row_step_refl: "row_step t t"
  by (simp add: row_step_def)

lemma list_all2_ids: "list_all2 row_step ts us \<Longrightarrow> map t_id us = map t_id ts"
  by (induction rule: list_all2_induct) (simp_all add: row_step_def)

lemma rows_follow_refl: "distinct (map t_id (trips w)) \<Longrightarrow> trips w' = trips w \<Longrightarrow> rows_follow w w'"
  unfolding rows_follow_def
  by (intro exI [of _ "trips w"] exI [of _ "[]"]) (simp add: list_all2_same row_step_refl)

lemma rows_follow_distinct: "rows_follow w w' \<Longrightarrow> distinct (map t_id (trips w'))"
  unfolding rows_follow_def by blast

lemma rows_follow_ok:
  assumes "rows_follow w w'" and "\<forall>t \<in> set (trips w). trip_ok t"
  shows "\<forall>t \<in> set (trips w'). trip_ok t"
proof -
  obtain old new where w': "trips w' = old @ new" "list_all2 row_step (trips w) old" "\<forall>t \<in> set new. fresh_row t"
    using assms(1) unfolding rows_follow_def by blast
  have "\<forall>t \<in> set old. trip_ok t"
    using w'(2) assms(2) by (induction rule: list_all2_induct) (auto simp: row_step_def)
  with w'(1,3) show ?thesis by (auto simp: fresh_row_def)
qed

text \<open>One trip before and after.\<close>

lemma rows_follow_find:
  assumes "rows_follow w w'"
  shows "case find_trip i w of
      None \<Rightarrow> (case find_trip i w' of None \<Rightarrow> True | Some t' \<Rightarrow> fresh_row t')
    | Some t \<Rightarrow> (case find_trip i w' of None \<Rightarrow> False | Some t' \<Rightarrow> row_step t t')"
proof -
  obtain old new where w': "trips w' = old @ new" "list_all2 row_step (trips w) old" "\<forall>t \<in> set new. fresh_row t"
    using assms unfolding rows_follow_def by blast
  have new: "case find (\<lambda>t. t_id t = i) new of None \<Rightarrow> True | Some t' \<Rightarrow> fresh_row t'"
    using w'(3) by (auto split: option.split dest: find_SomeD)
  from w'(2) have "case find (\<lambda>t. t_id t = i) (trips w) of
      None \<Rightarrow> find (\<lambda>t. t_id t = i) old = None
    | Some t \<Rightarrow> (\<exists>t'. find (\<lambda>t. t_id t = i) old = Some t' \<and> row_step t t')"
    by (induction rule: list_all2_induct) (auto simp: row_step_def split: option.splits)
  with new show ?thesis
    by (auto simp: find_trip_def w'(1) find_append split: option.splits)
qed

text \<open>One update of the row found, the way \<open>prisma.trip.update\<close> and \<open>updateMany\<close> make it.\<close>

lemma rows_follow_where:
  assumes "distinct (map t_id (trips w))" and "trips w' = update_where p f (trips w)"
    and "\<And>t. t \<in> set (trips w) \<Longrightarrow> p t \<Longrightarrow> row_step t (f t)"
  shows "rows_follow w w'"
proof -
  have l: "list_all2 row_step ts (map (\<lambda>t. if p t then f t else t) ts)" if "set ts \<subseteq> set (trips w)" for ts
    using that assms(3) by (induction ts) (auto simp: row_step_refl)
  let ?old = "map (\<lambda>t. if p t then f t else t) (trips w)"
  have old: "trips w' = ?old @ []" by (simp add: assms(2) update_where_def)
  have "distinct (map t_id (trips w'))"
    unfolding old append_Nil2 list_all2_ids [OF l [OF subset_refl]] by (rule assms(1))
  with old l [OF subset_refl] show ?thesis unfolding rows_follow_def by (metis empty_iff list.set(1))
qed

lemma rows_follow_update:
  assumes d: "distinct (map t_id (trips w))" and t: "find_trip i w = Some t" and "row_step t ((f t)\<lparr>t_updatedAt := now\<rparr>)"
    and "trips w' = trips (update_trip now i f w)"
  shows "rows_follow w w'"
proof (rule rows_follow_where [OF d])
  show "trips w' = update_where (\<lambda>t. t_id t = i) (\<lambda>t. (f t)\<lparr>t_updatedAt := now\<rparr>) (trips w)"
    by (simp add: assms(4) update_frame)
  fix x assume "x \<in> set (trips w)" "t_id x = i"
  then have "x = t" using find_distinct [of t_id "trips w" x] d t by (simp add: find_trip_def)
  then show "row_step x ((f x)\<lparr>t_updatedAt := now\<rparr>)" using assms(3) by simp
qed

lemma rows_follow_same:
  "rows_follow w v \<Longrightarrow> trips w' = trips v \<Longrightarrow> rows_follow w w'"
  by (simp add: rows_follow_def)

lemma rows_follow_from:
  "rows_follow v w' \<Longrightarrow> trips v = trips w \<Longrightarrow> rows_follow w w'"
  by (simp add: rows_follow_def)

text \<open>A row whose machine columns do not change.\<close>

lemma row_step_touch:
  "t_id t' = t_id t \<Longrightarrow> t_clientId t' = t_clientId t \<Longrightarrow> t_estimatedPrice t' = t_estimatedPrice t \<Longrightarrow>
   t_status t' = t_status t \<Longrightarrow> t_driverId t' = t_driverId t \<Longrightarrow> t_acceptedAt t' = t_acceptedAt t \<Longrightarrow>
   t_driverArrivedAt t' = t_driverArrivedAt t \<Longrightarrow> t_startedAt t' = t_startedAt t \<Longrightarrow>
   t_completedAt t' = t_completedAt t \<Longrightarrow> t_finalPrice t' = t_finalPrice t \<Longrightarrow>
   t_cancelledAt t' = t_cancelledAt t \<Longrightarrow> t_cancelReason t' = t_cancelReason t \<Longrightarrow> row_step t t'"
  unfolding row_step_def trip_ok_def by (simp split: TripStatus.split)

section \<open>The operations follow the machine\<close>

lemma new_row_step:
  assumes "canTransition (t_status t) (us_status dto)" and "authorised t u role (us_status dto) w"
  shows "row_step t ((new_row now t u dto w)\<lparr>t_updatedAt := now\<rparr>)"
  using assms
  by (cases "us_status dto")
    (auto simp: row_step_def new_row_def trip_ok_def status_step_def authorised_def canTransition_into)

lemma rows_updateStatus:
  assumes d: "distinct (map t_id (trips w))"
  shows "rows_follow w (snd (updateStatus now i u role dto w))"
proof (cases "find_trip i w")
  case None
  then show ?thesis by (simp add: updateStatus_missing rows_follow_refl [OF d])
next
  case (Some t)
  show ?thesis
  proof (cases "canTransition (t_status t) (us_status dto) \<and> authorised t u role (us_status dto) w")
    case False
    then have "\<exists>e. updateStatus now i u role dto w = (Inl e, w)"
      using updateStatus_invalid [OF Some] updateStatus_refused [OF Some] by blast
    then have "snd (updateStatus now i u role dto w) = w" by auto
    then show ?thesis by (simp add: rows_follow_refl [OF d])
  next
    case True
    let ?t' = "(new_row now t u dto w)\<lparr>t_updatedAt := now\<rparr>"
    have c: "canTransition (t_status t) (us_status dto)" and a: "authorised t u role (us_status dto) w"
      using True by simp_all
    obtain f w1 where u: "updateStatus now i u role dto w = (Inr ?t',
        broadcastStatusEvent ?t' (us_status dto) (us_cancelReason dto)
          (emitStatusEvent ?t' u (us_cancelReason dto) (update_trip now i f w1)))"
      and tr: "trips (update_trip now i f w1) = map (\<lambda>x. if t_id x = i then ?t' else x) (trips w)"
      using updateStatus_done [OF d Some c a refl] by blast
    have tr': "trips (snd (updateStatus now i u role dto w)) = update_where (\<lambda>x. t_id x = i) (\<lambda>_. ?t') (trips w)"
      by (simp add: u tr update_where_def broadcastStatusEvent_frame emitStatusEvent_frame)
    have "x = t" if "x \<in> set (trips w)" "t_id x = i" for x
      using find_distinct [of t_id "trips w" x] d Some that by (simp add: find_trip_def)
    then show ?thesis
      using new_row_step [OF c a] by (intro rows_follow_where [OF d tr']) simp
  qed
qed

lemma rows_repo_update:
  assumes d: "distinct (map t_id (trips w))" and "\<And>t. t_id (f t) = t_id t"
    and "\<And>t. find_trip i w = Some t \<Longrightarrow> row_step t ((f t)\<lparr>t_updatedAt := now\<rparr>)"
  shows "rows_follow w (snd (repo_update now i f w))"
proof (cases "find_trip i w")
  case None
  then show ?thesis by (simp add: repo_update_cases [OF assms(2)] rows_follow_refl [OF d])
next
  case (Some t)
  have "rows_follow w (update_trip now i f w)"
    by (rule rows_follow_update [where f = f and now = now, OF d Some assms(3) [OF Some] refl])
  with Some show ?thesis by (simp add: repo_update_cases [OF assms(2)])
qed

lemma rows_andThen:
  assumes "distinct (map t_id (trips w))" and "rows_follow w (snd m)"
    and "\<And>x v. m = (Inr x, v) \<Longrightarrow> rows_follow w (snd (k x v))"
  shows "rows_follow w (snd (andThen m k))"
  using assms by (cases m; cases "fst m") (auto simp: andThen_def)

lemma rows_assertDriver: "snd (assertDriverOfRunningTrip x y i u role w) = w"
  by (simp add: assertDriver_cases split: option.split)

lemma rows_confirmPayment:
  assumes d: "distinct (map t_id (trips w))"
  shows "rows_follow w (snd (confirmPaymentReceived now i u role a w))"
proof -
  have "rows_follow w (snd (markPaymentReceived now i a w))"
    unfolding markPaymentReceived_def by (rule rows_repo_update [OF d]) (simp_all add: row_step_touch)
  then show ?thesis
    unfolding confirmPaymentReceived_def
    by (intro rows_andThen [OF d])
      (use rows_assertDriver in \<open>auto simp: rows_follow_refl [OF d] dest: arg_cong [where f = snd]\<close>)
qed

lemma rows_completeTrip:
  assumes d: "distinct (map t_id (trips w))"
  shows "rows_follow w (snd (completeTrip now i u role a w))"
proof (cases "\<exists>t. chargeable i u role w t")
  case True
  then obtain t where t: "chargeable i u role w t" by blast
  then have f: "find_trip i w = Some t" "t_status t = in_progress" "t_driverId t \<noteq> None" by (auto simp: chargeable_def)
  show ?thesis
    unfolding completeTrip_done [OF t refl]
    by (rule rows_follow_update [OF d f(1)])
      (use f in \<open>auto simp: row_step_def trip_ok_def status_step_def broadcastStatusEvent_frame emitStatusEvent_frame\<close>)
next
  case False
  have "\<exists>e. assertDriverOfRunningTrip x y i u role w = (Inl e, w)" for x y
    using assertDriver_error [of i u role w _ x y] False by (cases "find_trip i w") blast+
  then obtain e where "assertDriverOfRunningTrip ''Seul un chauffeur peut terminer une course''
       ''Terminaison impossible depuis le statut actuel'' i u role w = (Inl e, w)" by blast
  then show ?thesis by (simp add: completeTrip_def rows_follow_refl [OF d])
qed

lemma createTrip_trips:
  "trips (snd (createTrip matrix tz i now client dto w)) = trips w \<or>
   (\<exists>t. trips (snd (createTrip matrix tz i now client dto w)) = trips w @ [t] \<and> t_id t = i \<and> fresh_row t)"
proof -
  obtain r w1 where r: "calculatePrice matrix tz now \<lparr>q_serviceType = ct_serviceType dto,
      q_vehicleTypeId = ct_vehicleTypeId dto, q_pickup = ct_pickup dto, q_dropoff = ct_dropoff dto\<rparr> w = (r, w1)"
    by (metis surj_pair)
  then have "trips w1 = trips w" by (metis calculatePrice_frame(1) snd_conv)
  then show ?thesis
    by (cases r) (simp_all add: createTrip_def r insertWithGeometry_def getTrip_def findById_def serviceDetails_frame
        fresh_row_def trip_ok_def emit_frame throw_def return_def andThen_def split: option.split)
qed

lemma rows_createTrip:
  assumes d: "distinct (map t_id (trips w))" and "i \<notin> t_id ` set (trips w)"
  shows "rows_follow w (snd (createTrip matrix tz i now client dto w))"
  using createTrip_trips [of matrix tz i now client dto w]
proof (elim disjE exE conjE)
  fix t assume t: "trips (snd (createTrip matrix tz i now client dto w)) = trips w @ [t]" "t_id t = i" "fresh_row t"
  show ?thesis
    unfolding rows_follow_def t(1) using assms t(2,3)
    by (intro exI [of _ "trips w"] exI [of _ "[t]"]) (simp add: list_all2_same row_step_refl)
qed (rule rows_follow_refl [OF d])

definition failed_row :: "time \<Rightarrow> string \<Rightarrow> Trip \<Rightarrow> Trip" where
  "failed_row now r t = t\<lparr>t_status := cancelled_auto, t_cancelledAt := Some now, t_cancelReason := Some r, t_updatedAt := now\<rparr>"

lemma dispatchFailed_trips:
  "trips (handleDispatchFailed now i r w) = update_where (\<lambda>t. t_id t = i \<and> t_status t = pending) (failed_row now r) (trips w)"
  by (simp add: failed_row_def [abs_def] handleDispatchFailed_def updateStatusIfPending_def Let_def world_simps split: option.split)

lemma rows_dispatchFailed:
  assumes d: "distinct (map t_id (trips w))"
  shows "rows_follow w (handleDispatchFailed now i r w)"
  by (rule rows_follow_where [OF d dispatchFailed_trips]) (simp add: failed_row_def row_step_def trip_ok_def status_step_def)

lemma rows_driverAssigned:
  assumes d: "distinct (map t_id (trips w))"
  shows "rows_follow w (snd (handleDriverAssigned sd now i dr w))"
  unfolding handleDriverAssigned_def
proof (rule rows_andThen [OF d])
  show a: "rows_follow w (snd (assignDriver now i dr w))"
    unfolding assignDriver_def by (rule rows_repo_update [OF d]) (simp_all add: row_step_def status_step_def trip_ok_def)
  fix t v assume "assignDriver now i dr w = (Inr t, v)"
  with a have v: "rows_follow w v" by simp
  show "rows_follow w (snd (let w2 = (case getWsEventForService (t_serviceType t) accepted of None \<Rightarrow> v
        | Some wsEvent \<Rightarrow> let acceptedPayload = accepted_payload sd t dr v
            in emitToAdmin AdminTripUpdate (AcceptedAdminMsg acceptedPayload (t_serviceType t) accepted)
                 (emitToTrip (t_id t) wsEvent (AcceptedMsg acceptedPayload)
                    (emitToUser (t_clientId t) wsEvent (AcceptedMsg acceptedPayload) v)))
      in return () (emit (TripAccepted (t_id t) dr (t_clientId t)) w2)))"
    by (rule rows_follow_same [OF v]) (simp add: Let_def return_def world_simps split: option.split)
qed

lemma rows_sweep:
  assumes d: "distinct (map t_id (trips w))"
  shows "rows_follow w (sweepStaleAssigned now w)"
  by (rule rows_follow_where [OF d sweepStaleAssigned_trips [OF d]])
    (auto simp: row_step_def status_step_def trip_ok_def stale_assigned_def)

lemma run_trips: "trips (run sd quiet now w) = trips w"
proof -
  have "trips (fold (recoverTrip sd quiet now) ts v) = trips v" for ts v
    by (induction ts arbitrary: v) (simp_all add: world_simps)
  then show ?thesis by (simp add: run_def)
qed

lemma rows_confirmDelivery:
  assumes d: "distinct (map t_id (trips w))"
  shows "rows_follow w (snd (confirmDelivery now i u w))"
proof -
  have "rows_follow w (update_trip now i (\<lambda>t. t\<lparr>t_deliveryConfirmedAt := Some now\<rparr>) w)"
    by (rule rows_follow_where [OF d update_frame(1)]) (rule row_step_touch; simp)
  then show ?thesis
    unfolding confirmDelivery_def
    by (intro rows_andThen [OF d])
      (auto simp: getTrip_def rows_follow_refl [OF d] Let_def throw_def return_def world_simps
         intro: rows_follow_same split: option.splits)
qed

lemma rows_reportDeliveryIssue:
  assumes d: "distinct (map t_id (trips w))"
  shows "rows_follow w (snd (reportDeliveryIssue now i u r w))"
proof -
  have "rows_follow w (update_trip now i (\<lambda>t. case r of None \<Rightarrow> t | Some _ \<Rightarrow> t\<lparr>t_deliveryIssueReported := r\<rparr>) w)"
    by (rule rows_follow_where [OF d update_frame(1)]) (rule row_step_touch; simp split: option.split)
  then show ?thesis
    unfolding reportDeliveryIssue_def
    by (intro rows_andThen [OF d])
      (auto simp: getTrip_def rows_follow_refl [OF d] throw_def return_def split: option.splits)
qed

lemma rows_charged:
  assumes d: "distinct (map t_id (trips w))"
  shows "rows_follow w (handleTripCompleted now i w)"
proof (cases rule: handleTripCompleted_cases [of now i w])
  case 1
  then show ?thesis by (simp add: rows_follow_refl [OF d])
next
  case (2 t dr price vt)
  have "rows_follow w (update_trip now i f w)" if "f = (\<lambda>t. t\<lparr>t_commissionAmount := c\<rparr>)" for f c
    by (rule rows_follow_where [OF d update_frame(1)]) (rule row_step_touch; simp add: that)
  then show ?thesis
    unfolding handleTripCompleted_billable [OF 2] by (rule rows_follow_same) (simp_all add: world_simps)
qed

end
