(* ===== verification/World_Views.thy ===== *)
theory World_Views
  imports Telima_System
begin

text \<open>
  What the operations leave alone. A view is anything read off the tables that a change of the
  tables named below, of a driver who keeps the approval or of a user who keeps the role does not
  change, and that no event announces but the completion of a trip. Every operation that finishes no
  trip then leaves the view as it is. It is proved here once, and used for the catalog
  (\<open>Catalog\<close>) and for the completions announced (\<open>Trip_Charges\<close>).
\<close>

named_theorems view_simps \<open>what leaves a view unchanged\<close>

fun is_completion :: "DomainEvent \<Rightarrow> bool" where
  "is_completion (TripCompleted i dr c price) = True"
| "is_completion e = False"

lemma field_andThen:
  assumes "g (snd m) = g w" and "\<And>x v. m = (Inr x, v) \<Longrightarrow> g (snd (k x v)) = g v"
  shows "g (snd (andThen m k)) = g w"
  using assms by (cases m; cases "fst m") (auto simp: andThen_def)

lemma getTrip_state [simp]: "snd (getTrip i w) = w"
  by (simp add: getTrip_def throw_def return_def split: option.split)

lemma map_update_same: "(\<And>x. k (f x) = k x) \<Longrightarrow> map k (update_where p f xs) = map k xs"
  by (induction xs) (simp_all add: update_where_def)

locale world_view =
  fixes see :: "world \<Rightarrow> 'a"
  assumes quiet_event: "\<not> is_completion e \<Longrightarrow> see (emit e w) = see w"
    and quiet_driver: "(\<And>d. d_id (f d) = d_id d) \<Longrightarrow> (\<And>d. d_status (f d) = d_status d) \<Longrightarrow>
      see (update_driver i f w) = see w"
    and quiet_user: "(\<And>u. u_id (k u) = u_id u) \<Longrightarrow> (\<And>u. u_role (k u) = u_role u) \<Longrightarrow>
      see (update_user i k w) = see w"
    and quiet_tables:
    "see (w\<lparr>trips := x1\<rparr>) = see w"
    "see (w\<lparr>redis_keys := x2\<rparr>) = see w"
    "see (w\<lparr>attempts := x3\<rparr>) = see w"
    "see (w\<lparr>payments := x4\<rparr>) = see w"
    "see (w\<lparr>ratings := x5\<rparr>) = see w"
    "see (w\<lparr>chatMessages := x6\<rparr>) = see w"
    "see (w\<lparr>pushed := x7\<rparr>) = see w"
    "see (w\<lparr>deliveryDetails := x8\<rparr>) = see w"
    "see (w\<lparr>rideDetails := x9\<rparr>) = see w"
    "see (w\<lparr>presence := x10\<rparr>) = see w"
    "see (w\<lparr>configCache := x11\<rparr>) = see w"
    "see (w\<lparr>otpCodes := x12\<rparr>) = see w"
    "see (w\<lparr>refreshTokens := x13\<rparr>) = see w"
    "see (w\<lparr>deviceTokens := x14\<rparr>) = see w"
    "see (w\<lparr>vehicles := x15\<rparr>) = see w"
    "see (w\<lparr>sent := x16\<rparr>) = see w"
    "see (w\<lparr>jobs := x17\<rparr>) = see w"
    "see (w\<lparr>nextJob := x18\<rparr>) = see w"
begin

lemmas view_andThen = field_andThen [where g = see]
lemmas view_update_driver = quiet_driver
lemmas view_update_user = quiet_user

declare quiet_tables [view_simps]

lemma view_writes [view_simps]:
  "\<not> is_completion e \<Longrightarrow> see (emit e w) = see w" "see (ws_send r ev p w) = see w"
  "see (update_trip now i f w) = see w" "see (update_attempts q h w) = see w"
  "see (update_payment j l w) = see w" "see (set_keys m w) = see w"
  "see (snd (scheduleDispatchTimeout now ti dr ms w)) = see w" "see (cancelDispatchTimeout n w) = see w"
  "see (update_otp j ot w) = see w" "see (update_token j tk w) = see w" "see (heartbeat now dr w) = see w"
  by (simp_all add: quiet_event ws_send_def update_trip_def update_attempts_def update_payment_def set_keys_def
      scheduleDispatchTimeout_def cancelDispatchTimeout_def update_otp_def update_token_def heartbeat_def quiet_tables)

lemma view_fold: "(\<And>x v. see (f x v) = see v) \<Longrightarrow> see (fold f xs w) = see w"
  by (induction xs arbitrary: w) simp_all

paragraph \<open>Dispatch\<close>

lemma view_config [view_simps]:
  "see (snd (getConfig now s b w)) = see w" "see (snd (getDispatchConfig now s w)) = see w"
  by (simp_all add: getDispatchConfig_def getConfig_def split_beta Let_def view_simps split: option.split)

lemma view_round [view_simps]:
  "see (cancelTimeoutJob now t d w) = see w" "see (emitDispatchFailed t r w) = see w"
  "see (failTrip t r w) = see w" "see (upsertAttempt now t d w) = see w"
  "see (close_attempts now st p w) = see w"
  by (simp_all add: cancelTimeoutJob_def emitDispatchFailed_def failTrip_def upsertAttempt_def close_attempts_def Let_def
      view_simps split: option.split)

lemma view_offer [view_simps]:
  "see (offerTrip now t rq n w) = see w" "see (armTimeout now c t s rq n w) = see w"
  "see (snd (notifyDriver now c t s rq n w)) = see w"
proof -
  show offer: "see (offerTrip now t rq n w) = see w" for w
    by (simp add: offerTrip_def Let_def world_simps view_simps)
  show arm: "see (armTimeout now c t s rq n w) = see w" for w
    by (simp add: armTimeout_def Let_def split_beta view_simps)
  show "see (snd (notifyDriver now c t s rq n w)) = see w"
    by (simp add: notifyDriver_def offer arm view_simps split: prod.split bool.split)
qed

lemma view_notifyAll [view_simps]: "see (snd (notifyAll now c t s rq ns w)) = see w"
  by (induction ns arbitrary: w) (simp_all add: split_beta view_simps)

lemma view_dispatch [view_simps]:
  "see (attemptDispatch sd now t p s vt w) = see w" "see (checkAndRetryDispatch sd now t w) = see w"
  "see (handleDriverTimeout sd now t d w) = see w" "see (handleDriverDecline now t d w) = see w"
  "see (handleDriverDeclineAndRetry sd now t d w) = see w" "see (closeOther now t d w) = see w"
  "see (releaseOne now t d w) = see w"
proof -
  show attempt: "see (attemptDispatch sd now t p s vt w) = see w" for t p s vt w
    by (simp add: attemptDispatch_def Let_def split_beta view_simps)
  show retry: "see (checkAndRetryDispatch sd now t w) = see w" for t w
    by (simp add: checkAndRetryDispatch_def Let_def split_beta attempt view_simps split: option.split)
  show decline: "see (handleDriverDecline now t d w) = see w" for w
    by (simp add: handleDriverDecline_def view_simps)
  show "see (handleDriverTimeout sd now t d w) = see w"
    by (simp add: handleDriverTimeout_def Let_def retry view_simps)
  show "see (handleDriverDeclineAndRetry sd now t d w) = see w"
    by (simp add: handleDriverDeclineAndRetry_def retry decline)
qed (simp_all add: closeOther_def releaseOne_def view_simps)

lemma view_accept [view_simps]:
  "see (handleDriverAccept now t d w) = see w" "see (releaseLocksForTrip now t w) = see w"
  by (simp_all add: handleDriverAccept_def releaseLocksForTrip_def Let_def view_simps view_fold)

lemma view_timers [view_simps]:
  "see (processTimeoutJob sd now j w) = see w" "see (run sd quiet now w) = see w"
  "see (sweepStaleAssigned now w) = see w"
proof -
  have "see (recoverTrip sd quiet now t v) = see v" for t v
    by (simp add: recoverTrip_def Let_def view_simps split: option.split)
  then show "see (run sd quiet now w) = see w" unfolding run_def by (rule view_fold)
  have "see (cancelStale now t v) = see v" for t v
    by (simp add: cancelStale_def Let_def world_simps view_simps split: option.split)
  then show "see (sweepStaleAssigned now w) = see w" unfolding sweepStaleAssigned_def by (rule view_fold)
qed (simp add: processTimeoutJob_def view_simps)

paragraph \<open>Trips\<close>

lemma view_repo [view_simps]:
  "see (snd (repo_update now i f w)) = see w" "see (snd (updateStatusIfPending now i st r w)) = see w"
  by (simp_all add: repo_update_def updateStatusIfPending_def Let_def view_simps split: option.split)

lemma view_status_events [view_simps]:
  "t_status t \<noteq> completed \<Longrightarrow> see (emitStatusEvent t u r w) = see w" "see (broadcastStatusEvent t st r w) = see w"
  "see (notifyDispatchedDriversOfCancellation i s x w) = see w"
  by (simp_all add: emitStatusEvent_def broadcastStatusEvent_def notifyDispatchedDriversOfCancellation_def Let_def world_simps
      view_simps view_fold split: TripStatus.split option.split)

lemma view_prepareStatus [view_simps]: "see (snd (prepareStatus now t u role dto w)) = see w"
  by (cases "us_status dto") (simp_all add: prepareStatus_def view_simps split: option.split)

lemma view_trips [view_simps]:
  "see (snd (declineTrip sd now i u w)) = see w" "see (snd (confirmPaymentReceived now i u role a w)) = see w"
  "see (snd (rateTrip i u role stars tags w)) = see w" "see (snd (confirmDelivery now i u w)) = see w"
  "see (snd (reportDeliveryIssue now i u x w)) = see w" "see (snd (raiseSos now i u role lt lg m w)) = see w"
  unfolding declineTrip_def confirmPaymentReceived_def rateTrip_def confirmDelivery_def
    reportDeliveryIssue_def raiseSos_def markPaymentReceived_def
  by (auto simp: rows_assertDriver createRating_def Let_def world_simps view_simps split: option.split intro!: view_andThen)

lemma view_trip_events [view_simps]:
  "see (handleDispatchFailed now i r w) = see w" "see (snd (handleDriverAssigned sd now i d w)) = see w"
  "see (handleTripCreated sd now e w) = see w" "see (serviceDetails i dto w) = see w"
  unfolding handleDispatchFailed_def handleDriverAssigned_def handleTripCreated_def assignDriver_def
    serviceDetails_def createDeliveryDetails_def createRideDetails_def
  by (auto simp: Let_def world_simps view_simps split: option.split intro!: view_andThen)

paragraph \<open>Money and presence\<close>

lemma view_money [view_simps]:
  "see (handleTripCompleted now i w) = see w" "see (snd (applyPaymentSuccess i d a r w)) = see w"
  by (auto simp: handleTripCompleted_def applyPaymentSuccess_def markCommissionPaid_def Let_def world_simps view_simps
      view_update_driver split: option.split)

lemma view_webhook [view_simps]: "see (snd (handleWebhook provider pz now payload w)) = see w"
  by (auto simp: handleWebhook_def Let_def view_simps intro!: trans [OF view_andThen] split: sum.split option.split)

lemma view_payCommission [view_simps]:
  "see (snd (snd (payCommission provider i now u dto (st, w)))) = see w"
proof -
  have "see v = see w" if "applyPaymentSuccess j d a r (update_payment k f (w\<lparr>payments := ps\<rparr>)) = (x, v)" for j d a r k f ps x v
    using that view_money(2) [of j d a r "update_payment k f (w\<lparr>payments := ps\<rparr>)"] by (simp add: view_simps)
  then show ?thesis by (auto simp: payCommission_def Let_def view_simps split: sum.split option.split prod.split)
qed

lemma view_checkPayment [view_simps]:
  "see (snd (snd (checkPaymentStatus provider pz now i u (st, w)))) = see w"
proof -
  have "see v = see w" if "applyPaymentSuccess j d a r (update_payment k f w) = (x, v)" for j d a r k f x v
    using that view_money(2) [of j d a r "update_payment k f w"] by (simp add: view_simps)
  then have "see (snd (snd (poll provider pz now p (st, w)))) = see w" for p
    by (auto simp: poll_def Let_def view_simps split: sum.split option.split prod.split)
  then have "see (snd sw) = see w" if "poll provider pz now p (st, w) = (x, sw)" for p x sw
    using that by (metis snd_conv)
  then show ?thesis by (auto simp: checkPaymentStatus_def split: sum.split option.split prod.split)
qed

lemma view_presence [view_simps]:
  "see (setOnline now dr w) = see w" "see (setOffline dr w) = see w"
  "see (updateDriverLocation now dr x y w) = see w" "see (snd (updatePosition now u dto w)) = see w"
proof -
  show online: "see (setOnline now dr w) = see w" "see (setOffline dr w) = see w" for w
    by (simp_all add: setOnline_def setOffline_def view_simps view_update_driver)
  show location: "see (updateDriverLocation now dr x y w) = see w" for dr x y w
    by (simp add: updateDriverLocation_def view_simps view_update_driver)
  show "see (snd (updatePosition now u dto w)) = see w"
    by (simp add: updatePosition_def Let_def location world_simps view_simps split: option.split)
qed

lemma view_chat [view_simps]: "see (snd (createMessage i now t u r c a w)) = see w"
proof -
  have "see (snd (assertParticipant t u w)) = see w"
    by (simp add: assertParticipant_def split: option.split)
  then show ?thesis
    unfolding createMessage_def Let_def emitTo_ws_send by (auto simp: view_simps intro!: view_andThen)
qed

lemma view_sockets [view_simps]:
  "see (snd (handleConnection lib cfg now sid token (g, w))) = see w"
  "see (snd (snd (on_message lib cfg i now sid call (g, w)))) = see w"
  "see (snd (graceExpired d (g, w))) = see w"
proof -
  have "see (snd (snd (handle_call i now client user call (g, w)))) = see w" for client user g
    by (cases call) (simp_all add: split_beta Let_def world_simps view_simps)
  then show "see (snd (snd (on_message lib cfg i now sid call (g, w)))) = see w"
    by (simp add: on_message_def view_simps split: option.split)
qed (simp_all add: handleConnection_def graceExpired_def Let_def view_simps split: option.split)

lemma view_push [view_simps]: "see (push_listener e w) = see w"
proof -
  have "see (sendToUser u n w) = see w" for u n w
    by (simp add: sendToUser_def view_simps)
  then show ?thesis by (cases e) (simp_all add: notify_driver_def notify_party_def split: option.split)
qed

lemma view_pending [view_simps]: "see (snd (getPendingRequestForDriver now u w)) = see w"
  by (simp add: getPendingRequestForDriver_def view_simps split: option.split)

paragraph \<open>Accounts\<close>

lemma view_online [view_simps]: "see (snd (updateOnlineStatus u b w)) = see w"
  unfolding updateOnlineStatus_def findByUserId_def
  by (rule view_andThen) (auto simp: view_update_driver split: option.splits)

lemma view_user [view_simps]: "see (snd (updateUser i dto w)) = see w"
  unfolding updateUser_def users_findById_def Let_def
  by (rule view_andThen) (auto simp: view_update_user split: option.splits)

lemma view_devices [view_simps]:
  "see (devices_register u t pf w) = see w" "see (devices_unregister t w) = see w"
  by (simp_all add: devices_register_def devices_unregister_def view_simps)

lemma view_tokens [view_simps]:
  "see (snd (issueTokenPair lib cfg i now u ph role rep w)) = see w" "see (snd (refresh lib cfg i now tok w)) = see w"
  "see (logout lib now u tok w) = see w" "see (snd (adminLogin lib cfg i now em pw w)) = see w"
  "see (snd (requestOtp lib fetch sms cfg i n now raw app w)) = see w"
proof -
  show issue: "see (snd (issueTokenPair lib cfg i now u ph role rep w)) = see w" for u ph role rep w
    by (simp add: issueTokenPair_def Let_def view_simps)
  show "see (snd (refresh lib cfg i now tok w)) = see w"
    by (simp add: refresh_def Let_def issue view_simps split: option.split)
  show "see (snd (adminLogin lib cfg i now em pw w)) = see w"
    by (auto simp: adminLogin_def issue intro!: trans [OF view_andThen] split: option.split)
  show "see (snd (requestOtp lib fetch sms cfg i n now raw app w)) = see w"
    by (simp add: requestOtp_def Let_def view_simps split: sum.split option.split SmsOutcome.split)
qed (simp add: logout_def view_simps)

end

text \<open>A view that no event changes is left alone by the completion of a trip too.\<close>

locale deaf_view = world_view +
  assumes any_event: "see (emit e w) = see w"
begin

lemma view_completing [view_simps]:
  "see (emitStatusEvent t u r w) = see w" "see (snd (updateStatus now i u role dto w)) = see w"
  "see (snd (acceptTrip now i u w)) = see w" "see (snd (completeTrip now i u role a w)) = see w"
  "see (handleWsDriverAcceptRequested now i u w) = see w"
proof -
  show emits: "see (emitStatusEvent t u r w) = see w" for t u r w
    by (simp add: emitStatusEvent_def any_event split: TripStatus.split)
  show status: "see (snd (updateStatus now i u role dto w)) = see w" for i u role dto w
    unfolding updateStatus_def by (auto simp: emits view_simps intro!: view_andThen)
  show "see (snd (acceptTrip now i u w)) = see w" by (simp add: acceptTrip_def status)
  show "see (snd (completeTrip now i u role a w)) = see w"
    unfolding completeTrip_def by (auto simp: rows_assertDriver emits view_simps intro!: view_andThen)
  show "see (handleWsDriverAcceptRequested now i u w) = see w"
    by (simp add: handleWsDriverAcceptRequested_def acceptTrip_def status)
qed

lemma view_deliver [view_simps]: "see (deliver env now e w) = see w"
  by (cases e) (simp_all add: view_simps del: push_listener.simps)

end

end
