(* ===== verification/Trip_Charges.thy ===== *)
theory Trip_Charges
  imports World_Views
begin

text \<open>
  Which driver owes how much for which trip, and which completions wait to be charged. The
  commissions charged are a column of the trips; a completion is charged when its event is delivered.
  This theory shows of every operation that it leaves the column alone, that a finished trip stays
  finished, and that a completion is announced only by the step that finishes the trip.
\<close>

section \<open>The column of charges\<close>

definition charge_of :: "Trip \<Rightarrow> (id option \<times> real) option" where
  "charge_of t = map_option (Pair (t_driverId t)) (t_commissionAmount t)"

definition charges :: "world \<Rightarrow> (id option \<times> real) option list" where
  "charges w = map charge_of (trips w)"

text \<open>A row after a step that charges nothing and takes nothing back.\<close>

definition kept :: "Trip \<Rightarrow> Trip \<Rightarrow> bool" where
  "kept t t' \<longleftrightarrow> t_id t' = t_id t \<and> charge_of t' = charge_of t \<and> (t_status t = completed \<longrightarrow> t_status t' = completed)"

definition rows_kept :: "world \<Rightarrow> world \<Rightarrow> bool" where
  "rows_kept w w' \<longleftrightarrow> (\<exists>old new. trips w' = old @ new \<and> list_all2 kept (trips w) old \<and>
     (\<forall>t \<in> set new. t_commissionAmount t = None))"

section \<open>Completions announced\<close>

fun announced :: "DomainEvent list \<Rightarrow> id list" where
  "announced [] = []"
| "announced (TripCompleted i d c price # es) = i # announced es"
| "announced (_ # es) = announced es"

lemma announced_append [simp]: "announced (es @ es') = announced es @ announced es'"
  by (induction es rule: announced.induct) simp_all

lemma announced_quiet [simp]: "\<not> is_completion e \<Longrightarrow> announced (e # es) = announced es"
  by (cases e) simp_all

text \<open>The trips whose completion is on its way to the commissions.\<close>

definition completions :: "world \<Rightarrow> id list" where
  "completions w = announced (bus w)"

interpretation told: world_view completions
  by unfold_locales (simp_all add: completions_def emit_def update_driver_def update_user_def)

lemma completions_driver [view_simps]: "completions (update_driver j f w) = completions w"
  by (simp add: completions_def update_driver_def)

definition finishes :: "id \<Rightarrow> world \<Rightarrow> world \<Rightarrow> bool" where
  "finishes i w w' \<longleftrightarrow> (\<exists>t t'. find_trip i w = Some t \<and> t_status t \<noteq> completed \<and>
     find_trip i w' = Some t' \<and> t_status t' = completed \<and> t_commissionAmount t' = None)"

definition announces :: "world \<Rightarrow> world \<Rightarrow> bool" where
  "announces w w' \<longleftrightarrow> completions w' = completions w \<or>
     (\<exists>i. completions w' = completions w @ [i] \<and> finishes i w w')"

text \<open>Nothing is charged or taken back, new trips are not charged, and who finishes is announced once.\<close>

definition charges_extend :: "world \<Rightarrow> world \<Rightarrow> bool" where
  "charges_extend w w' \<longleftrightarrow> rows_kept w w' \<and> announces w w'"

text \<open>
  What holds of the charges between operations: payments are well formed, and a charged trip is
  finished and has a driver who exists.
\<close>

definition charges_sound :: "world \<Rightarrow> bool" where
  "charges_sound w \<longleftrightarrow> payments_wf w \<and>
     (\<forall>t \<in> set (trips w). t_commissionAmount t \<noteq> None \<longrightarrow>
        t_status t = completed \<and> (\<exists>d. t_driverId t = Some d \<and> find_driver d w \<noteq> None))"

lemma charge_of_None [simp]: "charge_of t = None \<longleftrightarrow> t_commissionAmount t = None"
  by (simp add: charge_of_def)

lemma kept_refl [simp]: "kept t t"
  by (simp add: kept_def)

lemma rows_kept_where:
  assumes "trips w' = update_where p f (trips w)" and "\<And>t. t \<in> set (trips w) \<Longrightarrow> p t \<Longrightarrow> kept t (f t)"
  shows "rows_kept w w'"
proof -
  have "list_all2 kept (trips w) (trips w')"
    using assms(2) by (auto simp: assms(1) update_where_def list_all2_conv_all_nth)
  then show ?thesis unfolding rows_kept_def by (metis append_Nil2 empty_iff empty_set)
qed

lemma charges_where:
  assumes "completions w' = completions w" and "trips w' = update_where p f (trips w)"
    and "\<And>t. t \<in> set (trips w) \<Longrightarrow> p t \<Longrightarrow> kept t (f t)"
  shows "charges_extend w w'"
  unfolding charges_extend_def announces_def using rows_kept_where [OF assms(2,3)] assms(1) by blast

lemma charges_trips: "trips w' = trips w \<Longrightarrow> completions w' = completions w \<Longrightarrow> charges_extend w w'"
  by (rule charges_where [where p = "\<lambda>_. False" and f = id]) (simp_all add: update_where_def)

lemma charges_update:
  assumes "completions w' = completions w" and "trips w' = trips (update_trip now i f w)"
    and "\<And>t. t \<in> set (trips w) \<Longrightarrow> t_id t = i \<Longrightarrow> kept t ((f t)\<lparr>t_updatedAt := now\<rparr>)"
  shows "charges_extend w w'"
  by (rule charges_where [where p = "\<lambda>t. t_id t = i" and f = "\<lambda>t. (f t)\<lparr>t_updatedAt := now\<rparr>"])
    (use assms in \<open>simp_all add: update_frame\<close>)

lemma rows_kept_charges:
  assumes "rows_kept w w'"
  obtains n where "charges w' = charges w @ replicate n None"
proof -
  obtain old new where w': "trips w' = old @ new" "list_all2 kept (trips w) old" and n: "\<forall>t \<in> set new. charge_of t = None"
    using assms unfolding rows_kept_def by auto
  have "map charge_of old = map charge_of (trips w)"
    using w'(2) by (induction rule: list_all2_induct) (simp_all add: kept_def)
  moreover have "map charge_of new = replicate (length new) None" using n by (induction new) simp_all
  ultimately show ?thesis using that [of "length new"] w'(1) by (simp add: charges_def)
qed

text \<open>A charged row of the world after was in the world before, charged as much.\<close>

lemma rows_kept_before:
  assumes "rows_kept w w'" and "t' \<in> set (trips w')" and "t_commissionAmount t' \<noteq> None"
  obtains t where "t \<in> set (trips w)" "kept t t'"
proof -
  obtain old new where w': "trips w' = old @ new" "list_all2 kept (trips w) old" "\<forall>t \<in> set new. t_commissionAmount t = None"
    using assms(1) unfolding rows_kept_def by blast
  then have "t' \<in> set old" using assms(2,3) by auto
  with w'(2) obtain t where "t \<in> set (trips w)" "kept t t'"
    by (auto simp: in_set_conv_nth list_all2_conv_all_nth) (metis nth_mem)
  then show ?thesis by (rule that)
qed

text \<open>A row of the world before is still there.\<close>

lemma rows_kept_find:
  assumes "rows_kept w w'" and "find_trip i w = Some t"
  obtains t' where "find_trip i w' = Some t'" "kept t t'"
proof -
  obtain old new where w': "trips w' = old @ new" "list_all2 kept (trips w) old"
    using assms(1) unfolding rows_kept_def by blast
  have "\<exists>t'. find (\<lambda>t. t_id t = i) old = Some t' \<and> kept t t'"
    using w'(2) assms(2) unfolding find_trip_def
    by (induction rule: list_all2_induct) (auto simp: kept_def split: if_splits)
  then show ?thesis using that w'(1) by (auto simp: find_trip_def find_append)
qed

text \<open>The commissions charged to a driver are a sum over the column.\<close>

lemma charged_to_charges:
  "charged_to i w = (\<Sum>x\<leftarrow>charges w. case x of None \<Rightarrow> 0 | Some (d, c) \<Rightarrow> if d = Some i then c else 0)"
proof -
  have "sum_where (\<lambda>t. t_driverId t = Some i) (\<lambda>t. nullish (t_commissionAmount t) 0) ts =
      (\<Sum>x\<leftarrow>map charge_of ts. case x of None \<Rightarrow> 0 | Some (d, c) \<Rightarrow> if d = Some i then c else 0)" for ts
    by (induction ts) (auto simp: sum_where_def charge_of_def nullish_def split: option.split)
  then show ?thesis by (simp add: charged_to_def charges_def)
qed

lemma charged_to_extend: "charges_extend w w' \<Longrightarrow> charged_to i w' = charged_to i w"
  unfolding charges_extend_def charged_to_charges
  by (metis (no_types, lifting) rows_kept_charges map_append map_replicate sum_list.append sum_list_replicate add.right_neutral
      mult_zero_right option.case(1))

lemma charged_to_nobody:
  assumes "charges_sound w" and "find_driver i w = None"
  shows "charged_to i w = 0"
proof -
  have "t_driverId t \<noteq> Some i \<or> t_commissionAmount t = None" if "t \<in> set (trips w)" for t
    using assms that by (auto simp: charges_sound_def)
  then have "map (\<lambda>t. nullish (t_commissionAmount t) 0) (filter (\<lambda>t. t_driverId t = Some i) (trips w)) =
      map (\<lambda>_. 0) (filter (\<lambda>t. t_driverId t = Some i) (trips w))"
    by (intro map_cong) auto
  from arg_cong [OF this, of sum_list] show ?thesis unfolding charged_to_def sum_where_def by simp
qed

lemma paid_by_nobody:
  assumes "payments_wf w" and "find_driver i w = None"
  shows "paid_by i w = 0"
proof -
  have "filter (\<lambda>p. p_driverId p = i \<and> p_status p = pay_succeeded) (payments w) = []"
    using assms by (auto simp: payments_wf_def filter_empty_conv)
  then show ?thesis by (simp add: paid_by_def sum_where_def)
qed

section \<open>The operations on trips\<close>

lemma announced_status: "completions (emitStatusEvent t u r w) = completions w @ (if t_status t = completed then [t_id t] else [])"
  by (simp add: completions_def emitStatusEvent_def emit_def split: TripStatus.split)

text \<open>A status change of one trip: if the trip is finished by it, it was announced.\<close>

lemma charges_status_change:
  assumes d: "distinct (map t_id (trips w))" and t: "find_trip i w = Some t"
    and row: "t_status t \<noteq> completed" "t_id t' = i" "t_commissionAmount t = None" "t_commissionAmount t' = None"
    and trips: "trips w' = map (\<lambda>x. if t_id x = i then t' else x) (trips w)"
    and events: "completions w' = completions w @ (if t_status t' = completed then [i] else [])"
  shows "charges_extend w w'"
proof -
  have eq: "x = t" if "x \<in> set (trips w)" "t_id x = i" for x
    using find_distinct [of t_id "trips w" x] d t that by (simp add: find_trip_def)
  have "rows_kept w w'"
    by (rule rows_kept_where [where p = "\<lambda>x. t_id x = i" and f = "\<lambda>_. t'"])
      (use eq row in \<open>auto simp: trips update_where_def kept_def charge_of_def\<close>)
  moreover have "find_trip i w' = Some t'"
  proof -
    have "find (\<lambda>x. t_id x = i) xs = Some t \<Longrightarrow> find (\<lambda>x. t_id x = i) (map (\<lambda>x. if t_id x = i then t' else x) xs) = Some t'" for xs
      by (induction xs) (auto simp: row(2) split: if_splits)
    then show ?thesis using t by (simp add: find_trip_def trips)
  qed
  then have "announces w w'" using t row events by (auto simp: announces_def finishes_def)
  ultimately show ?thesis by (simp add: charges_extend_def)
qed

text \<open>What a granted status request announces.\<close>

lemma updateStatus_events:
  assumes d: "distinct (map t_id (trips w))" and t: "find_trip i w = Some t"
    and ok: "canTransition (t_status t) (us_status dto)" "authorised t u role (us_status dto) w"
  shows "completions (snd (updateStatus now i u role dto w)) = completions w @ (if us_status dto = completed then [i] else [])"
proof -
  let ?t' = "(new_row now t u dto w)\<lparr>t_updatedAt := now\<rparr>"
  obtain f w1 where p: "prepareStatus now t u role dto w = (Inr f, w1)"
    and u: "updateStatus now i u role dto w = (Inr ?t',
      broadcastStatusEvent ?t' (us_status dto) (us_cancelReason dto)
        (emitStatusEvent ?t' u (us_cancelReason dto) (update_trip now i f w1)))"
    using updateStatus_done [OF d t ok refl] by blast
  have "completions w1 = completions w" using told.view_prepareStatus [of now t u role dto w] p by simp
  moreover have "t_id ?t' = i" "t_status ?t' = us_status dto"
    using find_trip_id [OF t] by (simp_all add: new_row_def split: TripStatus.split)
  ultimately show ?thesis by (simp add: u announced_status view_simps)
qed

lemma updateStatus_denied:
  assumes "find_trip i w = Some t" and "\<not> (canTransition (t_status t) (us_status dto) \<and> authorised t u role (us_status dto) w)"
  obtains e where "updateStatus now i u role dto w = (Inl e, w)"
  using updateStatus_invalid [OF assms(1)] updateStatus_refused [OF assms(1)] assms(2) that by blast

lemma charges_updateStatus:
  assumes d: "distinct (map t_id (trips w))" and sound: "charges_sound w"
  shows "charges_extend w (snd (updateStatus now i u role dto w))"
proof (cases "find_trip i w")
  case None
  then show ?thesis by (simp add: updateStatus_missing charges_trips)
next
  case (Some t)
  show ?thesis
  proof (cases "canTransition (t_status t) (us_status dto) \<and> authorised t u role (us_status dto) w")
    case False
    with Some obtain e where "updateStatus now i u role dto w = (Inl e, w)" by (rule updateStatus_denied)
    then show ?thesis by (simp add: charges_trips)
  next
    case True
    let ?t' = "(new_row now t u dto w)\<lparr>t_updatedAt := now\<rparr>"
    obtain f w1 where u: "updateStatus now i u role dto w = (Inr ?t',
        broadcastStatusEvent ?t' (us_status dto) (us_cancelReason dto)
          (emitStatusEvent ?t' u (us_cancelReason dto) (update_trip now i f w1)))"
      and tr: "trips (update_trip now i f w1) = map (\<lambda>x. if t_id x = i then ?t' else x) (trips w)"
      using updateStatus_done [OF d Some] True by blast
    have "t_status ?t' = us_status dto" by (simp add: new_row_def split: TripStatus.split)
    then have events: "completions (snd (updateStatus now i u role dto w)) =
        completions w @ (if t_status ?t' = completed then [i] else [])"
      using updateStatus_events [OF d Some] True by simp
    have "t_status t \<noteq> completed" using True by (cases "us_status dto") auto
    moreover from this have "t_commissionAmount t = None" using sound find_trip_id [OF Some] by (auto simp: charges_sound_def)
    moreover have "t_id ?t' = i" "t_commissionAmount ?t' = t_commissionAmount t"
      using find_trip_id [OF Some] by (simp_all add: new_row_def split: TripStatus.split)
    ultimately show ?thesis
      using events by (intro charges_status_change [OF d Some, where t' = ?t'])
        (simp_all add: u tr broadcastStatusEvent_frame emitStatusEvent_frame)
  qed
qed

lemma createTrip_events: "completions (snd (createTrip matrix tz i now client dto w)) = completions w"
proof -
  have "completions (snd (calculatePrice matrix tz now q w)) = completions w" for q
    by (simp add: completions_def calculatePrice_frame)
  then show ?thesis
    unfolding createTrip_def insertWithGeometry_def Let_def split
    by (auto simp: view_simps intro!: told.view_andThen)
qed

lemma charges_createTrip: "charges_extend w (snd (createTrip matrix tz i now client dto w))"
proof -
  have "rows_kept w (snd (createTrip matrix tz i now client dto w))"
    using createTrip_trips [of matrix tz i now client dto w] unfolding rows_kept_def fresh_row_def
    by (elim disjE exE conjE; intro exI [of _ "trips w"] exI; auto intro: list_all2_refl)
  then show ?thesis by (simp add: charges_extend_def announces_def createTrip_events)
qed

lemma charges_repo_update:
  assumes "\<And>t. t_id (f t) = t_id t"
    and "\<And>t. t \<in> set (trips w) \<Longrightarrow> t_id t = i \<Longrightarrow> kept t ((f t)\<lparr>t_updatedAt := now\<rparr>)"
  shows "charges_extend w (snd (repo_update now i f w))"
proof (cases "find_trip i w")
  case None
  then show ?thesis by (simp add: repo_update_cases [OF assms(1)] charges_trips)
next
  case (Some t)
  then show ?thesis
    by (simp add: repo_update_cases [OF assms(1)])
      (rule charges_update [OF told.view_writes(3) refl assms(2)])
qed

lemma charges_andThen:
  assumes "snd m = w" and "\<And>x. m = (Inr x, w) \<Longrightarrow> charges_extend w (snd (k x w))"
  shows "charges_extend w (snd (andThen m k))"
  using assms by (cases m; cases "fst m") (auto simp: andThen_def charges_trips)

lemma charges_confirmPayment: "charges_extend w (snd (confirmPaymentReceived now i u role a w))"
  unfolding confirmPaymentReceived_def markPaymentReceived_def
  by (rule charges_andThen) (auto simp: rows_assertDriver kept_def charge_of_def intro!: charges_repo_update)

lemma completeTrip_refused:
  assumes "\<nexists>t. chargeable i u role w t"
  shows "snd (completeTrip now i u role a w) = w"
proof -
  have "\<exists>e. assertDriverOfRunningTrip x y i u role w = (Inl e, w)" for x y
    using assertDriver_error [of i u role w _ x y] assms by (cases "find_trip i w") blast+
  then obtain e where "assertDriverOfRunningTrip ''Seul un chauffeur peut terminer une course''
       ''Terminaison impossible depuis le statut actuel'' i u role w = (Inl e, w)" by blast
  then show ?thesis by (simp add: completeTrip_def)
qed

lemma charges_completeTrip:
  assumes d: "distinct (map t_id (trips w))" and sound: "charges_sound w"
  shows "charges_extend w (snd (completeTrip now i u role a w))"
proof (cases "\<exists>t. chargeable i u role w t")
  case True
  then obtain t where t: "chargeable i u role w t" by blast
  then have f: "find_trip i w = Some t" "t_status t = in_progress" by (simp_all add: chargeable_def)
  then have "t_commissionAmount t = None" "t_id t = i" using sound find_trip_id [OF f(1)] by (auto simp: charges_sound_def)
  moreover let ?t' = "t\<lparr>t_status := completed, t_completedAt := Some now, t_finalPrice := t_estimatedPrice t,
    t_paymentReceivedAt := Some now, t_paymentReceivedAmount := Some a, t_updatedAt := now\<rparr>"
  have "trips (update_trip now i (\<lambda>t'. t'\<lparr>t_status := completed, t_completedAt := Some now,
      t_finalPrice := t_estimatedPrice t, t_paymentReceivedAt := Some now, t_paymentReceivedAmount := Some a\<rparr>) w) =
      map (\<lambda>x. if t_id x = i then ?t' else x) (trips w)"
    using find_update_row [OF d, of i t] f by (simp add: update_frame find_trip_def)
  ultimately show ?thesis
    unfolding completeTrip_done [OF t refl] using f(2)
    by (intro charges_status_change [OF d f(1), where t' = ?t'])
      (simp_all add: announced_status view_simps broadcastStatusEvent_frame emitStatusEvent_frame)
next
  case False
  then have "snd (completeTrip now i u role a w) = w" by (rule completeTrip_refused)
  then show ?thesis by (simp add: charges_trips)
qed

lemma charges_then:
  "charges_extend w v \<Longrightarrow> trips w' = trips v \<Longrightarrow> completions w' = completions v \<Longrightarrow> charges_extend w w'"
  by (simp add: charges_extend_def rows_kept_def announces_def finishes_def find_trip_def)

lemma charges_confirmDelivery: "charges_extend w (snd (confirmDelivery now i u w))"
proof -
  have "charges_extend w (update_trip now i (\<lambda>t. t\<lparr>t_deliveryConfirmedAt := Some now\<rparr>) w)"
    by (rule charges_update [OF told.view_writes(3) refl]) (simp add: kept_def charge_of_def)
  then show ?thesis
    unfolding confirmDelivery_def
    by (auto simp: getTrip_def Let_def throw_def return_def andThen_def view_simps world_simps split: option.splits
        intro: charges_trips elim: charges_then)
qed

lemma charges_reportDeliveryIssue: "charges_extend w (snd (reportDeliveryIssue now i u r w))"
proof -
  have "charges_extend w (update_trip now i (\<lambda>t. case r of None \<Rightarrow> t | Some _ \<Rightarrow> t\<lparr>t_deliveryIssueReported := r\<rparr>) w)"
    by (rule charges_update [OF told.view_writes(3) refl]) (simp add: kept_def charge_of_def split: option.split)
  then show ?thesis
    unfolding reportDeliveryIssue_def
    by (auto simp: getTrip_def throw_def return_def andThen_def charges_trips split: option.splits)
qed

lemma charges_dispatchFailed: "charges_extend w (handleDispatchFailed now i r w)"
  by (rule charges_where [OF told.view_trip_events(1) dispatchFailed_trips]) (simp add: failed_row_def kept_def charge_of_def)

lemma charges_sweep: "distinct (map t_id (trips w)) \<Longrightarrow> charges_extend w (sweepStaleAssigned now w)"
  by (rule charges_where [OF told.view_timers(3) sweepStaleAssigned_trips])
    (auto simp: stale_assigned_def kept_def charge_of_def)

text \<open>An assignment rewrites driver and status, which matters for a finished trip.\<close>

lemma charges_driverAssigned:
  assumes "\<And>t. find_trip i w = Some t \<Longrightarrow> t_status t \<noteq> completed" and sound: "charges_sound w"
    and d: "distinct (map t_id (trips w))"
  shows "charges_extend w (snd (handleDriverAssigned sd now i dr w))"
proof -
  let ?f = "\<lambda>t. t\<lparr>t_driverId := Some dr, t_status := accepted, t_acceptedAt := Some now\<rparr>"
  have "t_status t \<noteq> completed \<and> t_commissionAmount t = None" if "t \<in> set (trips w)" "t_id t = i" for t
    using assms find_distinct [of t_id "trips w" t] that by (auto simp: find_trip_def charges_sound_def)
  then have a: "charges_extend w (snd (assignDriver now i dr w))"
    unfolding assignDriver_def by (intro charges_repo_update) (auto simp: kept_def charge_of_def)
  have trips: "trips (snd (handleDriverAssigned sd now i dr w)) = trips (snd (assignDriver now i dr w))"
    unfolding handleDriverAssigned_def
    by (cases "assignDriver now i dr w"; cases "fst (assignDriver now i dr w)")
      (auto simp: andThen_def return_def Let_def world_simps split: option.split)
  from a show ?thesis
    by (simp add: charges_extend_def rows_kept_def announces_def trips told.view_trip_events(2))
qed

end
