(* ===== verification/Telima_Runs.thy ===== *)
theory Telima_Runs
  imports Trip_Charges
begin

text \<open>
  The running system: requests, socket messages, delivered events, due timeout jobs and the two
  sweeps in any order. The state has the sockets, the state of the payment provider and the
  tables. What a step may do to a trip and to the books is proved of every step, and so of every
  run.
\<close>

section \<open>What leaves the books alone\<close>

text \<open>The payments stay and no driver disappears.\<close>

definition books_untouched :: "world \<Rightarrow> world \<Rightarrow> bool" where
  "books_untouched w w' \<longleftrightarrow> payments w' = payments w \<and> d_id ` set (drivers w) \<subseteq> d_id ` set (drivers w')"

lemma find_driver_in: "find_driver i w \<noteq> None \<longleftrightarrow> i \<in> d_id ` set (drivers w)"
  by (auto simp: find_driver_def find_None_iff)

lemma payments_wf_kept: "payments_wf w \<Longrightarrow> books_untouched w w' \<Longrightarrow> payments_wf w'"
  unfolding payments_wf_def books_untouched_def find_driver_in by auto

lemma books_same: "payments w' = payments w \<Longrightarrow> drivers w' = drivers w \<Longrightarrow> books_untouched w w'"
  by (simp add: books_untouched_def)

lemma books_update_driver:
  assumes "payments w' = payments w" and "drivers w' = update_where p f (drivers w)" and "\<And>d. d_id (f d) = d_id d"
  shows "books_untouched w w'"
proof -
  have "map d_id (drivers w') = map d_id (drivers w)"
    unfolding assms(2) by (rule map_key_update_where) (simp add: assms(3))
  then have "d_id ` set (drivers w') = d_id ` set (drivers w)" by (metis set_map)
  with assms(1) show ?thesis by (simp add: books_untouched_def)
qed

text \<open>The tables the books are in, and these with the trips and the completions announced.\<close>

definition books :: "world \<Rightarrow> CommissionPayment list \<times> Driver list" where
  "books w = (payments w, drivers w)"

definition tables :: "world \<Rightarrow> Trip list \<times> CommissionPayment list \<times> Driver list \<times> id list" where
  "tables w = (trips w, payments w, drivers w, completions w)"

lemmas tables_defs = books_def tables_def

lemma books_eq: "books w' = books w \<Longrightarrow> books_untouched w w'"
  by (simp add: books_same books_def)

lemmas books_andThen = field_andThen [where g = books]
lemmas tables_andThen = field_andThen [where g = tables]

lemma prepareStatus_books: "books (snd (prepareStatus now t u role dto w)) = books w"
  by (cases "us_status dto") (simp_all add: books_def prepareStatus_def world_simps split: option.split)

lemma repo_update_books: "books (snd (repo_update now i f w)) = books w"
  by (simp add: books_def repo_update_def Let_def world_simps split: option.split)

lemma update_trip_books: "books (update_trip now i f w) = books w"
  by (simp add: books_def world_simps)

lemma status_events_books:
  "books (broadcastStatusEvent t st r w) = books w" "books (emitStatusEvent t u r w) = books w"
  by (simp_all add: books_def world_simps)

lemma updateStatus_books: "books (snd (updateStatus now i u role dto w)) = books w"
  unfolding updateStatus_def
  by (auto simp: prepareStatus_books repo_update_books status_events_books intro!: books_andThen)

lemma createTrip_books: "books (snd (createTrip matrix tz i now client dto w)) = books w"
proof -
  have "books (snd (calculatePrice matrix tz now q w)) = books w" for q
    by (simp add: books_def calculatePrice_frame)
  moreover have "books (serviceDetails i dto (v\<lparr>trips := ts\<rparr>)) = books v" "books (emit e v) = books v" for v ts e
    by (simp_all add: books_def serviceDetails_frame world_simps)
  ultimately show ?thesis
    unfolding createTrip_def insertWithGeometry_def Let_def split by (auto intro!: books_andThen)
qed

lemma completeTrip_books: "books (snd (completeTrip now i u role a w)) = books w"
  unfolding completeTrip_def
  by (auto simp: rows_assertDriver repo_update_books status_events_books intro!: books_andThen)

lemma confirmPayment_books: "books (snd (confirmPaymentReceived now i u role a w)) = books w"
  unfolding confirmPaymentReceived_def markPaymentReceived_def
  by (auto simp: rows_assertDriver repo_update_books intro!: books_andThen)

lemma confirmDelivery_books: "books (snd (confirmDelivery now i u w)) = books w"
  unfolding confirmDelivery_def
  by (rule books_andThen) (simp_all add: books_def Let_def world_simps)

lemma reportDeliveryIssue_books: "books (snd (reportDeliveryIssue now i u r w)) = books w"
  unfolding reportDeliveryIssue_def
  by (rule books_andThen) (simp_all add: update_trip_books)

text \<open>Operations that write neither trips nor books.\<close>

lemma rateTrip_tables: "tables (snd (rateTrip i u role stars tags w)) = tables w"
  unfolding rateTrip_def
  by (rule tables_andThen) (simp_all add: tables_def Let_def createRating_def world_simps view_simps)

lemma raiseSos_tables: "tables (snd (raiseSos now i u role x y m w)) = tables w"
  unfolding raiseSos_def
  by (rule tables_andThen) (simp_all add: tables_def Let_def world_simps view_simps)

lemma declineTrip_tables: "tables (snd (declineTrip sd now i u w)) = tables w"
  unfolding declineTrip_def
  by (rule tables_andThen) (simp_all add: tables_def world_simps view_simps split: option.split)

lemma createMessage_tables: "tables (snd (createMessage i now t u r c a w)) = tables w"
proof -
  have "tables (snd (assertParticipant t u w)) = tables w"
    by (simp add: assertParticipant_def throw_def return_def split: option.split)
  moreover have "tables (emit e (ws_send a b c (v\<lparr>chatMessages := ms\<rparr>))) = tables v" if "\<not> is_completion e" for e a b c v ms
    using that
    by (simp add: tables_def world_simps view_simps)
  ultimately show ?thesis
    unfolding createMessage_def Let_def emitTo_ws_send by (auto intro!: tables_andThen)
qed

lemma pendingRequest_tables: "tables (snd (getPendingRequestForDriver now u w)) = tables w"
  by (simp add: tables_def getPendingRequestForDriver_def world_simps view_simps split: option.split)

lemma processTimeoutJob_tables: "tables (processTimeoutJob sd now j w) = tables w"
  by (simp add: tables_def processTimeoutJob_def cancelDispatchTimeout_def world_simps view_simps)

lemma run_tables: "tables (run sd quiet now w) = tables w"
proof -
  have "tables (recoverTrip sd quiet now t v) = tables v" for t v
    by (simp add: tables_def recoverTrip_def failTrip_def Let_def world_simps view_simps split: option.split)
  then have "tables (fold (recoverTrip sd quiet now) ts v) = tables v" for ts v
    by (induction ts arbitrary: v) simp_all
  then show ?thesis unfolding run_def .
qed

lemma sweepStale_books: "books (sweepStaleAssigned now w) = books w"
proof -
  have "books (cancelStale now t v) = books v" for t v
    by (simp add: books_def cancelStale_def Let_def world_simps split: option.split)
  then have "books (fold (cancelStale now) ts v) = books v" for ts v
    by (induction ts arbitrary: v) simp_all
  then show ?thesis unfolding sweepStaleAssigned_def .
qed

section \<open>Good steps\<close>

text \<open>What every step keeps: the rows follow the machine and the payments stay well formed.\<close>

definition lawful_step :: "world \<Rightarrow> world \<Rightarrow> bool" where
  "lawful_step w w' \<longleftrightarrow> rows_follow w w' \<and> (payments_wf w \<longrightarrow> payments_wf w')"

text \<open>
  What every step keeps but the charging of a trip and its assignment to a driver: nothing is
  charged, and the books of every driver stay as far off as they were; those of a new driver are
  not off at all.
\<close>

definition money_kept :: "world \<Rightarrow> world \<Rightarrow> bool" where
  "money_kept w w' \<longleftrightarrow> (charges_sound w \<longrightarrow> charges_extend w w' \<and>
     (\<forall>i. ledger_gap i w' = ledger_gap i w \<or> ledger_gap i w = None \<and> ledger_gap i w' = Some 0))"

definition good_step :: "world \<Rightarrow> world \<Rightarrow> bool" where
  "good_step w w' \<longleftrightarrow> lawful_step w w' \<and> money_kept w w'"

lemma good_lawful: "good_step w w' \<Longrightarrow> lawful_step w w'"
  by (simp add: good_step_def)

lemma tables_ledger:
  assumes "tables v = tables w"
  shows "ledger_gap i v = ledger_gap i w" and "charges v = charges w" and "charges_sound v = charges_sound w"
    and "payments_wf v = payments_wf w" and "trips v = trips w" and "completions v = completions w"
proof -
  have t: "trips v = trips w" "payments v = payments w" "drivers v = drivers w"
    and "completions v = completions w" using assms by (simp_all add: tables_def)
  then show "completions v = completions w" by simp
  show "ledger_gap i v = ledger_gap i w"
    using t by (simp add: ledger_gap_def find_driver_def paid_by_def charged_to_def)
  show "charges v = charges w" "trips v = trips w" by (simp_all add: t charges_def)
  show "payments_wf v = payments_wf w" "charges_sound v = charges_sound w"
    by (simp_all add: t payments_wf_def charges_sound_def find_driver_def)
qed

lemma ledger_extend: "books w' = books w \<Longrightarrow> charges_extend w w' \<Longrightarrow> ledger_gap i w' = ledger_gap i w"
  by (simp add: ledger_gap_def books_def find_driver_def paid_by_def charged_to_extend)

lemma lawful_rows: "rows_follow w w' \<Longrightarrow> books w' = books w \<Longrightarrow> lawful_step w w'"
  unfolding lawful_step_def using payments_wf_kept [OF _ books_eq] by blast

lemma good_rows:
  "rows_follow w w' \<Longrightarrow> books w' = books w \<Longrightarrow> (charges_sound w \<Longrightarrow> charges_extend w w') \<Longrightarrow> good_step w w'"
  by (simp add: good_step_def lawful_rows money_kept_def ledger_extend)

lemma good_tables:
  assumes d: "distinct (map t_id (trips w))" and "tables w' = tables w"
  shows "good_step w w'"
  using assms(2) by (intro good_rows rows_follow_refl [OF d] charges_trips) (simp_all add: tables_defs)

lemma lawful_drivers:
  assumes d: "distinct (map t_id (trips w))" and "trips w' = trips w" and "books_untouched w w'"
  shows "lawful_step w w'"
  unfolding lawful_step_def using rows_follow_refl [OF d assms(2)] payments_wf_kept [OF _ assms(3)] by blast

lemma good_update_driver:
  assumes d: "distinct (map t_id (trips w))" and "trips w' = trips w" and "payments w' = payments w"
    and "drivers w' = update_where p f (drivers w)" and "\<And>d. d_id (f d) = d_id d \<and> d_commissionDue (f d) = d_commissionDue d"
    and "completions w' = completions w"
  shows "good_step w w'"
proof -
  have "lawful_step w w'"
    by (rule lawful_drivers [OF d assms(2) books_update_driver [OF assms(3,4)]]) (simp add: assms(5))
  moreover have "map_option d_commissionDue (find (\<lambda>d. d_id d = i) (update_where p f ds)) =
      map_option d_commissionDue (find (\<lambda>d. d_id d = i) ds)" for i ds
    by (induction ds) (auto simp: update_where_def assms(5))
  then have "map_option d_commissionDue (find_driver i w') = map_option d_commissionDue (find_driver i w)" for i
    by (simp add: find_driver_def assms(4))
  then have "ledger_gap i w' = ledger_gap i w" for i
    using assms(2,3) by (cases "find_driver i w"; cases "find_driver i w'")
      (auto simp: ledger_gap_def paid_by_def charged_to_def dest!: meta_spec [of _ i])
  ultimately show ?thesis by (simp add: good_step_def money_kept_def charges_trips assms(2) assms(6))
qed

lemma good_new_driver:
  assumes d: "distinct (map t_id (trips w))" and "trips w' = trips w" and "payments w' = payments w"
    and "drivers w' = drivers w @ [dr]" and "d_commissionDue dr = 0"
    and "completions w' = completions w"
  shows "good_step w w'"
proof -
  have "lawful_step w w'"
    using assms(3,4) by (intro lawful_drivers [OF d assms(2)]) (auto simp: books_untouched_def)
  moreover have "ledger_gap i w' = ledger_gap i w \<or> ledger_gap i w = None \<and> ledger_gap i w' = Some 0" if "charges_sound w" for i
  proof (cases "find_driver i w")
    case None
    then have "paid_by i w = 0" "charged_to i w = 0"
      using that charged_to_nobody paid_by_nobody by (simp_all add: charges_sound_def)
    with None show ?thesis
      using assms(2-5) by (simp add: ledger_gap_def find_driver_def find_append paid_by_def charged_to_def)
  next
    case (Some d)
    then have "find_driver i w' = find_driver i w" using assms(4) by (simp add: find_driver_def find_append)
    then show ?thesis using assms(2,3) by (simp add: ledger_gap_def paid_by_def charged_to_def)
  qed
  ultimately show ?thesis by (simp add: good_step_def money_kept_def charges_trips assms(2) assms(6))
qed

lemma good_same_tables:
  assumes "good_step v v'" and "tables v = tables w" and "tables w' = tables v'"
  shows "good_step w w'"
  using assms(1) tables_ledger [OF assms(2)] tables_ledger [OF assms(3)]
  unfolding good_step_def lawful_step_def rows_follow_def money_kept_def charges_extend_def rows_kept_def announces_def
    finishes_def find_trip_def by simp

lemma good_from: "good_step v w' \<Longrightarrow> tables v = tables w \<Longrightarrow> good_step w w'"
  using good_same_tables [of v w' w w'] by simp

lemma good_then: "good_step w v \<Longrightarrow> tables w' = tables v \<Longrightarrow> good_step w w'"
  using good_same_tables [of w v w w'] by simp

lemma lawful_from:
  assumes "lawful_step v w'" and "trips v = trips w" and "payments v = payments w" and "drivers v = drivers w"
  shows "lawful_step w w'"
  using assms by (simp add: lawful_step_def rows_follow_def payments_wf_def find_driver_def)

lemma good_updateStatus:
  assumes d: "distinct (map t_id (trips w))"
  shows "good_step w (snd (updateStatus now i u role dto w))"
  by (intro good_rows rows_updateStatus updateStatus_books charges_updateStatus d)

lemma good_createTrip:
  "distinct (map t_id (trips w)) \<Longrightarrow> i \<notin> t_id ` set (trips w) \<Longrightarrow> good_step w (snd (createTrip matrix tz i now client dto w))"
  by (intro good_rows rows_createTrip createTrip_books charges_createTrip)

lemma good_completeTrip:
  assumes d: "distinct (map t_id (trips w))"
  shows "good_step w (snd (completeTrip now i u role a w))"
  by (intro good_rows rows_completeTrip completeTrip_books charges_completeTrip d)

lemma good_confirmPayment:
  assumes d: "distinct (map t_id (trips w))"
  shows "good_step w (snd (confirmPaymentReceived now i u role a w))"
  by (intro good_rows rows_confirmPayment confirmPayment_books charges_confirmPayment d)

lemma good_confirmDelivery:
  assumes d: "distinct (map t_id (trips w))"
  shows "good_step w (snd (confirmDelivery now i u w))"
  by (intro good_rows rows_confirmDelivery confirmDelivery_books charges_confirmDelivery d)

lemma good_reportDeliveryIssue:
  assumes d: "distinct (map t_id (trips w))"
  shows "good_step w (snd (reportDeliveryIssue now i u r w))"
  by (intro good_rows rows_reportDeliveryIssue reportDeliveryIssue_books charges_reportDeliveryIssue d)

lemma good_sweep:
  assumes d: "distinct (map t_id (trips w))"
  shows "good_step w (sweepStaleAssigned now w)"
  by (intro good_rows rows_sweep sweepStale_books charges_sweep d)

lemma good_dispatchFailed:
  assumes d: "distinct (map t_id (trips w))"
  shows "good_step w (handleDispatchFailed now i r w)"
  by (intro good_rows rows_dispatchFailed charges_dispatchFailed d)
    (simp add: books_def handleDispatchFailed_def Let_def world_simps split: option.split)

lemma driverAssigned_books: "books (snd (handleDriverAssigned sd now i dr w)) = books w"
  unfolding handleDriverAssigned_def
proof (rule books_andThen)
  show "books (snd (assignDriver now i dr w)) = books w" by (simp add: assignDriver_def repo_update_books)
qed (simp add: books_def Let_def world_simps split: option.split)

lemma lawful_driverAssigned:
  assumes d: "distinct (map t_id (trips w))"
  shows "lawful_step w (snd (handleDriverAssigned sd now i dr w))"
  by (intro lawful_rows rows_driverAssigned driverAssigned_books d)

lemma good_driverAssigned:
  assumes d: "distinct (map t_id (trips w))" and "\<And>t. find_trip i w = Some t \<Longrightarrow> t_status t \<noteq> completed"
  shows "good_step w (snd (handleDriverAssigned sd now i dr w))"
  by (intro good_rows rows_driverAssigned driverAssigned_books charges_driverAssigned assms)

lemma lawful_charged:
  assumes d: "distinct (map t_id (trips w))"
  shows "lawful_step w (push_listener e (handleTripCompleted now i w))"
proof -
  have "books_untouched w (push_listener e (handleTripCompleted now i w))"
  proof (cases rule: handleTripCompleted_cases [of now i w])
    case 1
    then show ?thesis by (simp add: books_same world_simps)
  next
    case (2 t dr price vt)
    show ?thesis
      unfolding handleTripCompleted_billable [OF 2]
      by (rule books_update_driver [where f = "booked price (commission_of price (vt_commissionPercentage vt))"])
        (simp_all add: world_simps)
  qed
  moreover have "rows_follow w (push_listener e (handleTripCompleted now i w))"
    by (rule rows_follow_same [OF rows_charged [OF d]]) (simp add: world_simps)
  ultimately show ?thesis unfolding lawful_step_def using payments_wf_kept by blast
qed

text \<open>An assignment that arrives when its trip is finished: it would put the trip back to accepted.\<close>

fun revives :: "DomainEvent \<Rightarrow> world \<Rightarrow> bool" where
  "revives (DriverAssigned i dr) w \<longleftrightarrow> (map_option t_status (find_trip i w) = Some completed)"
| "revives e w \<longleftrightarrow> False"

lemma good_deliver:
  assumes d: "distinct (map t_id (trips w))" and "\<not> is_completion e" and "\<not> revives e w"
  shows "good_step w (deliver env now e w)"
proof -
  have "tables (push_listener e w) = tables w" by (simp add: tables_def world_simps view_simps)
  note quiet = good_tables [OF d this]
  show ?thesis
  proof (cases e)
    case (DriverAssigned i dr)
    then have "t_status t \<noteq> completed" if "find_trip i w = Some t" for t
      using assms(3) that by simp
    then show ?thesis using DriverAssigned by (simp add: good_driverAssigned [OF d])
  qed (use quiet assms(2) in \<open>auto simp: good_dispatchFailed [OF d] handleWsDriverAcceptRequested_def
        good_updateStatus [OF d] handleTripCreated_def tables_def world_simps view_simps intro!: good_tables [OF d]\<close>)
qed

lemma lawful_deliver:
  assumes d: "distinct (map t_id (trips w))"
  shows "lawful_step w (deliver env now e w)"
proof (cases "is_completion e \<or> revives e w")
  case True
  then show ?thesis
    by (cases e) (simp_all add: lawful_charged [OF d] lawful_driverAssigned [OF d] del: push_listener.simps)
next
  case False
  then show ?thesis by (simp add: good_lawful good_deliver [OF d])
qed

section \<open>Payments and sockets\<close>

lemma applyPaymentSuccess_trips: "trips (snd (applyPaymentSuccess i d a r w)) = trips w"
  by (auto simp: applyPaymentSuccess_def markCommissionPaid_def Let_def world_simps)

lemma handleWebhook_trips: "trips (snd (handleWebhook provider pz now payload w)) = trips w"
  by (auto simp: handleWebhook_def Let_def applyPaymentSuccess_trips world_simps
      intro!: trans [OF field_andThen [where g = trips]] split: sum.split option.split)

lemma payCommission_trips: "trips (snd (snd (payCommission provider i now u dto (st, w)))) = trips w"
proof -
  have "trips v = trips (update_payment j f w)" if "applyPaymentSuccess i d a r (update_payment j f w) = (x, v)" for j f d a r x v w
    using that applyPaymentSuccess_trips by (metis snd_conv)
  then show ?thesis
    by (auto simp: payCommission_def Let_def world_simps split: sum.split option.split prod.split)
qed

lemma checkPaymentStatus_trips: "trips (snd (snd (checkPaymentStatus provider pz now i u (st, w)))) = trips w"
proof -
  have "trips (snd (snd (poll provider pz now p (st, w)))) = trips w" for p
    using applyPaymentSuccess_trips
    by (auto simp: poll_def Let_def world_simps split: sum.split option.split prod.split) (metis snd_conv update_payment_frame(3))+
  then have "trips (snd sw) = trips w" if "poll provider pz now p (st, w) = (x, sw)" for p x sw
    using that by (metis snd_conv)
  then show ?thesis
    by (auto simp: checkPaymentStatus_def split: sum.split option.split prod.split)
qed

lemma good_books:
  assumes "distinct (map t_id (trips w))" and "trips w' = trips w" and "payments_wf w \<Longrightarrow> books_kept w w'"
    and "completions w' = completions w"
  shows "good_step w w'"
  unfolding good_step_def lawful_step_def money_kept_def
  using rows_follow_refl [OF assms(1,2)] charges_trips [OF assms(2,4)] assms(3) by (simp add: books_kept_def charges_sound_def)

lemma good_payCommission:
  "distinct (map t_id (trips w)) \<Longrightarrow> i \<notin> p_id ` set (payments w) \<Longrightarrow>
   good_step w (snd (snd (payCommission provider i now u dto (st, w))))"
  by (rule good_books) (simp_all add: payCommission_trips payCommission_books view_simps)

lemma good_webhook:
  "distinct (map t_id (trips w)) \<Longrightarrow> good_step w (snd (handleWebhook provider pz now payload w))"
  by (rule good_books) (simp_all add: handleWebhook_trips handleWebhook_books view_simps)

lemma good_checkPayment:
  "distinct (map t_id (trips w)) \<Longrightarrow>
   good_step w (snd (snd (checkPaymentStatus provider pz now i u (st, w))))"
  by (rule good_books) (simp_all add: checkPaymentStatus_trips checkPaymentStatus_books view_simps)

lemma good_heartbeat: "distinct (map t_id (trips w)) \<Longrightarrow> good_step w (heartbeat now dr w)"
  by (rule good_tables) (simp_all add: heartbeat_def tables_def view_simps)

lemma good_presence:
  assumes d: "distinct (map t_id (trips w))"
  shows "good_step w (setOnline now dr w)" and "good_step w (setOffline dr w)"
    and "good_step w (updateDriverLocation now dr x y (heartbeat now dr w))"
proof -
  show "good_step w (setOnline now dr w)"
    by (rule good_update_driver [OF d, where f = "\<lambda>d. d\<lparr>d_isOnline := True\<rparr>"]) (simp_all add: setOnline_def world_simps view_simps)
  show "good_step w (setOffline dr w)"
    by (rule good_update_driver [OF d, where f = "\<lambda>d. d\<lparr>d_isOnline := False\<rparr>"]) (simp_all add: setOffline_def world_simps view_simps)
  show "good_step w (updateDriverLocation now dr x y (heartbeat now dr w))"
    by (rule good_update_driver [OF d, where f = "\<lambda>d. d\<lparr>d_currentLocation := Some \<lparr>lat = x, lng = y\<rparr>, d_lastLocationAt := Some now\<rparr>"])
      (simp_all add: updateDriverLocation_def heartbeat_def world_simps view_simps)
qed

lemma good_handle_call:
  assumes d: "distinct (map t_id (trips w))"
  shows "good_step w (snd (snd (handle_call i now client user call (g, w))))"
proof (cases call)
  case (CallDriverPosition dr t x y h)
  show ?thesis
    unfolding CallDriverPosition
    by (rule good_then [OF good_presence(3) [OF d, of now dr x y]]) (simp add: Let_def tables_def world_simps view_simps)
next
  case (CallDeliveryClientConfirmed t)
  then show ?thesis using good_confirmDelivery [OF d, of now t "sub user"] by (simp add: split_beta)
next
  case (CallDeliveryIssueReported t r)
  then show ?thesis using good_reportDeliveryIssue [OF d, of now t "sub user" r] by (simp add: split_beta)
next
  case (CallMessageSend t c a)
  then show ?thesis by (simp add: Let_def split_beta good_tables [OF d] createMessage_tables)
qed (simp_all add: good_presence [OF d] good_heartbeat [OF d] good_tables [OF d] tables_def world_simps view_simps)

lemma good_on_message:
  assumes d: "distinct (map t_id (trips w))"
  shows "good_step w (snd (snd (on_message lib cfg i now sid call (g, w))))"
  unfolding on_message_def by (simp add: good_handle_call [OF d] good_tables [OF d] split: option.split)

lemma good_connection:
  assumes d: "distinct (map t_id (trips w))"
  shows "good_step w (snd (handleConnection lib cfg now sid token (g, w)))"
  unfolding handleConnection_def Let_def
  by (simp add: good_presence [OF d] good_tables [OF d] split: option.split)

lemma good_updatePosition:
  assumes d: "distinct (map t_id (trips w))"
  shows "good_step w (snd (updatePosition now u dto w))"
proof (cases "findDriverByUserId u w")
  case (Some dr)
  show ?thesis
    by (rule good_then [OF good_presence(3) [OF d, of now "d_id dr" "up_lat dto" "up_lng dto"]])
      (simp add: updatePosition_def Some Let_def tables_def world_simps view_simps)
qed (simp add: updatePosition_def good_tables [OF d])

lemma good_accounts:
  assumes d: "distinct (map t_id (trips w))"
  shows "good_step w (snd (updateOnlineStatus u b w))" and "good_step w (snd (validate_driver now j w))"
    and "good_step w (snd (suspend now j r w))" and "good_step w (snd (register k now u rdto w))"
proof -
  have u: "good_step w (update_driver j f w)" if "\<And>d. d_id (f d) = d_id d \<and> d_commissionDue (f d) = d_commissionDue d" for j f
    by (rule good_update_driver [OF d, where f = f]) (simp_all add: world_simps view_simps that)
  show "good_step w (snd (updateOnlineStatus u b w))"
    by (simp add: updateOnlineStatus_def findByUserId_def u good_tables [OF d] split: option.split)
  show "good_step w (snd (validate_driver now j w))"
    by (simp add: validate_driver_def drivers_findById_def u validated_driver_def good_tables [OF d] split: option.split)
  show "good_step w (snd (suspend now j r w))"
    by (simp add: suspend_def drivers_findById_def u suspended_driver_def good_tables [OF d] split: option.split)
  show "good_step w (snd (register k now u rdto w))"
    by (auto simp: register_def update_user_def Let_def new_driver_def completions_def good_tables [OF d] intro!: good_new_driver [OF d])
qed

end
