(* ===== verification/Catalog.thy ===== *)
theory Catalog
  imports Telima_Runs
begin

text \<open>
  The catalog as a view of the tables: vehicle types, zones, pricing rules and the surge cache over
  them, with the status of the drivers and the roles of the users. Only the dashboard changes them,
  but for the cache and for a registration; the step relation of the system shows it.
\<close>

definition catalog ::
  "world \<Rightarrow> VehicleType list \<times> ServiceZone list \<times> PricingRuleRow list \<times> PricingCache option \<times>
     (id \<times> DriverStatus) list \<times> (id \<times> UserRole) list" where
  "catalog w = (vehicleTypes w, serviceZones w, pricingRules w, pricingCache w,
     map (\<lambda>d. (d_id d, d_status d)) (drivers w), map (\<lambda>u. (u_id u, u_role u)) (users w))"

text \<open>No event and no write of the other tables changes it.\<close>

interpretation cat: deaf_view catalog
  by unfold_locales
    (simp_all add: catalog_def emit_def update_driver_def update_user_def
      map_update_same [where k = "\<lambda>d. (d_id d, d_status d)"] map_update_same [where k = "\<lambda>u. (u_id u, u_role u)"])

lemma catalog_bus [view_simps]: "catalog (w\<lparr>bus := n\<rparr>) = catalog w"
  by (simp add: catalog_def)

end
