(* ===== verification/Admin_Pricing.thy ===== *)
theory Admin_Pricing
  imports Pricing
begin

text \<open>
  The dashboard's editing of zones, pricing rules and platform settings
  (\<open>admin-pricing.controller.ts\<close>, \<open>admin-settings.controller.ts\<close>). Every change of a zone or a rule
  empties the cache of \<open>DynamicPricingService\<close>; a change that fails does not. A rule keeps existing
  when the zone or vehicle type it points to goes: the schema sets the column to null.
\<close>

section \<open>Zones\<close>

record CreateZoneDto =
  cz_name :: string
  cz_city :: string
  cz_centerLat :: real
  cz_centerLng :: real
  cz_radiusKm :: real
  cz_surgeMultiplier :: "real option"
  cz_isActive :: "bool option"

record UpdateZoneDto =
  uz_name :: "string option"
  uz_city :: "string option"
  uz_centerLat :: "real option"
  uz_centerLng :: "real option"
  uz_radiusKm :: "real option"
  uz_surgeMultiplier :: "real option"
  uz_isActive :: "bool option"

definition find_zone :: "id \<Rightarrow> world \<Rightarrow> ServiceZone option" where
  "find_zone i w = find (\<lambda>z. z_id z = i) (serviceZones w)"

definition listZones :: "world \<Rightarrow> ServiceZone list" where
  "listZones w = sort_key z_createdAt (serviceZones w)"

definition createZone :: "id \<Rightarrow> time \<Rightarrow> CreateZoneDto \<Rightarrow> world \<Rightarrow> (ServiceZone, world) outcome" where
  "createZone newId now dto w =
     (let zone = \<lparr>z_id = newId, z_name = cz_name dto, z_city = cz_city dto, z_centerLat = cz_centerLat dto,
                  z_centerLng = cz_centerLng dto, z_radiusKm = cz_radiusKm dto,
                  z_surgeMultiplier = nullish (cz_surgeMultiplier dto) 1,
                  z_isActive = nullish (cz_isActive dto) True, z_createdAt = now\<rparr>
      in return zone (invalidateCache (w\<lparr>serviceZones := serviceZones w @ [zone]\<rparr>)))"

definition edited_zone :: "UpdateZoneDto \<Rightarrow> ServiceZone \<Rightarrow> ServiceZone" where
  "edited_zone dto z = z\<lparr>z_name := nullish (uz_name dto) (z_name z), z_city := nullish (uz_city dto) (z_city z),
     z_centerLat := nullish (uz_centerLat dto) (z_centerLat z), z_centerLng := nullish (uz_centerLng dto) (z_centerLng z),
     z_radiusKm := nullish (uz_radiusKm dto) (z_radiusKm z),
     z_surgeMultiplier := nullish (uz_surgeMultiplier dto) (z_surgeMultiplier z),
     z_isActive := nullish (uz_isActive dto) (z_isActive z)\<rparr>"

definition updateZone :: "id \<Rightarrow> UpdateZoneDto \<Rightarrow> world \<Rightarrow> (ServiceZone, world) outcome" where
  "updateZone i dto w =
     (case find_zone i w of
        None \<Rightarrow> throw (InternalError ''Record to update not found'') w
      | Some z \<Rightarrow> return (edited_zone dto z)
          (invalidateCache (w\<lparr>serviceZones := update_where (\<lambda>z. z_id z = i) (edited_zone dto) (serviceZones w)\<rparr>)))"

definition deleteZone :: "id \<Rightarrow> world \<Rightarrow> (unit, world) outcome" where
  "deleteZone i w =
     (case find_zone i w of
        None \<Rightarrow> throw (InternalError ''Record to delete does not exist'') w
      | Some _ \<Rightarrow> return ()
          (invalidateCache (w\<lparr>serviceZones := delete_where (\<lambda>z. z_id z = i) (serviceZones w),
             pricingRules := update_where (\<lambda>r. pr_zoneId r = Some i) (\<lambda>r. r\<lparr>pr_zoneId := None\<rparr>) (pricingRules w)\<rparr>)))"

section \<open>Pricing rules\<close>

record CreatePricingRuleDto =
  cp_name :: string
  cp_serviceType :: "ServiceType option"
  cp_vehicleTypeId :: "id option"
  cp_zoneId :: "id option"
  cp_condition :: DynamicCondition
  cp_modifier :: real
  cp_priority :: "int option"
  cp_isActive :: "bool option"

text \<open>
  In a column that may be empty a \<open>null\<close> of the body, which clears it, is kept apart from a member
  that is left out: \<open>Some None\<close> and \<open>None\<close>.
\<close>

record UpdatePricingRuleDto =
  up_name :: "string option"
  up_serviceType :: "ServiceType option option"
  up_vehicleTypeId :: "id option option"
  up_zoneId :: "id option option"
  up_condition :: "DynamicCondition option"
  up_modifier :: "real option"
  up_priority :: "int option"
  up_isActive :: "bool option"

text \<open>The foreign keys of a rule: what it names has to exist.\<close>

definition known_refs :: "id option \<Rightarrow> id option \<Rightarrow> world \<Rightarrow> bool" where
  "known_refs vehicleTypeId zoneId w \<longleftrightarrow>
     (case vehicleTypeId of None \<Rightarrow> True | Some v \<Rightarrow> find_vehicleType v w \<noteq> None) \<and>
     (case zoneId of None \<Rightarrow> True | Some z \<Rightarrow> find_zone z w \<noteq> None)"

definition listPricingRules :: "world \<Rightarrow> (PricingRuleRow \<times> (id \<times> string) option) list" where
  "listPricingRules w =
     map (\<lambda>r. (r, Option.bind (pr_zoneId r) (\<lambda>i. map_option (\<lambda>z. (z_id z, z_name z)) (find_zone i w))))
       (sort_key pr_priority (pricingRules w))"

definition createPricingRule :: "id \<Rightarrow> CreatePricingRuleDto \<Rightarrow> world \<Rightarrow> (PricingRuleRow, world) outcome" where
  "createPricingRule newId dto w =
     (let rule = \<lparr>pr_id = newId, pr_name = cp_name dto, pr_serviceType = cp_serviceType dto,
                  pr_vehicleTypeId = cp_vehicleTypeId dto, pr_zoneId = cp_zoneId dto, pr_condition = cp_condition dto,
                  pr_modifier = cp_modifier dto, pr_priority = nullish (cp_priority dto) 100,
                  pr_isActive = nullish (cp_isActive dto) True\<rparr>
      in if \<not> known_refs (cp_vehicleTypeId dto) (cp_zoneId dto) w
         then throw (InternalError ''Foreign key constraint failed'') w
         else return rule (invalidateCache (w\<lparr>pricingRules := pricingRules w @ [rule]\<rparr>)))"

definition edited_rule :: "UpdatePricingRuleDto \<Rightarrow> PricingRuleRow \<Rightarrow> PricingRuleRow" where
  "edited_rule dto r = r\<lparr>pr_name := nullish (up_name dto) (pr_name r),
     pr_serviceType := nullish (up_serviceType dto) (pr_serviceType r),
     pr_vehicleTypeId := nullish (up_vehicleTypeId dto) (pr_vehicleTypeId r),
     pr_zoneId := nullish (up_zoneId dto) (pr_zoneId r),
     pr_condition := nullish (up_condition dto) (pr_condition r), pr_modifier := nullish (up_modifier dto) (pr_modifier r),
     pr_priority := nullish (up_priority dto) (pr_priority r), pr_isActive := nullish (up_isActive dto) (pr_isActive r)\<rparr>"

definition find_rule :: "id \<Rightarrow> world \<Rightarrow> PricingRuleRow option" where
  "find_rule i w = find (\<lambda>r. pr_id r = i) (pricingRules w)"

definition updatePricingRule :: "id \<Rightarrow> UpdatePricingRuleDto \<Rightarrow> world \<Rightarrow> (PricingRuleRow, world) outcome" where
  "updatePricingRule i dto w =
     (case find_rule i w of
        None \<Rightarrow> throw (InternalError ''Record to update not found'') w
      | Some r \<Rightarrow>
          if \<not> known_refs (nullish (up_vehicleTypeId dto) None) (nullish (up_zoneId dto) None) w
          then throw (InternalError ''Foreign key constraint failed'') w
          else return (edited_rule dto r)
            (invalidateCache (w\<lparr>pricingRules := update_where (\<lambda>r. pr_id r = i) (edited_rule dto) (pricingRules w)\<rparr>)))"

definition deletePricingRule :: "id \<Rightarrow> world \<Rightarrow> (unit, world) outcome" where
  "deletePricingRule i w =
     (case find_rule i w of
        None \<Rightarrow> throw (InternalError ''Record to delete does not exist'') w
      | Some _ \<Rightarrow> return () (invalidateCache (w\<lparr>pricingRules := delete_where (\<lambda>r. pr_id r = i) (pricingRules w)\<rparr>)))"

section \<open>Platform settings\<close>

text \<open>A table of one row, created on the first access; nothing else reads it.\<close>

record PlatformSettings =
  ps_platformName :: string
  ps_contactEmail :: "string option"
  ps_supportPhone :: "string option"
  ps_currency :: string
  ps_freeCancellationMin :: int
  ps_driverSearchRadiusKm :: real

record SettingsBody =
  sb_platformName :: "string option"
  sb_contactEmail :: "string option"
  sb_supportPhone :: "string option"
  sb_currency :: "string option"
  sb_freeCancellationMin :: "int option"
  sb_driverSearchRadiusKm :: "real option"

definition default_settings :: PlatformSettings where
  "default_settings = \<lparr>ps_platformName = ''Telima'', ps_contactEmail = None, ps_supportPhone = None,
     ps_currency = ''FCFA'', ps_freeCancellationMin = 5, ps_driverSearchRadiusKm = 3\<rparr>"

definition getSettings :: "PlatformSettings option \<Rightarrow> PlatformSettings \<times> PlatformSettings option" where
  "getSettings row = (let s = nullish row default_settings in (s, Some s))"

definition updateSettings :: "SettingsBody \<Rightarrow> PlatformSettings option \<Rightarrow> PlatformSettings \<times> PlatformSettings option" where
  "updateSettings body row =
     (let s = nullish row default_settings;
          s' = s\<lparr>ps_platformName := nullish (sb_platformName body) (ps_platformName s),
                 ps_contactEmail := (if sb_contactEmail body = None then ps_contactEmail s else sb_contactEmail body),
                 ps_supportPhone := (if sb_supportPhone body = None then ps_supportPhone s else sb_supportPhone body),
                 ps_currency := nullish (sb_currency body) (ps_currency s),
                 ps_freeCancellationMin := nullish (sb_freeCancellationMin body) (ps_freeCancellationMin s),
                 ps_driverSearchRadiusKm := nullish (sb_driverSearchRadiusKm body) (ps_driverSearchRadiusKm s)\<rparr>
      in (s', Some s'))"

section \<open>What a rule's zone is good for\<close>

lemma zone_column_sorted:
  "sort_key pr_priority (map (\<lambda>r. r\<lparr>pr_zoneId := g r\<rparr>) rs) = map (\<lambda>r. r\<lparr>pr_zoneId := g r\<rparr>) (sort_key pr_priority rs)"
proof -
  have "insort_key pr_priority (r\<lparr>pr_zoneId := g r\<rparr>) (map (\<lambda>r. r\<lparr>pr_zoneId := g r\<rparr>) xs) =
      map (\<lambda>r. r\<lparr>pr_zoneId := g r\<rparr>) (insort_key pr_priority r xs)" for r xs
    by (induction xs) simp_all
  then show ?thesis by (induction rs) simp_all
qed

text \<open>The factor of a list of rules does not look at the zone column.\<close>

lemma surge_zone_column:
  "fst (getSurgeMultiplier tz now cx (invalidateCache (w\<lparr>pricingRules := map (\<lambda>r. r\<lparr>pr_zoneId := g r\<rparr>) (pricingRules w)\<rparr>))) =
   fst (getSurgeMultiplier tz now cx (invalidateCache w))"
proof -
  let ?w = "w\<lparr>pricingRules := map (\<lambda>r. r\<lparr>pr_zoneId := g r\<rparr>) (pricingRules w)\<rparr>"
  define strip :: "RuleEntry \<Rightarrow> RuleEntry" where "strip = (\<lambda>e. e\<lparr>re_zoneId := None\<rparr>)"
  have m: "rule_matches tz cx z (strip e) = rule_matches tz cx z e" "re_modifier (strip e) = re_modifier e" for z e
    by (simp_all add: strip_def rule_matches_def)
  have fold: "foldl (\<lambda>m e. if rule_matches tz cx z e then m * re_modifier e else m) x (map strip es) =
      foldl (\<lambda>m e. if rule_matches tz cx z e then m * re_modifier e else m) x es" for z x es
    by (induction es arbitrary: x) (simp_all add: m)
  have filter: "filter pr_isActive (map (\<lambda>r. r\<lparr>pr_zoneId := g r\<rparr>) rs) = map (\<lambda>r. r\<lparr>pr_zoneId := g r\<rparr>) (filter pr_isActive rs)" for rs
    by (induction rs) simp_all
  have zones: "active_zones ?w = active_zones w" and rules: "map strip (active_rules ?w) = map strip (active_rules w)"
    by (simp_all add: active_zones_def active_rules_def loadData_def invalidateCache_def Let_def filter zone_column_sorted strip_def)
  have "fst (getSurgeMultiplier tz now cx (invalidateCache v)) =
      (let zone = find (isWithinRadius (lat (cx_pickup cx)) (lng (cx_pickup cx))) (active_zones v)
       in Math_round (foldl (\<lambda>m e. if rule_matches tz cx (map_option ze_id zone) e then m * re_modifier e else m)
            (case zone of None \<Rightarrow> 1 | Some z \<Rightarrow> 1 * ze_surgeMultiplier z) (map strip (active_rules v)) * 100) / 100)" for v
    using loadData_uncached [of now v]
    by (cases "loadData now (invalidateCache v)") (simp add: getSurgeMultiplier_def Let_def fold)
  then show ?thesis by (simp only: zones rules)
qed

lemma surge_same_but_zone:
  assumes "map (\<lambda>r. r\<lparr>pr_zoneId := None\<rparr>) (pricingRules v) = map (\<lambda>r. r\<lparr>pr_zoneId := None\<rparr>) (pricingRules w)"
    and "serviceZones v = serviceZones w"
  shows "fst (getSurgeMultiplier tz now cx (invalidateCache v)) = fst (getSurgeMultiplier tz now cx (invalidateCache w))"
proof -
  have "fst (getSurgeMultiplier tz now cx (invalidateCache (v\<lparr>pricingRules := rs\<rparr>))) =
      fst (getSurgeMultiplier tz now cx (invalidateCache (w\<lparr>pricingRules := rs\<rparr>)))" for rs
    by (simp add: getSurgeMultiplier_def loadData_def invalidateCache_def Let_def assms(2))
  then show ?thesis
    by (metis surge_zone_column [where g = "\<lambda>_. None"] assms(1))
qed

text \<open>
  C14. The zone a pricing rule is created for has no effect: the rule with a zone and the same rule
  without one give every trip the same surge factor, wherever it starts and whenever it is asked
  for. And deleting the zone leaves the rule in force. Only a condition of type \<open>zone\<close> looks at the
  place.
\<close>

theorem rule_zone_has_no_effect:
  assumes "createPricingRule i (dto\<lparr>cp_zoneId := Some z\<rparr>) w = (Inr r, v)"
    and "createPricingRule i (dto\<lparr>cp_zoneId := None\<rparr>) w = (Inr r', v')"
  shows "pr_zoneId r = Some z \<and>
    (\<forall>tz now cx. fst (getSurgeMultiplier tz now cx v) = fst (getSurgeMultiplier tz now cx v')) \<and>
    (\<forall>u. deleteZone z v = (Inr (), u) \<longrightarrow> r\<lparr>pr_zoneId := None\<rparr> \<in> set (pricingRules u))"
proof -
  have r: "r = r'\<lparr>pr_zoneId := Some z\<rparr>" "pr_zoneId r' = None"
    and v: "v = invalidateCache (w\<lparr>pricingRules := pricingRules w @ [r]\<rparr>)"
    and v': "v' = invalidateCache (w\<lparr>pricingRules := pricingRules w @ [r']\<rparr>)"
    using assms by (auto simp: createPricingRule_def Let_def split: if_splits)
  have "fst (getSurgeMultiplier tz now cx v) = fst (getSurgeMultiplier tz now cx v')" for tz now cx
    unfolding v v' by (rule surge_same_but_zone) (simp_all add: r)
  moreover have "r\<lparr>pr_zoneId := None\<rparr> \<in> set (pricingRules u)" if "deleteZone z v = (Inr (), u)" for u
    using that r by (auto simp: deleteZone_def v invalidateCache_def update_where_simps split: option.splits)
  ultimately show ?thesis using r(1) by simp
qed

abbreviation "night_rule \<equiv> \<lparr>cp_name = ''night'', cp_serviceType = None, cp_vehicleTypeId = None, cp_zoneId = Some ''centre'',
  cp_condition = JTimeRange (Some ''20:00'') (Some ''23:00''), cp_modifier = 2, cp_priority = None, cp_isActive = None\<rparr>"

definition zoned_world :: world where
  "zoned_world = empty_world\<lparr>serviceZones := [\<lparr>z_id = ''centre'', z_name = ''Centre'', z_city = ''Bamako'',
     z_centerLat = 12, z_centerLng = -8, z_radiusKm = 5, z_surgeMultiplier = 1, z_isActive = True, z_createdAt = 0\<rparr>]\<rparr>"

theorem rule_zone_has_no_effect_witness:
  "\<exists>r v. createPricingRule ''r1'' night_rule zoned_world = (Inr r, v) \<and> pr_zoneId r = Some ''centre'' \<and>
     fst (getSurgeMultiplier (\<lambda>_. 0) 0 sample_context v) =
     fst (getSurgeMultiplier (\<lambda>_. 0) 0 sample_context (snd (createPricingRule ''r1'' (night_rule\<lparr>cp_zoneId := None\<rparr>) zoned_world)))"
proof -
  have 1: "\<exists>r v. createPricingRule ''r1'' (night_rule\<lparr>cp_zoneId := Some ''centre''\<rparr>) zoned_world = (Inr r, v)"
    and 2: "\<exists>r v. createPricingRule ''r1'' (night_rule\<lparr>cp_zoneId := None\<rparr>) zoned_world = (Inr r, v)"
    by (simp_all add: createPricingRule_def Let_def known_refs_def find_zone_def zoned_world_def return_def)
  obtain r v r' v' where r: "createPricingRule ''r1'' (night_rule\<lparr>cp_zoneId := Some ''centre''\<rparr>) zoned_world = (Inr r, v)"
    and r': "createPricingRule ''r1'' (night_rule\<lparr>cp_zoneId := None\<rparr>) zoned_world = (Inr r', v')"
    using 1 2 by blast
  from rule_zone_has_no_effect [OF r r'] r r' show ?thesis by auto
qed

end
