(* ===== verification/Admin_Reports.thy ===== *)
theory Admin_Reports
  imports Payments Accounts Auth "HOL-Library.Sublist"
begin

text \<open>
  The dashboard's queries and its administration of users (\<open>admin-users-trips.controller.ts\<close>,
  \<open>admin-stats.controller.ts\<close>). Page numbers are the parsed integers; a missing one is \<open>None\<close>. The
  related rows a query includes exist by the foreign keys; where one is missing the name is empty.
\<close>

section \<open>Pages, names and searching\<close>

record 'a AdminPage =
  ap_data :: "'a list"
  ap_total :: nat
  ap_page :: int
  ap_limit :: int
  ap_totalPages :: real

definition admin_page ::
  "('r \<Rightarrow> 'k :: {linorder, uminus}) \<Rightarrow> ('r \<Rightarrow> bool) \<Rightarrow> ('r \<Rightarrow> 'a) \<Rightarrow> int option \<Rightarrow> int option \<Rightarrow> 'r list \<Rightarrow> http_error + 'a AdminPage" where
  "admin_page k p view page limit rows =
     (let pg = nullish page 1; l = nullish limit 20; skip = (pg - 1) * l
      in case find_many_page k p skip l rows of
           Inl e \<Rightarrow> Inl e
         | Inr (found, n) \<Rightarrow>
             Inr \<lparr>ap_data = map view found, ap_total = n, ap_page = pg, ap_limit = l,
                  ap_totalPages = Math_ceil (real n / real_of_int l)\<rparr>)"

definition joined_names :: "User \<Rightarrow> string" where
  "joined_names u =
     (let parts = filter (\<lambda>s. s \<noteq> []) (map (\<lambda>n. nullish n []) [u_firstName u, u_lastName u])
      in concat (case parts of [] \<Rightarrow> [] | p # ps \<Rightarrow> p # map (\<lambda>s. '' '' @ s) ps))"

definition display_name :: "User \<Rightarrow> string" where
  "display_name u = (if joined_names u = [] then u_phone u else joined_names u)"

definition lower_char :: "char \<Rightarrow> char" where
  "lower_char c = (let n = of_char c :: nat in if 65 \<le> n \<and> n \<le> 90 then char_of (n + 32) else c)"

text \<open>\<open>contains\<close>, with and without \<open>mode: 'insensitive'\<close>; a null column contains nothing.\<close>

definition contains :: "string \<Rightarrow> string option \<Rightarrow> bool" where
  "contains needle column = (case column of None \<Rightarrow> False | Some s \<Rightarrow> sublist needle s)"

definition contains_insensitive :: "string \<Rightarrow> string option \<Rightarrow> bool" where
  "contains_insensitive needle column = contains (map lower_char needle) (map_option (map lower_char) column)"

section \<open>Users\<close>

definition user_matches :: "UserRole option \<Rightarrow> string option \<Rightarrow> User \<Rightarrow> bool" where
  "user_matches role search u \<longleftrightarrow>
     (case role of None \<Rightarrow> True | Some r \<Rightarrow> u_role u = r) \<and>
     (\<not> truthy search \<or>
      contains_insensitive (the search) (u_firstName u) \<or> contains_insensitive (the search) (u_lastName u) \<or>
      contains (the search) (Some (u_phone u)) \<or> contains_insensitive (the search) (u_email u))"

record UserListRow =
  ul_user :: User
  ul_driver :: "(id \<times> DriverStatus \<times> bool \<times> real \<times> real) option"

definition listUsers ::
  "UserRole option \<Rightarrow> string option \<Rightarrow> int option \<Rightarrow> int option \<Rightarrow> world \<Rightarrow> http_error + UserListRow AdminPage" where
  "listUsers role search page limit w =
     admin_page u_createdAt (user_matches role search)
       (\<lambda>u. \<lparr>ul_user = u, ul_driver = map_option (\<lambda>d. (d_id d, d_status d, d_isOnline d, d_rating d, d_commissionDue d))
               (findDriverByUserId (u_id u) w)\<rparr>)
       page limit (users w)"

definition user_of_driver :: "id \<Rightarrow> world \<Rightarrow> User option" where
  "user_of_driver d w = Option.bind (find_driver d w) (\<lambda>dr. find_user (d_userId dr) w)"

record UserTripRow =
  ut_id :: id
  ut_status :: TripStatus
  ut_serviceType :: ServiceType
  ut_finalPrice :: "real option"
  ut_createdAt :: time
  ut_driver :: "string option"
  ut_vehicleType :: string

definition vehicle_type_name :: "id \<Rightarrow> world \<Rightarrow> string" where
  "vehicle_type_name i w = (case find_vehicleType i w of None \<Rightarrow> [] | Some v \<Rightarrow> vt_name v)"

record UserDetail =
  ud_user :: User
  ud_driver :: "(Driver \<times> Vehicle option) option"
  ud_trips :: "UserTripRow list"
  ud_totalTrips :: nat
  ud_totalSpent :: real

definition getUser :: "id \<Rightarrow> world \<Rightarrow> UserDetail option" where
  "getUser i w =
     (case find_user i w of
        None \<Rightarrow> None
      | Some user \<Rightarrow>
          (let finished = (\<lambda>t. t_clientId t = i \<and> t_status t = completed)
           in Some \<lparr>ud_user = user,
                ud_driver = map_option (\<lambda>d. (d, vehicle_of (d_id d) w)) (findDriverByUserId i w),
                ud_trips = map (\<lambda>t. \<lparr>ut_id = t_id t, ut_status = t_status t, ut_serviceType = t_serviceType t,
                     ut_finalPrice = t_finalPrice t, ut_createdAt = t_createdAt t,
                     ut_driver = map_option (\<lambda>d. case user_of_driver d w of None \<Rightarrow> [] | Some u \<Rightarrow> joined_names u) (t_driverId t),
                     ut_vehicleType = vehicle_type_name (t_vehicleTypeId t) w\<rparr>)
                   (take 20 (sort_key (\<lambda>t. - t_createdAt t) (filter (\<lambda>t. t_clientId t = i) (trips w)))),
                ud_totalTrips = count_where finished (trips w),
                ud_totalSpent = sum_where finished (\<lambda>t. nullish (t_finalPrice t) 0) (trips w)\<rparr>))"

record CreateUserDto =
  cu_firstName :: string
  cu_lastName :: string
  cu_phone :: string
  cu_email :: "string option"
  cu_role :: UserRole
  cu_isActive :: "bool option"
  cu_password :: "string option"

definition bare_driver :: "id \<Rightarrow> id \<Rightarrow> time \<Rightarrow> Driver" where
  "bare_driver i userId now = \<lparr>d_id = i, d_userId = userId, d_status = pending_validation, d_rating = 5,
     d_balance = 0, d_commissionDue = 0, d_isOnline = False, d_currentLocation = None, d_lastLocationAt = None,
     d_photoUrl = None, d_licenseUrl = None, d_idCardUrl = None, d_validatedAt = None, d_suspendedAt = None,
     d_suspensionReason = None, d_createdAt = now\<rparr>"

definition createUser ::
  "Libraries \<Rightarrow> id \<Rightarrow> id \<Rightarrow> time \<Rightarrow> CreateUserDto \<Rightarrow> world \<Rightarrow> (User, world) outcome" where
  "createUser lib userId driverId now dto w =
     (let user = \<lparr>u_id = userId, u_phone = cu_phone dto, u_role = cu_role dto, u_firstName = Some (cu_firstName dto),
                  u_lastName = Some (cu_lastName dto), u_email = (if truthy (cu_email dto) then cu_email dto else None),
                  u_passwordHash = (if truthy (cu_password dto) then Some (bcrypt_hash lib (the (cu_password dto))) else None),
                  u_isActive = nullish (cu_isActive dto) True, u_createdAt = now\<rparr>
      in if list_ex (\<lambda>u. u_phone u = cu_phone dto) (users w) then throw (InternalError ''Unique constraint failed'') w
         else (let w1 = w\<lparr>users := users w @ [user]\<rparr>
               in return user (if cu_role dto = role_driver
                    then w1\<lparr>drivers := drivers w1 @ [bare_driver driverId userId now]\<rparr> else w1)))"

record AdminUpdateUserDto =
  au_firstName :: "string option"
  au_lastName :: "string option"
  au_phone :: "string option"
  au_email :: "string option"
  au_isActive :: "bool option"
  au_password :: "string option"

definition edited_user :: "Libraries \<Rightarrow> AdminUpdateUserDto \<Rightarrow> User \<Rightarrow> User" where
  "edited_user lib dto u = u\<lparr>u_firstName := or_keep (au_firstName dto) (u_firstName u),
     u_lastName := or_keep (au_lastName dto) (u_lastName u), u_phone := nullish (au_phone dto) (u_phone u),
     u_email := or_keep (au_email dto) (u_email u), u_isActive := nullish (au_isActive dto) (u_isActive u),
     u_passwordHash := (if truthy (au_password dto) then Some (bcrypt_hash lib (the (au_password dto))) else u_passwordHash u)\<rparr>"

definition admin_updateUser :: "Libraries \<Rightarrow> id \<Rightarrow> AdminUpdateUserDto \<Rightarrow> world \<Rightarrow> (User, world) outcome" where
  "admin_updateUser lib i dto w =
     (case find_user i w of
        None \<Rightarrow> throw (InternalError ''Record to update not found'') w
      | Some user \<Rightarrow>
          if list_ex (\<lambda>u. u_id u \<noteq> i \<and> Some (u_phone u) = au_phone dto) (users w)
          then throw (InternalError ''Unique constraint failed'') w
          else return (edited_user lib dto user) (update_user i (edited_user lib dto) w))"

section \<open>Trips and payments\<close>

record AdminTripRow =
  at_id :: id
  at_status :: TripStatus
  at_serviceType :: ServiceType
  at_pickupAddress :: string
  at_dropoffAddress :: string
  at_estimatedPrice :: real
  at_finalPrice :: "real option"
  at_commissionAmount :: "real option"
  at_client :: string
  at_driver :: "string option"
  at_vehicleType :: string
  at_createdAt :: time
  at_completedAt :: "time option"

definition name_of :: "User option \<Rightarrow> string" where
  "name_of u = (case u of None \<Rightarrow> [] | Some u \<Rightarrow> display_name u)"

definition listTrips ::
  "TripStatus option \<Rightarrow> ServiceType option \<Rightarrow> int option \<Rightarrow> int option \<Rightarrow> world \<Rightarrow> http_error + AdminTripRow AdminPage" where
  "listTrips status serviceType page limit w =
     admin_page t_createdAt
       (\<lambda>t. (case status of None \<Rightarrow> True | Some s \<Rightarrow> t_status t = s) \<and>
            (case serviceType of None \<Rightarrow> True | Some s \<Rightarrow> t_serviceType t = s))
       (\<lambda>t. \<lparr>at_id = t_id t, at_status = t_status t, at_serviceType = t_serviceType t,
             at_pickupAddress = t_pickupAddress t, at_dropoffAddress = t_dropoffAddress t,
             at_estimatedPrice = nullish (t_estimatedPrice t) 0, at_finalPrice = t_finalPrice t,
             at_commissionAmount = t_commissionAmount t, at_client = name_of (find_user (t_clientId t) w),
             at_driver = map_option (\<lambda>d. name_of (user_of_driver d w)) (t_driverId t),
             at_vehicleType = vehicle_type_name (t_vehicleTypeId t) w,
             at_createdAt = t_createdAt t, at_completedAt = t_completedAt t\<rparr>)
       page limit (trips w)"

fun payment_status_of :: "string \<Rightarrow> CommissionPaymentStatus option" where
  "payment_status_of s = (if s = ''pending'' then Some pay_pending else if s = ''succeeded'' then Some pay_succeeded
     else if s = ''failed'' then Some pay_failed else if s = ''expired'' then Some pay_expired else None)"

record AdminPaymentRow =
  ar_payment :: CommissionPayment
  ar_method :: string
  ar_driver :: string
  ar_driverPhone :: string

definition payment_row :: "world \<Rightarrow> CommissionPayment \<Rightarrow> AdminPaymentRow" where
  "payment_row w p = \<lparr>ar_payment = p, ar_method = ''Orange Money'', ar_driver = name_of (user_of_driver (p_driverId p) w),
     ar_driverPhone = (case user_of_driver (p_driverId p) w of None \<Rightarrow> [] | Some u \<Rightarrow> u_phone u)\<rparr>"

text \<open>An unknown status is no filter at all.\<close>

definition listPayments ::
  "int option \<Rightarrow> int option \<Rightarrow> string option \<Rightarrow> id option \<Rightarrow> world \<Rightarrow> http_error + AdminPaymentRow AdminPage" where
  "listPayments page limit status driverId w =
     admin_page p_createdAt
       (\<lambda>p. (case Option.bind status payment_status_of of None \<Rightarrow> True | Some s \<Rightarrow> p_status p = s) \<and>
            (\<not> truthy driverId \<or> driverId = Some (p_driverId p)))
       (payment_row w) page limit (payments w)"

definition getPayment :: "id \<Rightarrow> world \<Rightarrow> AdminPaymentRow option" where
  "getPayment i w = map_option (payment_row w) (find_payment i w)"

definition listDriverPayments :: "id \<Rightarrow> int option \<Rightarrow> int option \<Rightarrow> world \<Rightarrow> http_error + CommissionPayment AdminPage" where
  "listDriverPayments i page limit w =
     admin_page p_createdAt (\<lambda>p. p_driverId p = i) (\<lambda>p. p) page limit (payments w)"

record TripDetail =
  td_trip :: Trip
  td_client :: "User option"
  td_driver :: "(Driver \<times> User option) option"
  td_vehicleType :: "VehicleType option"
  td_rideDetails :: "RideDetails option"
  td_deliveryDetails :: "DeliveryDetails option"
  td_ratings :: "TripRating list"

definition admin_getTrip :: "id \<Rightarrow> world \<Rightarrow> TripDetail option" where
  "admin_getTrip i w =
     map_option (\<lambda>t. \<lparr>td_trip = t, td_client = find_user (t_clientId t) w,
        td_driver = Option.bind (t_driverId t) (\<lambda>d. map_option (\<lambda>dr. (dr, find_user (d_userId dr) w)) (find_driver d w)),
        td_vehicleType = find_vehicleType (t_vehicleTypeId t) w,
        td_rideDetails = find (\<lambda>r. rd_tripId r = i) (rideDetails w), td_deliveryDetails = delivery_of i w,
        td_ratings = filter (\<lambda>r. r_tripId r = i) (ratings w)\<rparr>)
       (find_trip i w)"

end
