(* ===== verification/Admin_Stats.thy ===== *)
theory Admin_Stats
  imports Admin_Reports Dispatch "HOL-Library.Multiset"
begin

text \<open>
  The figures of the dashboard (\<open>admin-stats.controller.ts\<close>) and how they relate to the books of
  the drivers: an empty \<open>_sum\<close> is \<open>null\<close>, read as 0.
\<close>

section \<open>Queries\<close>

record Stats =
  st_users :: nat
  st_drivers :: nat
  st_validated :: nat
  st_online :: nat
  st_trips :: nat
  st_completed :: nat
  st_revenue :: real
  st_commission :: real

definition getStats :: "world \<Rightarrow> Stats" where
  "getStats w =
     (let finished = (\<lambda>t. t_status t = completed)
      in \<lparr>st_users = length (users w), st_drivers = length (drivers w),
          st_validated = count_where (\<lambda>d. d_status d = validated) (drivers w),
          st_online = count_where d_isOnline (drivers w),
          st_trips = length (trips w), st_completed = count_where finished (trips w),
          st_revenue = sum_where finished (\<lambda>t. nullish (t_finalPrice t) 0) (trips w),
          st_commission = sum_where finished (\<lambda>t. nullish (t_commissionAmount t) 0) (trips w)\<rparr>)"

record FinanceReport =
  fr_total :: real
  fr_thisMonth :: real
  fr_commissionTotal :: real
  fr_commissionThisMonth :: real
  fr_collected :: real
  fr_outstanding :: real
  fr_count :: nat
  fr_succeeded :: nat
  fr_pending :: nat
  fr_failed :: nat
  fr_expired :: nat
  fr_succeededAmount :: real
  fr_pendingAmount :: real

definition getFinances :: "(time \<Rightarrow> int) \<Rightarrow> time \<Rightarrow> world \<Rightarrow> FinanceReport" where
  "getFinances tz now w =
     (let finished = (\<lambda>t. t_status t = completed);
          this_month = (\<lambda>t. t_status t = completed \<and>
            (case t_completedAt t of None \<Rightarrow> False | Some c \<Rightarrow> startOfMonth tz now \<le> c));
          with = (\<lambda>s p. p_status p = s)
      in \<lparr>fr_total = sum_where finished (\<lambda>t. nullish (t_finalPrice t) 0) (trips w),
          fr_thisMonth = sum_where this_month (\<lambda>t. nullish (t_finalPrice t) 0) (trips w),
          fr_commissionTotal = sum_where finished (\<lambda>t. nullish (t_commissionAmount t) 0) (trips w),
          fr_commissionThisMonth = sum_where this_month (\<lambda>t. nullish (t_commissionAmount t) 0) (trips w),
          fr_collected = sum_where (with pay_succeeded) p_amount (payments w),
          fr_outstanding = sum_where (\<lambda>_. True) d_commissionDue (drivers w),
          fr_count = length (payments w),
          fr_succeeded = count_where (with pay_succeeded) (payments w),
          fr_pending = count_where (with pay_pending) (payments w),
          fr_failed = count_where (with pay_failed) (payments w),
          fr_expired = count_where (with pay_expired) (payments w),
          fr_succeededAmount = sum_where (with pay_succeeded) p_amount (payments w),
          fr_pendingAmount = sum_where (with pay_pending) p_amount (payments w)\<rparr>)"

record CommissionRow =
  cr_driverId :: id
  cr_name :: string
  cr_phone :: string
  cr_balance :: real
  cr_commissionDue :: real
  cr_status :: DriverStatus

definition getCommissionsReport :: "int option \<Rightarrow> int option \<Rightarrow> world \<Rightarrow> http_error + CommissionRow AdminPage" where
  "getCommissionsReport page limit w =
     admin_page d_commissionDue (\<lambda>_. True)
       (\<lambda>d. \<lparr>cr_driverId = d_id d, cr_name = name_of (find_user (d_userId d) w),
             cr_phone = (case find_user (d_userId d) w of None \<Rightarrow> [] | Some u \<Rightarrow> u_phone u),
             cr_balance = d_balance d, cr_commissionDue = d_commissionDue d, cr_status = d_status d\<rparr>)
       page limit (drivers w)"

section \<open>The figures and the books\<close>

text \<open>Summing per driver what belongs to some driver.\<close>

lemma sum_list_pick:
  "distinct is \<Longrightarrow> (\<Sum>i\<leftarrow>is. if k = Some i then x else 0) = (if \<exists>i \<in> set is. k = Some i then x else (0 :: real))"
  by (induction "is") auto

lemma sum_per_owner:
  fixes f :: "'r \<Rightarrow> real"
  assumes "distinct is"
  shows "(\<Sum>i\<leftarrow>is. sum_where (\<lambda>r. owner r = Some i) f rows) = sum_where (\<lambda>r. \<exists>i \<in> set is. owner r = Some i) f rows"
proof (induction rows)
  case (Cons r rows)
  have "(\<Sum>i\<leftarrow>is. (if owner r = Some i then f r else 0) + sum_where (\<lambda>r. owner r = Some i) f rows) =
      (\<Sum>i\<leftarrow>is. if owner r = Some i then f r else 0) + (\<Sum>i\<leftarrow>is. sum_where (\<lambda>r. owner r = Some i) f rows)"
    by (rule sum_list_addf)
  with Cons show ?case by (simp add: sum_where_simps sum_list_pick [OF assms])
qed (simp add: sum_where_simps)

text \<open>Rows whose amount is zero do not matter.\<close>

lemma sum_where_zero_rows:
  "(\<And>r. r \<in> set rows \<Longrightarrow> p r \<noteq> q r \<Longrightarrow> f r = 0) \<Longrightarrow> sum_where p f rows = sum_where q f rows"
proof (induction rows)
  case (Cons r rows)
  then have "sum_where p f rows = sum_where q f rows" by simp
  moreover have "p r \<noteq> q r \<Longrightarrow> f r = 0" using Cons.prems by simp
  ultimately show ?case by (auto simp: sum_where_simps)
qed (simp add: sum_where_simps)

lemma find_distinct_driver: "distinct (map d_id (drivers w)) \<Longrightarrow> d \<in> set (drivers w) \<Longrightarrow> find_driver (d_id d) w = Some d"
  unfolding find_driver_def by (rule find_distinct) simp_all

text \<open>The part of a sum before a date and the part from it on.\<close>

lemma sum_where_split: "sum_where p f rows = sum_where (\<lambda>r. p r \<and> q r) f rows + sum_where (\<lambda>r. p r \<and> \<not> q r) f rows"
  by (induction rows) (auto simp: sum_where_simps)

text \<open>A page long enough for every driver.\<close>

lemma long_page: "int (length rows) \<le> n \<Longrightarrow> prisma_page 0 n rows = rows"
  by (simp add: prisma_page_def)

lemma this_month:
  "fr_thisMonth (getFinances tz now w) = fr_total (getFinances tz now w) -
     sum_where (\<lambda>t. t_status t = completed \<and> (\<forall>c. t_completedAt t = Some c \<longrightarrow> c < startOfMonth tz now)) (\<lambda>t. nullish (t_finalPrice t) 0) (trips w)"
  "fr_commissionThisMonth (getFinances tz now w) = fr_commissionTotal (getFinances tz now w) -
     sum_where (\<lambda>t. t_status t = completed \<and> (\<forall>c. t_completedAt t = Some c \<longrightarrow> c < startOfMonth tz now)) (\<lambda>t. nullish (t_commissionAmount t) 0) (trips w)"
proof -
  have old: "(\<forall>c. t_completedAt t = Some c \<longrightarrow> c < startOfMonth tz now) \<longleftrightarrow>
      \<not> (case t_completedAt t of None \<Rightarrow> False | Some c \<Rightarrow> startOfMonth tz now \<le> c)" for t
    by (auto split: option.split)
  have "sum_where (\<lambda>t. t_status t = completed) f (trips w) =
      sum_where (\<lambda>t. t_status t = completed \<and> (case t_completedAt t of None \<Rightarrow> False | Some c \<Rightarrow> startOfMonth tz now \<le> c)) f (trips w) +
      sum_where (\<lambda>t. t_status t = completed \<and> \<not> (case t_completedAt t of None \<Rightarrow> False | Some c \<Rightarrow> startOfMonth tz now \<le> c)) f (trips w)" for f
    by (rule sum_where_split)
  then show "fr_thisMonth (getFinances tz now w) = fr_total (getFinances tz now w) -
     sum_where (\<lambda>t. t_status t = completed \<and> (\<forall>c. t_completedAt t = Some c \<longrightarrow> c < startOfMonth tz now)) (\<lambda>t. nullish (t_finalPrice t) 0) (trips w)"
    "fr_commissionThisMonth (getFinances tz now w) = fr_commissionTotal (getFinances tz now w) -
     sum_where (\<lambda>t. t_status t = completed \<and> (\<forall>c. t_completedAt t = Some c \<longrightarrow> c < startOfMonth tz now)) (\<lambda>t. nullish (t_commissionAmount t) 0) (trips w)"
    unfolding old by (simp_all add: getFinances_def Let_def)
qed

lemma report_rows:
  assumes "getCommissionsReport pg l w = Inr report" and "row \<in> set (ap_data report)"
  shows "\<exists>d \<in> set (drivers w). cr_driverId row = d_id d \<and> cr_balance row = d_balance d \<and> cr_status row = d_status d \<and>
    cr_commissionDue row = d_commissionDue d"
proof -
  have page: "set (prisma_page skip n rows) \<subseteq> set rows" for skip n and rows :: "Driver list"
    by (auto simp: prisma_page_def dest!: in_set_takeD in_set_dropD)
  obtain d where "d \<in> set (drivers w)" and "row = \<lparr>cr_driverId = d_id d, cr_name = name_of (find_user (d_userId d) w),
      cr_phone = (case find_user (d_userId d) w of None \<Rightarrow> [] | Some u \<Rightarrow> u_phone u),
      cr_balance = d_balance d, cr_commissionDue = d_commissionDue d, cr_status = d_status d\<rparr>"
    using assms by (auto simp: getCommissionsReport_def admin_page_def find_many_page_def Let_def split: if_splits dest!: subsetD [OF page])
  then show ?thesis by (intro bexI [of _ d]) simp_all
qed

lemma full_report:
  assumes "int (length (drivers w)) \<le> l"
  shows "\<exists>report. getCommissionsReport None (Some l) w = Inr report \<and>
    set (map cr_driverId (ap_data report)) = set (map d_id (drivers w)) \<and> ap_total report = length (drivers w) \<and>
    (\<Sum>row\<leftarrow>ap_data report. cr_commissionDue row) = sum_where (\<lambda>_. True) d_commissionDue (drivers w)"
proof -
  let ?ds = "sort_key (\<lambda>d. - d_commissionDue d) (drivers w)"
  have page: "prisma_page 0 l ?ds = ?ds" using assms by (simp add: long_page)
  have "mset (map d_commissionDue ?ds) = mset (map d_commissionDue (drivers w))" by simp
  then have "(\<Sum>d\<leftarrow>?ds. d_commissionDue d) = (\<Sum>d\<leftarrow>drivers w. d_commissionDue d)" by (metis sum_mset_sum_list)
  then show ?thesis
    by (simp add: getCommissionsReport_def admin_page_def find_many_page_def Let_def page comp_def image_image count_where_def sum_where_def)
qed

text \<open>
  C29. The figures of the dashboard agree with each other and with the books. If the books of every
  driver agree, which charging a trip and every payment operation keep, then what the finance
  report shows as outstanding is the commission charged on completed trips less what it shows as
  collected; its four payment states add up to the number of payments; this month's revenue and
  commission are the totals less what was completed before the month or has no date; the front
  page shows the same revenue and commission; and every row of the commission report, on any page,
  is the account of a driver and shows as due what was charged to that driver less what was paid,
  the rows of a page that holds everybody adding up to what is outstanding.
\<close>

theorem dashboard_agrees_with_books:
  assumes wf: "payments_wf w" and ids: "distinct (map d_id (drivers w))"
    and books: "\<forall>d \<in> set (drivers w). ledger_gap (d_id d) w = Some 0"
    and charged: "\<forall>t \<in> set (trips w). t_commissionAmount t \<noteq> None \<longrightarrow>
        t_status t = completed \<and> (\<exists>d \<in> set (drivers w). t_driverId t = Some (d_id d))"
    and fin: "fin = getFinances tz now w" and st: "st = getStats w"
    and earlier: "earlier = (\<lambda>t. t_status t = completed \<and> (\<forall>c. t_completedAt t = Some c \<longrightarrow> c < startOfMonth tz now))"
  shows "fr_outstanding fin = fr_commissionTotal fin - fr_collected fin \<and>
    fr_count fin = fr_succeeded fin + fr_pending fin + fr_failed fin + fr_expired fin \<and>
    fr_thisMonth fin = fr_total fin - sum_where earlier (\<lambda>t. nullish (t_finalPrice t) 0) (trips w) \<and>
    fr_commissionThisMonth fin = fr_commissionTotal fin - sum_where earlier (\<lambda>t. nullish (t_commissionAmount t) 0) (trips w) \<and>
    st_revenue st = fr_total fin \<and> st_commission st = fr_commissionTotal fin \<and>
    (\<forall>pg l report row. getCommissionsReport pg l w = Inr report \<and> row \<in> set (ap_data report) \<longrightarrow>
       (\<exists>d \<in> set (drivers w). cr_driverId row = d_id d \<and> cr_balance row = d_balance d \<and> cr_status row = d_status d) \<and>
       cr_commissionDue row = charged_to (cr_driverId row) w - paid_by (cr_driverId row) w) \<and>
    (\<forall>l. int (length (drivers w)) \<le> l \<longrightarrow> (\<exists>report. getCommissionsReport None (Some l) w = Inr report \<and>
       set (map cr_driverId (ap_data report)) = set (map d_id (drivers w)) \<and> ap_total report = st_drivers st \<and>
       (\<Sum>row\<leftarrow>ap_data report. cr_commissionDue row) = fr_outstanding fin))"
proof -
  let ?ids = "map d_id (drivers w)"
  have due: "d_commissionDue d = charged_to (d_id d) w - paid_by (d_id d) w" if "d \<in> set (drivers w)" for d
    using books that find_distinct_driver [OF ids that] by (auto simp: ledger_gap_def)
  have "sum_where (\<lambda>_. True) d_commissionDue (drivers w) = (\<Sum>d\<leftarrow>drivers w. charged_to (d_id d) w - paid_by (d_id d) w)"
    unfolding sum_where_def using due by (simp cong: map_cong)
  also have "\<dots> = (\<Sum>i\<leftarrow>?ids. charged_to i w) - (\<Sum>i\<leftarrow>?ids. paid_by i w)"
    by (simp add: sum_list_subtractf comp_def)
  also have "(\<Sum>i\<leftarrow>?ids. charged_to i w) = sum_where (\<lambda>t. t_status t = completed) (\<lambda>t. nullish (t_commissionAmount t) 0) (trips w)"
    unfolding charged_to_def sum_per_owner [OF ids]
    by (rule sum_where_zero_rows) (use charged in \<open>auto split: option.split\<close>)
  also have "(\<Sum>i\<leftarrow>?ids. paid_by i w) = sum_where (\<lambda>p. p_status p = pay_succeeded) p_amount (payments w)"
  proof -
    define payer :: "CommissionPayment \<Rightarrow> id option"
      where "payer = (\<lambda>p. if p_status p = pay_succeeded then Some (p_driverId p) else None)"
    have "paid_by i w = sum_where (\<lambda>p. payer p = Some i) p_amount (payments w)" for i
      unfolding paid_by_def by (rule sum_where_zero_rows) (auto simp: payer_def split: if_splits)
    moreover have "\<exists>i \<in> set ?ids. payer p = Some i" if "p \<in> set (payments w)" "p_status p = pay_succeeded" for p
    proof -
      have "find_driver (p_driverId p) w \<noteq> None" using wf that(1) by (simp add: payments_wf_def)
      then obtain d where "d \<in> set (drivers w)" "d_id d = p_driverId p" by (auto simp: find_driver_def find_None_iff)
      then have "p_driverId p \<in> set ?ids" by (metis image_eqI set_map)
      with that(2) show ?thesis by (simp add: payer_def)
    qed
    ultimately show ?thesis
      by (simp only: sum_per_owner [OF ids]) (rule sum_where_zero_rows, auto simp: payer_def split: if_splits)
  qed
  finally have "sum_where (\<lambda>_. True) d_commissionDue (drivers w) =
      sum_where (\<lambda>t. t_status t = completed) (\<lambda>t. nullish (t_commissionAmount t) 0) (trips w) -
      sum_where (\<lambda>p. p_status p = pay_succeeded) p_amount (payments w)" .
  moreover have "length ps = count_where (\<lambda>p. p_status p = pay_succeeded) ps + count_where (\<lambda>p. p_status p = pay_pending) ps +
      count_where (\<lambda>p. p_status p = pay_failed) ps + count_where (\<lambda>p. p_status p = pay_expired) ps" for ps
    unfolding count_where_def by (induction ps) (auto split: CommissionPaymentStatus.split intro: CommissionPaymentStatus.exhaust)
  ultimately have figures: "fr_outstanding fin = fr_commissionTotal fin - fr_collected fin"
      "fr_count fin = fr_succeeded fin + fr_pending fin + fr_failed fin + fr_expired fin"
    by (simp_all add: fin getFinances_def Let_def)
  have month: "fr_thisMonth fin = fr_total fin - sum_where earlier (\<lambda>t. nullish (t_finalPrice t) 0) (trips w)"
    "fr_commissionThisMonth fin = fr_commissionTotal fin - sum_where earlier (\<lambda>t. nullish (t_commissionAmount t) 0) (trips w)"
    unfolding fin earlier by (rule this_month)+
  have rows: "(\<exists>d \<in> set (drivers w). cr_driverId row = d_id d \<and> cr_balance row = d_balance d \<and> cr_status row = d_status d) \<and>
       cr_commissionDue row = charged_to (cr_driverId row) w - paid_by (cr_driverId row) w"
    if "getCommissionsReport pg l w = Inr report" "row \<in> set (ap_data report)" for pg l report row
    using report_rows [OF that] due by auto
  have all: "\<exists>report. getCommissionsReport None (Some l) w = Inr report \<and>
       set (map cr_driverId (ap_data report)) = set (map d_id (drivers w)) \<and> ap_total report = st_drivers st \<and>
       (\<Sum>row\<leftarrow>ap_data report. cr_commissionDue row) = fr_outstanding fin" if "int (length (drivers w)) \<le> l" for l
    using full_report [OF that] by (simp add: st fin getStats_def getFinances_def Let_def)
  have front: "st_revenue st = fr_total fin" "st_commission st = fr_commissionTotal fin"
    by (simp_all add: st fin getStats_def getFinances_def Let_def)
  from figures month front rows all show ?thesis by blast
qed

definition audited_world :: world where
  "audited_world = owing_world\<lparr>
     trips := [(sample_trip ''t1'')\<lparr>t_status := completed, t_driverId := Some ''d1'', t_commissionAmount := Some 1300\<rparr>],
     payments := [(new_payment ''p1'' 0 ''d1'' 500)\<lparr>p_status := pay_succeeded\<rparr>, new_payment ''p2'' 0 ''d1'' 300]\<rparr>"

theorem dashboard_agrees_with_books_witness:
  "fr_outstanding (getFinances (\<lambda>_. 0) 0 audited_world) = 1300 - 500 \<and> fr_count (getFinances (\<lambda>_. 0) 0 audited_world) = 2"
proof -
  have wf: "payments_wf audited_world" and ids: "distinct (map d_id (drivers audited_world))"
    by (simp_all add: payments_wf_def audited_world_def owing_world_def find_driver_def sample_defs new_payment_def)
  have books: "\<forall>d \<in> set (drivers audited_world). ledger_gap (d_id d) audited_world = Some 0"
    by (simp add: ledger_gap_def paid_by_def charged_to_def sum_where_def audited_world_def owing_world_def
        find_driver_def sample_defs new_payment_def)
  have charged: "\<forall>t \<in> set (trips audited_world). t_commissionAmount t \<noteq> None \<longrightarrow>
      t_status t = completed \<and> (\<exists>d \<in> set (drivers audited_world). t_driverId t = Some (d_id d))"
    by (simp add: audited_world_def owing_world_def sample_defs)
  have "fr_commissionTotal (getFinances (\<lambda>_. 0) 0 audited_world) = 1300"
    "fr_collected (getFinances (\<lambda>_. 0) 0 audited_world) = 500" "fr_count (getFinances (\<lambda>_. 0) 0 audited_world) = 2"
    by (simp_all add: getFinances_def Let_def sum_where_def audited_world_def new_payment_def)
  with dashboard_agrees_with_books [OF wf ids books charged refl refl refl, of "\<lambda>_. 0" 0] show ?thesis by simp
qed

end
