(* ===== verification/Charging_Stations.thy ===== *)
theory Charging_Stations
  imports Distance_Provider
begin

text \<open>
  Battery swap and charging stations (\<open>modules/charging-stations/\<close>): one table of its own, the
  search in a box around a point, and the administration of the rows. Latitude and longitude
  reach the service as numbers or not at all.
\<close>

section \<open>Rows and requests\<close>

record SwapStation =
  ss_id :: id
  ss_name :: string
  ss_address :: string
  ss_lat :: real
  ss_lng :: real
  ss_kind :: string
  ss_available :: int
  ss_total :: int
  ss_models :: "string option"
  ss_hours :: "string option"
  ss_isActive :: bool
  ss_createdAt :: time

record CreateStationDto =
  cs_name :: string
  cs_address :: string
  cs_lat :: real
  cs_lng :: real
  cs_kind :: "string option"
  cs_available :: "int option"
  cs_total :: "int option"
  cs_models :: "string option"
  cs_hours :: "string option"
  cs_isActive :: "bool option"

record UpdateStationDto =
  us_name :: "string option"
  us_address :: "string option"
  us_lat :: "real option"
  us_lng :: "real option"
  us_kind :: "string option"
  us_available :: "int option"
  us_total :: "int option"
  us_models :: "string option"
  us_hours :: "string option"
  us_isActive :: "bool option"

section \<open>Operations\<close>

definition lat_delta :: "real \<Rightarrow> real" where
  "lat_delta radiusKm = radiusKm / 111"

definition lng_delta :: "real \<Rightarrow> real \<Rightarrow> real" where
  "lng_delta lt radiusKm = radiusKm / (111 * cos (lt * pi / 180))"

definition in_box :: "real \<Rightarrow> real \<Rightarrow> real \<Rightarrow> SwapStation \<Rightarrow> bool" where
  "in_box lt lg radiusKm s \<longleftrightarrow>
     lt - lat_delta radiusKm \<le> ss_lat s \<and> ss_lat s \<le> lt + lat_delta radiusKm \<and>
     lg - lng_delta lt radiusKm \<le> ss_lng s \<and> ss_lng s \<le> lg + lat_delta radiusKm"

definition stations_findAll ::
  "real option \<Rightarrow> real option \<Rightarrow> real option \<Rightarrow> bool \<Rightarrow> SwapStation list \<Rightarrow> SwapStation list" where
  "stations_findAll lt lg radiusKm includeInactive stations =
     (let shown = (\<lambda>s. includeInactive \<or> ss_isActive s)
      in case (lt, lg, radiusKm) of
           (Some a, Some b, Some r) \<Rightarrow> sort_key ss_createdAt (filter (\<lambda>s. shown s \<and> in_box a b r s) stations)
         | _ \<Rightarrow> sort_key ss_createdAt (filter shown stations))"

definition stations_findOne :: "id \<Rightarrow> SwapStation list \<Rightarrow> (SwapStation, SwapStation list) outcome" where
  "stations_findOne i stations =
     (case find (\<lambda>s. ss_id s = i) stations of
        None \<Rightarrow> throw (NotFoundException ''Station introuvable'') stations
      | Some station \<Rightarrow> return station stations)"

definition stations_create :: "id \<Rightarrow> time \<Rightarrow> CreateStationDto \<Rightarrow> SwapStation list \<Rightarrow> (SwapStation, SwapStation list) outcome" where
  "stations_create newId now dto stations =
     (let s = \<lparr>ss_id = newId, ss_name = cs_name dto, ss_address = cs_address dto, ss_lat = cs_lat dto, ss_lng = cs_lng dto,
               ss_kind = nullish (cs_kind dto) ''swap'', ss_available = nullish (cs_available dto) 0,
               ss_total = nullish (cs_total dto) 0, ss_models = cs_models dto, ss_hours = cs_hours dto,
               ss_isActive = nullish (cs_isActive dto) True, ss_createdAt = now\<rparr>
      in return s (stations @ [s]))"

text \<open>A member left out of the request keeps its column.\<close>

definition edited_station :: "UpdateStationDto \<Rightarrow> SwapStation \<Rightarrow> SwapStation" where
  "edited_station dto s = s\<lparr>ss_name := nullish (us_name dto) (ss_name s), ss_address := nullish (us_address dto) (ss_address s),
     ss_lat := nullish (us_lat dto) (ss_lat s), ss_lng := nullish (us_lng dto) (ss_lng s),
     ss_kind := nullish (us_kind dto) (ss_kind s), ss_available := nullish (us_available dto) (ss_available s),
     ss_total := nullish (us_total dto) (ss_total s),
     ss_models := (if us_models dto = None then ss_models s else us_models dto),
     ss_hours := (if us_hours dto = None then ss_hours s else us_hours dto),
     ss_isActive := nullish (us_isActive dto) (ss_isActive s)\<rparr>"

definition stations_update :: "id \<Rightarrow> UpdateStationDto \<Rightarrow> SwapStation list \<Rightarrow> (SwapStation, SwapStation list) outcome" where
  "stations_update i dto stations =
     andThen (stations_findOne i stations)
       (\<lambda>station v. return (edited_station dto station) (update_where (\<lambda>s. ss_id s = i) (edited_station dto) v))"

definition stations_remove :: "id \<Rightarrow> SwapStation list \<Rightarrow> (unit, SwapStation list) outcome" where
  "stations_remove i stations =
     andThen (stations_findOne i stations) (\<lambda>_ v. return () (delete_where (\<lambda>s. ss_id s = i) v))"

section \<open>The box\<close>

lemma lat_delta_le_lng_delta:
  assumes "0 \<le> r" and "- 90 < lt" and "lt < 90"
  shows "0 < cos (lt * pi / 180)" and "lat_delta r \<le> lng_delta lt r"
proof -
  have "lt * pi < 90 * pi" "- 90 * pi < lt * pi"
    using mult_strict_right_mono [OF assms(3) pi_gt_zero] mult_strict_right_mono [OF assms(2) pi_gt_zero] by simp_all
  then have "- (pi / 2) < lt * pi / 180" and "lt * pi / 180 < pi / 2" by linarith+
  then show pos: "0 < cos (lt * pi / 180)" by (rule cos_gt_zero_pi)
  have "111 * cos (lt * pi / 180) \<le> 111" by simp
  then show "lat_delta r \<le> lng_delta lt r"
    unfolding lat_delta_def lng_delta_def using assms(1) pos by (intro divide_left_mono) simp_all
qed

text \<open>
  The search for stations around a point cuts its box on one side. The box is right to the
  north, south and west; to the east it ends at the difference of latitude. So on the parallel of
  the point, a station to the west is found up to the full radius, and the station as far to the
  east is missed as soon as its distance in degrees exceeds \<open>radius / 111\<close>.
\<close>

theorem station_search_misses_east:
  assumes "0 \<le> r" and "- 90 < lt" and "lt < 90" and "lat_delta r < d" and "d \<le> lng_delta lt r"
    and west: "west \<in> set stations" "ss_isActive west" "ss_lat west = lt" "ss_lng west = lg - d"
    and east: "east \<in> set stations" "ss_isActive east" "ss_lat east = lt" "ss_lng east = lg + d"
  shows "west \<in> set (stations_findAll (Some lt) (Some lg) (Some r) False stations) \<and>
    east \<notin> set (stations_findAll (Some lt) (Some lg) (Some r) False stations) \<and>
    east \<in> set (stations_findAll None None None False stations)"
proof -
  have "0 \<le> lat_delta r" using assms(1) by (simp add: lat_delta_def)
  then show ?thesis
    using assms by (auto simp: stations_findAll_def in_box_def)
qed

definition station_at :: "id \<Rightarrow> real \<Rightarrow> SwapStation" where
  "station_at i lg = \<lparr>ss_id = i, ss_name = i, ss_address = [], ss_lat = 60, ss_lng = lg, ss_kind = ''swap'',
     ss_available = 1, ss_total = 2, ss_models = None, ss_hours = None, ss_isActive = True, ss_createdAt = 0\<rparr>"

theorem station_search_misses_east_witness:
  "station_at ''w'' (-2) \<in> set (stations_findAll (Some 60) (Some 0) (Some 111) False [station_at ''w'' (-2), station_at ''e'' 2]) \<and>
   station_at ''e'' 2 \<notin> set (stations_findAll (Some 60) (Some 0) (Some 111) False [station_at ''w'' (-2), station_at ''e'' 2])"
proof -
  have "60 * pi / 180 = pi / 3" by simp
  then have "lng_delta 60 111 = 2" unfolding lng_delta_def by (simp add: cos_60)
  then show ?thesis
    using station_search_misses_east [of 111 60 2 "station_at ''w'' (-2)" "[station_at ''w'' (-2), station_at ''e'' 2]" 0 "station_at ''e'' 2"]
    by (simp add: station_at_def lat_delta_def)
qed

end
