(* ===== verification/Request_Validation.thy ===== *)
theory Request_Validation
  imports Realtime Admin_Pricing Admin_Stats Charging_Stations
begin

text \<open>
  What the bodies of requests must satisfy before a handler sees them: the decorators of the DTO
  classes, which the global \<open>ValidationPipe\<close> of \<open>main.ts\<close> checks. The types of the members are those
  of the records; a decorator with a bound, a length or a pattern is a condition here. The formats of
  \<open>class-validator\<close> are parameters.
\<close>

record Formats =
  isEmail :: "string \<Rightarrow> bool"
  isUUID :: "string \<Rightarrow> bool"

definition optional :: "('a \<Rightarrow> bool) \<Rightarrow> 'a option \<Rightarrow> bool" where
  "optional p x \<longleftrightarrow> (case x of None \<Rightarrow> True | Some v \<Rightarrow> p v)"

lemma optional_simps [simp]: "optional p None" "optional p (Some v) \<longleftrightarrow> p v"
  by (simp_all add: optional_def)

section \<open>Accounts\<close>

record RequestOtpDto =
  ro_phone :: string
  ro_app :: "JulakaiApp option"

record VerifyOtpDto =
  vo_phone :: string
  vo_code :: string
  vo_app :: "JulakaiApp option"

record AdminLoginDto =
  al_email :: string
  al_password :: string

text \<open>The pattern \<open>+223\<close> and eight digits.\<close>

definition phone_format :: "string \<Rightarrow> bool" where
  "phone_format s \<longleftrightarrow> take 4 s = ''+223'' \<and> length (drop 4 s) = 8 \<and> list_all is_digit (drop 4 s)"

definition valid_RequestOtpDto :: "RequestOtpDto \<Rightarrow> bool" where
  "valid_RequestOtpDto dto \<longleftrightarrow> phone_format (ro_phone dto)"

definition valid_VerifyOtpDto :: "VerifyOtpDto \<Rightarrow> bool" where
  "valid_VerifyOtpDto dto \<longleftrightarrow> phone_format (vo_phone dto) \<and> length (vo_code dto) = 4 \<and> list_all is_digit (vo_code dto)"

definition valid_AdminLoginDto :: "Formats \<Rightarrow> AdminLoginDto \<Rightarrow> bool" where
  "valid_AdminLoginDto fs dto \<longleftrightarrow> isEmail fs (al_email dto) \<and> 8 \<le> length (al_password dto)"

definition valid_UpdateUserDto :: "Formats \<Rightarrow> UpdateUserDto \<Rightarrow> bool" where
  "valid_UpdateUserDto fs dto \<longleftrightarrow> optional (isEmail fs) (uu_email dto)"

definition valid_RegisterDriverDto :: "RegisterDriverDto \<Rightarrow> bool" where
  "valid_RegisterDriverDto dto \<longleftrightarrow> 1990 \<le> vi_year (rd_vehicle dto)"

definition valid_CreateUserDto :: "CreateUserDto \<Rightarrow> bool" where
  "valid_CreateUserDto dto \<longleftrightarrow>
     2 \<le> length (cu_firstName dto) \<and> 2 \<le> length (cu_lastName dto) \<and> optional (\<lambda>s. 6 \<le> length s) (cu_password dto)"

definition valid_AdminUpdateUserDto :: "AdminUpdateUserDto \<Rightarrow> bool" where
  "valid_AdminUpdateUserDto dto \<longleftrightarrow> optional (\<lambda>s. 6 \<le> length s) (au_password dto)"

section \<open>Trips, positions and payments\<close>

record CreateRatingDto =
  cr_rating :: int
  cr_tags :: "string list option"

record SosDto =
  so_lat :: "real option"
  so_lng :: "real option"
  so_message :: "string option"

text \<open>The two points only have to be objects: their own decorators need \<open>@ValidateNested\<close>.\<close>

definition valid_CreateTripDto :: "CreateTripDto \<Rightarrow> bool" where
  "valid_CreateTripDto dto \<longleftrightarrow> optional (\<lambda>n. 1 \<le> n) (ct_passengerCount dto)"

definition valid_PaymentReceivedDto :: "real \<Rightarrow> bool" where
  "valid_PaymentReceivedDto amount \<longleftrightarrow> 0 \<le> amount"

definition valid_CreateRatingDto :: "CreateRatingDto \<Rightarrow> bool" where
  "valid_CreateRatingDto dto \<longleftrightarrow> 1 \<le> cr_rating dto \<and> cr_rating dto \<le> 5"

definition latitude :: "real \<Rightarrow> bool" where "latitude x \<longleftrightarrow> -90 \<le> x \<and> x \<le> 90"
definition longitude :: "real \<Rightarrow> bool" where "longitude x \<longleftrightarrow> -180 \<le> x \<and> x \<le> 180"

definition valid_SosDto :: "SosDto \<Rightarrow> bool" where
  "valid_SosDto dto \<longleftrightarrow>
     optional latitude (so_lat dto) \<and> optional longitude (so_lng dto) \<and> optional (\<lambda>s. length s \<le> 500) (so_message dto)"

definition valid_UpdatePositionDto :: "Formats \<Rightarrow> UpdatePositionDto \<Rightarrow> bool" where
  "valid_UpdatePositionDto fs dto \<longleftrightarrow>
     latitude (up_lat dto) \<and> longitude (up_lng dto) \<and> optional (\<lambda>h. 0 \<le> h \<and> h \<le> 360) (up_heading dto) \<and>
     optional (\<lambda>v. 0 \<le> v) (up_speed dto) \<and> optional (isUUID fs) (up_tripId dto)"

definition valid_PayCommissionDto :: "PayCommissionDto \<Rightarrow> bool" where
  "valid_PayCommissionDto dto \<longleftrightarrow> 100 \<le> pc_amount dto \<and> 8 \<le> length (pc_phoneNumber dto)"

definition valid_SuspendDriverDto :: "string \<Rightarrow> bool" where
  "valid_SuspendDriverDto reason \<longleftrightarrow> 3 \<le> length reason"

section \<open>The catalog\<close>

definition valid_CreateVehicleTypeDto :: "CreateVehicleTypeDto \<Rightarrow> bool" where
  "valid_CreateVehicleTypeDto dto \<longleftrightarrow>
     1 \<le> cv_capacity dto \<and> 0 \<le> cv_baseFare dto \<and> 0 \<le> cv_pricePerKm dto \<and> 0 \<le> cv_pricePerMin dto \<and>
     0 \<le> cv_commissionPercentage dto"

definition valid_UpdateVehicleTypeDto :: "UpdateVehicleTypeDto \<Rightarrow> bool" where
  "valid_UpdateVehicleTypeDto dto \<longleftrightarrow>
     optional (\<lambda>n. 1 \<le> n) (uv_capacity dto) \<and> optional (\<lambda>x. 0 \<le> x) (uv_baseFare dto) \<and>
     optional (\<lambda>x. 0 \<le> x) (uv_pricePerKm dto) \<and> optional (\<lambda>x. 0 \<le> x) (uv_pricePerMin dto) \<and>
     optional (\<lambda>x. 0 \<le> x) (uv_commissionPercentage dto)"

definition station_kind :: "string \<Rightarrow> bool" where "station_kind s \<longleftrightarrow> s \<in> {''swap'', ''charge''}"

definition valid_CreateStationDto :: "CreateStationDto \<Rightarrow> bool" where
  "valid_CreateStationDto dto \<longleftrightarrow>
     2 \<le> length (cs_name dto) \<and> 2 \<le> length (cs_address dto) \<and> optional station_kind (cs_kind dto) \<and>
     optional (\<lambda>n. 0 \<le> n) (cs_available dto) \<and> optional (\<lambda>n. 0 \<le> n) (cs_total dto)"

definition valid_UpdateStationDto :: "UpdateStationDto \<Rightarrow> bool" where
  "valid_UpdateStationDto dto \<longleftrightarrow>
     optional station_kind (us_kind dto) \<and> optional (\<lambda>n. 0 \<le> n) (us_available dto) \<and> optional (\<lambda>n. 0 \<le> n) (us_total dto)"

definition valid_CreateZoneDto :: "CreateZoneDto \<Rightarrow> bool" where
  "valid_CreateZoneDto dto \<longleftrightarrow>
     2 \<le> length (cz_name dto) \<and> 2 \<le> length (cz_city dto) \<and> 1 / 10 \<le> cz_radiusKm dto \<and>
     optional (\<lambda>x. 1 \<le> x) (cz_surgeMultiplier dto)"

definition valid_UpdateZoneDto :: "UpdateZoneDto \<Rightarrow> bool" where
  "valid_UpdateZoneDto dto \<longleftrightarrow>
     optional (\<lambda>x. 1 / 10 \<le> x) (uz_radiusKm dto) \<and> optional (\<lambda>x. 1 \<le> x) (uz_surgeMultiplier dto)"

definition valid_CreatePricingRuleDto :: "CreatePricingRuleDto \<Rightarrow> bool" where
  "valid_CreatePricingRuleDto dto \<longleftrightarrow> 2 \<le> length (cp_name dto) \<and> 1 / 10 \<le> cp_modifier dto"

definition valid_UpdatePricingRuleDto :: "UpdatePricingRuleDto \<Rightarrow> bool" where
  "valid_UpdatePricingRuleDto dto \<longleftrightarrow> optional (\<lambda>x. 1 / 10 \<le> x) (up_modifier dto)"

section \<open>The catalog stays sound\<close>

text \<open>The ranges the pricing engine relies on, for the tables and for what the surge cache holds.\<close>

definition type_ok :: "VehicleType \<Rightarrow> bool" where
  "type_ok v \<longleftrightarrow> 0 \<le> vt_baseFare v \<and> 0 \<le> vt_pricePerKm v \<and> 0 \<le> vt_pricePerMin v \<and> 0 \<le> vt_commissionPercentage v"

definition zone_ok :: "ServiceZone \<Rightarrow> bool" where
  "zone_ok z \<longleftrightarrow> 1 \<le> z_surgeMultiplier z"

definition modifier_ok :: "PricingRuleRow \<Rightarrow> bool" where
  "modifier_ok r \<longleftrightarrow> 1 / 10 \<le> pr_modifier r"

end
