(* ===== verification/Http_Shell.thy ===== *)
theory Http_Shell
  imports Trips
begin

text \<open>
  What stands around every HTTP handler: the guards, the idempotency interceptor, the response
  wrapper and the exception filter (\<open>common/\<close>). A handler answers the JSON text of its response.
\<close>

section \<open>Guards and answers\<close>

definition roles_canActivate :: "UserRole list option \<Rightarrow> UserRole option \<Rightarrow> http_error + bool" where
  "roles_canActivate requiredRoles role =
     (case requiredRoles of
        None \<Rightarrow> Inr True
      | Some roles \<Rightarrow>
          if roles = [] then Inr True
          else if (case role of None \<Rightarrow> False | Some r \<Rightarrow> r \<in> set roles) then Inr True
          else Inl (ForbiddenException ''Acces refuse : role insuffisant''))"

datatype 'a HttpAnswer = Success 'a | Failure nat string

definition exception_answer :: "http_error \<Rightarrow> 'a HttpAnswer" where
  "exception_answer e = Failure (http_status e)
     (case e of BadRequestException m \<Rightarrow> m | UnauthorizedException m \<Rightarrow> m | ForbiddenException m \<Rightarrow> m
      | NotFoundException m \<Rightarrow> m | ConflictException m \<Rightarrow> m | ServiceUnavailableException m \<Rightarrow> m
      | InternalError _ \<Rightarrow> ''Erreur interne du serveur'')"

definition http_answer :: "http_error + 'a \<Rightarrow> 'a HttpAnswer" where
  "http_answer r = (case r of Inl e \<Rightarrow> exception_answer e | Inr x \<Rightarrow> Success x)"

section \<open>Idempotency keys\<close>

definition KEY_TTL :: int where "KEY_TTL = 300"

definition idem_key :: "string \<Rightarrow> string" where "idem_key k = ''telima:idem:'' @ k"
definition idem_lock :: "string \<Rightarrow> string" where "idem_lock k = idem_key k @ '':lock''"

type_synonym handler = "time \<Rightarrow> world \<Rightarrow> (string, world) outcome"

definition intercept :: "bool \<Rightarrow> string option \<Rightarrow> handler \<Rightarrow> handler" where
  "intercept isIdempotent key handle now w =
     (if \<not> isIdempotent \<or> \<not> truthy key then handle now w
      else (let k = the key;
                (acquired, r) = redis_set_nx now (idem_lock k) (RStr ''1'') KEY_TTL (redis_keys w)
            in if \<not> acquired
               then (case redis_get now r (idem_key k) of
                       Some (RStr cached) \<Rightarrow>
                         if cached \<noteq> [] then return cached (w\<lparr>redis_keys := r\<rparr>)
                         else throw (ConflictException ''Requete en cours avec la meme Idempotency-Key'') (w\<lparr>redis_keys := r\<rparr>)
                     | _ \<Rightarrow> throw (ConflictException ''Requete en cours avec la meme Idempotency-Key'') (w\<lparr>redis_keys := r\<rparr>))
               else (case handle now (w\<lparr>redis_keys := r\<rparr>) of
                       (Inl e, w1) \<Rightarrow> throw e w1
                     | (Inr response, w1) \<Rightarrow>
                         return response
                           (w1\<lparr>redis_keys := redis_del (idem_lock k)
                                 (redis_set_ex now (idem_key k) (RStr response) KEY_TTL (redis_keys w1))\<rparr>))))"

text \<open>Beside the keys of the interceptor only the handler changes the state.\<close>

lemma intercept_state:
  "\<exists>r r'. snd (intercept flag key h now w) = w\<lparr>redis_keys := r\<rparr> \<or>
     snd (intercept flag key h now w) = (snd (h now (w\<lparr>redis_keys := r\<rparr>)))\<lparr>redis_keys := r'\<rparr>"
proof (cases "\<not> flag \<or> \<not> truthy key")
  case True
  then have "snd (intercept flag key h now w) = (snd (h now (w\<lparr>redis_keys := redis_keys w\<rparr>)))\<lparr>redis_keys := redis_keys (snd (h now w))\<rparr>"
    by (auto simp: intercept_def)
  then show ?thesis by blast
next
  case False
  obtain acquired r where nx: "redis_set_nx now (idem_lock (the key)) (RStr ''1'') KEY_TTL (redis_keys w) = (acquired, r)"
    by (metis surj_pair)
  show ?thesis
  proof (cases acquired)
    case False
    then have "snd (intercept flag key h now w) = w\<lparr>redis_keys := r\<rparr>"
      using \<open>\<not> (\<not> flag \<or> \<not> truthy key)\<close> nx
      by (simp add: intercept_def throw_def return_def split: option.split redis_value.split)
    then show ?thesis by blast
  next
    case True
    obtain x v where h: "h now (w\<lparr>redis_keys := r\<rparr>) = (x, v)" by (metis surj_pair)
    have "snd (intercept flag key h now w) = v\<lparr>redis_keys := redis_keys (snd (intercept flag key h now w))\<rparr>"
      using True \<open>\<not> (\<not> flag \<or> \<not> truthy key)\<close> nx
      by (cases x) (simp_all add: intercept_def h throw_def return_def Let_def)
    then show ?thesis using h by (metis snd_conv)
  qed
qed
lemma idem_keys_distinct [simp]: "idem_key k \<noteq> idem_lock k" "idem_lock k \<noteq> idem_key k"
  by (simp_all add: idem_lock_def)

lemma idem_dispatch_keys [simp]:
  "idem_key k \<noteq> DispatchLockKey d" "idem_key k \<noteq> DispatchRoundsKey t" "idem_key k \<noteq> DispatchTimeoutJobKey t d"
  "idem_lock k \<noteq> DispatchLockKey d" "idem_lock k \<noteq> DispatchRoundsKey t" "idem_lock k \<noteq> DispatchTimeoutJobKey t d"
  by (simp_all add: idem_key_def idem_lock_def key_defs)

text \<open>A handler that leaves the keys of the interceptor alone.\<close>

definition keeps_idem :: "handler \<Rightarrow> bool" where
  "keeps_idem handle \<longleftrightarrow> (\<forall>now w t k. redis_get t (redis_keys (snd (handle now w))) (idem_lock k) =
     redis_get t (redis_keys w) (idem_lock k))"

lemma intercept_first:
  assumes "redis_get now (redis_keys w) (idem_lock k) = None" and "k \<noteq> []"
  shows "intercept True (Some k) handle now w =
    (case handle now (w\<lparr>redis_keys := redis_set_ex now (idem_lock k) (RStr ''1'') KEY_TTL (redis_keys w)\<rparr>) of
       (Inl e, w1) \<Rightarrow> throw e w1
     | (Inr response, w1) \<Rightarrow> return response (w1\<lparr>redis_keys := redis_del (idem_lock k)
         (redis_set_ex now (idem_key k) (RStr response) KEY_TTL (redis_keys w1))\<rparr>))"
  using assms by (simp add: intercept_def redis_set_nx_cases)

text \<open>
  C40. The interceptor does not make a request idempotent. When the first request has succeeded,
  its answer is stored but the lock is released, so a second request with the same key runs the
  handler again, whenever it comes; only a request that arrives while another runs is spared.
  When the first request has failed, its lock stays, so every repetition within five minutes is
  refused with 409 although nothing is running.
\<close>

theorem idempotency_key_misses:
  assumes k: "k \<noteq> []" and keeps: "keeps_idem handle"
    and free: "\<forall>t \<ge> now. redis_get t (redis_keys w) (idem_lock k) = None" and "now \<le> later"
    and first: "intercept True (Some k) handle now w = (r, w1)"
  shows "case r of
      Inr response \<Rightarrow>
        fst (intercept True (Some k) handle later w1) =
          fst (handle later (w1\<lparr>redis_keys := redis_set_ex later (idem_lock k) (RStr ''1'') KEY_TTL (redis_keys w1)\<rparr>)) \<and>
        redis_get now (redis_keys w1) (idem_key k) = Some (RStr response)
    | Inl e \<Rightarrow> later < now + 300000 \<longrightarrow> redis_get later (redis_keys w1) (idem_key k) = None \<longrightarrow>
        (\<exists>m. intercept True (Some k) handle later w1 = (Inl (ConflictException m), w1))"
proof -
  let ?w0 = "w\<lparr>redis_keys := redis_set_ex now (idem_lock k) (RStr ''1'') KEY_TTL (redis_keys w)\<rparr>"
  have run: "intercept True (Some k) handle now w =
    (case handle now ?w0 of
       (Inl e, w1) \<Rightarrow> throw e w1
     | (Inr response, w1) \<Rightarrow> return response (w1\<lparr>redis_keys := redis_del (idem_lock k)
         (redis_set_ex now (idem_key k) (RStr response) KEY_TTL (redis_keys w1))\<rparr>))"
    by (rule intercept_first) (use free k in auto)
  obtain h v where h: "handle now ?w0 = (h, v)" by (metis surj_pair)
  have lock: "redis_get t (redis_keys v) (idem_lock k) = redis_get t (redis_keys ?w0) (idem_lock k)" for t
    using keeps h unfolding keeps_idem_def by (metis snd_conv)
  show ?thesis
  proof (cases h)
    case (Inl e)
    with run h first have r: "r = Inl e" "w1 = v" by (simp_all add: throw_def)
    have "redis_get later (redis_keys v) (idem_lock k) = Some (RStr ''1'')" if "later < now + 300000"
      unfolding lock using that by (simp add: KEY_TTL_def)
    then show ?thesis
      by (auto simp: r intercept_def k redis_set_nx_cases throw_def)
  next
    case (Inr response)
    with run h first have r: "r = Inr response"
      and w1: "w1 = v\<lparr>redis_keys := redis_del (idem_lock k) (redis_set_ex now (idem_key k) (RStr response) KEY_TTL (redis_keys v))\<rparr>"
      by (simp_all add: return_def)
    have "redis_get later (redis_keys w1) (idem_lock k) = None" by (simp add: w1)
    from intercept_first [OF this k] show ?thesis
      by (auto simp: r w1 KEY_TTL_def throw_def return_def split: prod.split sum.split)
  qed
qed

text \<open>A handler in the manner of \<open>POST /trips\<close>: each run appends a row.\<close>

definition append_trip :: handler where
  "append_trip now w = return ''created'' (w\<lparr>trips := trips w @ [sample_trip ''t1'']\<rparr>)"

theorem idempotency_key_misses_witness:
  "length (trips (snd (intercept True (Some ''k'') append_trip 10 (snd (intercept True (Some ''k'') append_trip 0 empty_world))))) = 2 \<and>
   fst (intercept True (Some ''k'') append_trip 10 (snd (intercept True (Some ''k'') append_trip 0 empty_world))) = Inr ''created''"
proof -
  have keeps: "keeps_idem append_trip" by (simp add: keeps_idem_def append_trip_def)
  have free: "\<forall>t \<ge> 0. redis_get t (redis_keys empty_world) (idem_lock ''k'') = None" by (simp add: empty_world_def)
  have 1: "intercept True (Some ''k'') append_trip 0 empty_world = (Inr ''created'', snd (intercept True (Some ''k'') append_trip 0 empty_world))"
    by (simp add: intercept_def append_trip_def redis_set_nx_cases empty_world_def return_def Let_def)
  have "fst (intercept True (Some ''k'') append_trip 10 (snd (intercept True (Some ''k'') append_trip 0 empty_world))) = Inr ''created''"
    using idempotency_key_misses [OF _ keeps free _ 1, of 10] by (simp add: append_trip_def)
  moreover have "length (trips (snd (intercept True (Some ''k'') append_trip 10 (snd (intercept True (Some ''k'') append_trip 0 empty_world))))) = 2"
    by (simp add: intercept_def append_trip_def redis_set_nx_cases empty_world_def return_def Let_def)
  ultimately show ?thesis by simp
qed

end
