(* ===== verification/Controllers.thy ===== *)
theory Controllers
  imports Request_Validation Notifications Http_Shell
begin

text \<open>
  The HTTP interface: the routes of every controller with what they carry, the two guards in front
  of them, and the handler each route calls. A body has the members of its DTO; one that breaks a
  condition of \<open>Request_Validation\<close> is answered 400 by the \<open>ValidationPipe\<close>, an id that is no UUID
  by \<open>ParseUUIDPipe\<close>. A page number is the parsed integer of the query, missing when it is empty.
\<close>

section \<open>The state and the request\<close>

text \<open>The tables, what the payment provider remembers, and the two tables only their controllers use.\<close>

record 'p backend =
  db :: world
  provider_state :: 'p
  swap_stations :: "SwapStation list"
  platform_settings :: "PlatformSettings option"

text \<open>
  What the outside decides about one request: its time, the ids of new rows, the random draw, and
  what the two pings of the health check answer (\<open>None\<close> is a failed connection).
\<close>

record Chance =
  ch_now :: time
  ch_id :: id
  ch_id2 :: id
  ch_draw :: nat
  ch_database :: bool
  ch_pong :: "string option"

section \<open>Who asks\<close>

record AuthenticatedUser =
  me_id :: id
  me_phone :: string
  me_role :: UserRole

definition jwt_validate :: "JwtPayload \<Rightarrow> AuthenticatedUser" where
  "jwt_validate payload = \<lparr>me_id = sub payload, me_phone = jp_phone payload, me_role = jp_role payload\<rparr>"

text \<open>The bearer token of the header, if there is one.\<close>

definition jwt_canActivate ::
  "Libraries \<Rightarrow> AuthConfig \<Rightarrow> time \<Rightarrow> bool \<Rightarrow> string option \<Rightarrow> http_error + AuthenticatedUser option" where
  "jwt_canActivate lib cfg now isPublic bearer =
     (if isPublic then Inr None
      else (case Option.bind bearer (jwt_verify lib (JWT_ACCESS_SECRET cfg) now) of
              None \<Rightarrow> Inl (UnauthorizedException ''Unauthorized'')
            | Some payload \<Rightarrow> Inr (Some (jwt_validate payload))))"

section \<open>Routes\<close>

record UploadedFile =
  uf_originalname :: string
  uf_mimetype :: string

datatype TripsRoute =
    CreateTrip CreateTripDto
  | ListMyTrips "int option" "int option" "TripStatus option"
  | GetTrip id
  | UpdateStatus id UpdateTripStatusDto
  | AcceptTrip id
  | DeclineTrip id
  | ConfirmPaymentReceived id real
  | CompleteTrip id real
  | RateTrip id CreateRatingDto
  | ConfirmDelivery id
  | ReportIssue id "string option"
  | RaiseSos id SosDto

datatype DriversRoute =
    UploadDocument "UploadedFile option" string
  | RegisterDriver RegisterDriverDto
  | DriverMe
  | UpdateOnlineStatus bool
  | MyFinances
  | MyCommissions "int option" "int option"
  | AllDrivers "string option"
  | OneDriver id
  | ValidateDriver id
  | SuspendDriver id string

datatype PaymentsRoute = PayCommission PayCommissionDto | CheckPayment id | Webhook json

datatype ChatRoute =
    GetMessages id
  | SendMessage id "string option" "string option"
  | UploadAudio "UploadedFile option"

datatype AccountRoute = UserMe | UpdateMe UpdateUserDto | RegisterDevice string DevicePlatform | UnregisterDevice string

datatype AuthRoute =
    RequestOtp RequestOtpDto
  | VerifyOtp VerifyOtpDto
  | Refresh string
  | AdminLogin AdminLoginDto
  | Logout string

datatype VehicleTypesRoute =
    AllTypes bool
  | OneType id
  | CreateType CreateVehicleTypeDto
  | UpdateType id UpdateVehicleTypeDto
  | DeactivateType id

datatype StationsRoute =
    FindStations "real option" "real option" "real option" bool
  | OneStation id
  | CreateStation CreateStationDto
  | UpdateStation id UpdateStationDto
  | RemoveStation id

datatype AdminPricingRoute =
    ListZones
  | CreateZone CreateZoneDto
  | UpdateZone id UpdateZoneDto
  | DeleteZone id
  | ListRules
  | CreateRule CreatePricingRuleDto
  | UpdateRule id UpdatePricingRuleDto
  | DeleteRule id

datatype AdminRoute =
    ListUsers "UserRole option" "string option" "int option" "int option"
  | ListTrips "TripStatus option" "ServiceType option" "int option" "int option"
  | AdminUser id
  | ListPayments "int option" "int option" "string option" "id option"
  | AdminPayment id
  | DriverPayments id "int option" "int option"
  | AdminTrip id
  | CreateUser CreateUserDto
  | AdminUpdateUser id AdminUpdateUserDto
  | GetStats
  | GetFinances
  | CommissionsReport "int option" "int option"

datatype SettingsRoute = GetSettings | UpdateSettings SettingsBody

datatype Route =
    TripsApi TripsRoute
  | DriversApi DriversRoute
  | PaymentsApi PaymentsRoute
  | DispatchPending
  | TrackingPosition UpdatePositionDto
  | ChatApi ChatRoute
  | AccountApi AccountRoute
  | AuthApi AuthRoute
  | VehicleTypesApi VehicleTypesRoute
  | StationsApi StationsRoute
  | Quote PriceQuoteInput
  | Health
  | AdminPricingApi AdminPricingRoute
  | AdminApi AdminRoute
  | SettingsApi SettingsRoute

text \<open>\<open>@Public()\<close> and \<open>@Roles(...)\<close>.\<close>

definition is_public :: "Route \<Rightarrow> bool" where
  "is_public route =
     (case route of
        PaymentsApi r \<Rightarrow> (case r of Webhook _ \<Rightarrow> True | _ \<Rightarrow> False)
      | AuthApi r \<Rightarrow> (case r of Logout _ \<Rightarrow> False | _ \<Rightarrow> True)
      | VehicleTypesApi r \<Rightarrow> (case r of AllTypes _ \<Rightarrow> True | OneType _ \<Rightarrow> True | _ \<Rightarrow> False)
      | Health \<Rightarrow> True
      | _ \<Rightarrow> False)"

definition required_roles :: "Route \<Rightarrow> UserRole list option" where
  "required_roles route =
     (case route of
        DriversApi r \<Rightarrow>
          (case r of AllDrivers _ \<Rightarrow> Some [role_admin] | OneDriver _ \<Rightarrow> Some [role_admin]
           | ValidateDriver _ \<Rightarrow> Some [role_admin] | SuspendDriver _ _ \<Rightarrow> Some [role_admin] | _ \<Rightarrow> None)
      | PaymentsApi r \<Rightarrow> (case r of Webhook _ \<Rightarrow> None | _ \<Rightarrow> Some [role_driver])
      | VehicleTypesApi r \<Rightarrow> (case r of AllTypes _ \<Rightarrow> None | OneType _ \<Rightarrow> None | _ \<Rightarrow> Some [role_admin])
      | StationsApi r \<Rightarrow> (case r of FindStations _ _ _ _ \<Rightarrow> None | OneStation _ \<Rightarrow> None | _ \<Rightarrow> Some [role_admin])
      | AdminPricingApi _ \<Rightarrow> Some [role_admin]
      | AdminApi _ \<Rightarrow> Some [role_admin]
      | SettingsApi _ \<Rightarrow> Some [role_admin]
      | _ \<Rightarrow> None)"

text \<open>\<open>@Idempotent()\<close>.\<close>

definition is_idempotent :: "Route \<Rightarrow> bool" where
  "is_idempotent route =
     (case route of TripsApi r \<Rightarrow> (case r of CreateTrip _ \<Rightarrow> True | UpdateStatus _ _ \<Rightarrow> True | _ \<Rightarrow> False) | _ \<Rightarrow> False)"

section \<open>Answers\<close>

record HealthAnswer =
  he_database :: string
  he_redis :: string
  he_status :: string
  he_timestamp :: time

datatype TripsReplies =
    TripReply Trip
  | TripPageReply TripPage
  | IdReply id
  | RatingReply TripRating
  | PendingReply "TripRequest option"
  | MessageReply ChatMessage
  | MessagesReply "ChatMessage list"
  | QuoteReply PricingResult

datatype PeopleReplies =
    DriverReply Driver
  | DriversReply "Driver list"
  | UserReply User
  | OtpReply OtpAnswer
  | LoginReply LoginAnswer
  | TokensReply TokenPair
  | AdminLoginReply TokenPair User

datatype MoneyReplies =
    FinancesReply "Finances option"
  | PaymentPageReply "PaymentPage option"
  | PaymentReply PaymentAnswer
  | PaymentStatusReply CommissionPaymentStatus CommissionPayment
  | WebhookReply WebhookAnswer

datatype CatalogReplies =
    TypeReply VehicleType
  | TypesReply "VehicleType list"
  | StationReply SwapStation
  | StationsReply "SwapStation list"
  | ZoneReply ServiceZone
  | ZonesReply "ServiceZone list"
  | RuleReply PricingRuleRow
  | RulesReply "(PricingRuleRow \<times> (id \<times> string) option) list"
  | SettingsReply PlatformSettings

datatype DashboardReplies =
    UsersReply "UserListRow AdminPage"
  | UserDetailReply "UserDetail option"
  | AdminTripsReply "AdminTripRow AdminPage"
  | AdminPaymentsReply "AdminPaymentRow AdminPage"
  | AdminPaymentReply "AdminPaymentRow option"
  | DriverPaymentsReply "CommissionPayment AdminPage"
  | TripDetailReply "TripDetail option"
  | StatsReply Stats
  | FinanceReply FinanceReport
  | CommissionsReply "CommissionRow AdminPage"

text \<open>\<open>NothingReply\<close> is a body without data of its own, such as a flag that says it was done.\<close>

datatype Reply =
    NothingReply
  | UrlReply string
  | HealthReply HealthAnswer
  | JsonReply string
  | TripsBody TripsReplies
  | PeopleBody PeopleReplies
  | MoneyBody MoneyReplies
  | CatalogBody CatalogReplies
  | DashboardBody DashboardReplies

text \<open>The configured libraries and services; \<open>'p\<close> is the state of the payment provider.\<close>

record 'p platform =
  pf_env :: "'p Env"
  pf_lib :: Libraries
  pf_cfg :: AuthConfig
  pf_formats :: Formats
  pf_fetch :: julakai_fetch
  pf_sms :: "string \<Rightarrow> string \<Rightarrow> SmsOutcome"
  pf_upload :: "UploadInput \<Rightarrow> http_error + string"
  pf_json :: "Reply \<Rightarrow> string"

type_synonym 's response = "(Reply, 's) outcome"

text \<open>The value a service returns is the body of the answer; a query does not change the state.\<close>

definition answer :: "('a \<Rightarrow> Reply) \<Rightarrow> ('a, 's) outcome \<Rightarrow> 's response" where
  "answer f m = (case m of (Inl e, s) \<Rightarrow> throw e s | (Inr x, s) \<Rightarrow> return (f x) s)"

definition query :: "('a \<Rightarrow> Reply) \<Rightarrow> http_error + 'a \<Rightarrow> 's \<Rightarrow> 's response" where
  "query f r s = (case r of Inl e \<Rightarrow> throw e s | Inr x \<Rightarrow> return (f x) s)"

text \<open>The pipes: a condition of the DTO, and \<open>ParseUUIDPipe\<close>.\<close>

definition valid_body :: "bool \<Rightarrow> ('s \<Rightarrow> 's response) \<Rightarrow> 's \<Rightarrow> 's response" where
  "valid_body c h s = (if c then h s else throw (BadRequestException ''Bad Request'') s)"

definition uuid :: "'p platform \<Rightarrow> id \<Rightarrow> ('s \<Rightarrow> 's response) \<Rightarrow> 's \<Rightarrow> 's response" where
  "uuid pf i h s =
     (if isUUID (pf_formats pf) i then h s
      else throw (BadRequestException ''Validation failed (uuid is expected)'') s)"

text \<open>\<open>file.mimetype\<close> is checked by the interceptor of the upload, before the handler runs.\<close>

definition accept_file :: "string set \<Rightarrow> string \<Rightarrow> UploadedFile option \<Rightarrow> http_error + UploadedFile" where
  "accept_file allowed refusal file =
     (case file of
        None \<Rightarrow> Inl (BadRequestException ''Aucun fichier recu'')
      | Some f \<Rightarrow> if uf_mimetype f \<in> allowed then Inr f else Inl (BadRequestException refusal))"

section \<open>The handlers\<close>

fun tripsController ::
  "'p platform \<Rightarrow> Chance \<Rightarrow> AuthenticatedUser \<Rightarrow> TripsRoute \<Rightarrow> world \<Rightarrow> world response" where
  "tripsController pf ch me (CreateTrip dto) =
     valid_body (valid_CreateTripDto dto)
       (\<lambda>w. answer (TripsBody \<circ> TripReply) (createTrip (e_matrix (pf_env pf)) (e_tz (pf_env pf)) (ch_id ch) (ch_now ch) (me_id me) dto w))"
| "tripsController pf ch me (ListMyTrips page limit status) =
     (\<lambda>w. answer (TripsBody \<circ> TripPageReply) (listMyTrips (me_id me) (me_role me) (nullish page 1) (nullish limit 20) status w))"
| "tripsController pf ch me (GetTrip i) = uuid pf i (\<lambda>w. answer (TripsBody \<circ> TripReply) (getTrip i w))"
| "tripsController pf ch me (UpdateStatus i dto) =
     uuid pf i (\<lambda>w. answer (TripsBody \<circ> TripReply) (updateStatus (ch_now ch) i (me_id me) (me_role me) dto w))"
| "tripsController pf ch me (AcceptTrip i) =
     uuid pf i (\<lambda>w. answer (TripsBody \<circ> TripReply) (acceptTrip (ch_now ch) i (me_id me) w))"
| "tripsController pf ch me (DeclineTrip i) =
     uuid pf i (\<lambda>w. answer (TripsBody \<circ> IdReply) (declineTrip (e_spherical (pf_env pf)) (ch_now ch) i (me_id me) w))"
| "tripsController pf ch me (ConfirmPaymentReceived i amount) =
     uuid pf i (valid_body (valid_PaymentReceivedDto amount)
       (\<lambda>w. answer (TripsBody \<circ> TripReply) (confirmPaymentReceived (ch_now ch) i (me_id me) (me_role me) amount w)))"
| "tripsController pf ch me (CompleteTrip i amount) =
     uuid pf i (valid_body (valid_PaymentReceivedDto amount)
       (\<lambda>w. answer (TripsBody \<circ> TripReply) (completeTrip (ch_now ch) i (me_id me) (me_role me) amount w)))"
| "tripsController pf ch me (RateTrip i dto) =
     uuid pf i (valid_body (valid_CreateRatingDto dto)
       (\<lambda>w. answer (TripsBody \<circ> RatingReply) (rateTrip i (me_id me) (me_role me) (cr_rating dto) (cr_tags dto) w)))"
| "tripsController pf ch me (ConfirmDelivery i) =
     uuid pf i (\<lambda>w. answer (\<lambda>_. NothingReply) (confirmDelivery (ch_now ch) i (me_id me) w))"
| "tripsController pf ch me (ReportIssue i reason) =
     uuid pf i (\<lambda>w. answer (\<lambda>_. NothingReply) (reportDeliveryIssue (ch_now ch) i (me_id me) reason w))"
| "tripsController pf ch me (RaiseSos i dto) =
     uuid pf i (valid_body (valid_SosDto dto)
       (\<lambda>w. answer (\<lambda>_. NothingReply)
         (raiseSos (ch_now ch) i (me_id me) (me_role me) (so_lat dto) (so_lng dto) (so_message dto) w)))"

fun driversController ::
  "'p platform \<Rightarrow> Chance \<Rightarrow> AuthenticatedUser \<Rightarrow> DriversRoute \<Rightarrow> world \<Rightarrow> world response" where
  "driversController pf ch me (UploadDocument file documentType) =
     query UrlReply
       (case accept_file {''image/jpeg'', ''image/png'', ''image/webp'', ''application/pdf''}
               ''Type de fichier non autorise (JPEG, PNG, WebP, PDF)'' file of
          Inl e \<Rightarrow> Inl e
        | Inr f \<Rightarrow> uploadDocument (pf_upload pf) (me_id me) (uf_originalname f) (uf_mimetype f) documentType)"
| "driversController pf ch me (RegisterDriver dto) =
     valid_body (valid_RegisterDriverDto dto) (\<lambda>w. answer (PeopleBody \<circ> DriverReply) (register (ch_id ch) (ch_now ch) (me_id me) dto w))"
| "driversController pf ch me DriverMe = (\<lambda>w. answer (PeopleBody \<circ> DriverReply) (findByUserId (me_id me) w))"
| "driversController pf ch me (UpdateOnlineStatus b) = (\<lambda>w. answer (PeopleBody \<circ> DriverReply) (updateOnlineStatus (me_id me) b w))"
| "driversController pf ch me MyFinances =
     (\<lambda>w. return (MoneyBody (FinancesReply (getDriverFinances (e_tz (pf_env pf)) (ch_now ch) (me_id me) w))) w)"
| "driversController pf ch me (MyCommissions page limit) =
     (\<lambda>w. query (MoneyBody \<circ> PaymentPageReply) (listCommissionPayments (me_id me) (nullish page 1) (nullish limit 20) w) w)"
| "driversController pf ch me (AllDrivers status) = (\<lambda>w. return (PeopleBody (DriversReply (drivers_findAll status w))) w)"
| "driversController pf ch me (OneDriver i) = (\<lambda>w. answer (PeopleBody \<circ> DriverReply) (drivers_findById i w))"
| "driversController pf ch me (ValidateDriver i) = (\<lambda>w. answer (PeopleBody \<circ> DriverReply) (validate_driver (ch_now ch) i w))"
| "driversController pf ch me (SuspendDriver i reason) =
     valid_body (valid_SuspendDriverDto reason) (\<lambda>w. answer (PeopleBody \<circ> DriverReply) (suspend (ch_now ch) i reason w))"

text \<open>On a public route \<open>@CurrentUser()\<close> is undefined; reading its id would fail.\<close>

definition as_user :: "AuthenticatedUser option \<Rightarrow> (AuthenticatedUser \<Rightarrow> 's \<Rightarrow> 's response) \<Rightarrow> 's \<Rightarrow> 's response" where
  "as_user me h s =
     (case me of None \<Rightarrow> throw (InternalError ''Cannot read properties of undefined'') s | Some u \<Rightarrow> h u s)"

fun paymentsController ::
  "'p platform \<Rightarrow> Chance \<Rightarrow> AuthenticatedUser option \<Rightarrow> PaymentsRoute \<Rightarrow> 'p \<times> world \<Rightarrow> ('p \<times> world) response" where
  "paymentsController pf ch me (PayCommission dto) =
     valid_body (valid_PayCommissionDto dto) (as_user me (\<lambda>u s.
       answer (MoneyBody \<circ> PaymentReply) (payCommission (e_provider (pf_env pf)) (ch_id ch) (ch_now ch) (me_id u) dto s)))"
| "paymentsController pf ch me (CheckPayment i) =
     as_user me (\<lambda>u s. answer (\<lambda>(st, p). MoneyBody (PaymentStatusReply st p))
       (checkPaymentStatus (e_provider (pf_env pf)) (e_prisma (pf_env pf)) (ch_now ch) i (me_id u) s))"
| "paymentsController pf ch me (Webhook payload) =
     (\<lambda>(st, w). map_prod id (Pair st)
       (answer (MoneyBody \<circ> WebhookReply) (handleWebhook (e_provider (pf_env pf)) (e_prisma (pf_env pf)) (ch_now ch) payload w)))"

definition dispatch_getPending :: "Chance \<Rightarrow> AuthenticatedUser \<Rightarrow> world \<Rightarrow> world response" where
  "dispatch_getPending ch me w =
     (let (request, w1) = getPendingRequestForDriver (ch_now ch) (me_id me) w in return (TripsBody (PendingReply request)) w1)"

definition tracking_updatePosition ::
  "'p platform \<Rightarrow> Chance \<Rightarrow> AuthenticatedUser \<Rightarrow> UpdatePositionDto \<Rightarrow> world \<Rightarrow> world response" where
  "tracking_updatePosition pf ch me dto =
     valid_body (valid_UpdatePositionDto (pf_formats pf) dto)
       (\<lambda>w. answer (\<lambda>_. NothingReply) (updatePosition (ch_now ch) (me_id me) dto w))"

fun chatController ::
  "'p platform \<Rightarrow> Chance \<Rightarrow> AuthenticatedUser \<Rightarrow> ChatRoute \<Rightarrow> world \<Rightarrow> world response" where
  "chatController pf ch me (GetMessages i) = uuid pf i (\<lambda>w. answer (TripsBody \<circ> MessagesReply) (getMessages i (me_id me) w))"
| "chatController pf ch me (SendMessage i content audioUrl) =
     uuid pf i (\<lambda>w.
       (let senderRole = (if me_role me = role_driver then sender_driver else sender_client)
        in answer (TripsBody \<circ> MessageReply) (createMessage (ch_id ch) (ch_now ch) i (me_id me) senderRole content audioUrl w)))"
| "chatController pf ch me (UploadAudio file) =
     query UrlReply
       (case accept_file {''audio/mpeg'', ''audio/mp4'', ''audio/m4a'', ''audio/x-m4a'', ''audio/aac'', ''audio/wav''}
               ''Format audio non autorise'' file of
          Inl e \<Rightarrow> Inl e
        | Inr f \<Rightarrow> pf_upload pf \<lparr>up_originalName = uf_originalname f, up_mimeType = uf_mimetype f,
                                 up_folder = ''chat/audio''\<rparr>)"

fun accountController ::
  "'p platform \<Rightarrow> AuthenticatedUser \<Rightarrow> AccountRoute \<Rightarrow> world \<Rightarrow> world response" where
  "accountController pf me UserMe = (\<lambda>w. answer (PeopleBody \<circ> UserReply) (users_findById (me_id me) w))"
| "accountController pf me (UpdateMe dto) =
     valid_body (valid_UpdateUserDto (pf_formats pf) dto) (\<lambda>w. answer (PeopleBody \<circ> UserReply) (updateUser (me_id me) dto w))"
| "accountController pf me (RegisterDevice token device) =
     (\<lambda>w. return NothingReply (devices_register (me_id me) token device w))"
| "accountController pf me (UnregisterDevice token) = (\<lambda>w. return NothingReply (devices_unregister token w))"

fun authController ::
  "'p platform \<Rightarrow> Chance \<Rightarrow> AuthenticatedUser option \<Rightarrow> AuthRoute \<Rightarrow> world \<Rightarrow> world response" where
  "authController pf ch me (RequestOtp dto) =
     valid_body (valid_RequestOtpDto dto) (\<lambda>w. answer (PeopleBody \<circ> OtpReply)
       (requestOtp (pf_lib pf) (pf_fetch pf) (pf_sms pf) (pf_cfg pf) (ch_id ch) (ch_draw ch) (ch_now ch)
          (ro_phone dto) (nullish (ro_app dto) app_client) w))"
| "authController pf ch me (VerifyOtp dto) =
     valid_body (valid_VerifyOtpDto dto) (\<lambda>w. answer (PeopleBody \<circ> LoginReply)
       (verifyOtp (pf_lib pf) (pf_fetch pf) (pf_cfg pf) (ch_id ch) (ch_id2 ch) (ch_now ch)
          (vo_phone dto) (vo_code dto) (nullish (vo_app dto) app_client) w))"
| "authController pf ch me (Refresh token) =
     (\<lambda>w. answer (PeopleBody \<circ> TokensReply) (refresh (pf_lib pf) (pf_cfg pf) (ch_id ch) (ch_now ch) token w))"
| "authController pf ch me (AdminLogin dto) =
     valid_body (valid_AdminLoginDto (pf_formats pf) dto) (\<lambda>w. answer (\<lambda>(t, u). PeopleBody (AdminLoginReply t u))
       (adminLogin (pf_lib pf) (pf_cfg pf) (ch_id ch) (ch_now ch) (al_email dto) (al_password dto) w))"
| "authController pf ch me (Logout token) =
     as_user me (\<lambda>u w. return NothingReply (logout (pf_lib pf) (ch_now ch) (me_id u) token w))"

fun vehicleTypesController :: "Chance \<Rightarrow> VehicleTypesRoute \<Rightarrow> world \<Rightarrow> world response" where
  "vehicleTypesController ch (AllTypes includeInactive) = (\<lambda>w. return (CatalogBody (TypesReply (vehicleTypes_findAll includeInactive w))) w)"
| "vehicleTypesController ch (OneType i) = (\<lambda>w. answer (CatalogBody \<circ> TypeReply) (vehicleTypes_findOne i w))"
| "vehicleTypesController ch (CreateType dto) =
     valid_body (valid_CreateVehicleTypeDto dto) (\<lambda>w. answer (CatalogBody \<circ> TypeReply) (vehicleTypes_create (ch_id ch) (ch_now ch) dto w))"
| "vehicleTypesController ch (UpdateType i dto) =
     valid_body (valid_UpdateVehicleTypeDto dto) (\<lambda>w. answer (CatalogBody \<circ> TypeReply) (vehicleTypes_update i dto w))"
| "vehicleTypesController ch (DeactivateType i) = (\<lambda>w. answer (CatalogBody \<circ> TypeReply) (vehicleTypes_deactivate i w))"

fun stationsController ::
  "'p platform \<Rightarrow> Chance \<Rightarrow> StationsRoute \<Rightarrow> SwapStation list \<Rightarrow> (SwapStation list) response" where
  "stationsController pf ch (FindStations lt lg radius includeInactive) =
     (\<lambda>ss. return (CatalogBody (StationsReply (stations_findAll lt lg radius includeInactive ss))) ss)"
| "stationsController pf ch (OneStation i) = uuid pf i (\<lambda>ss. answer (CatalogBody \<circ> StationReply) (stations_findOne i ss))"
| "stationsController pf ch (CreateStation dto) =
     valid_body (valid_CreateStationDto dto) (\<lambda>ss. answer (CatalogBody \<circ> StationReply) (stations_create (ch_id ch) (ch_now ch) dto ss))"
| "stationsController pf ch (UpdateStation i dto) =
     uuid pf i (valid_body (valid_UpdateStationDto dto) (\<lambda>ss. answer (CatalogBody \<circ> StationReply) (stations_update i dto ss)))"
| "stationsController pf ch (RemoveStation i) =
     uuid pf i (\<lambda>ss. answer (\<lambda>_. NothingReply) (stations_remove i ss))"

definition pricing_getQuote :: "'p platform \<Rightarrow> Chance \<Rightarrow> PriceQuoteInput \<Rightarrow> world \<Rightarrow> world response" where
  "pricing_getQuote pf ch dto w =
     answer (TripsBody \<circ> QuoteReply) (calculatePrice (e_matrix (pf_env pf)) (e_tz (pf_env pf)) (ch_now ch) dto w)"

definition health_check :: "Chance \<Rightarrow> HealthAnswer" where
  "health_check ch =
     (let database = (if ch_database ch then ''ok'' else ''error'');
          redis = (if ch_pong ch = Some ''PONG'' then ''ok'' else ''error'')
      in \<lparr>he_database = database, he_redis = redis,
          he_status = (if list_all (\<lambda>v. v = ''ok'') [database, redis] then ''ok'' else ''degraded''),
          he_timestamp = ch_now ch\<rparr>)"

fun adminPricingController ::
  "'p platform \<Rightarrow> Chance \<Rightarrow> AdminPricingRoute \<Rightarrow> world \<Rightarrow> world response" where
  "adminPricingController pf ch ListZones = (\<lambda>w. return (CatalogBody (ZonesReply (listZones w))) w)"
| "adminPricingController pf ch (CreateZone dto) =
     valid_body (valid_CreateZoneDto dto) (\<lambda>w. answer (CatalogBody \<circ> ZoneReply) (createZone (ch_id ch) (ch_now ch) dto w))"
| "adminPricingController pf ch (UpdateZone i dto) =
     uuid pf i (valid_body (valid_UpdateZoneDto dto) (\<lambda>w. answer (CatalogBody \<circ> ZoneReply) (updateZone i dto w)))"
| "adminPricingController pf ch (DeleteZone i) = uuid pf i (\<lambda>w. answer (\<lambda>_. NothingReply) (deleteZone i w))"
| "adminPricingController pf ch ListRules = (\<lambda>w. return (CatalogBody (RulesReply (listPricingRules w))) w)"
| "adminPricingController pf ch (CreateRule dto) =
     valid_body (valid_CreatePricingRuleDto dto) (\<lambda>w. answer (CatalogBody \<circ> RuleReply) (createPricingRule (ch_id ch) dto w))"
| "adminPricingController pf ch (UpdateRule i dto) =
     uuid pf i (valid_body (valid_UpdatePricingRuleDto dto) (\<lambda>w. answer (CatalogBody \<circ> RuleReply) (updatePricingRule i dto w)))"
| "adminPricingController pf ch (DeleteRule i) = uuid pf i (\<lambda>w. answer (\<lambda>_. NothingReply) (deletePricingRule i w))"

fun adminController :: "'p platform \<Rightarrow> Chance \<Rightarrow> AdminRoute \<Rightarrow> world \<Rightarrow> world response" where
  "adminController pf ch (ListUsers role search page limit) = (\<lambda>w. query (DashboardBody \<circ> UsersReply) (listUsers role search page limit w) w)"
| "adminController pf ch (ListTrips status serviceType page limit) =
     (\<lambda>w. query (DashboardBody \<circ> AdminTripsReply) (listTrips status serviceType page limit w) w)"
| "adminController pf ch (AdminUser i) = uuid pf i (\<lambda>w. return (DashboardBody (UserDetailReply (getUser i w))) w)"
| "adminController pf ch (ListPayments page limit status driverId) =
     (\<lambda>w. query (DashboardBody \<circ> AdminPaymentsReply) (listPayments page limit status driverId w) w)"
| "adminController pf ch (AdminPayment i) = uuid pf i (\<lambda>w. return (DashboardBody (AdminPaymentReply (getPayment i w))) w)"
| "adminController pf ch (DriverPayments i page limit) =
     uuid pf i (\<lambda>w. query (DashboardBody \<circ> DriverPaymentsReply) (listDriverPayments i page limit w) w)"
| "adminController pf ch (AdminTrip i) = uuid pf i (\<lambda>w. return (DashboardBody (TripDetailReply (admin_getTrip i w))) w)"
| "adminController pf ch (CreateUser dto) =
     valid_body (valid_CreateUserDto dto)
       (\<lambda>w. answer (PeopleBody \<circ> UserReply) (createUser (pf_lib pf) (ch_id2 ch) (ch_id ch) (ch_now ch) dto w))"
| "adminController pf ch (AdminUpdateUser i dto) =
     uuid pf i (valid_body (valid_AdminUpdateUserDto dto) (\<lambda>w. answer (PeopleBody \<circ> UserReply) (admin_updateUser (pf_lib pf) i dto w)))"
| "adminController pf ch GetStats = (\<lambda>w. return (DashboardBody (StatsReply (getStats w))) w)"
| "adminController pf ch GetFinances = (\<lambda>w. return (DashboardBody (FinanceReply (getFinances (e_tz (pf_env pf)) (ch_now ch) w))) w)"
| "adminController pf ch (CommissionsReport page limit) =
     (\<lambda>w. query (DashboardBody \<circ> CommissionsReply) (getCommissionsReport page limit w) w)"

fun settingsController :: "SettingsRoute \<Rightarrow> PlatformSettings option \<Rightarrow> (PlatformSettings option) response" where
  "settingsController GetSettings s = (case getSettings s of (x, s') \<Rightarrow> return (CatalogBody (SettingsReply x)) s')"
| "settingsController (UpdateSettings body) s = (case updateSettings body s of (x, s') \<Rightarrow> return (CatalogBody (SettingsReply x)) s')"

section \<open>One request\<close>

definition on_db :: "(world \<Rightarrow> world response) \<Rightarrow> 'p backend \<Rightarrow> 'p backend response" where
  "on_db h b = (case h (db b) of (r, w) \<Rightarrow> (r, b\<lparr>db := w\<rparr>))"

text \<open>The interceptor stores and answers JSON texts.\<close>

definition idempotent_call ::
  "'p platform \<Rightarrow> Chance \<Rightarrow> bool \<Rightarrow> string option \<Rightarrow> (world \<Rightarrow> world response) \<Rightarrow> world \<Rightarrow> world response" where
  "idempotent_call pf ch isIdempotent key h w =
     (if \<not> isIdempotent \<or> \<not> truthy key then h w
      else answer JsonReply (intercept isIdempotent key
             (\<lambda>_ v. case h v of (r, v1) \<Rightarrow> (map_sum id (pf_json pf) r, v1)) (ch_now ch) w))"

lemma idempotent_call_state:
  "\<exists>r r'. snd (idempotent_call pf ch flag key h w) = w\<lparr>redis_keys := r\<rparr> \<or>
     snd (idempotent_call pf ch flag key h w) = (snd (h (w\<lparr>redis_keys := r\<rparr>)))\<lparr>redis_keys := r'\<rparr>"
proof (cases "\<not> flag \<or> \<not> truthy key")
  case True
  then have "snd (idempotent_call pf ch flag key h w) =
      (snd (h (w\<lparr>redis_keys := redis_keys w\<rparr>)))\<lparr>redis_keys := redis_keys (snd (h w))\<rparr>"
    by (auto simp: idempotent_call_def)
  then show ?thesis by blast
next
  case False
  let ?h = "\<lambda>_ v. case h v of (r, v1) \<Rightarrow> (map_sum id (pf_json pf) r, v1)"
  have "snd (idempotent_call pf ch flag key h w) = snd (intercept flag key ?h (ch_now ch) w)"
    using False by (simp add: idempotent_call_def answer_def throw_def return_def split: prod.split sum.split)
  moreover have "snd (?h now v) = snd (h v)" for now v by (simp add: split_beta)
  ultimately show ?thesis using intercept_state [of flag key ?h "ch_now ch" w] by simp
qed

fun controller ::
  "'p platform \<Rightarrow> Chance \<Rightarrow> string option \<Rightarrow> AuthenticatedUser option \<Rightarrow> Route \<Rightarrow> 'p backend \<Rightarrow> 'p backend response" where
  "controller pf ch key me (TripsApi r) b =
     on_db (idempotent_call pf ch (is_idempotent (TripsApi r)) key (as_user me (\<lambda>u. tripsController pf ch u r))) b"
| "controller pf ch key me (DriversApi r) b = on_db (as_user me (\<lambda>u. driversController pf ch u r)) b"
| "controller pf ch key me (PaymentsApi r) b =
     (case paymentsController pf ch me r (provider_state b, db b) of
        (x, (st, w)) \<Rightarrow> (x, b\<lparr>provider_state := st, db := w\<rparr>))"
| "controller pf ch key me DispatchPending b = on_db (as_user me (dispatch_getPending ch)) b"
| "controller pf ch key me (TrackingPosition dto) b = on_db (as_user me (\<lambda>u. tracking_updatePosition pf ch u dto)) b"
| "controller pf ch key me (ChatApi r) b = on_db (as_user me (\<lambda>u. chatController pf ch u r)) b"
| "controller pf ch key me (AccountApi r) b = on_db (as_user me (\<lambda>u. accountController pf u r)) b"
| "controller pf ch key me (AuthApi r) b = on_db (authController pf ch me r) b"
| "controller pf ch key me (VehicleTypesApi r) b = on_db (vehicleTypesController ch r) b"
| "controller pf ch key me (StationsApi r) b =
     (case stationsController pf ch r (swap_stations b) of (x, ss) \<Rightarrow> (x, b\<lparr>swap_stations := ss\<rparr>))"
| "controller pf ch key me (Quote dto) b = on_db (pricing_getQuote pf ch dto) b"
| "controller pf ch key me Health b = return (HealthReply (health_check ch)) b"
| "controller pf ch key me (AdminPricingApi r) b = on_db (adminPricingController pf ch r) b"
| "controller pf ch key me (AdminApi r) b = on_db (adminController pf ch r) b"
| "controller pf ch key me (SettingsApi r) b =
     (case settingsController r (platform_settings b) of (x, s) \<Rightarrow> (x, b\<lparr>platform_settings := s\<rparr>))"

text \<open>The guards run first, in the order in which the module registers them; then the handler.\<close>

definition handle_http ::
  "'p platform \<Rightarrow> Chance \<Rightarrow> string option \<Rightarrow> string option \<Rightarrow> Route \<Rightarrow> 'p backend \<Rightarrow> 'p backend response" where
  "handle_http pf ch bearer key route b =
     (case jwt_canActivate (pf_lib pf) (pf_cfg pf) (ch_now ch) (is_public route) bearer of
        Inl e \<Rightarrow> throw e b
      | Inr me \<Rightarrow>
          (case roles_canActivate (required_roles route) (map_option me_role me) of
             Inl e \<Rightarrow> throw e b
           | Inr _ \<Rightarrow> controller pf ch key me route b))"

lemma roles_pass:
  assumes "roles_canActivate roles role = Inr x"
  shows "case roles of None \<Rightarrow> True | Some rs \<Rightarrow> rs = [] \<or> (\<exists>r \<in> set rs. role = Some r)"
  using assms by (auto simp: roles_canActivate_def split: option.splits if_splits)

lemmas route_splits = Route.splits DriversRoute.splits PaymentsRoute.splits AuthRoute.splits
  VehicleTypesRoute.splits StationsRoute.splits

lemma public_needs_no_role: "is_public r \<Longrightarrow> required_roles r = None"
  by (simp add: is_public_def required_roles_def split: route_splits)

lemma required_not_empty: "required_roles r \<noteq> Some []"
  by (simp add: required_roles_def split: route_splits)

text \<open>
  No route lets a stranger through. Behind a route that is not public a request without a valid
  access token is answered 401, and one whose token carries a role the route does not admit is
  answered 403, and neither changes anything; so whatever is answered or changed on such a route
  was asked by the bearer of a valid token with an admitted role.
\<close>

theorem routes_guarded:
  assumes "\<not> is_public route"
  shows "case Option.bind bearer (jwt_verify (pf_lib pf) (JWT_ACCESS_SECRET (pf_cfg pf)) (ch_now ch)) of
      None \<Rightarrow> (\<exists>m. handle_http pf ch bearer key route b = (Inl (UnauthorizedException m), b))
    | Some p \<Rightarrow>
        (case required_roles route of
           Some roles \<Rightarrow> if jp_role p \<in> set roles then handle_http pf ch bearer key route b =
               controller pf ch key (Some (jwt_validate p)) route b
             else (\<exists>m. handle_http pf ch bearer key route b = (Inl (ForbiddenException m), b))
         | None \<Rightarrow> handle_http pf ch bearer key route b = controller pf ch key (Some (jwt_validate p)) route b)"
  using assms required_not_empty [of route]
  by (auto simp: handle_http_def jwt_canActivate_def roles_canActivate_def jwt_validate_def throw_def split: option.split)

end
