(* ===== verification/Catalog_Guard.thy ===== *)
theory Catalog_Guard
  imports Catalog Controllers
begin

text \<open>
  Who may change the catalog and the standing of people, and what the validation of the bodies is
  worth: the ranges that the pricing engine relies on hold of the tables after any request.
\<close>

section \<open>Standing and soundness\<close>

definition approved :: "world \<Rightarrow> id set" where
  "approved w = fst ` {x \<in> set (map (\<lambda>d. (d_id d, d_status d)) (drivers w)). snd x = validated}"

definition admins :: "world \<Rightarrow> id set" where
  "admins w = fst ` {x \<in> set (map (\<lambda>u. (u_id u, u_role u)) (users w)). snd x = role_admin}"

lemma approved_iff: "i \<in> approved w \<longleftrightarrow> (\<exists>d \<in> set (drivers w). d_id d = i \<and> d_status d = validated)"
  by (force simp: approved_def)

lemma admins_iff: "i \<in> admins w \<longleftrightarrow> (\<exists>u \<in> set (users w). u_id u = i \<and> u_role u = role_admin)"
  by (force simp: admins_def)

text \<open>What the surge cache holds is as sound as the tables it was loaded from.\<close>

definition cache_ok :: "PricingCache \<Rightarrow> bool" where
  "cache_ok c \<longleftrightarrow> (\<forall>z \<in> set (pc_zones c). 1 \<le> ze_surgeMultiplier z) \<and> (\<forall>r \<in> set (pc_rules c). 1 / 10 \<le> re_modifier r)"

definition catalog_ok :: "world \<Rightarrow> bool" where
  "catalog_ok w \<longleftrightarrow> (\<forall>v \<in> set (vehicleTypes w). type_ok v) \<and> (\<forall>z \<in> set (serviceZones w). zone_ok z) \<and>
     (\<forall>r \<in> set (pricingRules w). modifier_ok r) \<and> (\<forall>c \<in> set_option (pricingCache w). cache_ok c)"

text \<open>What the guard of the administrators keeps, but for the role of the users of a set (one who registers as a driver).\<close>

definition guarded_upto :: "id set \<Rightarrow> world \<Rightarrow> world \<Rightarrow> bool" where
  "guarded_upto S w w' \<longleftrightarrow> vehicleTypes w' = vehicleTypes w \<and> serviceZones w' = serviceZones w \<and>
     pricingRules w' = pricingRules w \<and> approved w' = approved w \<and> admins w' \<subseteq> admins w \<and> admins w - S \<subseteq> admins w' \<and>
     (catalog_ok w \<longrightarrow> catalog_ok w')"

abbreviation "guarded \<equiv> guarded_upto {}"

lemmas guarded_def = guarded_upto_def

lemma guarded_catalog: "catalog w' = catalog w \<Longrightarrow> guarded w w'"
  by (simp add: guarded_def catalog_def approved_def admins_def catalog_ok_def)

lemma guarded_refl: "guarded w w"
  by (rule guarded_catalog) simp

lemma guarded_trans: "guarded u v \<Longrightarrow> guarded v w \<Longrightarrow> guarded u w"
  unfolding guarded_def by auto

lemma guarded_then: "guarded u v \<Longrightarrow> catalog w = catalog v \<Longrightarrow> guarded u w"
  using guarded_trans guarded_catalog by blast

lemma guarded_from: "guarded v w \<Longrightarrow> catalog v = catalog u \<Longrightarrow> guarded u w"
  using guarded_trans guarded_catalog [of v u] by blast

lemma guarded_andThen:
  "guarded w (snd m) \<Longrightarrow> (\<And>x v. m = (Inr x, v) \<Longrightarrow> guarded v (snd (k x v))) \<Longrightarrow> guarded w (snd (andThen m k))"
  by (cases m; cases "fst m") (auto simp: andThen_def intro: guarded_trans)

section \<open>Quotes\<close>

lemma loadData_ok:
  assumes "catalog_ok w" and "loadData now w = ((zones, rules), w')"
  shows "(\<forall>z \<in> set zones. 1 \<le> ze_surgeMultiplier z) \<and> (\<forall>r \<in> set rules. 1 / 10 \<le> re_modifier r) \<and> catalog_ok w'"
  using assms
  by (auto simp: loadData_def Let_def catalog_ok_def cache_ok_def zone_ok_def modifier_ok_def split: option.splits if_splits)

lemma guarded_loadData: "guarded w (snd (loadData now w))"
proof -
  obtain zs rs w' where l: "loadData now w = ((zs, rs), w')" by (metis surj_pair)
  moreover have "vehicleTypes w' = vehicleTypes w \<and> serviceZones w' = serviceZones w \<and> pricingRules w' = pricingRules w \<and>
      drivers w' = drivers w \<and> users w' = users w"
    using l by (auto simp: loadData_def Let_def split: option.splits if_splits)
  ultimately show ?thesis using loadData_ok [OF _ l] by (simp add: guarded_def approved_def admins_def)
qed

lemma guarded_quote: "guarded w (snd (calculatePrice matrix tz now q w))"
  using guarded_loadData [of w now]
  by (auto simp: calculatePrice_def getSurgeMultiplier_def Let_def guarded_refl split: option.split prod.split)

lemma surge_nonneg:
  assumes "catalog_ok w"
  shows "0 \<le> fst (getSurgeMultiplier tz now cx w)"
proof -
  obtain zs rs w' where l: "loadData now w = ((zs, rs), w')" by (metis surj_pair)
  note ok = loadData_ok [OF assms l]
  have fold: "0 \<le> foldl (\<lambda>m r. if p r then m * re_modifier r else m) x rs" if "0 \<le> x" for p x
    unfolding surge_fold using that ok by (intro mult_nonneg_nonneg prod_list_map_nonneg) auto
  have "0 \<le> ze_surgeMultiplier z" if "find P zs = Some z" for P z
  proof -
    have "1 \<le> ze_surgeMultiplier z" using find_SomeD [OF that] ok by blast
    then show ?thesis by simp
  qed
  then show ?thesis
    by (auto simp: getSurgeMultiplier_def l Let_def intro!: divide_nonneg_pos Math_round_nonneg mult_nonneg_nonneg fold split: option.split)
qed

text \<open>Whatever the cache holds, a quote over a sound catalog is a whole amount and not negative.\<close>

lemma quote_sound:
  assumes ok: "catalog_ok w" and matrix: "0 \<le> dm_distanceMeters (matrix (q_pickup q) (q_dropoff q))" "0 \<le> dm_durationSeconds (matrix (q_pickup q) (q_dropoff q))"
    and quote: "calculatePrice matrix tz now q w = (Inr result, w')"
  shows "0 \<le> res_estimatedPrice result \<and> res_estimatedPrice result \<in> \<int> \<and> 0 \<le> res_commissionAmount result"
proof -
  obtain vt where vt: "vt \<in> set (vehicleTypes w)"
    and found: "find (\<lambda>vt. vt_id vt = q_vehicleTypeId q \<and> vt_isActive vt \<and> vt_serviceType vt = q_serviceType q) (vehicleTypes w) = Some vt"
    using quote by (auto simp: calculatePrice_def split: option.splits dest: find_SomeD)
  define cx where "cx = pricing_context q vt (matrix (q_pickup q) (q_dropoff q)) now"
  define cx' where "cx' = cx\<lparr>cx_surgeMultiplier := Some (fst (getSurgeMultiplier tz now cx w))\<rparr>"
  have result: "res_estimatedPrice result = res_estimatedPrice (calculate engine_rules cx')"
    "res_commissionAmount result = res_commissionAmount (calculate engine_rules cx')"
    using quote by (auto simp: calculatePrice_def found cx'_def cx_def Let_def return_def split: prod.splits)
  have type: "type_ok vt" using ok vt by (simp add: catalog_ok_def)
  then have fair: "fair_context cx'"
    using matrix surge_nonneg [OF ok] by (simp add: fair_context_def cx'_def cx_def pricing_context_def type_ok_def)
  have percent: "0 \<le> cx_commissionPercentage cx'" using type by (simp add: cx'_def cx_def pricing_context_def type_ok_def)
  let ?t = "b_total (run_rules engine_rules cx' initialBreakdown)"
  have "0 \<le> ?t" "?t \<in> \<int>"
    using run_rules_nonneg [OF engine_rules_contract fair] run_rules_whole [OF engine_rules_contract]
    by (simp_all add: initialBreakdown_def)
  with percent show ?thesis unfolding result by (simp add: calculate_def Let_def Math_round_nonneg)
qed

section \<open>Operations that write people or prices\<close>

lemma guarded_createTrip: "guarded w (snd (createTrip matrix tz i now client dto w))"
  unfolding createTrip_def insertWithGeometry_def Let_def split
  by (intro guarded_andThen guarded_quote)
    (auto simp: getTrip_def view_simps intro!: guarded_catalog split: option.splits)

lemma guarded_update_user:
  assumes f: "\<And>u. u_id (f u) = u_id u" "\<And>u. u_role (f u) = role_admin \<Longrightarrow> u_role u = role_admin" "\<And>u. p u \<Longrightarrow> u_id u \<in> S"
    and tables: "vehicleTypes w' = vehicleTypes w" "serviceZones w' = serviceZones w" "pricingRules w' = pricingRules w"
      "pricingCache w' = pricingCache w"
    and approved: "approved w' = approved w" and users: "users w' = update_where p f (users w)"
  shows "guarded_upto S w w'"
proof -
  have "admins w' \<subseteq> admins w"
  proof
    fix i
    assume "i \<in> admins w'"
    then obtain u where "u \<in> set (users w)" "u_id (if p u then f u else u) = i" "u_role (if p u then f u else u) = role_admin"
      by (auto simp: admins_iff users update_where_def)
    then have "u \<in> set (users w)" "u_id u = i" "u_role u = role_admin" using f by (auto split: if_splits)
    then show "i \<in> admins w" by (auto simp: admins_iff)
  qed
  moreover have "admins w - S \<subseteq> admins w'" using f(3) by (fastforce simp: admins_iff users update_where_def)
  ultimately show ?thesis using tables approved by (simp add: guarded_def catalog_ok_def)
qed

lemma guarded_register: "guarded_upto {u} w (snd (register i now u dto w))"
proof -
  have "guarded_upto {u} w (update_user u (\<lambda>u. u\<lparr>u_role := role_driver\<rparr>)
      (w\<lparr>drivers := drivers w @ [new_driver i u now dto], vehicles := vs\<rparr>))" for vs
    by (rule guarded_update_user [where f = "\<lambda>u. u\<lparr>u_role := role_driver\<rparr>" and p = "\<lambda>x. u_id x = u"])
      (auto simp: update_user_def approved_iff new_driver_def)
  then show ?thesis by (simp add: register_def Let_def guarded_def)
qed

lemma guarded_login: "guarded w (snd (completeLogin lib cfg i j now phone w))"
proof -
  have "guarded w (w\<lparr>users := users w @ [new_user i now phone]\<rparr>)"
    by (auto simp: guarded_def catalog_ok_def admins_iff approved_iff new_user_def)
  moreover have "catalog (snd (andThen (issueTokenPair lib cfg j now a ph r None v) (\<lambda>tokens. return (x tokens)))) = catalog v"
    for a ph r v and x :: "TokenPair \<Rightarrow> LoginAnswer"
    by (rule cat.view_andThen) (simp_all add: view_simps)
  ultimately show ?thesis
    unfolding completeLogin_def Let_def by (auto simp: guarded_refl intro: guarded_catalog elim: guarded_then)
qed

lemma guarded_verifyOtp: "guarded w (snd (verifyOtp lib fetch cfg i j now raw code app w))"
  by (auto simp: verifyOtp_def Let_def guarded_refl guarded_login view_simps
      intro: guarded_catalog guarded_from [OF guarded_login] split: sum.split option.split)

section \<open>Handlers\<close>

lemma handler_states [simp]:
  "snd (answer f m) = snd m" "snd (query g r s) = s"
  "snd (valid_body c h s) = (if c then snd (h s) else s)"
  "snd (uuid pf i h s) = (if isUUID (pf_formats pf) i then snd (h s) else s)"
  "snd (as_user me k s) = (case me of None \<Rightarrow> s | Some u \<Rightarrow> snd (k u s))"
  by (simp_all add: answer_def query_def valid_body_def uuid_def as_user_def split: prod.split sum.split option.split)

lemma read_only [simp]:
  "snd (listMyTrips u role p n st w) = w" "snd (getMessages i u w) = w" "snd (findByUserId u w) = w"
  "snd (drivers_findById i w) = w" "snd (users_findById i w) = w" "snd (vehicleTypes_findOne i w) = w"
proof -
  have "snd (assertParticipant i u w) = w" by (simp add: assertParticipant_def split: option.split)
  then show "snd (getMessages i u w) = w" by (cases "assertParticipant i u w") (auto simp: getMessages_def andThen_def split: sum.split)
qed (auto simp: listMyTrips_def findManyByDriver_def findManyByClient_def find_page_def Let_def andThen_def findByUserId_def
    drivers_findById_def users_findById_def vehicleTypes_findOne_def split: option.split sum.split)

lemma guarded_trips: "guarded w (snd (tripsController pf ch me r w))"
  by (cases r) (simp_all add: guarded_refl guarded_createTrip guarded_catalog view_simps)

lemma guarded_idempotent:
  assumes "\<And>v. guarded v (snd (h v))"
  shows "guarded w (snd (idempotent_call pf ch flag key h w))"
proof -
  have "guarded w ((snd (h (w\<lparr>redis_keys := r\<rparr>)))\<lparr>redis_keys := r'\<rparr>)" for r r'
    by (rule guarded_then [OF guarded_from [OF assms]]) (simp_all add: view_simps)
  moreover have "guarded w (w\<lparr>redis_keys := r\<rparr>)" for r by (rule guarded_catalog) (simp add: view_simps)
  ultimately show ?thesis using idempotent_call_state [of pf ch flag key h w] by auto
qed

lemma guarded_payments: "guarded w (snd (snd (paymentsController pf ch me r (st, w))))"
  by (cases r) (simp_all add: guarded_refl guarded_catalog view_simps split: option.split)

lemma guarded_people:
  "guarded w (snd (dispatch_getPending ch me w))" "guarded w (snd (tracking_updatePosition pf ch me dto w))"
  "guarded w (snd (chatController pf ch me rc w))" "guarded w (snd (accountController pf me ra w))"
  "guarded w (snd (authController pf ch mo au w))" "guarded w (snd (pricing_getQuote pf ch q w))"
proof -
  show "guarded w (snd (chatController pf ch me rc w))"
    by (cases rc) (simp_all add: guarded_refl guarded_catalog view_simps Let_def)
  show "guarded w (snd (accountController pf me ra w))"
    by (cases ra) (simp_all add: guarded_refl guarded_catalog view_simps)
  show "guarded w (snd (authController pf ch mo au w))"
    by (cases au) (simp_all add: guarded_refl guarded_catalog guarded_verifyOtp view_simps split: option.split)
qed (simp_all add: dispatch_getPending_def tracking_updatePosition_def pricing_getQuote_def guarded_refl guarded_quote guarded_catalog
    view_simps split_beta)

lemma guarded_drivers:
  "required_roles (DriversApi r) \<noteq> Some [role_admin] \<Longrightarrow> \<forall>dto. r \<noteq> RegisterDriver dto \<Longrightarrow>
     guarded w (snd (driversController pf ch me r w))"
  "guarded_upto {me_id me} w (snd (driversController pf ch me (RegisterDriver dto) w))"
proof -
  show "required_roles (DriversApi r) \<noteq> Some [role_admin] \<Longrightarrow> \<forall>dto. r \<noteq> RegisterDriver dto \<Longrightarrow>
     guarded w (snd (driversController pf ch me r w))"
    by (cases r) (simp_all add: required_roles_def guarded_refl guarded_catalog view_simps)
  show "guarded_upto {me_id me} w (snd (driversController pf ch me (RegisterDriver dto) w))"
    using guarded_register by (simp add: guarded_def)
qed

lemma guarded_types:
  "required_roles (VehicleTypesApi r) \<noteq> Some [role_admin] \<Longrightarrow> guarded w (snd (vehicleTypesController ch r w))"
  by (cases r) (simp_all add: required_roles_def guarded_refl)

lemma stations_kept:
  "required_roles (StationsApi r) \<noteq> Some [role_admin] \<Longrightarrow> snd (stationsController pf ch r ss) = ss"
  by (cases r) (simp_all add: required_roles_def stations_findOne_def split: option.split)

text \<open>Everything the guard of the administrators protects.\<close>

definition guarded_backend_upto :: "id set \<Rightarrow> 'p backend \<Rightarrow> 'p backend \<Rightarrow> bool" where
  "guarded_backend_upto S b b' \<longleftrightarrow> guarded_upto S (db b) (db b') \<and> swap_stations b' = swap_stations b \<and> platform_settings b' = platform_settings b"

abbreviation "guarded_backend \<equiv> guarded_backend_upto {}"

lemmas guarded_backend_def = guarded_backend_upto_def

lemma guarded_backend_refl: "guarded_backend b b"
  by (simp add: guarded_backend_def guarded_refl)

lemma guarded_on_db: "guarded_upto S (db b) (snd (h (db b))) \<Longrightarrow> guarded_backend_upto S b (snd (on_db h b))"
  by (simp add: on_db_def guarded_backend_def split_beta)

lemma guarded_as_user: "(\<And>u. guarded w (snd (h u w))) \<Longrightarrow> guarded w (snd (as_user me h w))"
  by (simp add: guarded_refl split: option.split)

lemma guarded_controller:
  assumes "required_roles route \<noteq> Some [role_admin]" and register: "\<forall>dto. route \<noteq> DriversApi (RegisterDriver dto)"
  shows "guarded_backend b (snd (controller pf ch key me route b))"
proof (cases route)
  case (TripsApi r)
  then show ?thesis by (auto intro!: guarded_on_db guarded_idempotent guarded_as_user guarded_trips)
next
  case (PaymentsApi r)
  then show ?thesis
    using guarded_payments [of "db b" pf ch me r "provider_state b"] by (simp add: guarded_backend_def split_beta)
next
  case (StationsApi r)
  with assms show ?thesis by (simp add: stations_kept guarded_backend_def guarded_refl split_beta)
next
  case (DriversApi r)
  with assms show ?thesis by (auto intro!: guarded_on_db guarded_as_user guarded_drivers)
next
  case (VehicleTypesApi r)
  with assms show ?thesis by (auto intro!: guarded_on_db guarded_types)
qed (use assms(1) in \<open>simp_all add: required_roles_def guarded_on_db guarded_as_user guarded_people guarded_backend_refl
      del: handler_states(5)\<close>)

lemma registering_controller:
  "guarded_backend_upto (me_id ` set_option me) b (snd (controller pf ch key me (DriversApi (RegisterDriver dto)) b))"
  using guarded_drivers(2) [of _ "db b" pf ch dto]
  by (cases me) (simp_all add: guarded_on_db guarded_backend_refl guarded_refl del: driversController.simps)

section \<open>The dashboard keeps the catalog sound\<close>

lemma catalog_ok_same:
  "vehicleTypes w' = vehicleTypes w \<Longrightarrow> serviceZones w' = serviceZones w \<Longrightarrow> pricingRules w' = pricingRules w \<Longrightarrow>
   pricingCache w' = pricingCache w \<Longrightarrow> catalog_ok w' \<longleftrightarrow> catalog_ok w"
  by (simp add: catalog_ok_def)

lemma catalog_ok_invalidate:
  "catalog_ok (invalidateCache w) \<longleftrightarrow> (\<forall>v \<in> set (vehicleTypes w). type_ok v) \<and> (\<forall>z \<in> set (serviceZones w). zone_ok z) \<and>
     (\<forall>r \<in> set (pricingRules w). modifier_ok r)"
  by (simp add: catalog_ok_def invalidateCache_def)

lemma edited_ok:
  "valid_UpdateVehicleTypeDto td \<Longrightarrow> type_ok v \<Longrightarrow> type_ok (edited_type td v)"
  "valid_UpdateZoneDto zd \<Longrightarrow> zone_ok z \<Longrightarrow> zone_ok (edited_zone zd z)"
  "valid_UpdatePricingRuleDto rd \<Longrightarrow> modifier_ok r \<Longrightarrow> modifier_ok (edited_rule rd r)"
  by (auto simp: valid_UpdateVehicleTypeDto_def type_ok_def edited_type_def valid_UpdateZoneDto_def zone_ok_def edited_zone_def
      valid_UpdatePricingRuleDto_def modifier_ok_def edited_rule_def optional_def split: option.splits)

lemma created_ok:
  "optional (\<lambda>x. 1 \<le> x) m \<Longrightarrow> zone_ok \<lparr>z_id = i, z_name = n, z_city = c, z_centerLat = x, z_centerLng = y, z_radiusKm = rk,
     z_surgeMultiplier = nullish m 1, z_isActive = b, z_createdAt = t\<rparr>"
  "1 / 10 \<le> d \<Longrightarrow> modifier_ok \<lparr>pr_id = i, pr_name = n, pr_serviceType = s, pr_vehicleTypeId = v, pr_zoneId = z,
     pr_condition = co, pr_modifier = d, pr_priority = p, pr_isActive = b\<rparr>"
  by (simp_all add: zone_ok_def modifier_ok_def optional_def split: option.splits)

lemma modifier_ok_zone [simp]: "modifier_ok (q\<lparr>pr_zoneId := z\<rparr>) \<longleftrightarrow> modifier_ok q"
  by (simp add: modifier_ok_def)

lemma sound_pricing:
  assumes "catalog_ok w"
  shows "catalog_ok (snd (adminPricingController pf ch r w))"
  using assms [unfolded catalog_ok_def] assms
  by (cases r)
    (auto simp: createZone_def updateZone_def deleteZone_def createPricingRule_def updatePricingRule_def deletePricingRule_def
      Let_def catalog_ok_invalidate valid_CreateZoneDto_def valid_CreatePricingRuleDto_def
      update_where_def delete_where_def intro: edited_ok created_ok split: option.split)

lemma sound_types:
  assumes "catalog_ok w"
  shows "catalog_ok (snd (vehicleTypesController ch r w))"
proof -
  have off: "type_ok (v\<lparr>vt_isActive := False\<rparr>) \<longleftrightarrow> type_ok v" for v by (simp add: type_ok_def)
  have new: "catalog_ok w'" if "\<forall>v \<in> set (vehicleTypes w'). type_ok v" "serviceZones w' = serviceZones w"
      "pricingRules w' = pricingRules w" "pricingCache w' = pricingCache w" for w'
    using assms that by (simp add: catalog_ok_def)
  have old: "\<forall>v \<in> set (vehicleTypes w). type_ok v" using assms by (simp add: catalog_ok_def)
  show ?thesis
  proof (cases r)
    case (CreateType dto)
    then show ?thesis
      using assms old by (auto simp: vehicleTypes_create_def Let_def valid_CreateVehicleTypeDto_def type_ok_def intro!: new)
  next
    case (UpdateType i dto)
    then show ?thesis
      using assms old
      by (auto simp: vehicleTypes_update_def vehicleTypes_findOne_def update_vehicleType_def Let_def
          update_where_def edited_ok intro!: new split: option.split)
  next
    case (DeactivateType i)
    then show ?thesis
      using assms old
      by (auto simp: vehicleTypes_deactivate_def vehicleTypes_findOne_def update_vehicleType_def off
          update_where_def intro!: new split: option.split)
  qed (simp_all add: assms)
qed

lemma sound_people:
  assumes "catalog_ok w"
  shows "catalog_ok (snd (driversController pf ch me rd w))" and "catalog_ok (snd (adminController pf ch ra w))"
proof -
  have people: "catalog_ok (w\<lparr>drivers := d\<rparr>)" "catalog_ok (w\<lparr>users := u\<rparr>)" "catalog_ok (w\<lparr>users := u, drivers := d\<rparr>)" for u d
    using assms by (simp_all add: catalog_ok_def)
  show "catalog_ok (snd (adminController pf ch ra w))"
    using assms by (cases ra)
      (simp_all add: createUser_def admin_updateUser_def update_user_def Let_def people split: option.split)
  show "catalog_ok (snd (driversController pf ch me rd w))"
  proof (cases "required_roles (DriversApi rd) = Some [role_admin]")
    case True
    then show ?thesis
      using assms by (cases rd)
        (simp_all add: required_roles_def validate_driver_def suspend_def drivers_findById_def update_driver_def people split: option.split)
  next
    case False
    then show ?thesis
      using guarded_drivers(1) [OF False, of w pf ch me] guarded_drivers(2) [of me w pf ch] assms
      by (cases "\<exists>dto. rd = RegisterDriver dto") (auto simp: guarded_def simp del: driversController.simps)
  qed
qed

lemma sound_controller:
  assumes "catalog_ok (db b)"
  shows "catalog_ok (db (snd (controller pf ch key me route b)))"
proof (cases "required_roles route = Some [role_admin]")
  case True
  have on_db: "catalog_ok (db (snd (on_db h b)))" if "catalog_ok (snd (h (db b)))" for h
    using that by (simp add: on_db_def split_beta)
  have user: "catalog_ok (snd (as_user me h (db b)))" if "\<And>u. catalog_ok (snd (h u (db b)))" for h
    using that assms by (simp split: option.split)
  show ?thesis
    using True assms
    by (cases route)
      (simp_all add: on_db user sound_pricing sound_types sound_people split_beta required_roles_def del: handler_states(5) split: PaymentsRoute.splits)
next
  case False
  then show ?thesis
    using guarded_controller [OF False, of b pf ch key me] registering_controller [of me b pf ch key] assms
    by (cases "\<exists>dto. route = DriversApi (RegisterDriver dto)") (auto simp: guarded_backend_def guarded_def simp del: controller.simps)
qed

end
