(* ===== verification/Telima_Machine.thy ===== *)
theory Telima_Machine
  imports Catalog_Guard
begin

text \<open>
  The whole system as a step relation, the abstract machine it implements, and the invariant of
  its reachable states. A step is one HTTP request, with or without a token, the delivery of the
  oldest event, a due timeout job, one of the two sweeps, or something on a socket.
\<close>

section \<open>Steps\<close>

type_synonym 'p state = "gateway \<times> 'p backend"

text \<open>The ids the database generates are new.\<close>

definition fresh_ids :: "Chance \<Rightarrow> world \<Rightarrow> bool" where
  "fresh_ids ch w \<longleftrightarrow> ch_id ch \<notin> t_id ` set (trips w) \<and> ch_id ch \<notin> p_id ` set (payments w)"

inductive sys_step :: "'p platform \<Rightarrow> 'p state \<Rightarrow> 'p state \<Rightarrow> bool" for pf :: "'p platform" where
  request: "fresh_ids ch (db b) \<Longrightarrow> sys_step pf (g, b) (g, snd (handle_http pf ch bearer key route b))"
| event: "bus (db b) = e # rest \<Longrightarrow>
    sys_step pf (g, b) (g, b\<lparr>db := deliver (pf_env pf) now e ((db b)\<lparr>bus := rest\<rparr>)\<rparr>)"
| timeout: "job \<in> set (jobs (db b)) \<Longrightarrow> j_due job \<le> now \<Longrightarrow>
    sys_step pf (g, b) (g, b\<lparr>db := processTimeoutJob (e_spherical (pf_env pf)) now job (db b)\<rparr>)"
| search_sweep: "sys_step pf (g, b) (g, b\<lparr>db := run (e_spherical (pf_env pf)) quiet now (db b)\<rparr>)"
| stale_sweep: "sys_step pf (g, b) (g, b\<lparr>db := sweepStaleAssigned now (db b)\<rparr>)"
| connect: "handleConnection (pf_lib pf) (pf_cfg pf) now sid token (g, db b) = (g', w') \<Longrightarrow>
    sys_step pf (g, b) (g', b\<lparr>db := w'\<rparr>)"
| disconnect: "sys_step pf (g, b) (handleDisconnect now sid g, b)"
| message: "on_message (pf_lib pf) (pf_cfg pf) i now sid call (g, db b) = (ack, g', w') \<Longrightarrow>
    sys_step pf (g, b) (g', b\<lparr>db := w'\<rparr>)"
| grace_over: "(d, t) \<in> set (graceTimers g) \<Longrightarrow> t \<le> now \<Longrightarrow> graceExpired d (g, db b) = (g', w') \<Longrightarrow>
    sys_step pf (g, b) (g', b\<lparr>db := w'\<rparr>)"

inductive_cases sys_stepE: "sys_step pf (g, b) (g', b')"

lemmas sys_step_cases = sys_stepE [consumes 1, case_names request event timeout search stale connect disconnect message grace]

section \<open>Requests are good steps\<close>

text \<open>Operations of accounts and catalog write neither trips nor books.\<close>

lemma account_tables:
  "tables (snd (updateUser i ud w)) = tables w" "tables (devices_register u t pl w) = tables w"
  "tables (devices_unregister t w) = tables w" "tables (snd (refresh lib cfg i now tok w)) = tables w"
  "tables (logout lib now u tok w) = tables w" "tables (snd (adminLogin lib cfg i now em pw w)) = tables w"
  "tables (snd (requestOtp lib fetch sms cfg i n now raw app w)) = tables w"
  "tables (snd (verifyOtp lib fetch cfg i j now raw code app w)) = tables w"
  "tables (snd (admin_updateUser lib i au w)) = tables w"
proof -
  have otp: "tables (update_otp i f v) = tables v" and token: "tables (update_token i g v) = tables v" for i f g v
    by (simp_all add: update_otp_def update_token_def tables_def completions_def)
  have issue: "tables (snd (issueTokenPair lib cfg i now u ph role rep v)) = tables v" for i u ph role rep v
    by (simp add: issueTokenPair_def Let_def update_token_def tables_def completions_def)
  have login: "tables (snd (completeLogin lib cfg i j now ph v)) = tables v" for ph v
  proof -
    have users: "tables (v\<lparr>users := us\<rparr>) = tables v" for us by (simp add: tables_def completions_def)
    show ?thesis by (auto simp: completeLogin_def Let_def issue users intro!: trans [OF tables_andThen])
  qed
  show "tables (snd (verifyOtp lib fetch cfg i j now raw code app w)) = tables w"
    by (simp add: verifyOtp_def Let_def login otp split: sum.split option.split)
  show "tables (snd (adminLogin lib cfg i now em pw w)) = tables w"
    by (auto simp: adminLogin_def issue intro!: trans [OF tables_andThen] split: option.split)
  show "tables (snd (refresh lib cfg i now tok w)) = tables w"
    by (simp add: refresh_def Let_def issue token split: option.split)
qed (simp_all add: updateUser_def users_findById_def update_user_def devices_register_def devices_unregister_def logout_def
    requestOtp_def update_otp_def admin_updateUser_def Let_def tables_def completions_def split: option.split sum.split SmsOutcome.split)

lemma catalog_tables:
  "tables (snd (vehicleTypesController ch rv w)) = tables w" "tables (snd (adminPricingController pf ch rp w)) = tables w"
  "tables (snd (calculatePrice matrix tz now q w)) = tables w"
proof -
  have inv: "tables (invalidateCache v) = tables v" for v by (simp add: invalidateCache_def tables_def completions_def)
  have fields: "tables (w\<lparr>serviceZones := z\<rparr>) = tables w" "tables (w\<lparr>pricingRules := r\<rparr>) = tables w"
    "tables (w\<lparr>serviceZones := z, pricingRules := r\<rparr>) = tables w" for z r
    by (simp_all add: tables_def completions_def)
  show "tables (snd (adminPricingController pf ch rp w)) = tables w"
    by (cases rp) (simp_all add: createZone_def updateZone_def deleteZone_def createPricingRule_def updatePricingRule_def
        deletePricingRule_def Let_def inv fields split: option.split)
  have "tables (update_vehicleType i f v) = tables v" for i f v by (simp add: update_vehicleType_def tables_def completions_def)
  moreover have "tables (snd (vehicleTypes_create i now dto v)) = tables v" for i now dto v
    by (simp add: vehicleTypes_create_def Let_def tables_def completions_def)
  ultimately show "tables (snd (vehicleTypesController ch rv w)) = tables w"
    by (cases rv) (simp_all add: vehicleTypes_update_def vehicleTypes_deactivate_def vehicleTypes_findOne_def Let_def split: option.split)
qed (simp add: tables_def completions_def calculatePrice_frame)

lemma good_createUser:
  assumes d: "distinct (map t_id (trips w))"
  shows "good_step w (snd (createUser lib u i now dto w))"
proof -
  have new: "good_step w v" if "trips v = trips w" "payments v = payments w" "drivers v = drivers w @ [bare_driver i u now]"
      "completions v = completions w" for v
    using that by (intro good_new_driver [OF d, of v "bare_driver i u now"]) (simp_all add: bare_driver_def)
  show ?thesis by (simp add: createUser_def Let_def new good_tables [OF d] tables_def completions_def)
qed

lemma good_trips:
  assumes d: "distinct (map t_id (trips w))" and new: "ch_id ch \<notin> t_id ` set (trips w)"
  shows "good_step w (snd (tripsController pf ch me r w))"
  by (cases r)
    (simp_all add: new good_createTrip [OF d] good_updateStatus [OF d] acceptTrip_def good_confirmPayment [OF d]
      good_completeTrip [OF d] good_confirmDelivery [OF d] good_reportDeliveryIssue [OF d] good_tables [OF d]
      rateTrip_tables raiseSos_tables declineTrip_tables)

lemma good_idempotent:
  assumes d: "distinct (map t_id (trips w))" and h: "\<And>v. tables v = tables w \<Longrightarrow> good_step v (snd (h v))"
  shows "good_step w (snd (idempotent_call pf ch flag key h w))"
proof -
  have keys: "tables (v\<lparr>redis_keys := r\<rparr>) = tables v" for v r by (simp add: tables_def view_simps)
  have "good_step w ((snd (h (w\<lparr>redis_keys := r\<rparr>)))\<lparr>redis_keys := r'\<rparr>)" for r r'
    by (rule good_then [OF good_from [OF h]]) (simp_all add: keys)
  moreover have "good_step w (w\<lparr>redis_keys := r\<rparr>)" for r by (rule good_tables [OF d]) (simp add: keys)
  ultimately show ?thesis using idempotent_call_state [of pf ch flag key h w] by auto
qed

lemma good_payments:
  assumes d: "distinct (map t_id (trips w))" and new: "ch_id ch \<notin> p_id ` set (payments w)"
  shows "good_step w (snd (snd (paymentsController pf ch me r (st, w))))"
  by (cases r) (simp_all add: new good_payCommission [OF d] good_checkPayment [OF d] good_webhook [OF d] good_tables [OF d]
      split: option.split)

lemma good_people:
  assumes d: "distinct (map t_id (trips w))"
  shows "good_step w (snd (driversController pf ch me rd w))" and "good_step w (snd (dispatch_getPending ch me w))"
    and "good_step w (snd (tracking_updatePosition pf ch me dto w))" and "good_step w (snd (chatController pf ch me rc w))"
    and "good_step w (snd (accountController pf me ra w))" and "good_step w (snd (authController pf ch mo au w))"
    and "good_step w (snd (adminController pf ch rx w))"
proof -
  note quiet = good_tables [OF d] account_tables
  show "good_step w (snd (driversController pf ch me rd w))" by (cases rd) (simp_all add: quiet good_accounts [OF d])
  show "good_step w (snd (dispatch_getPending ch me w))"
    by (simp add: dispatch_getPending_def split_beta quiet pendingRequest_tables)
  show "good_step w (snd (tracking_updatePosition pf ch me dto w))"
    by (simp add: tracking_updatePosition_def quiet good_updatePosition [OF d])
  show "good_step w (snd (chatController pf ch me rc w))" by (cases rc) (simp_all add: quiet createMessage_tables Let_def)
  show "good_step w (snd (accountController pf me ra w))" by (cases ra) (simp_all add: quiet)
  show "good_step w (snd (authController pf ch mo au w))" by (cases au) (simp_all add: quiet split: option.split)
  show "good_step w (snd (adminController pf ch rx w))" by (cases rx) (simp_all add: quiet good_createUser [OF d])
qed

lemma good_request:
  assumes d: "distinct (map t_id (trips (db b)))" and "fresh_ids ch (db b)"
  shows "good_step (db b) (db (snd (handle_http pf ch bearer key route b)))"
proof -
  have new: "ch_id ch \<notin> t_id ` set (trips (db b))" "ch_id ch \<notin> p_id ` set (payments (db b))"
    using assms(2) by (simp_all add: fresh_ids_def)
  have refl: "good_step (db b) (db b)" by (rule good_tables [OF d]) simp
  have on_db: "good_step (db b) (db (snd (on_db h b)))" if "good_step (db b) (snd (h (db b)))" for h
    using that by (simp add: on_db_def split_beta)
  have user: "good_step v (snd (as_user me h v))" if "\<And>u. good_step v (snd (h u v))" "distinct (map t_id (trips v))" for h v me
    using that(1) good_tables [OF that(2)] by (simp split: option.split)
  have "good_step (db b) (db (snd (controller pf ch key me route b)))" for me
  proof (cases route)
    case (TripsApi r)
    have "good_step v (snd (as_user me (\<lambda>u. tripsController pf ch u r) v))" if "tables v = tables (db b)" for v
      using that d new by (intro user good_trips) (simp_all add: tables_def)
    then show ?thesis using TripsApi by (auto intro!: on_db good_idempotent [OF d])
  next
    case (PaymentsApi r)
    then show ?thesis using good_payments [OF d new(2), of pf me r "provider_state b"] by (simp add: split_beta)
  next
    case (VehicleTypesApi r)
    then show ?thesis by (auto intro!: on_db good_tables [OF d catalog_tables(1)])
  next
    case (Quote q)
    then show ?thesis by (auto simp: pricing_getQuote_def intro!: on_db good_tables [OF d catalog_tables(3)])
  next
    case (AdminPricingApi r)
    then show ?thesis by (auto intro!: on_db good_tables [OF d catalog_tables(2)])
  qed (simp_all add: on_db user d good_people [OF d] refl split_beta del: handler_states(5))
  then show ?thesis by (simp add: handle_http_def refl split: sum.split)
qed

text \<open>Only the delivery of a completion, or of an assignment for a finished trip, is no good step.\<close>

lemma good_sys_step:
  assumes d: "distinct (map t_id (trips (db b)))" and step: "sys_step pf (g, b) (g', b')"
  obtains "good_step (db b) (db b')"
  | e rest now where "bus (db b) = e # rest" "db b' = deliver (pf_env pf) now e ((db b)\<lparr>bus := rest\<rparr>)"
      "is_completion e \<or> revives e (db b)"
  using step
proof (cases rule: sys_step_cases)
  case (request ch bearer key route)
  then show ?thesis using good_request [OF d] that(1) by simp
next
  case (event e rest now)
  let ?w = "(db b)\<lparr>bus := rest\<rparr>"
  have again: "revives e ?w = revives e (db b)" by (cases e) (simp_all add: find_trip_def)
  show ?thesis
  proof (cases "is_completion e \<or> revives e (db b)")
    case True
    with event that(2) show ?thesis by simp
  next
    case False
    then have same: "tables ?w = tables (db b)" using event by (simp add: tables_def completions_def)
    have "good_step ?w (db b')" using False good_deliver [of ?w e "pf_env pf" now] d event again by simp
    then show ?thesis by (rule that(1) [OF good_from]) (rule same)
  qed
next
  case (connect now sid token w')
  then show ?thesis using good_connection [OF d, of "pf_lib pf" "pf_cfg pf" now sid token g] that(1) by simp
next
  case (message i now sid call ack w')
  then show ?thesis using good_on_message [OF d, of "pf_lib pf" "pf_cfg pf" i now sid call g] that(1) by simp
next
  case (grace d' t now w')
  then have "db b' = setOffline d' (db b)" by (simp add: graceExpired_def)
  then show ?thesis using good_presence(2) [OF d] that(1) by simp
qed (use that(1) in \<open>simp_all add: good_tables [OF d] processTimeoutJob_tables run_tables good_sweep [OF d]\<close>)

lemma lawful_sys_step:
  assumes d: "distinct (map t_id (trips (db b)))" and step: "sys_step pf (g, b) (g', b')"
  shows "lawful_step (db b) (db b')"
  using d step
proof (cases rule: good_sys_step)
  case 1
  then show ?thesis by (rule good_lawful)
next
  case (2 e rest now)
  have "lawful_step ((db b)\<lparr>bus := rest\<rparr>) (db b')" using lawful_deliver [of "(db b)\<lparr>bus := rest\<rparr>"] d 2 by simp
  then show ?thesis by (rule lawful_from) simp_all
qed

section \<open>The abstract machine\<close>

text \<open>Who ordered a trip, for which price, and where it stands.\<close>

definition abs_trips :: "world \<Rightarrow> id \<rightharpoonup> id \<times> real option \<times> TripStatus" where
  "abs_trips w i = map_option (\<lambda>t. (t_clientId t, t_estimatedPrice t, t_status t)) (find_trip i w)"

definition lifecycle_step :: "(id \<rightharpoonup> id \<times> real option \<times> TripStatus) \<Rightarrow> (id \<rightharpoonup> id \<times> real option \<times> TripStatus) \<Rightarrow> bool" where
  "lifecycle_step m m' \<longleftrightarrow> (\<forall>i. case m i of
      None \<Rightarrow> (case m' i of None \<Rightarrow> True | Some (c, p, a) \<Rightarrow> a = pending)
    | Some (c, p, a) \<Rightarrow> (\<exists>b. m' i = Some (c, p, b) \<and> (b = a \<or> status_step a b)))"

definition sys_inv :: "world \<Rightarrow> bool" where
  "sys_inv w \<longleftrightarrow> distinct (map t_id (trips w)) \<and> (\<forall>t \<in> set (trips w). trip_ok t) \<and> payments_wf w"

lemma lawful_step_inv: "sys_inv w \<Longrightarrow> lawful_step w w' \<Longrightarrow> sys_inv w'"
  unfolding sys_inv_def lawful_step_def using rows_follow_distinct rows_follow_ok by blast

lemma lawful_step_lifecycle:
  assumes "lawful_step w w'"
  shows "lifecycle_step (abs_trips w) (abs_trips w')"
  unfolding lifecycle_step_def
proof
  fix i
  have "rows_follow w w'" using assms by (simp add: lawful_step_def)
  from rows_follow_find [OF this, of i]
  show "case abs_trips w i of None \<Rightarrow> (case abs_trips w' i of None \<Rightarrow> True | Some (c, p, a) \<Rightarrow> a = pending)
    | Some (c, p, a) \<Rightarrow> (\<exists>b. abs_trips w' i = Some (c, p, b) \<and> (b = a \<or> status_step a b))"
    by (auto simp: abs_trips_def fresh_row_def row_step_def split: option.splits)
qed

lemma sys_inv_step: "sys_inv (db b) \<Longrightarrow> sys_step pf (g, b) (g', b') \<Longrightarrow> sys_inv (db b')"
  using lawful_step_inv lawful_sys_step by (metis sys_inv_def)

lemma sys_inv_run:
  "(sys_step pf)\<^sup>*\<^sup>* s s' \<Longrightarrow> sys_inv (db (snd s)) \<Longrightarrow> sys_inv (db (snd s'))"
proof (induction rule: rtranclp_induct)
  case (step s1 s2)
  then show ?case using sys_inv_step by (metis prod.collapse)
qed

text \<open>
  C6. The system implements the life of a trip. Whatever step is made, by a request, an event, a
  timer, a sweep or a socket, every trip stays where it is or makes one move: one of the
  transition table, the assignment of a driver by a delivered \<open>DriverAssigned\<close>, or the end of a
  stale assignment; no trip disappears, nobody changes who ordered it or the price quoted, and new
  trips are pending.
\<close>

theorem system_refines_lifecycle:
  assumes "sys_inv (db b)" and "sys_step pf (g, b) (g', b')"
  shows "lifecycle_step (abs_trips (db b)) (abs_trips (db b'))"
  using assms lawful_sys_step lawful_step_lifecycle by (metis sys_inv_def)

text \<open>A platform for concrete steps: the mock providers, plain strings and no conditions on formats.\<close>

definition sample_platform :: "nat platform" where
  "sample_platform = \<lparr>
     pf_env = \<lparr>e_spherical = (\<lambda>_ _. 7), e_matrix = mock_getDistanceMatrix, e_tz = (\<lambda>_. 0),
       e_provider = MockPaymentProvider, e_prisma = plain_strings\<rparr>,
     pf_lib = plain_libraries, pf_cfg = legacy_config, pf_formats = \<lparr>isEmail = (\<lambda>_. True), isUUID = (\<lambda>_. True)\<rparr>,
     pf_fetch = (\<lambda>_. None), pf_sms = (\<lambda>_ _. SmsSent None), pf_upload = (\<lambda>f. Inr (up_originalName f)), pf_json = (\<lambda>_. [])\<rparr>"

definition sample_backend :: "world \<Rightarrow> nat backend" where
  "sample_backend w = \<lparr>db = w, provider_state = 0, swap_stations = [], platform_settings = None\<rparr>"

definition sample_chance :: Chance where
  "sample_chance = \<lparr>ch_now = 0, ch_id = ''t1'', ch_id2 = ''t2'', ch_draw = 1234, ch_database = True, ch_pong = Some ''PONG''\<rparr>"

definition failing_world :: world where
  "failing_world = sample_world\<lparr>trips := [sample_trip ''t1''], bus := [DispatchFailed ''t1'' ''no_drivers_available'']\<rparr>"

lemma failing_world_inv: "sys_inv (db (sample_backend failing_world))"
  by (simp add: sys_inv_def failing_world_def sample_trip_def trip_ok_def payments_wf_def sample_defs sample_backend_def)

lemma failing_world_step:
  "sys_step sample_platform (g, sample_backend failing_world)
     (g, sample_backend (handleDispatchFailed 5 ''t1'' ''no_drivers_available'' (failing_world\<lparr>bus := []\<rparr>)))"
  using sys_step.event [of "sample_backend failing_world" "DispatchFailed ''t1'' ''no_drivers_available''" "[]" sample_platform g 5]
  by (simp add: failing_world_def sample_platform_def sample_backend_def)

theorem system_refines_lifecycle_witness:
  "abs_trips failing_world ''t1'' \<noteq> None \<and>
   lifecycle_step (abs_trips failing_world)
     (abs_trips (handleDispatchFailed 5 ''t1'' ''no_drivers_available'' (failing_world\<lparr>bus := []\<rparr>)))"
  using system_refines_lifecycle [OF failing_world_inv failing_world_step]
  by (simp add: abs_trips_def failing_world_def find_trip_def sample_trip_def sample_backend_def)

text \<open>
  C7. In every run from a database without trips and payments, whatever is interleaved: trips have
  ids of their own; a pending trip has no driver; a trip that is accepted, arriving, running or
  completed has a driver and the time stamp of every stage before, and a completed one was
  charged the price it was quoted at; a trip cancelled by a party has its cancellation time; and
  every payment belongs to a driver that exists.
\<close>

theorem system_invariant:
  assumes "trips (db b) = []" and "payments (db b) = []" and "(sys_step pf)\<^sup>*\<^sup>* (g, b) (g', b')"
  shows "distinct (map t_id (trips (db b'))) \<and> (\<forall>t \<in> set (trips (db b')). trip_ok t) \<and> payments_wf (db b')"
proof -
  have "sys_inv (db b)" using assms(1,2) by (simp add: sys_inv_def payments_wf_def)
  then show ?thesis using sys_inv_run [OF assms(3)] by (simp add: sys_inv_def)
qed

text \<open>One request from an empty database: a client orders a moto ride.\<close>

abbreviation "sample_order \<equiv> \<lparr>ct_serviceType = ride, ct_vehicleTypeId = ''moto'', ct_pickup = \<lparr>lat = 12, lng = -8\<rparr>,
   ct_pickupAddress = ''A'', ct_dropoff = \<lparr>lat = 13, lng = -8\<rparr>, ct_dropoffAddress = ''B'', ct_recipientName = None,
   ct_recipientPhone = None, ct_parcelDescription = None, ct_parcelWeightKg = None, ct_parcelDimensions = None,
   ct_isFragile = None, ct_passengerCount = None, ct_notes = None\<rparr>"

abbreviation "ordered_world \<equiv> snd (createTrip mock_getDistanceMatrix (\<lambda>_. 0) ''t1'' 0 ''c1'' sample_order sample_world)"

lemma ordered_step: "sys_step sample_platform (g, sample_backend sample_world) (g, sample_backend ordered_world)"
proof -
  have "fresh_ids sample_chance (db (sample_backend sample_world))"
    by (simp add: fresh_ids_def sample_backend_def sample_defs)
  moreover have "snd (handle_http sample_platform sample_chance (Some ''token'') None (TripsApi (CreateTrip sample_order))
      (sample_backend sample_world)) = sample_backend ordered_world"
    by (simp add: handle_http_def jwt_canActivate_def is_public_def required_roles_def roles_canActivate_def on_db_def
        idempotent_call_def valid_CreateTripDto_def sample_platform_def sample_backend_def
        sample_chance_def plain_libraries_def jwt_validate_def split_beta)
  ultimately show ?thesis by (metis sys_step.request)
qed

lemma ordered_trips: "map t_id (trips ordered_world) = [''t1'']"
proof -
  have "ok (calculatePrice mock_getDistanceMatrix (\<lambda>_. 0) 0 \<lparr>q_serviceType = ride, q_vehicleTypeId = ''moto'',
      q_pickup = \<lparr>lat = 12, lng = -8\<rparr>, q_dropoff = \<lparr>lat = 13, lng = -8\<rparr>\<rparr> sample_world)"
    by (simp add: calculatePrice_def sample_defs Let_def split_beta return_def ok_def)
  then show ?thesis
    using calculatePrice_frame(1) [of mock_getDistanceMatrix "\<lambda>_. 0" 0 "\<lparr>q_serviceType = ride, q_vehicleTypeId = ''moto'',
      q_pickup = \<lparr>lat = 12, lng = -8\<rparr>, q_dropoff = \<lparr>lat = 13, lng = -8\<rparr>\<rparr>" sample_world]
    by (auto simp: createTrip_def andThen_def ok_def insertWithGeometry_def getTrip_def findById_def find_trip_def
        serviceDetails_frame emit_frame return_def sample_world_def empty_world_def split: prod.split sum.splits)
qed

theorem system_invariant_witness:
  "map t_id (trips ordered_world) = [''t1''] \<and> list_all trip_ok (trips ordered_world)"
proof -
  have none: "trips (db (sample_backend sample_world)) = []" "payments (db (sample_backend sample_world)) = []"
    by (simp_all add: sample_defs sample_backend_def)
  from system_invariant [OF none r_into_rtranclp [where r = "sys_step sample_platform", OF ordered_step]] ordered_trips
  show ?thesis by (simp add: list_all_iff sample_backend_def)
qed

section \<open>No order is forgotten\<close>

lemma dispatchFailed_find:
  assumes "find_trip i v = Some u"
  shows "find_trip i (handleDispatchFailed later i reason v) =
    Some (if t_status u = pending then u\<lparr>t_status := cancelled_auto, t_cancelledAt := Some later,
            t_cancelReason := Some reason, t_updatedAt := later\<rparr> else u)"
proof -
  have "find (\<lambda>t. t_id t = i) (update_where (\<lambda>t. t_id t = i \<and> t_status t = pending) (failed_row later reason) ts) =
      map_option (\<lambda>t. if t_status t = pending then failed_row later reason t else t) (find (\<lambda>t. t_id t = i) ts)" for ts
    by (induction ts) (auto simp: update_where_def failed_row_def)
  with assms show ?thesis by (simp add: find_trip_def dispatchFailed_trips failed_row_def)
qed

text \<open>
  C16. An order nobody takes is ended. Once a trip has been pending for more than two minutes the next
  sweep puts a failure event for it on the bus and changes no trip; whenever that event is delivered,
  whatever has happened to the tables since, the trip is cancelled at that moment if it is still
  pending, and left as it is if a driver was found or the client gave up.
\<close>

theorem forgotten_order_cancelled:
  assumes "t \<in> set (trips w)" and "t_status t = pending" and "t_createdAt t + 120000 < now"
  shows "\<exists>reason. DispatchFailed (t_id t) reason \<in> set (bus (run sd True now w)) \<and>
    trips (run sd True now w) = trips w \<and>
    (\<forall>env later v u. find_trip (t_id t) v = Some u \<longrightarrow>
       find_trip (t_id t) (deliver env later (DispatchFailed (t_id t) reason) v) =
         Some (if t_status u = pending then u\<lparr>t_status := cancelled_auto, t_cancelledAt := Some later,
                 t_cancelReason := Some reason, t_updatedAt := later\<rparr> else u))"
  using sweep_fails_old_searches [OF assms(1,2), of now sd] assms(3)
  by (intro exI [of _ "''no_drivers_available''"]) (simp add: dispatchFailed_find)

theorem forgotten_order_cancelled_witness:
  "\<exists>reason. map_option t_status (find_trip ''t1'' (deliver (pf_env sample_platform) 130000 (DispatchFailed ''t1'' reason)
     (run (\<lambda>_ _. 7) True 121000 (sample_world\<lparr>trips := [sample_trip ''t1'']\<rparr>)))) = Some cancelled_auto"
proof -
  let ?w = "sample_world\<lparr>trips := [sample_trip ''t1'']\<rparr>" and ?sd = "\<lambda>_ _. 7 :: real"
  have t: "sample_trip ''t1'' \<in> set (trips ?w)" "t_status (sample_trip ''t1'') = pending"
    "t_createdAt (sample_trip ''t1'') + 120000 < 121000" and i: "t_id (sample_trip ''t1'') = ''t1''"
    by (simp_all add: sample_trip_def)
  obtain reason where same: "trips (run ?sd True 121000 ?w) = trips ?w"
    and ends: "\<And>(env :: nat Env) later v u. find_trip ''t1'' v = Some u \<Longrightarrow>
       find_trip ''t1'' (deliver env later (DispatchFailed ''t1'' reason) v) =
         Some (if t_status u = pending then u\<lparr>t_status := cancelled_auto, t_cancelledAt := Some later,
                 t_cancelReason := Some reason, t_updatedAt := later\<rparr> else u)"
    using forgotten_order_cancelled [OF t, of ?sd] unfolding i by blast
  have "find_trip ''t1'' (run ?sd True 121000 ?w) = Some (sample_trip ''t1'')"
    unfolding find_trip_def same by (simp add: i)
  from ends [OF this] t(2) show ?thesis by (intro exI [of _ reason]) simp
qed

end
