(* ===== verification/Telima_Safety.thy ===== *)
theory Telima_Safety
  imports Telima_Machine
begin

text \<open>
  Safety of the running system that rests on the guards and the validation of requests: who can
  change what everybody is charged by, and that no run can make a quote negative.
\<close>

section \<open>Only the dashboard\<close>

text \<open>Who sent a request with a token, and who with one that says administrator.\<close>

definition signed_by :: "'p platform \<Rightarrow> Chance \<Rightarrow> string option \<Rightarrow> JwtPayload \<Rightarrow> bool" where
  "signed_by pf ch bearer p \<longleftrightarrow> Option.bind bearer (jwt_verify (pf_lib pf) (JWT_ACCESS_SECRET (pf_cfg pf)) (ch_now ch)) = Some p"

lemma signed_by_Some [simp]:
  "signed_by pf ch (Some t) p \<longleftrightarrow> jwt_verify (pf_lib pf) (JWT_ACCESS_SECRET (pf_cfg pf)) (ch_now ch) t = Some p"
  by (simp add: signed_by_def)

lemma signed_byE:
  assumes "signed_by pf ch bearer p"
  obtains t where "bearer = Some t" "jwt_verify (pf_lib pf) (JWT_ACCESS_SECRET (pf_cfg pf)) (ch_now ch) t = Some p"
  using assms that by (cases bearer) (auto simp: signed_by_def)

lemma guarded_http:
  "guarded_backend b (snd (handle_http pf ch bearer key route b)) \<or>
   (required_roles route = Some [role_admin] \<and> (\<exists>p. signed_by pf ch bearer p \<and> jp_role p = role_admin)) \<or>
   (\<exists>dto p. route = DriversApi (RegisterDriver dto) \<and> signed_by pf ch bearer p \<and>
      guarded_backend_upto {sub p} b (snd (handle_http pf ch bearer key route b)))"
proof (cases "required_roles route = Some [role_admin]")
  case True
  then have "\<not> is_public route" using public_needs_no_role by fastforce
  with True show ?thesis
    by (auto simp: handle_http_def jwt_canActivate_def roles_canActivate_def jwt_validate_def guarded_backend_refl signed_by_def split: option.split)
next
  case no_admin: False
  show ?thesis
  proof (cases "\<exists>dto. route = DriversApi (RegisterDriver dto)")
    case False
    then show ?thesis
      using guarded_controller [OF no_admin, of b pf ch key] by (auto simp: handle_http_def guarded_backend_refl split: sum.split)
  next
    case True
    then obtain dto where route: "route = DriversApi (RegisterDriver dto)" ..
    have any_role: "\<not> is_public route" "required_roles route = None" by (simp_all add: route is_public_def required_roles_def)
    show ?thesis
    proof (cases "\<exists>p. signed_by pf ch bearer p")
      case False
      then have "snd (handle_http pf ch bearer key route b) = b"
        using any_role by (auto simp: handle_http_def jwt_canActivate_def signed_by_def throw_def split: option.split)
      then show ?thesis by (simp add: guarded_backend_refl)
    next
      case True
      then obtain p where p: "signed_by pf ch bearer p" ..
      then have "handle_http pf ch bearer key route b = controller pf ch key (Some (jwt_validate p)) route b"
        using any_role by (simp add: handle_http_def jwt_canActivate_def signed_by_def roles_canActivate_def del: controller.simps)
      with p registering_controller [of "Some (jwt_validate p)" b pf ch key dto] route show ?thesis
        by (auto simp: jwt_validate_def simp del: controller.simps)
    qed
  qed
qed

lemma guarded_db: "catalog w' = catalog (db b) \<Longrightarrow> guarded_backend b (b\<lparr>db := w'\<rparr>)"
  by (simp add: guarded_backend_def guarded_catalog)

lemma guarded_step:
  assumes "sys_step pf (g, b) (g', b')"
  shows "guarded_backend b b' \<or> (\<exists>ch bearer key route p. b' = snd (handle_http pf ch bearer key route b) \<and> signed_by pf ch bearer p \<and>
    (required_roles route = Some [role_admin] \<and> jp_role p = role_admin \<or>
     (\<exists>dto. route = DriversApi (RegisterDriver dto)) \<and> guarded_backend_upto {sub p} b b'))"
  using assms
proof (cases rule: sys_step_cases)
  case (request ch bearer key route)
  then show ?thesis using guarded_http [of b pf ch bearer key route] by blast
next
  case (connect now sid token w')
  then show ?thesis
    using cat.view_sockets(1) [of "pf_lib pf" "pf_cfg pf" now sid token g "db b"] by (simp add: guarded_db)
next
  case (message i now sid call ack w')
  then show ?thesis
    using cat.view_sockets(2) [of "pf_lib pf" "pf_cfg pf" i now sid call g "db b"] by (simp add: guarded_db)
next
  case (grace d t now w')
  then show ?thesis using cat.view_sockets(3) [of d g "db b"] by (simp add: guarded_db)
qed (simp_all add: guarded_db guarded_backend_refl view_simps)

text \<open>
  C8. Whatever anybody sends, on whatever channel, what the prices are made of and the standing of
  people is changed by an administrator only: a step after which the vehicle types, the zones, the
  pricing rules, the stations or the settings differ, the set of approved drivers differs in either
  direction, or somebody is an administrator who was none, is an HTTP request on a route of the
  administrators with a valid access token that says administrator. The set of administrators can
  also shrink, in one other way: somebody registers as a driver with a valid token of his own, and
  nobody but he loses the role.
\<close>

theorem dashboard_only:
  assumes "sys_step pf (g, b) (g', b')"
  shows "(vehicleTypes (db b') \<noteq> vehicleTypes (db b) \<or> serviceZones (db b') \<noteq> serviceZones (db b) \<or>
      pricingRules (db b') \<noteq> pricingRules (db b) \<or> swap_stations b' \<noteq> swap_stations b \<or>
      platform_settings b' \<noteq> platform_settings b \<or>
      approved (db b') \<noteq> approved (db b) \<or> \<not> admins (db b') \<subseteq> admins (db b) \<longrightarrow>
    (\<exists>ch bearer key route p. b' = snd (handle_http pf ch (Some bearer) key route b) \<and>
      required_roles route = Some [role_admin] \<and>
      jwt_verify (pf_lib pf) (JWT_ACCESS_SECRET (pf_cfg pf)) (ch_now ch) bearer = Some p \<and> jp_role p = role_admin)) \<and>
    (admins (db b') \<noteq> admins (db b) \<longrightarrow>
      (\<exists>ch bearer key route p. b' = snd (handle_http pf ch (Some bearer) key route b) \<and>
        jwt_verify (pf_lib pf) (JWT_ACCESS_SECRET (pf_cfg pf)) (ch_now ch) bearer = Some p \<and>
        (required_roles route = Some [role_admin] \<and> jp_role p = role_admin \<or>
         (\<exists>dto. route = DriversApi (RegisterDriver dto)) \<and> admins (db b) - admins (db b') = {sub p})))"
    (is "(?catalog \<longrightarrow> ?admin) \<and> (?people \<longrightarrow> ?who)")
proof (intro conjI impI)
  assume ?catalog
  then have "\<not> guarded_backend_upto S b b'" for S by (auto simp: guarded_backend_def guarded_def)
  with guarded_step [OF assms(1)] show ?admin by (auto elim!: signed_byE) metis
next
  assume people: ?people
  have not: "\<not> guarded_backend b b'" using people by (auto simp: guarded_backend_def guarded_def)
  have "admins (db b) - admins (db b') = {u}" if "guarded_backend_upto {u} b b'" for u
    using that people by (auto simp: guarded_backend_def guarded_def)
  with not guarded_step [OF assms(1)] show ?who by (auto elim!: signed_byE) metis+
qed

text \<open>An administrator creates a zone.\<close>

definition admin_platform :: "nat platform" where
  "admin_platform = sample_platform\<lparr>pf_lib := plain_libraries\<lparr>jwt_verify := (\<lambda>secret now token.
     Some \<lparr>sub = ''a1'', jp_phone = ''+22370000009'', jp_role = role_admin\<rparr>)\<rparr>\<rparr>"

abbreviation "sample_zone \<equiv> \<lparr>cz_name = ''Centre'', cz_city = ''Bamako'', cz_centerLat = 12, cz_centerLng = -8, cz_radiusKm = 5,
   cz_surgeMultiplier = Some 2, cz_isActive = None\<rparr>"

abbreviation "zone_request \<equiv> handle_http admin_platform sample_chance (Some ''token'') None (AdminPricingApi (CreateZone sample_zone))
   (sample_backend sample_world)"

theorem dashboard_only_witness:
  "serviceZones (db (snd zone_request)) \<noteq> serviceZones sample_world \<and>
   (\<exists>ch bearer key route p. snd zone_request = snd (handle_http admin_platform ch (Some bearer) key route (sample_backend sample_world)) \<and>
    required_roles route = Some [role_admin] \<and>
    jwt_verify (pf_lib admin_platform) (JWT_ACCESS_SECRET (pf_cfg admin_platform)) (ch_now ch) bearer = Some p \<and> jp_role p = role_admin)"
proof -
  have "fresh_ids sample_chance (db (sample_backend sample_world))" by (simp add: fresh_ids_def sample_backend_def sample_defs)
  then have step: "sys_step admin_platform (g, sample_backend sample_world) (g, snd zone_request)" for g by (rule sys_step.request)
  have zones: "serviceZones (db (snd zone_request)) \<noteq> serviceZones (db (sample_backend sample_world))"
    by (simp add: handle_http_def jwt_canActivate_def is_public_def required_roles_def roles_canActivate_def on_db_def split_beta
        valid_CreateZoneDto_def createZone_def invalidateCache_def Let_def admin_platform_def sample_backend_def jwt_validate_def return_def)
  then show ?thesis using dashboard_only [OF step] by (auto simp: sample_backend_def)
qed

section \<open>Prices in every run\<close>

lemma sound_step:
  assumes "catalog_ok (db b)" and "sys_step pf (g, b) (g', b')"
  shows "catalog_ok (db b')"
proof -
  have http: "catalog_ok (db (snd (handle_http pf ch bearer key route b)))" for ch bearer key route
    using assms(1) sound_controller [OF assms(1)] by (simp add: handle_http_def split: sum.split)
  from guarded_step [OF assms(2)] show ?thesis
    using assms(1) http by (auto simp: guarded_backend_def guarded_def)
qed

lemma sound_run: "(sys_step pf)\<^sup>*\<^sup>* s s' \<Longrightarrow> catalog_ok (db (snd s)) \<Longrightarrow> catalog_ok (db (snd s'))"
proof (induction rule: rtranclp_induct)
  case (step s1 s2)
  then show ?case using sound_step by (metis prod.collapse)
qed

text \<open>
  C10. No run makes a price negative. When the catalog starts sound (fares and percentages that are
  not negative, zone factors of at least one, rule modifiers of at least a tenth) and the
  provider's distance and duration are not negative, then after any run, whatever administrators have
  edited and whatever the surge cache has kept, every quote that is answered is a whole price, not
  negative, with a commission that is not negative: the lower bounds the DTOs check are enough for
  that. (They set no upper bound on the percentage, so the commission may exceed the price.)
\<close>

theorem quotes_sound_in_every_run:
  assumes "catalog_ok (db b)" and "0 \<le> dm_distanceMeters (matrix (q_pickup q) (q_dropoff q))"
    and "0 \<le> dm_durationSeconds (matrix (q_pickup q) (q_dropoff q))"
    and "(sys_step pf)\<^sup>*\<^sup>* (g, b) (g', b')"
    and "calculatePrice matrix tz now q (db b') = (Inr result, w')"
  shows "0 \<le> res_estimatedPrice result \<and> res_estimatedPrice result \<in> \<int> \<and> 0 \<le> res_commissionAmount result"
proof -
  have "catalog_ok (db b')" using sound_run [OF assms(4)] assms(1) by simp
  from quote_sound [OF this assms(2,3,5)] show ?thesis .
qed

text \<open>A quote after the order of a moto ride.\<close>

abbreviation "sample_quote \<equiv> \<lparr>q_serviceType = ride, q_vehicleTypeId = ''moto'', q_pickup = \<lparr>lat = 12, lng = -8\<rparr>,
   q_dropoff = \<lparr>lat = 13, lng = -8\<rparr>\<rparr>"

theorem quotes_sound_in_every_run_witness:
  "\<exists>result w'. calculatePrice mock_getDistanceMatrix (\<lambda>_. 0) 5 sample_quote ordered_world = (Inr result, w') \<and>
     0 \<le> res_estimatedPrice result \<and> res_estimatedPrice result \<in> \<int>"
proof -
  have ok: "catalog_ok (db (sample_backend sample_world))"
    by (simp add: catalog_ok_def sample_backend_def sample_defs type_ok_def)
  have far: "0 \<le> dm_distanceMeters (mock_getDistanceMatrix (q_pickup sample_quote) (q_dropoff sample_quote))"
    "0 \<le> dm_durationSeconds (mock_getDistanceMatrix (q_pickup sample_quote) (q_dropoff sample_quote))"
    using haversine_nonneg [of "q_pickup sample_quote" "q_dropoff sample_quote"]
    by (auto simp: mock_getDistanceMatrix_def in_range_def Let_def intro!: Math_round_nonneg)
  have run: "(sys_step sample_platform)\<^sup>*\<^sup>* (one_socket, sample_backend sample_world) (one_socket, sample_backend ordered_world)"
    by (rule r_into_rtranclp) (rule ordered_step)
  have "vehicleTypes ordered_world = vehicleTypes sample_world"
    using guarded_createTrip [of sample_world] by (simp add: guarded_def)
  also have "\<dots> = [sample_vehicleType ''moto'']" by (simp add: sample_world_def)
  finally have types: "vehicleTypes ordered_world = [sample_vehicleType ''moto'']" .
  have "vt_id (sample_vehicleType ''moto'') = ''moto'' \<and> vt_isActive (sample_vehicleType ''moto'') \<and>
      vt_serviceType (sample_vehicleType ''moto'') = ride"
    by (simp add: sample_defs)
  then obtain result w' where quote: "calculatePrice mock_getDistanceMatrix (\<lambda>_. 0) 5 sample_quote ordered_world = (Inr result, w')"
    by (simp add: calculatePrice_def types Let_def split_beta return_def)
  then have "calculatePrice mock_getDistanceMatrix (\<lambda>_. 0) 5 sample_quote (db (sample_backend ordered_world)) = (Inr result, w')"
    by (simp add: sample_backend_def)
  from quotes_sound_in_every_run [OF ok far run this] quote show ?thesis by blast
qed

end
