(* ===== verification/Completion_Rights.thy ===== *)
theory Completion_Rights
  imports Telima_Safety
begin

text \<open>
  Who can finish a trip: the completion of a trip, which charges the commission to its driver, is
  announced in no other way than by a request of that driver. Everything but the three requests on the
  status of a trip leaves the completions announced alone, being a view (\<open>World_Views\<close>).
\<close>

definition own_trip :: "AuthenticatedUser \<Rightarrow> id \<Rightarrow> world \<Rightarrow> bool" where
  "own_trip me i w \<longleftrightarrow> me_role me = role_driver \<and> (\<exists>t d. find_trip i w = Some t \<and> t_status t = in_progress \<and>
     findDriverByUserId (me_id me) w = Some d \<and> t_driverId t = Some (d_id d))"

text \<open>What a step on behalf of somebody may announce.\<close>

definition speaks_for :: "AuthenticatedUser option \<Rightarrow> world \<Rightarrow> world \<Rightarrow> bool" where
  "speaks_for me w w' \<longleftrightarrow> set (completions w') \<subseteq> set (completions w) \<union> {i. \<exists>u. me = Some u \<and> own_trip u i w}"

lemma speaks_same: "completions w' = completions w \<Longrightarrow> speaks_for me w w'"
  by (simp add: speaks_for_def)

lemma speaks_updateStatus:
  assumes d: "distinct (map t_id (trips w))" and "us_status dto = completed \<Longrightarrow> \<exists>u. me = Some u \<and> me_id u = uid \<and> me_role u = role"
  shows "speaks_for me w (snd (updateStatus now i uid role dto w))"
proof (cases "find_trip i w")
  case None
  then show ?thesis by (simp add: updateStatus_missing speaks_same)
next
  case (Some t)
  show ?thesis
  proof (cases "canTransition (t_status t) (us_status dto) \<and> authorised t uid role (us_status dto) w")
    case False
    with Some obtain e where "updateStatus now i uid role dto w = (Inl e, w)" by (rule updateStatus_denied)
    then show ?thesis by (simp add: speaks_same)
  next
    case True
    then show ?thesis
      using updateStatus_events [OF d Some] Some assms(2)
      by (cases "us_status dto = completed")
        (auto simp: speaks_for_def own_trip_def canTransition_into authorised_def)
  qed
qed

lemma speaks_completeTrip:
  assumes "me_id me = uid" and "me_role me = role"
  shows "speaks_for (Some me) w (snd (completeTrip now i uid role a w))"
proof (cases "\<exists>t. chargeable i uid role w t")
  case True
  then obtain t where t: "chargeable i uid role w t" by blast
  then have "t_id t = i" using find_trip_id [of i w t] by (simp add: chargeable_def)
  with t show ?thesis
    unfolding completeTrip_done [OF t refl] using assms
    by (auto simp: speaks_for_def own_trip_def chargeable_def announced_status view_simps)
next
  case False
  then have "snd (completeTrip now i uid role a w) = w" by (rule completeTrip_refused)
  then show ?thesis by (simp add: speaks_same)
qed

lemma speaks_trips:
  assumes d: "distinct (map t_id (trips w))"
  shows "speaks_for (Some me) w (snd (tripsController pf ch me r w))"
proof -
  have "speaks_for (Some me) w (snd (updateStatus now i (me_id me) (me_role me) dto w))"
    and "speaks_for (Some me) w (snd (acceptTrip now i (me_id me) w))" for now i dto
    unfolding acceptTrip_def by (rule speaks_updateStatus [OF d]; simp)+
  then show ?thesis
    by (cases r) (simp_all add: speaks_completeTrip speaks_same createTrip_events view_simps)
qed

text \<open>The other controllers announce nothing.\<close>

lemma silent_controllers:
  "completions (snd (driversController pf ch me rd w)) = completions w"
  "completions (snd (dispatch_getPending ch me w)) = completions w"
  "completions (snd (tracking_updatePosition pf ch me dto w)) = completions w"
  "completions (snd (chatController pf ch me rc w)) = completions w"
  "completions (snd (accountController pf me ra w)) = completions w"
  "completions (snd (authController pf ch mo au w)) = completions w"
  "completions (snd (adminController pf ch rx w)) = completions w"
  "completions (snd (snd (paymentsController pf ch mo rp (st, w)))) = completions w"
  "completions (snd (pricing_getQuote pf ch q w)) = completions w"
  "completions (snd (vehicleTypesController ch rv w)) = completions w"
  "completions (snd (adminPricingController pf ch rq w)) = completions w"
proof -
  note quiet = view_simps account_tables [THEN tables_ledger(6)] catalog_tables [THEN tables_ledger(6)]
  show "completions (snd (driversController pf ch me rd w)) = completions w"
  proof (cases rd)
    case (RegisterDriver dto)
    then show ?thesis by (simp add: register_def Let_def update_user_def completions_def split: option.split)
  qed (simp_all add: quiet validate_driver_def suspend_def drivers_findById_def Let_def split: option.split)
  show "completions (snd (dispatch_getPending ch me w)) = completions w"
    by (simp add: dispatch_getPending_def split_beta quiet)
  show "completions (snd (tracking_updatePosition pf ch me dto w)) = completions w"
    by (simp add: tracking_updatePosition_def quiet)
  show "completions (snd (chatController pf ch me rc w)) = completions w" by (cases rc) (simp_all add: quiet Let_def)
  show "completions (snd (accountController pf me ra w)) = completions w" by (cases ra) (simp_all add: quiet)
  show "completions (snd (authController pf ch mo au w)) = completions w"
    by (cases au) (simp_all add: quiet split: option.split)
  show "completions (snd (adminController pf ch rx w)) = completions w"
  proof (cases rx)
    case (CreateUser dto)
    then show ?thesis by (simp add: createUser_def Let_def completions_def)
  qed (simp_all add: quiet)
  show "completions (snd (snd (paymentsController pf ch mo rp (st, w)))) = completions w"
    by (cases rp) (simp_all add: quiet split: option.split)
  show "completions (snd (pricing_getQuote pf ch q w)) = completions w" by (simp add: pricing_getQuote_def quiet)
  show "completions (snd (vehicleTypesController ch rv w)) = completions w"
    "completions (snd (adminPricingController pf ch rq w)) = completions w"
    by (simp_all add: quiet)
qed

lemma speaks_controller:
  assumes d: "distinct (map t_id (trips (db b)))"
  shows "speaks_for me (db b) (db (snd (controller pf ch key me route b)))"
proof (cases route)
  case (TripsApi r)
  let ?h = "as_user me (\<lambda>u. tripsController pf ch u r)"
  have h: "speaks_for me v (snd (?h v))" if "trips v = trips (db b)" for v
  proof -
    have "distinct (map t_id (trips v))" using d that by simp
    then show ?thesis by (simp add: speaks_same speaks_trips split: option.split)
  qed
  have keys: "completions (w\<lparr>redis_keys := k\<rparr>) = completions w" for w k by (simp add: view_simps)
  have own: "own_trip u i (w\<lparr>redis_keys := k\<rparr>) = own_trip u i w" for u i w k
    by (simp add: own_trip_def find_trip_def findDriverByUserId_def)
  from idempotent_call_state [of pf ch "is_idempotent (TripsApi r)" key ?h "db b"]
  have "speaks_for me (db b) (snd (idempotent_call pf ch (is_idempotent (TripsApi r)) key ?h (db b)))"
  proof (elim exE disjE)
    fix k k'
    assume "snd (idempotent_call pf ch (is_idempotent (TripsApi r)) key ?h (db b)) = (snd (?h ((db b)\<lparr>redis_keys := k\<rparr>)))\<lparr>redis_keys := k'\<rparr>"
    then show ?thesis using h [of "(db b)\<lparr>redis_keys := k\<rparr>"] by (simp add: speaks_for_def keys own)
  qed (simp add: speaks_same keys)
  then show ?thesis using TripsApi by (simp add: on_db_def split_beta)
qed (simp_all add: on_db_def split_beta speaks_same silent_controllers split: option.split)

section \<open>Steps\<close>

lemma silent_step:
  assumes inv: "distinct (map t_id (trips (db b)))" and step: "sys_step pf (g, b) (g', b')"
  shows "set (completions (db b')) \<subseteq> set (completions (db b)) \<or>
    (\<exists>ch bearer key route me. b' = snd (handle_http pf ch bearer key route b) \<and>
       jwt_canActivate (pf_lib pf) (pf_cfg pf) (ch_now ch) (is_public route) bearer = Inr me \<and> speaks_for me (db b) (db b'))"
  using step
proof (cases rule: sys_step_cases)
  case (request ch bearer key route)
  show ?thesis
  proof (cases "jwt_canActivate (pf_lib pf) (pf_cfg pf) (ch_now ch) (is_public route) bearer")
    case (Inl e)
    then show ?thesis using request by (simp add: handle_http_def)
  next
    case (Inr me)
    then have "speaks_for me (db b) (db b')"
      using request speaks_controller [OF inv, of me pf ch key route]
      by (auto simp: handle_http_def speaks_same split: sum.split)
    with Inr request show ?thesis by blast
  qed
next
  case (event e rest now)
  let ?w = "(db b)\<lparr>bus := rest\<rparr>"
  have "set (completions (deliver (pf_env pf) now e ?w)) \<subseteq> set (completions ?w)"
  proof (cases e)
    case (WsDriverAcceptRequested i dr u)
    have "speaks_for None ?w (snd (acceptTrip now i u ?w))"
      unfolding acceptTrip_def using inv by (intro speaks_updateStatus) simp_all
    then show ?thesis using WsDriverAcceptRequested by (simp add: handleWsDriverAcceptRequested_def acceptTrip_def speaks_for_def)
  qed (simp_all add: view_simps del: push_listener.simps)
  moreover have "set (completions ?w) \<subseteq> set (completions (db b))"
    using event by (cases e) (auto simp: completions_def)
  ultimately show ?thesis using event by auto
next
  case (connect now sid token w')
  then show ?thesis using told.view_sockets(1) [of "pf_lib pf" "pf_cfg pf" now sid token g "db b"] by simp
next
  case (message i now sid call ack w')
  then show ?thesis using told.view_sockets(2) [of "pf_lib pf" "pf_cfg pf" i now sid call g "db b"] by simp
next
  case (grace d t now w')
  then show ?thesis using told.view_sockets(3) [of d g "db b"] by simp
qed (simp_all add: view_simps)

text \<open>
  C9. Nobody but its driver finishes a trip, and so nobody else can have a commission charged on it.
  When trips have ids of their own, as in every reachable state, and a step of any kind, a request, a
  message on a socket, an event, a timer or a sweep, announces the completion of a trip that was not
  announced before, then the step was an HTTP request with a valid access token of a driver, the trip
  was running, and it was assigned to this very driver.
\<close>

theorem completed_by_own_driver:
  assumes "distinct (map t_id (trips (db b)))" and "sys_step pf (g, b) (g', b')"
    and "i \<in> set (completions (db b'))" and "i \<notin> set (completions (db b))"
  shows "\<exists>ch bearer key route p t d. b' = snd (handle_http pf ch (Some bearer) key route b) \<and>
    jwt_verify (pf_lib pf) (JWT_ACCESS_SECRET (pf_cfg pf)) (ch_now ch) bearer = Some p \<and> jp_role p = role_driver \<and>
    find_trip i (db b) = Some t \<and> t_status t = in_progress \<and>
    findDriverByUserId (sub p) (db b) = Some d \<and> t_driverId t = Some (d_id d)"
proof -
  obtain ch bearer key route me where b': "b' = snd (handle_http pf ch bearer key route b)"
    and who: "jwt_canActivate (pf_lib pf) (pf_cfg pf) (ch_now ch) (is_public route) bearer = Inr me"
    and "speaks_for me (db b) (db b')"
    using silent_step [OF assms(1,2)] assms(3,4) by blast
  then obtain u where me: "me = Some u" and own: "own_trip u i (db b)" using assms(3,4) by (auto simp: speaks_for_def)
  obtain token p where "bearer = Some token" "jwt_verify (pf_lib pf) (JWT_ACCESS_SECRET (pf_cfg pf)) (ch_now ch) token = Some p"
    and "u = jwt_validate p"
    using who me by (cases bearer) (auto simp: jwt_canActivate_def split: if_splits option.splits)
  with b' own show ?thesis
    by (intro exI [of _ ch] exI [of _ token] exI [of _ key] exI [of _ route] exI [of _ p]) (auto simp: own_trip_def jwt_validate_def)
qed

text \<open>A driver finishes the running trip.\<close>

definition driver_platform :: "nat platform" where
  "driver_platform = sample_platform\<lparr>pf_lib := plain_libraries\<lparr>jwt_verify := (\<lambda>secret now token.
     Some \<lparr>sub = ''u1'', jp_phone = ''+22370000001'', jp_role = role_driver\<rparr>)\<rparr>\<rparr>"

abbreviation "finish_request \<equiv> handle_http driver_platform (sample_chance\<lparr>ch_id := ''t9''\<rparr>) (Some ''token'') None
   (TripsApi (CompleteTrip ''t1'' 1000)) (sample_backend running_world)"

lemma finish_announced: "completions (db (snd finish_request)) = [''t1'']"
proof -
  have c: "chargeable ''t1'' ''u1'' role_driver running_world ((sample_trip ''t1'')\<lparr>t_status := in_progress, t_driverId := Some ''d1''\<rparr>)"
    by (simp add: chargeable_def running_world_def find_trip_def findDriverByUserId_def sample_trip_def sample_defs)
  have "completions running_world = []" by (simp add: completions_def running_world_def sample_world_def empty_world_def)
  then have "completions (snd (completeTrip 0 ''t1'' ''u1'' role_driver 1000 running_world)) = [''t1'']"
    unfolding completeTrip_done [OF c refl] by (simp add: announced_status view_simps sample_trip_def)
  then show ?thesis
    by (simp add: handle_http_def jwt_canActivate_def is_public_def required_roles_def roles_canActivate_def on_db_def split_beta
        idempotent_call_def valid_PaymentReceivedDto_def driver_platform_def sample_platform_def sample_backend_def
        sample_chance_def jwt_validate_def return_def)
qed

theorem completed_by_own_driver_witness:
  "sys_step driver_platform (one_socket, sample_backend running_world) (one_socket, snd finish_request) \<and>
   (\<exists>(p :: JwtPayload) t d. jp_role p = role_driver \<and> find_trip ''t1'' running_world = Some t \<and> t_status t = in_progress \<and>
      findDriverByUserId (sub p) running_world = Some d \<and> t_driverId t = Some (d_id d))"
proof -
  have d: "distinct (map t_id (trips (db (sample_backend running_world))))" by (simp add: running_world_def sample_backend_def)
  have "fresh_ids (sample_chance\<lparr>ch_id := ''t9''\<rparr>) (db (sample_backend running_world))"
    by (simp add: fresh_ids_def running_world_def sample_backend_def sample_chance_def sample_defs sample_trip_def)
  then have step: "sys_step driver_platform (one_socket, sample_backend running_world) (one_socket, snd finish_request)"
    by (rule sys_step.request)
  have "''t1'' \<in> set (completions (db (snd finish_request)))" "''t1'' \<notin> set (completions (db (sample_backend running_world)))"
    by (simp_all add: finish_announced) (simp add: completions_def running_world_def sample_world_def empty_world_def sample_backend_def)
  from completed_by_own_driver [OF d step this] have "\<exists>(p :: JwtPayload) t d. jp_role p = role_driver \<and>
      find_trip ''t1'' (db (sample_backend running_world)) = Some t \<and> t_status t = in_progress \<and>
      findDriverByUserId (sub p) (db (sample_backend running_world)) = Some d \<and> t_driverId t = Some (d_id d)" by blast
  then show ?thesis using step by (simp add: sample_backend_def)
qed

end
