(* ===== verification/Telima_Books.thy ===== *)
theory Telima_Books
  imports Telima_Machine
begin

text \<open>
  The books of the drivers over whole runs: what a driver owes against the commissions charged on
  the trips and the payments that succeeded. A trip is charged when the event of its completion is
  delivered; that this happens once rests on an invariant of the events still to be delivered.
\<close>

section \<open>The invariant\<close>

text \<open>Every completion on its way is that of a finished trip not charged yet, and is on its way once.\<close>

definition waiting_ok :: "world \<Rightarrow> bool" where
  "waiting_ok w \<longleftrightarrow> distinct (completions w) \<and> (\<forall>i \<in> set (completions w).
     \<exists>t. find_trip i w = Some t \<and> t_status t = completed \<and> t_commissionAmount t = None)"

definition ledger_ok :: "world \<Rightarrow> bool" where
  "ledger_ok w \<longleftrightarrow> sys_inv w \<and> charges_sound w \<and> waiting_ok w \<and>
     (\<forall>i. ledger_gap i w = None \<or> ledger_gap i w = Some 0)"

text \<open>A step is on time unless it delivers an assignment to a finished trip.\<close>

definition late :: "world \<Rightarrow> bool" where
  "late w \<longleftrightarrow> (case bus w of [] \<Rightarrow> False | e # _ \<Rightarrow> revives e w)"

definition on_time_step :: "'p platform \<Rightarrow> 'p state \<Rightarrow> 'p state \<Rightarrow> bool" where
  "on_time_step pf s s' \<longleftrightarrow> sys_step pf s s' \<and> \<not> late (db (snd s))"

lemma ledger_ok_empty:
  assumes "trips w = []" and "payments w = []" and "bus w = []" and "\<forall>d \<in> set (drivers w). d_commissionDue d = 0"
  shows "ledger_ok w"
proof -
  have "ledger_gap i w = None \<or> ledger_gap i w = Some 0" for i
    using assms by (cases "find_driver i w")
      (auto simp: ledger_gap_def find_driver_def paid_by_def charged_to_def sum_where_def dest: find_SomeD)
  with assms(1-3) show ?thesis
    by (simp add: ledger_ok_def sys_inv_def charges_sound_def payments_wf_def waiting_ok_def completions_def)
qed

lemma ledger_ok_tables: "tables v = tables w \<Longrightarrow> ledger_ok v = ledger_ok w"
  using tables_ledger [of v w] by (simp add: ledger_ok_def sys_inv_def waiting_ok_def find_trip_def)

section \<open>Steps that charge nothing\<close>

lemma waiting_ok_kept:
  assumes ok: "waiting_ok w" and rows: "rows_kept w w'" and news: "announces w w'"
  shows "waiting_ok w'"
proof -
  have still: "\<exists>t. find_trip i w' = Some t \<and> t_status t = completed \<and> t_commissionAmount t = None"
    if "i \<in> set (completions w)" for i
  proof -
    obtain t where t: "find_trip i w = Some t" "t_status t = completed" "t_commissionAmount t = None"
      using ok \<open>i \<in> set (completions w)\<close> by (auto simp: waiting_ok_def)
    obtain t' where "find_trip i w' = Some t'" "kept t t'" using rows_kept_find [OF rows t(1)] .
    with t show ?thesis by (metis kept_def charge_of_None)
  qed
  from news show ?thesis
    unfolding announces_def
  proof (elim disjE exE conjE)
    assume "completions w' = completions w"
    with ok still show ?thesis by (simp add: waiting_ok_def)
  next
    fix i assume c: "completions w' = completions w @ [i]" and "finishes i w w'"
    then have "i \<notin> set (completions w)" using ok by (auto simp: waiting_ok_def finishes_def)
    then show ?thesis
      using ok still \<open>finishes i w w'\<close> unfolding waiting_ok_def c finishes_def by auto
  qed
qed

lemma find_driver_gap: "find_driver i w \<noteq> None \<longleftrightarrow> ledger_gap i w \<noteq> None"
  by (simp add: ledger_gap_def)

lemma ledger_ok_good:
  assumes ok: "ledger_ok w" and step: "good_step w w'"
  shows "ledger_ok w'"
proof -
  have lawful: "lawful_step w w'" and sound: "charges_sound w" using ok step by (simp_all add: ledger_ok_def good_step_def)
  have rows: "rows_kept w w'" and news: "announces w w'"
    and gaps: "\<And>i. ledger_gap i w' = ledger_gap i w \<or> ledger_gap i w = None \<and> ledger_gap i w' = Some 0"
    using step sound by (simp_all add: good_step_def money_kept_def charges_extend_def)
  have inv: "sys_inv w'" using ok lawful_step_inv [OF _ lawful] by (simp add: ledger_ok_def)
  have "t_status t' = completed \<and> (\<exists>d. t_driverId t' = Some d \<and> find_driver d w' \<noteq> None)"
    if t': "t' \<in> set (trips w')" "t_commissionAmount t' \<noteq> None" for t'
  proof -
    obtain t where t: "t \<in> set (trips w)" "kept t t'" using rows_kept_before [OF rows t'] .
    have c: "t_commissionAmount t \<noteq> None" "t_driverId t' = t_driverId t"
      using t(2) t'(2) by (cases "t_commissionAmount t"; auto simp: kept_def charge_of_def)+
    then obtain d where d: "t_status t = completed" "t_driverId t = Some d" "find_driver d w \<noteq> None"
      using sound t(1) by (auto simp: charges_sound_def)
    have "find_driver d w' \<noteq> None" using d(3) gaps [of d] unfolding find_driver_gap by auto
    with d c(2) t(2) show ?thesis by (simp add: kept_def)
  qed
  then have "charges_sound w'" using inv by (simp add: charges_sound_def sys_inv_def)
  moreover have "ledger_gap i w' = None \<or> ledger_gap i w' = Some 0" for i
    using ok gaps [of i] by (auto simp: ledger_ok_def)
  moreover have "waiting_ok w'" using ok waiting_ok_kept [OF _ rows news] by (simp add: ledger_ok_def)
  ultimately show ?thesis using inv by (simp add: ledger_ok_def)
qed

section \<open>The delivery of a completion\<close>

lemma ledger_ok_charged:
  assumes ok: "ledger_ok w" and due: "find_trip i w = Some t" "t_status t = completed" "t_commissionAmount t = None"
    and last_one: "i \<notin> set (completions w)"
  shows "ledger_ok (push_listener e (handleTripCompleted now i w))"
proof (cases rule: handleTripCompleted_cases [of now i w])
  case 1
  have "tables (push_listener e w) = tables w" by (simp add: tables_def world_simps view_simps)
  then show ?thesis using ok ledger_ok_tables unfolding 1 by blast
next
  case (2 t2 dr price vt)
  let ?w = "handleTripCompleted now i w"
  let ?w' = "push_listener e ?w"
  have t: "t2 = t" "t_driverId t = Some dr" "find_driver dr w \<noteq> None" using 2 due(1) by (simp_all add: billable_def)
  have d: "distinct (map t_id (trips w))" and sound: "charges_sound w" using ok by (simp_all add: ledger_ok_def sys_inv_def)
  have "tables ?w' = tables ?w" by (simp add: tables_def world_simps view_simps)
  note same = tables_ledger [OF this]
  have inv: "sys_inv ?w'" using ok lawful_step_inv [OF _ lawful_charged [OF d]] by (simp add: ledger_ok_def)
  have gaps: "ledger_gap j ?w = ledger_gap j w" for j
    unfolding ledger_handle [OF 2 d] by (simp add: t(1) due(3) option.map_ident)
  then have drivers: "find_driver j ?w \<noteq> None \<longleftrightarrow> find_driver j w \<noteq> None" for j unfolding find_driver_gap by (simp add: gaps)
  have "t_status u = completed \<and> (\<exists>d. t_driverId u = Some d \<and> find_driver d ?w \<noteq> None)"
    if u: "u \<in> set (trips ?w)" "t_commissionAmount u \<noteq> None" for u
  proof -
    have "x = t" if "x \<in> set (trips w)" "t_id x = i" for x
      using find_distinct [of t_id "trips w" x] d due(1) that by (simp add: find_trip_def)
    then show ?thesis
      using u t(2,3) due(2) sound drivers unfolding handleTripCompleted_billable [OF 2]
      by (auto simp: update_frame update_where_def charges_sound_def world_simps)
  qed
  then have "charges_sound ?w'" using inv unfolding same(3) by (simp add: charges_sound_def sys_inv_def same(4))
  moreover have "ledger_gap j ?w' = None \<or> ledger_gap j ?w' = Some 0" for j
    using ok unfolding same(1) gaps by (simp add: ledger_ok_def)
  moreover have "waiting_ok ?w'"
  proof -
    have "completions ?w' = completions w" unfolding same(6) by (simp add: view_simps)
    moreover have "find_trip j ?w' = find_trip j w" if "j \<in> set (completions w)" for j
    proof -
      have "j \<noteq> i" using that last_one by blast
      then show ?thesis unfolding find_trip_def same(5) handleTripCompleted_billable [OF 2]
        by (simp add: update_frame find_update_other world_simps)
    qed
    ultimately show ?thesis using ok by (simp add: ledger_ok_def waiting_ok_def)
  qed
  ultimately show ?thesis using inv by (simp add: ledger_ok_def)
qed

section \<open>Runs\<close>

lemma ledger_ok_step:
  assumes ok: "ledger_ok (db b)" and "on_time_step pf (g, b) (g', b')"
  shows "ledger_ok (db b')"
proof -
  have step: "sys_step pf (g, b) (g', b')" and time: "\<not> late (db b)" using assms(2) by (simp_all add: on_time_step_def)
  have d: "distinct (map t_id (trips (db b)))" using ok by (simp add: ledger_ok_def sys_inv_def)
  from d step show ?thesis
  proof (cases rule: good_sys_step)
    case 1
    with ok show ?thesis by (rule ledger_ok_good)
  next
    case (2 e rest now)
    then have "is_completion e" using time by (simp add: late_def)
    then obtain i dr c price where e: "e = TripCompleted i dr c price" by (cases e) simp_all
    let ?w = "(db b)\<lparr>bus := rest\<rparr>"
    have c: "completions (db b) = i # completions ?w" using 2(1) e by (simp add: completions_def)
    then obtain t where t: "find_trip i ?w = Some t" "t_status t = completed" "t_commissionAmount t = None"
      and new: "i \<notin> set (completions ?w)"
      using ok by (auto simp: ledger_ok_def waiting_ok_def find_trip_def)
    have "ledger_ok ?w"
      using ok c
      by (auto simp: ledger_ok_def sys_inv_def charges_sound_def waiting_ok_def find_trip_def find_driver_def payments_wf_def
          ledger_gap_def paid_by_def charged_to_def)
    then show ?thesis using 2(2) e ledger_ok_charged [OF _ t new] by (simp del: push_listener.simps)
  qed
qed

lemma ledger_ok_run:
  "(on_time_step pf)\<^sup>*\<^sup>* s s' \<Longrightarrow> ledger_ok (db (snd s)) \<Longrightarrow> ledger_ok (db (snd s'))"
proof (induction rule: rtranclp_induct)
  case (step s1 s2)
  then show ?case using ledger_ok_step by (metis prod.collapse)
qed

text \<open>
  C27. The books balance in every run. Start from an empty database or from any tables whose books
  agree, and let requests, socket messages, events, timers and sweeps be interleaved in any way. As
  long as no assignment of a driver is delivered to a trip that is finished already (it would put the
  trip back to accepted, to be finished and charged again), what every driver owes is at any time
  exactly the sum of the commissions charged on the driver's trips less the driver's successful
  payments: no trip is charged twice or to somebody else, and no payment is counted twice.
\<close>

theorem books_balance_in_every_run:
  assumes "ledger_ok (db b)" and "(on_time_step pf)\<^sup>*\<^sup>* (g, b) (g', b')"
    and "find_driver i (db b') = Some dr"
  shows "d_commissionDue dr = charged_to i (db b') - paid_by i (db b')"
proof -
  have "ledger_ok (db b')" using ledger_ok_run [OF assms(2)] assms(1) by simp
  then have "ledger_gap i (db b') = None \<or> ledger_gap i (db b') = Some 0" by (simp add: ledger_ok_def)
  with assms(3) show ?thesis by (auto simp: ledger_gap_def)
qed

text \<open>A finished ride of 1000 francs is charged when its completion is delivered.\<close>

definition settling_world :: world where
  "settling_world = charged_world\<lparr>trips := map (\<lambda>t. t\<lparr>t_acceptedAt := Some 0, t_driverArrivedAt := Some 0, t_startedAt := Some 0\<rparr>)
     (trips charged_world), bus := [TripCompleted ''t1'' (Some ''d1'') ''c1'' 1000]\<rparr>"

lemma settling_ok: "ledger_ok (db (sample_backend settling_world))"
proof -
  have "ledger_gap i settling_world = None \<or> ledger_gap i settling_world = Some 0" for i
    by (auto simp: ledger_gap_def settling_world_def charged_world_def finder_defs sample_defs paid_by_def charged_to_def
        sum_where_def)
  then show ?thesis
    by (simp add: ledger_ok_def sys_inv_def charges_sound_def payments_wf_def trip_ok_def waiting_ok_def completions_def
        find_trip_def settling_world_def
        charged_world_def sample_defs sample_backend_def)
qed

theorem books_balance_in_every_run_witness:
  "\<exists>b' dr. sys_step sample_platform (one_socket, sample_backend settling_world) (one_socket, b') \<and>
     find_driver ''d1'' (db b') = Some dr \<and> d_commissionDue dr = charged_to ''d1'' (db b') - paid_by ''d1'' (db b') \<and>
     d_commissionDue dr \<noteq> 0"
proof -
  let ?w = "settling_world\<lparr>bus := []\<rparr>"
  let ?b = "(sample_backend settling_world)\<lparr>db := deliver (pf_env sample_platform) 5 (TripCompleted ''t1'' (Some ''d1'') ''c1'' 1000) ?w\<rparr>"
  have step: "sys_step sample_platform (one_socket, sample_backend settling_world) (one_socket, ?b)"
    using sys_step.event [of "sample_backend settling_world" "TripCompleted ''t1'' (Some ''d1'') ''c1'' 1000" "[]" sample_platform one_socket 5]
    by (simp add: settling_world_def sample_backend_def)
  have "\<not> late (db (sample_backend settling_world))"
    by (simp add: late_def settling_world_def charged_world_def find_trip_def sample_backend_def)
  with step have run: "(on_time_step sample_platform)\<^sup>*\<^sup>* (one_socket, sample_backend settling_world) (one_socket, ?b)"
    by (intro r_into_rtranclp) (simp add: on_time_step_def)
  have b: "billable ''t1'' (hd (trips ?w)) ''d1'' 1000 (sample_vehicleType ''moto'') ?w"
    by (simp add: billable_def settling_world_def charged_world_def finder_defs sample_defs)
  have "find_driver ''d1'' (db ?b) = Some (booked 1000 (commission_of 1000 (vt_commissionPercentage (sample_vehicleType ''moto''))) (hd (drivers ?w)))"
  proof -
    have "drivers (db ?b) = drivers (handleTripCompleted 5 ''t1'' ?w)" by (simp add: world_simps del: push_listener.simps)
    then show ?thesis
      unfolding find_driver_def handleTripCompleted_billable [OF b]
      by (simp add: update_frame update_where_def settling_world_def charged_world_def sample_defs)
  qed
  moreover have "Math_round 150 = (150 :: real)" by (simp add: Math_round_id)
  then have "d_commissionDue (booked 1000 (commission_of 1000 (vt_commissionPercentage (sample_vehicleType ''moto''))) (hd (drivers ?w))) \<noteq> 0"
    by (simp add: commission_of_def sample_defs settling_world_def charged_world_def)
  ultimately obtain dr where dr: "find_driver ''d1'' (db ?b) = Some dr" "d_commissionDue dr \<noteq> 0" by blast
  from books_balance_in_every_run [OF settling_ok run dr(1)] step dr show ?thesis by blast
qed

end
