(* ===== verification/Seeds.thy ===== *)
theory Seeds
  imports Telima_Safety Telima_Books
begin

text \<open>
  What a deployment starts from: \<open>prisma/seed.ts\<close> and \<open>prisma/seed-service-config.ts\<close>, which
  \<open>docker-entrypoint.sh\<close> runs before every start of the application. Each row is an \<open>upsert\<close> with an
  empty update: a row with the same key stays as it is. The ids of new rows are a parameter.
\<close>

section \<open>The scripts\<close>

definition upsert :: "('a \<Rightarrow> bool) \<Rightarrow> 'a \<Rightarrow> 'a list \<Rightarrow> 'a list" where
  "upsert key row rows = (if list_ex key rows then rows else rows @ [row])"

definition seed_type :: "id \<Rightarrow> time \<Rightarrow> string \<Rightarrow> ServiceType \<Rightarrow> int \<Rightarrow> real \<Rightarrow> real \<Rightarrow> real \<Rightarrow> real \<Rightarrow> VehicleType" where
  "seed_type i now name service capacity base km minute percentage =
     \<lparr>vt_id = i, vt_name = name, vt_serviceType = service, vt_baseFare = base, vt_pricePerKm = km,
      vt_pricePerMin = minute, vt_commissionPercentage = percentage, vt_isActive = True, vt_capacity = capacity,
      vt_createdAt = now\<rparr>"

definition seed_types :: "(nat \<Rightarrow> id) \<Rightarrow> time \<Rightarrow> VehicleType list" where
  "seed_types ids now =
     [seed_type (ids 0) now ''Moto'' ride 1 200 150 25 15,
      seed_type (ids 1) now ''Tricycle'' ride 2 300 200 30 15,
      seed_type (ids 2) now ''Berline'' ride 4 500 350 50 20,
      seed_type (ids 3) now ''Moto Livraison'' delivery 10 250 175 30 15,
      seed_type (ids 4) now ''Tricycle Livraison'' delivery 50 400 250 40 15]"

definition upsert_type :: "VehicleType \<Rightarrow> VehicleType list \<Rightarrow> VehicleType list" where
  "upsert_type vt = upsert (\<lambda>v. vt_name v = vt_name vt \<and> vt_serviceType v = vt_serviceType vt) vt"

definition adminPhone :: string where "adminPhone = ''+22300000000''"
definition adminEmail :: string where "adminEmail = ''admin@telima.ml''"
definition adminPassword :: string where "adminPassword = ''AdminTelima2026!''"

definition seed :: "Libraries \<Rightarrow> (nat \<Rightarrow> id) \<Rightarrow> id \<Rightarrow> time \<Rightarrow> world \<Rightarrow> world" where
  "seed lib ids adminId now w =
     (let w1 = world.vehicleTypes_update (fold upsert_type (seed_types ids now)) w
      in w1\<lparr>users := upsert (\<lambda>u. u_phone u = adminPhone)
           \<lparr>u_id = adminId, u_phone = adminPhone, u_role = role_admin, u_firstName = Some ''Admin'',
            u_lastName = Some ''Telima'', u_email = Some adminEmail, u_passwordHash = Some (bcrypt_hash lib adminPassword),
            u_isActive = True, u_createdAt = now\<rparr> (users w1)\<rparr>)"

definition seed_service :: "ServiceType \<Rightarrow> int \<Rightarrow> int \<Rightarrow> int \<Rightarrow> int \<Rightarrow> real \<Rightarrow> ServiceConfig" where
  "seed_service service radius tries lockTtl timeoutMs surge =
     \<lparr>sc_serviceType = service, sc_isEnabled = True, sc_dispatchRadiusMeters = radius, sc_maxDispatchAttempts = tries,
      sc_lockTtlSeconds = lockTtl, sc_dispatchTimeoutMs = timeoutMs, sc_surgeEnabled = False, sc_maxSurgeMultiplier = surge,
      sc_requirements = []\<rparr>"

definition seed_services :: "ServiceConfig list" where
  "seed_services =
     [seed_service ride 5000 3 30 15000 2,
      seed_service delivery 5000 3 30 15000 2,
      seed_service food 4000 3 30 12000 2,
      seed_service intercity 10000 5 60 30000 3,
      seed_service assistance 8000 5 45 20000 2]"

definition upsert_service :: "ServiceConfig \<Rightarrow> ServiceConfig list \<Rightarrow> ServiceConfig list" where
  "upsert_service c = upsert (\<lambda>d. sc_serviceType d = sc_serviceType c) c"

text \<open>The capabilities are a table of their own, which no service reads but through the requirements.\<close>

record Capability =
  cap_name :: string
  cap_description :: "string option"
  cap_category :: string

definition seed_capabilities :: "Capability list" where
  "seed_capabilities =
     [\<lparr>cap_name = ''thermal_bag'', cap_description = Some ''Sac isotherme pour repas'', cap_category = ''equipment''\<rparr>,
      \<lparr>cap_name = ''cargo_box'', cap_description = Some ''Caisse de transport pour colis'', cap_category = ''equipment''\<rparr>,
      \<lparr>cap_name = ''first_aid_kit'', cap_description = Some ''Trousse de premiers secours'', cap_category = ''equipment''\<rparr>,
      \<lparr>cap_name = ''tow_rope'', cap_description = Some ''Cable de remorquage'', cap_category = ''equipment''\<rparr>,
      \<lparr>cap_name = ''jump_starter'', cap_description = Some ''Booster de batterie'', cap_category = ''equipment''\<rparr>,
      \<lparr>cap_name = ''4_seats'', cap_description = Some ''4 places passagers'', cap_category = ''vehicle_trait''\<rparr>,
      \<lparr>cap_name = ''2_wheels'', cap_description = Some ''Moto (2 roues)'', cap_category = ''vehicle_trait''\<rparr>,
      \<lparr>cap_name = ''ac'', cap_description = Some ''Climatisation'', cap_category = ''vehicle_trait''\<rparr>,
      \<lparr>cap_name = ''first_aid_cert'', cap_description = Some ''Certification premiers secours'', cap_category = ''certification''\<rparr>]"

definition upsert_capability :: "Capability \<Rightarrow> Capability list \<Rightarrow> Capability list" where
  "upsert_capability c = upsert (\<lambda>d. cap_name d = cap_name c) c"

definition seed_service_config :: "world \<times> Capability list \<Rightarrow> world \<times> Capability list" where
  "seed_service_config s =
     (case s of (w, capabilities) \<Rightarrow>
        (w\<lparr>serviceConfigs := fold upsert_service seed_services (serviceConfigs w)\<rparr>,
         fold upsert_capability seed_capabilities capabilities))"

text \<open>What the entrypoint does to the database before a start.\<close>

definition entrypoint ::
  "Libraries \<Rightarrow> (nat \<Rightarrow> id) \<Rightarrow> id \<Rightarrow> time \<Rightarrow> world \<times> Capability list \<Rightarrow> world \<times> Capability list" where
  "entrypoint lib ids adminId now s = seed_service_config (apfst (seed lib ids adminId now) s)"

section \<open>Upserts\<close>

lemma upsert_present: "list_ex key rows \<Longrightarrow> upsert key row rows = rows"
  by (simp add: upsert_def)

lemma upsert_mem: "key row \<Longrightarrow> list_ex key (upsert key row rows)"
  by (simp add: upsert_def)

lemma upsert_keeps: "list_ex p rows \<Longrightarrow> list_ex p (upsert key row rows)"
  by (auto simp: upsert_def)

lemma set_upsert: "set (upsert key row rows) \<subseteq> insert row (set rows)"
  by (auto simp: upsert_def)

text \<open>A list of upserts only appends, leaves a row under every key, and does nothing where every key has a row.\<close>

lemma fold_upsert_appends: "\<exists>new. fold (\<lambda>r. upsert (key r) r) rs rows = rows @ new"
proof (induction rs arbitrary: rows)
  case (Cons r rs)
  have "\<exists>x. upsert (key r) r rows = rows @ x" by (auto simp: upsert_def)
  then obtain x where x: "upsert (key r) r rows = rows @ x" ..
  from Cons [of "rows @ x"] show ?case by (auto simp: x)
qed simp

lemma fold_upsert_keys:
  assumes "r \<in> set rs"
  shows "keys r \<in> keys ` set (fold (\<lambda>r. upsert (\<lambda>x. keys x = keys r) r) rs rows)"
  using assms
proof (induction rs arbitrary: rows)
  case (Cons q qs)
  show ?case
  proof (cases "r = q")
    case True
    obtain new where "fold (\<lambda>r. upsert (\<lambda>x. keys x = keys r) r) qs (upsert (\<lambda>x. keys x = keys q) q rows) =
        upsert (\<lambda>x. keys x = keys q) q rows @ new"
      using fold_upsert_appends [of "\<lambda>r x. keys x = keys r"] by blast
    moreover have "keys q \<in> keys ` set (upsert (\<lambda>x. keys x = keys q) q rows)"
      by (auto simp: upsert_def list_ex_iff) (metis image_eqI)
    ultimately show ?thesis using True by auto
  next
    case False
    with Cons show ?thesis by simp
  qed
qed simp

lemma fold_upsert_done:
  assumes "keys ` set rs \<subseteq> keys ` set rows"
  shows "fold (\<lambda>r. upsert (\<lambda>x. keys x = keys r) r) rs rows = rows"
  using assms by (induction rs) (auto simp: upsert_def list_ex_iff)

abbreviation type_key :: "VehicleType \<Rightarrow> string \<times> ServiceType" where
  "type_key v \<equiv> (vt_name v, vt_serviceType v)"

lemma upserts_by_key:
  "upsert_type = (\<lambda>r. upsert (\<lambda>x. type_key x = type_key r) r)"
  "upsert_service = (\<lambda>r. upsert (\<lambda>x. sc_serviceType x = sc_serviceType r) r)"
  "upsert_capability = (\<lambda>r. upsert (\<lambda>x. cap_name x = cap_name r) r)"
  by (simp_all add: fun_eq_iff upsert_type_def upsert_service_def upsert_capability_def)

lemma fold_upsert_mem:
  "v \<in> set (fold (\<lambda>r. upsert (key r) r) rs rows) \<Longrightarrow> v \<in> set rs \<or> v \<in> set rows"
  by (induction rs arbitrary: rows) (use set_upsert in \<open>auto, fastforce\<close>)

text \<open>The keys of the seeds, whatever the ids and the clock.\<close>

lemma seed_keys: "type_key ` set (seed_types ids now) = type_key ` set (seed_types ids' now')"
  by (simp add: seed_types_def seed_type_def)

lemma seed_only_appends:
  assumes "entrypoint lib ids j now (v, ls) = (v', ls')"
  shows "\<exists>types people services capabilities.
    v' = world.vehicleTypes_update (\<lambda>_. vehicleTypes v @ types) (v\<lparr>users := users v @ people, serviceConfigs := serviceConfigs v @ services\<rparr>) \<and>
    ls' = ls @ capabilities"
proof -
  let ?admin = "\<lparr>u_id = j, u_phone = adminPhone, u_role = role_admin, u_firstName = Some ''Admin'',
    u_lastName = Some ''Telima'', u_email = Some adminEmail, u_passwordHash = Some (bcrypt_hash lib adminPassword),
    u_isActive = True, u_createdAt = now\<rparr>"
  have "\<exists>people. upsert (\<lambda>u. u_phone u = adminPhone) ?admin (users v) = users v @ people" by (auto simp: upsert_def)
  then obtain people where p: "upsert (\<lambda>u. u_phone u = adminPhone) ?admin (users v) = users v @ people" ..
  obtain types where t: "fold upsert_type (seed_types ids now) (vehicleTypes v) = vehicleTypes v @ types"
    unfolding upserts_by_key using fold_upsert_appends [of "\<lambda>r x. type_key x = type_key r"] by blast
  obtain services where s: "fold upsert_service seed_services (serviceConfigs v) = serviceConfigs v @ services"
    unfolding upserts_by_key using fold_upsert_appends [of "\<lambda>r x. sc_serviceType x = sc_serviceType r"] by blast
  obtain capabilities where c: "fold upsert_capability seed_capabilities ls = ls @ capabilities"
    unfolding upserts_by_key using fold_upsert_appends [of "\<lambda>r x. cap_name x = cap_name r"] by blast
  have "v' = world.vehicleTypes_update (\<lambda>_. vehicleTypes v @ types) (v\<lparr>users := users v @ people, serviceConfigs := serviceConfigs v @ services\<rparr>)"
    "ls' = ls @ capabilities"
    using assms by (auto simp: entrypoint_def seed_def seed_service_config_def Let_def p t s c intro!: world.equality)
  then show ?thesis by blast
qed

lemma seeds_there:
  assumes "entrypoint lib ids j now s = (w', ks')"
  shows "type_key ` set (seed_types ids' now') \<subseteq> type_key ` set (vehicleTypes w')" "adminPhone \<in> u_phone ` set (users w')"
    "sc_serviceType ` set seed_services \<subseteq> sc_serviceType ` set (serviceConfigs w')"
    "cap_name ` set seed_capabilities \<subseteq> cap_name ` set ks'"
proof -
  obtain v ls where s: "s = (v, ls)" by (cases s)
  have tables: "vehicleTypes w' = fold upsert_type (seed_types ids now) (vehicleTypes v)"
    "serviceConfigs w' = fold upsert_service seed_services (serviceConfigs v)"
    "ks' = fold upsert_capability seed_capabilities ls"
    using assms by (auto simp: s entrypoint_def seed_def seed_service_config_def Let_def)
  show "type_key ` set (seed_types ids' now') \<subseteq> type_key ` set (vehicleTypes w')"
    unfolding seed_keys [of ids' now' ids now] tables upserts_by_key using fold_upsert_keys [where keys = type_key] by auto
  show "sc_serviceType ` set seed_services \<subseteq> sc_serviceType ` set (serviceConfigs w')"
    unfolding tables upserts_by_key using fold_upsert_keys [where keys = sc_serviceType] by auto
  show "cap_name ` set seed_capabilities \<subseteq> cap_name ` set ks'"
    unfolding tables upserts_by_key using fold_upsert_keys [where keys = cap_name] by auto
  show "adminPhone \<in> u_phone ` set (users w')"
    using assms by (auto simp: s entrypoint_def seed_def seed_service_config_def Let_def upsert_def list_ex_iff intro: rev_image_eqI split: if_splits)
qed

lemma seed_done:
  assumes "type_key ` set (seed_types ids now) \<subseteq> type_key ` set (vehicleTypes v)" and "adminPhone \<in> u_phone ` set (users v)"
    and "sc_serviceType ` set seed_services \<subseteq> sc_serviceType ` set (serviceConfigs v)"
    and "cap_name ` set seed_capabilities \<subseteq> cap_name ` set ls"
  shows "entrypoint lib ids j now (v, ls) = (v, ls)"
proof -
  have "list_ex (\<lambda>u. u_phone u = adminPhone) (users v)" using assms(2) by (force simp: list_ex_iff)
  then show ?thesis
    using fold_upsert_done [OF assms(1)] fold_upsert_done [OF assms(3)] fold_upsert_done [OF assms(4)]
    by (simp add: entrypoint_def seed_def seed_service_config_def Let_def upserts_by_key upsert_present)
qed

section \<open>A seeded deployment\<close>

lemma seed_catalog_ok:
  assumes "catalog_ok (fst s)"
  shows "catalog_ok (fst (entrypoint lib ids j now s))"
proof -
  obtain w ks where s: "s = (w, ks)" by (metis surj_pair)
  have "type_ok v" if "v \<in> set (fold upsert_type (seed_types ids now) (vehicleTypes w))" for v
  proof -
    have "v \<in> set (seed_types ids now) \<or> v \<in> set (vehicleTypes w)"
      using fold_upsert_mem [of v "\<lambda>vt v. vt_name v = vt_name vt \<and> vt_serviceType v = vt_serviceType vt"] that
      by (simp add: upsert_type_def [abs_def])
    then show ?thesis using assms s by (auto simp: catalog_ok_def seed_types_def seed_type_def type_ok_def)
  qed
  then show ?thesis
    using assms by (simp add: s entrypoint_def seed_def seed_service_config_def Let_def catalog_ok_def)
qed

text \<open>The settings every service gets when the table was empty.\<close>

lemma seeded_services: "fold upsert_service seed_services [] = seed_services"
  by (simp add: seed_services_def seed_service_def upsert_service_def upsert_def)

lemma seeded_timeout:
  assumes "serviceConfigs (fst s) = []" and "configCache (fst s) = Map.empty"
  shows "dispatchTimeoutMs (fst (getDispatchConfig t service (fst (entrypoint lib ids j now s)))) =
    (case service of ride \<Rightarrow> 15000 | delivery \<Rightarrow> 15000 | food \<Rightarrow> 12000 | assistance \<Rightarrow> 20000 | intercity \<Rightarrow> 30000)"
  using assms
  by (cases s; cases service)
    (simp_all add: entrypoint_def seed_def seed_service_config_def Let_def seeded_services getDispatchConfig_def getConfig_def
      find_config_def dispatch_config_of_def seed_services_def seed_service_def upsert_service_def upsert_def)

text \<open>
  C25. What a container starts from. Seeding never changes a row: whatever the tables hold, it only
  appends to four of them, and once a deployment has been seeded a later start, with any ids and at any
  time, changes nothing at all, however fares, settings and accounts have been edited since, as long as
  no row of that day is gone or has lost its key (the name and service of a vehicle type, the phone of
  a user, the service of a setting, the name of a capability); it keeps the catalog sound. But on a fresh database it creates an
  administrator whose address and password stand in the source, and the dashboard lets in whoever
  sends them; and it writes for every service a time to answer of at most thirty seconds (fifteen for
  rides and deliveries), so the sixty seconds that the default was raised to, so that a driver woken by
  a notification can answer in time, are never used.
\<close>

theorem seeded_deployment:
  assumes fresh: "\<forall>u \<in> set (users w). u_phone u \<noteq> adminPhone \<and> u_email u \<noteq> Some adminEmail"
    "serviceConfigs w = []" "configCache w = Map.empty" "refreshTokens w = []" and "catalog_ok w"
    and bcrypt: "bcrypt_compare lib adminPassword (bcrypt_hash lib adminPassword)" "bcrypt_hash lib adminPassword \<noteq> []"
    and started: "entrypoint lib ids adminId now (w, ks) = (w', ks')"
  shows "(\<forall>ids' j t v ls v' ls'. entrypoint lib ids' j t (v, ls) = (v', ls') \<longrightarrow> (\<exists>types people services capabilities.
       v' = world.vehicleTypes_update (\<lambda>_. vehicleTypes v @ types) (v\<lparr>users := users v @ people, serviceConfigs := serviceConfigs v @ services\<rparr>) \<and>
       ls' = ls @ capabilities)) \<and>
    (\<forall>ids' j t v ls. type_key ` set (vehicleTypes w') \<subseteq> type_key ` set (vehicleTypes v) \<and> u_phone ` set (users w') \<subseteq> u_phone ` set (users v) \<and>
       sc_serviceType ` set (serviceConfigs w') \<subseteq> sc_serviceType ` set (serviceConfigs v) \<and> cap_name ` set ks' \<subseteq> cap_name ` set ls \<longrightarrow>
       entrypoint lib ids' j t (v, ls) = (v, ls)) \<and>
    catalog_ok w' \<and>
    (\<exists>tokens u w''. adminLogin lib cfg tokenId later ''admin@telima.ml'' ''AdminTelima2026!'' w' = (Inr (tokens, u), w'') \<and>
       u_id u = adminId \<and> u_role u = role_admin) \<and>
    dispatchTimeoutMs (fst (getDispatchConfig later service w')) \<le> 30000 \<and> dispatchTimeoutMs DEFAULT_CONFIG = 60000"
proof -
  let ?admin = "\<lparr>u_id = adminId, u_phone = adminPhone, u_role = role_admin, u_firstName = Some ''Admin'',
    u_lastName = Some ''Telima'', u_email = Some adminEmail, u_passwordHash = Some (bcrypt_hash lib adminPassword),
    u_isActive = True, u_createdAt = now\<rparr>"
  have w': "w' = fst (entrypoint lib ids adminId now (w, ks))" by (simp add: started)
  have appends: "\<forall>ids' j t v ls v' ls'. entrypoint lib ids' j t (v, ls) = (v', ls') \<longrightarrow> (\<exists>types people services capabilities.
       v' = world.vehicleTypes_update (\<lambda>_. vehicleTypes v @ types) (v\<lparr>users := users v @ people, serviceConfigs := serviceConfigs v @ services\<rparr>) \<and>
       ls' = ls @ capabilities)"
    by (intro allI impI) (rule seed_only_appends)
  have "entrypoint lib ids' j t (v, ls) = (v, ls)"
    if "type_key ` set (vehicleTypes w') \<subseteq> type_key ` set (vehicleTypes v)" "u_phone ` set (users w') \<subseteq> u_phone ` set (users v)"
       "sc_serviceType ` set (serviceConfigs w') \<subseteq> sc_serviceType ` set (serviceConfigs v)" "cap_name ` set ks' \<subseteq> cap_name ` set ls"
    for ids' j t v ls
    by (rule seed_done [OF subset_trans [OF seeds_there(1) [OF started] that(1)] subsetD [OF that(2) seeds_there(2) [OF started]]
        subset_trans [OF seeds_there(3) [OF started] that(3)] subset_trans [OF seeds_there(4) [OF started] that(4)]])
  then have later: "\<forall>ids' j t v ls. type_key ` set (vehicleTypes w') \<subseteq> type_key ` set (vehicleTypes v) \<and> u_phone ` set (users w') \<subseteq> u_phone ` set (users v) \<and>
       sc_serviceType ` set (serviceConfigs w') \<subseteq> sc_serviceType ` set (serviceConfigs v) \<and> cap_name ` set ks' \<subseteq> cap_name ` set ls \<longrightarrow>
       entrypoint lib ids' j t (v, ls) = (v, ls)"
    by (intro allI impI, elim conjE) simp
  have sound: "catalog_ok w'" unfolding w' by (rule seed_catalog_ok) (simp add: assms(5))
  have short: "dispatchTimeoutMs (fst (getDispatchConfig later service w')) \<le> 30000" "dispatchTimeoutMs DEFAULT_CONFIG = 60000"
    unfolding w' by (subst seeded_timeout) (simp_all add: fresh DEFAULT_CONFIG_def split: ServiceType.split)
  have "users w' = users w @ [?admin]"
    using fresh(1) by (auto simp: w' entrypoint_def seed_def seed_service_config_def Let_def upsert_def list_ex_iff)
  then have "find (\<lambda>u. u_email u = Some adminEmail \<and> u_role u = role_admin) (users w') = Some ?admin"
    using fresh(1) by (auto simp: find_append find_None_iff split: option.split dest: find_SomeD)
  moreover have "refreshTokens w' = []"
    using fresh(4) by (simp add: w' entrypoint_def seed_def seed_service_config_def Let_def)
  ultimately have login: "\<exists>tokens u w''. adminLogin lib cfg tokenId later ''admin@telima.ml'' ''AdminTelima2026!'' w' = (Inr (tokens, u), w'') \<and>
       u_id u = adminId \<and> u_role u = role_admin"
    using bcrypt
    by (simp add: adminLogin_def issueTokenPair_def find_token_def Let_def andThen_def return_def
        adminEmail_def [symmetric] adminPassword_def [symmetric])
  show ?thesis by (intro conjI) (fact appends later sound login short)+
qed

theorem seeded_deployment_witness:
  "\<exists>w' ks' tokens u w''. entrypoint plain_libraries (\<lambda>n. show_nat n) ''a1'' 0 (empty_world, []) = (w', ks') \<and>
     adminLogin plain_libraries legacy_config ''t'' 5000 ''admin@telima.ml'' ''AdminTelima2026!'' w' = (Inr (tokens, u), w'') \<and>
     u_role u = role_admin \<and> dispatchTimeoutMs (fst (getDispatchConfig 5000 ride w')) \<le> 30000"
proof -
  obtain w' ks' where s: "entrypoint plain_libraries (\<lambda>n. show_nat n) ''a1'' 0 (empty_world, []) = (w', ks')"
    by (metis surj_pair)
  have "\<forall>u \<in> set (users empty_world). u_phone u \<noteq> adminPhone \<and> u_email u \<noteq> Some adminEmail"
    "serviceConfigs empty_world = []" "configCache empty_world = Map.empty" "refreshTokens empty_world = []" "catalog_ok empty_world"
    by (simp_all add: empty_world_def catalog_ok_def)
  from seeded_deployment [OF this _ _ s, of legacy_config "''t''" 5000 ride] show ?thesis
    using s by (auto simp: plain_libraries_def adminPassword_def)
qed

end
