(* ===== verification/Google_Distance.thy ===== *)
theory Google_Distance
  imports Distance_Provider
begin

text \<open>
  \<open>GoogleDistanceProvider\<close>: the Distance Matrix API behind a Redis cache of rounded
  coordinates, with the great-circle formula as fallback. The HTTP exchange is the parameter
  \<open>fetch\<close>; \<open>None\<close> is a rejected promise (network, timeout, unreadable body). The cache is kept
  here as the map of its keys to the stored answers with their expiry.
\<close>

datatype TravelMode = driving | walking | motorcycle

record GoogleElement =
  ge_distance :: "real option"
  ge_duration :: "real option"

record GoogleResponse =
  gr_ok :: bool
  gr_status :: string
  gr_element :: "GoogleElement option"

type_synonym fetch_fn = "GeoPoint \<Rightarrow> GeoPoint \<Rightarrow> TravelMode \<Rightarrow> GoogleResponse option"

text \<open>\<open>toFixed(4)\<close>: sign and number of ten-thousandths, ties away from zero; \<open>-0.0000\<close> differs from \<open>0.0000\<close>.\<close>

definition toFixed4 :: "real \<Rightarrow> bool \<times> int" where
  "toFixed4 x = (x < 0, \<lfloor>\<bar>x\<bar> * 10000 + 1 / 2\<rfloor>)"

type_synonym cache_key = "(bool \<times> int) \<times> (bool \<times> int) \<times> (bool \<times> int) \<times> (bool \<times> int) \<times> TravelMode"
type_synonym distance_cache = "cache_key \<Rightarrow> (DistanceMatrixResult \<times> time) option"

definition buildCacheKey :: "GeoPoint \<Rightarrow> GeoPoint \<Rightarrow> TravelMode option \<Rightarrow> cache_key" where
  "buildCacheKey origin destination mode =
     (toFixed4 (lat origin), toFixed4 (lng origin), toFixed4 (lat destination), toFixed4 (lng destination),
      nullish mode driving)"

definition googleMode :: "TravelMode \<Rightarrow> TravelMode" where
  "googleMode mode = (if mode = walking then walking else driving)"

definition callGoogleApi ::
  "fetch_fn \<Rightarrow> GeoPoint \<Rightarrow> GeoPoint \<Rightarrow> TravelMode option \<Rightarrow> DistanceMatrixResult option" where
  "callGoogleApi fetch origin destination m =
     (let mode = nullish m driving in
      case fetch origin destination (googleMode mode) of
        None \<Rightarrow> None
      | Some response \<Rightarrow>
          if \<not> gr_ok response then None
          else if gr_status response \<noteq> ''OK'' then None
          else case gr_element response of
            None \<Rightarrow> None
          | Some element \<Rightarrow>
              (case (ge_distance element, ge_duration element) of
                 (Some dm, Some ds) \<Rightarrow>
                   Some \<lparr>dm_origin = origin, dm_destination = destination,
                     dm_distanceMeters = (if mode = motorcycle then Math_round (dm * 7 / 10) else dm),
                     dm_durationSeconds = (if mode = motorcycle then Math_round (ds * 6 / 10) else ds)\<rparr>
               | _ \<Rightarrow> None))"

definition haversineFallback :: "GeoPoint \<Rightarrow> GeoPoint \<Rightarrow> DistanceMatrixResult" where
  "haversineFallback origin destination =
     (let dLat = (lat destination - lat origin) * pi / 180;
          dLng = (lng destination - lng origin) * pi / 180;
          lat1 = lat origin * pi / 180;
          lat2 = lat destination * pi / 180;
          h = (sin (dLat / 2))\<^sup>2 + (sin (dLng / 2))\<^sup>2 * cos lat1 * cos lat2;
          distanceMeters = Math_round (2 * 6371000 * arcsin (sqrt h));
          durationSeconds = Math_round (distanceMeters / 1000 / 30 * 3600)
      in \<lparr>dm_origin = origin, dm_destination = destination,
          dm_distanceMeters = distanceMeters, dm_durationSeconds = durationSeconds\<rparr>)"

definition cache_get :: "time \<Rightarrow> distance_cache \<Rightarrow> cache_key \<Rightarrow> DistanceMatrixResult option" where
  "cache_get now c k = (case c k of Some (r, e) \<Rightarrow> if now < e then Some r else None | None \<Rightarrow> None)"

definition google_getDistanceMatrix ::
  "fetch_fn \<Rightarrow> int \<Rightarrow> time \<Rightarrow> GeoPoint \<Rightarrow> GeoPoint \<Rightarrow> TravelMode option \<Rightarrow> distance_cache \<Rightarrow>
   DistanceMatrixResult \<times> distance_cache" where
  "google_getDistanceMatrix fetch cacheTtl now origin destination mode c =
     (let cacheKey = buildCacheKey origin destination mode in
      case cache_get now c cacheKey of
        Some cached \<Rightarrow> (cached, c)
      | None \<Rightarrow>
          (case callGoogleApi fetch origin destination mode of
             Some result \<Rightarrow> (result, c(cacheKey \<mapsto> (result, now + cacheTtl * 1000)))
           | None \<Rightarrow>
               let fallback = haversineFallback origin destination
               in (fallback, c(cacheKey \<mapsto> (fallback, now + cacheTtl * 1000)))))"

lemma fallback_is_mock: "haversineFallback = mock_getDistanceMatrix"
  by (simp add: fun_eq_iff haversineFallback_def mock_getDistanceMatrix_def haversine_def
      haversine_h_def toRad_def Let_def)

lemma callGoogleApi_endpoints:
  "callGoogleApi fetch a b m = Some r \<Longrightarrow> dm_origin r = a \<and> dm_destination r = b"
  by (auto simp: callGoogleApi_def Let_def split: option.splits if_splits)

lemma google_stored:
  assumes "0 < ttl"
  shows "cache_get now (snd (google_getDistanceMatrix fetch ttl now a b m c)) (buildCacheKey a b m) =
    Some (fst (google_getDistanceMatrix fetch ttl now a b m c))"
  using assms by (auto simp: google_getDistanceMatrix_def cache_get_def Let_def split: option.splits if_splits)

lemma google_miss:
  assumes "cache_get now c (buildCacheKey a b m) = None"
  shows "google_getDistanceMatrix fetch ttl now a b m c =
    (case callGoogleApi fetch a b m of
       Some r \<Rightarrow> (r, c(buildCacheKey a b m \<mapsto> (r, now + ttl * 1000)))
     | None \<Rightarrow> (mock_getDistanceMatrix a b,
                c(buildCacheKey a b m \<mapsto> (mock_getDistanceMatrix a b, now + ttl * 1000))))"
  using assms by (simp add: google_getDistanceMatrix_def fallback_is_mock Let_def split: option.split)

text \<open>
  C24. The Google provider answers every request, and asks the service at most once per key and
  hour: on a miss the answer is the service's one for exactly these points, or the great-circle
  answer of the mock provider when the call fails in any way; until the entry expires any
  request for points that agree to four decimals gets that same answer, whatever the service
  would say by then, and leaves the cache as it is.
\<close>

theorem google_distance_cached:
  assumes miss: "cache_get now c (buildCacheKey a b m) = None"
    and first: "google_getDistanceMatrix fetch ttl now a b m c = (r, c')"
    and again: "now' < now + ttl * 1000" "buildCacheKey a' b' m' = buildCacheKey a b m"
  shows "dm_origin r = a \<and> dm_destination r = b \<and>
    (callGoogleApi fetch a b m = Some r \<or>
       callGoogleApi fetch a b m = None \<and> r = mock_getDistanceMatrix a b) \<and>
    google_getDistanceMatrix fetch' ttl now' a' b' m' c' = (r, c')"
proof -
  from first google_miss [OF miss, of fetch ttl]
  have c': "c' (buildCacheKey a b m) = Some (r, now + ttl * 1000)"
    and r: "callGoogleApi fetch a b m = Some r \<or>
       callGoogleApi fetch a b m = None \<and> r = mock_getDistanceMatrix a b"
    by (auto split: option.splits)
  from c' again have "google_getDistanceMatrix fetch' ttl now' a' b' m' c' = (r, c')"
    by (simp add: google_getDistanceMatrix_def cache_get_def Let_def)
  moreover from r have "dm_origin r = a \<and> dm_destination r = b"
    using callGoogleApi_endpoints [of fetch a b m r] mock_distance.endpoints [of a b] by auto
  ultimately show ?thesis using r by simp
qed

theorem google_distance_cached_witness:
  "fst (google_getDistanceMatrix (\<lambda>_ _ _. None) 3600 3599999 \<lparr>lat = 12, lng = -8\<rparr> \<lparr>lat = 13, lng = -8\<rparr> None
     (snd (google_getDistanceMatrix
        (\<lambda>_ _ _. Some \<lparr>gr_ok = True, gr_status = ''OK'',
            gr_element = Some \<lparr>ge_distance = Some 900, ge_duration = Some 300\<rparr>\<rparr>)
        3600 0 \<lparr>lat = 12, lng = -8\<rparr> \<lparr>lat = 13, lng = -8\<rparr> None Map.empty))) =
   \<lparr>dm_origin = \<lparr>lat = 12, lng = -8\<rparr>, dm_destination = \<lparr>lat = 13, lng = -8\<rparr>,
    dm_distanceMeters = 900, dm_durationSeconds = 300\<rparr>"
  (is "fst (google_getDistanceMatrix ?down _ _ ?a ?b _ (snd (google_getDistanceMatrix ?up _ _ _ _ _ _))) = ?r")
proof -
  have call: "callGoogleApi ?up ?a ?b None = Some ?r"
    by (simp add: callGoogleApi_def googleMode_def)
  have miss: "cache_get 0 Map.empty (buildCacheKey ?a ?b None) = None" by (simp add: cache_get_def)
  obtain c' where first: "google_getDistanceMatrix ?up 3600 0 ?a ?b None Map.empty = (?r, c')"
    using google_miss [OF miss, of ?up 3600] call by simp
  show ?thesis
    using google_distance_cached [OF miss first, of 3599999 ?a ?b None ?down] first by simp
qed

end
