(* ===== verification/Env_Validation.thy ===== *)
theory Env_Validation
  imports Auth
begin

text \<open>
  Start-up. \<open>validate\<close> (\<open>config/env.validation.ts\<close>) turns the texts of the environment into the
  typed settings that \<open>ConfigService.get\<close> answers afterwards: class-transformer applies \<open>String\<close>,
  \<open>Number\<close> or \<open>Boolean\<close> to each text according to the type of its member, and class-validator
  checks the results. \<open>main.ts\<close> reads the settings it needs from them.
\<close>

section \<open>\<open>Number\<close> on texts\<close>

text \<open>The numeric literals of the language; values are exact, where JavaScript rounds to a double.\<close>

datatype js_number = NaN | Infinite bool | Finite real

fun negate :: "js_number \<Rightarrow> js_number" where
  "negate NaN = NaN"
| "negate (Infinite negative) = Infinite (\<not> negative)"
| "negate (Finite x) = Finite (- x)"

definition exponent :: "string \<Rightarrow> int option" where
  "exponent s =
     (case s of
        [] \<Rightarrow> None
      | c # ds \<Rightarrow>
          if c = CHR ''-'' \<or> c = CHR ''+''
          then if ds \<noteq> [] \<and> list_all is_digit ds then Some ((if c = CHR ''-'' then - 1 else 1) * digits_value ds) else None
          else if list_all is_digit s then Some (digits_value s) else None)"

definition decimal_literal :: "string \<Rightarrow> js_number" where
  "decimal_literal s =
     (let whole = takeWhile is_digit s; rest = dropWhile is_digit s;
          dotted = rest \<noteq> [] \<and> hd rest = CHR ''.'';
          frac = (if dotted then takeWhile is_digit (tl rest) else []);
          tail = (if dotted then dropWhile is_digit (tl rest) else rest);
          mantissa = real_of_int (digits_value (whole @ frac)) / 10 ^ length frac
      in if whole = [] \<and> frac = [] then NaN
         else case tail of
           [] \<Rightarrow> Finite mantissa
         | c # ds \<Rightarrow>
             if c = CHR ''e'' \<or> c = CHR ''E''
             then (case exponent ds of None \<Rightarrow> NaN | Some k \<Rightarrow> Finite (mantissa * 10 powi k))
             else NaN)"

definition unsigned_literal :: "string \<Rightarrow> js_number" where
  "unsigned_literal s = (if s = ''Infinity'' then Infinite False else decimal_literal s)"

definition digit_of :: "char \<Rightarrow> nat" where
  "digit_of c =
     (let n = of_char c :: nat in
      if is_digit c then n - 48
      else if 97 \<le> n \<and> n \<le> 102 then n - 87 else if 65 \<le> n \<and> n \<le> 70 then n - 55 else 16)"

definition radix_literal :: "nat \<Rightarrow> string \<Rightarrow> js_number" where
  "radix_literal base ds =
     (if ds \<noteq> [] \<and> list_all (\<lambda>c. digit_of c < base) ds
      then Finite (real (foldl (\<lambda>n c. base * n + digit_of c) 0 ds)) else NaN)"

definition js_ToNumber :: "string \<Rightarrow> js_number" where
  "js_ToNumber text =
     (case js_trim text of
        [] \<Rightarrow> Finite 0
      | [c] \<Rightarrow> unsigned_literal [c]
      | c # d # s \<Rightarrow>
          if c = CHR ''-'' then negate (unsigned_literal (d # s))
          else if c = CHR ''+'' then unsigned_literal (d # s)
          else if c = CHR ''0'' \<and> (d = CHR ''x'' \<or> d = CHR ''X'') then radix_literal 16 s
          else if c = CHR ''0'' \<and> (d = CHR ''o'' \<or> d = CHR ''O'') then radix_literal 8 s
          else if c = CHR ''0'' \<and> (d = CHR ''b'' \<or> d = CHR ''B'') then radix_literal 2 s
          else unsigned_literal (c # d # s))"

section \<open>The settings\<close>

type_synonym environment = "string \<Rightarrow> string option"

datatype Environment = Development | Preprod | Test | Production

fun environment_name :: "Environment \<Rightarrow> string" where
  "environment_name Development = ''development''"
| "environment_name Preprod = ''preprod''"
| "environment_name Test = ''test''"
| "environment_name Production = ''production''"

record EnvironmentVariables =
  ev_NODE_ENV :: string
  ev_PORT :: "js_number option"
  ev_DATABASE_URL :: "string option"
  ev_REDIS_HOST :: "string option"
  ev_REDIS_PORT :: "js_number option"
  ev_REDIS_PASSWORD :: "string option"
  ev_JWT_ACCESS_SECRET :: "string option"
  ev_JWT_ACCESS_EXPIRES_IN :: "string option"
  ev_JWT_REFRESH_SECRET :: "string option"
  ev_JWT_REFRESH_EXPIRES_IN :: "string option"
  ev_OTP_LENGTH :: "js_number option"
  ev_OTP_EXPIRES_MINUTES :: "js_number option"
  ev_OTP_MAX_ATTEMPTS :: "js_number option"
  ev_OTP_LOCK_MINUTES :: "js_number option"
  ev_OTP_RESEND_COOLDOWN_SECONDS :: "js_number option"
  ev_OTP_EXPOSE_IN_RESPONSE :: "bool option"
  ev_SMS_PROVIDER :: "string option"
  ev_SENDTEXT_API_URL :: "string option"
  ev_SENDTEXT_API_KEY :: "string option"
  ev_SENDTEXT_API_SECRET :: "string option"
  ev_SENDTEXT_SENDER_NAME :: "string option"
  ev_OTP_PROVIDER :: "string option"
  ev_JULAKAI_API_BASE :: "string option"
  ev_JULAKAI_CLIENT_APP_KEY :: "string option"
  ev_JULAKAI_CLIENT_APP_SECRET :: "string option"
  ev_JULAKAI_DRIVER_APP_KEY :: "string option"
  ev_JULAKAI_DRIVER_APP_SECRET :: "string option"
  ev_STORAGE_PROVIDER :: "string option"
  ev_PAYMENT_PROVIDER :: "string option"
  ev_DISTANCE_PROVIDER :: "string option"
  ev_PUSH_PROVIDER :: "string option"
  ev_FCM_SERVICE_ACCOUNT_PATH :: "string option"
  ev_APP_URL :: "string option"
  ev_CORS_ORIGINS :: "string option"
  ev_LOG_LEVEL :: "string option"
  ev_SWAGGER_ENABLED :: "bool option"

text \<open>\<open>Boolean(text)\<close>: every text but the empty one.\<close>

definition js_Boolean :: "string \<Rightarrow> bool" where
  "js_Boolean s \<longleftrightarrow> s \<noteq> []"

text \<open>A variable that is not set leaves the initial value of its member: \<open>development\<close>, or none.\<close>

definition plainToInstance :: "environment \<Rightarrow> EnvironmentVariables" where
  "plainToInstance env =
     (let number = (\<lambda>k. map_option js_ToNumber (env k)); flag = (\<lambda>k. map_option js_Boolean (env k)) in
      \<lparr>ev_NODE_ENV = nullish (env ''NODE_ENV'') (environment_name Development),
       ev_PORT = number ''PORT'',
       ev_DATABASE_URL = env ''DATABASE_URL'',
       ev_REDIS_HOST = env ''REDIS_HOST'',
       ev_REDIS_PORT = number ''REDIS_PORT'',
       ev_REDIS_PASSWORD = env ''REDIS_PASSWORD'',
       ev_JWT_ACCESS_SECRET = env ''JWT_ACCESS_SECRET'',
       ev_JWT_ACCESS_EXPIRES_IN = env ''JWT_ACCESS_EXPIRES_IN'',
       ev_JWT_REFRESH_SECRET = env ''JWT_REFRESH_SECRET'',
       ev_JWT_REFRESH_EXPIRES_IN = env ''JWT_REFRESH_EXPIRES_IN'',
       ev_OTP_LENGTH = number ''OTP_LENGTH'',
       ev_OTP_EXPIRES_MINUTES = number ''OTP_EXPIRES_MINUTES'',
       ev_OTP_MAX_ATTEMPTS = number ''OTP_MAX_ATTEMPTS'',
       ev_OTP_LOCK_MINUTES = number ''OTP_LOCK_MINUTES'',
       ev_OTP_RESEND_COOLDOWN_SECONDS = number ''OTP_RESEND_COOLDOWN_SECONDS'',
       ev_OTP_EXPOSE_IN_RESPONSE = flag ''OTP_EXPOSE_IN_RESPONSE'',
       ev_SMS_PROVIDER = env ''SMS_PROVIDER'',
       ev_SENDTEXT_API_URL = env ''SENDTEXT_API_URL'',
       ev_SENDTEXT_API_KEY = env ''SENDTEXT_API_KEY'',
       ev_SENDTEXT_API_SECRET = env ''SENDTEXT_API_SECRET'',
       ev_SENDTEXT_SENDER_NAME = env ''SENDTEXT_SENDER_NAME'',
       ev_OTP_PROVIDER = env ''OTP_PROVIDER'',
       ev_JULAKAI_API_BASE = env ''JULAKAI_API_BASE'',
       ev_JULAKAI_CLIENT_APP_KEY = env ''JULAKAI_CLIENT_APP_KEY'',
       ev_JULAKAI_CLIENT_APP_SECRET = env ''JULAKAI_CLIENT_APP_SECRET'',
       ev_JULAKAI_DRIVER_APP_KEY = env ''JULAKAI_DRIVER_APP_KEY'',
       ev_JULAKAI_DRIVER_APP_SECRET = env ''JULAKAI_DRIVER_APP_SECRET'',
       ev_STORAGE_PROVIDER = env ''STORAGE_PROVIDER'',
       ev_PAYMENT_PROVIDER = env ''PAYMENT_PROVIDER'',
       ev_DISTANCE_PROVIDER = env ''DISTANCE_PROVIDER'',
       ev_PUSH_PROVIDER = env ''PUSH_PROVIDER'',
       ev_FCM_SERVICE_ACCOUNT_PATH = env ''FCM_SERVICE_ACCOUNT_PATH'',
       ev_APP_URL = env ''APP_URL'',
       ev_CORS_ORIGINS = env ''CORS_ORIGINS'',
       ev_LOG_LEVEL = env ''LOG_LEVEL'',
       ev_SWAGGER_ENABLED = flag ''SWAGGER_ENABLED''\<rparr>)"

text \<open>\<open>@IsOptional()\<close>, \<open>@IsNumber()\<close>, \<open>@IsIn(...)\<close> and \<open>@MinLength(32)\<close>.\<close>

definition if_given :: "('a \<Rightarrow> bool) \<Rightarrow> 'a option \<Rightarrow> bool" where
  "if_given P v \<longleftrightarrow> (case v of None \<Rightarrow> True | Some x \<Rightarrow> P x)"

definition given :: "('a \<Rightarrow> bool) \<Rightarrow> 'a option \<Rightarrow> bool" where
  "given P v \<longleftrightarrow> (case v of None \<Rightarrow> False | Some x \<Rightarrow> P x)"

fun is_number :: "js_number \<Rightarrow> bool" where
  "is_number (Finite _) = True"
| "is_number _ = False"

text \<open>The members that break a condition, in the order of the class.\<close>

definition validateSync :: "EnvironmentVariables \<Rightarrow> string list" where
  "validateSync v = map fst (filter (\<lambda>(_, fine). \<not> fine)
     [(''NODE_ENV'', ev_NODE_ENV v \<in> set (map environment_name [Development, Preprod, Test, Production])),
      (''PORT'', if_given is_number (ev_PORT v)),
      (''DATABASE_URL'', ev_DATABASE_URL v \<noteq> None),
      (''REDIS_HOST'', ev_REDIS_HOST v \<noteq> None),
      (''REDIS_PORT'', given is_number (ev_REDIS_PORT v)),
      (''JWT_ACCESS_SECRET'', given (\<lambda>s. 32 \<le> length s) (ev_JWT_ACCESS_SECRET v)),
      (''JWT_ACCESS_EXPIRES_IN'', ev_JWT_ACCESS_EXPIRES_IN v \<noteq> None),
      (''JWT_REFRESH_SECRET'', given (\<lambda>s. 32 \<le> length s) (ev_JWT_REFRESH_SECRET v)),
      (''JWT_REFRESH_EXPIRES_IN'', ev_JWT_REFRESH_EXPIRES_IN v \<noteq> None),
      (''OTP_LENGTH'', if_given is_number (ev_OTP_LENGTH v)),
      (''OTP_EXPIRES_MINUTES'', if_given is_number (ev_OTP_EXPIRES_MINUTES v)),
      (''OTP_MAX_ATTEMPTS'', if_given is_number (ev_OTP_MAX_ATTEMPTS v)),
      (''OTP_LOCK_MINUTES'', if_given is_number (ev_OTP_LOCK_MINUTES v)),
      (''OTP_RESEND_COOLDOWN_SECONDS'', if_given is_number (ev_OTP_RESEND_COOLDOWN_SECONDS v)),
      (''SMS_PROVIDER'', if_given (\<lambda>s. s \<in> {''sendtext'', ''mock''}) (ev_SMS_PROVIDER v)),
      (''SENDTEXT_API_KEY'', ev_SENDTEXT_API_KEY v \<noteq> None),
      (''SENDTEXT_API_SECRET'', ev_SENDTEXT_API_SECRET v \<noteq> None),
      (''OTP_PROVIDER'', if_given (\<lambda>s. s \<in> {''legacy'', ''julakai''}) (ev_OTP_PROVIDER v)),
      (''STORAGE_PROVIDER'', if_given (\<lambda>s. s \<in> {''local'', ''s3''}) (ev_STORAGE_PROVIDER v)),
      (''PAYMENT_PROVIDER'', if_given (\<lambda>s. s \<in> {''mock'', ''orange_money''}) (ev_PAYMENT_PROVIDER v)),
      (''DISTANCE_PROVIDER'', if_given (\<lambda>s. s \<in> {''mock'', ''google''}) (ev_DISTANCE_PROVIDER v)),
      (''PUSH_PROVIDER'', if_given (\<lambda>s. s \<in> {''mock'', ''fcm''}) (ev_PUSH_PROVIDER v))])"

text \<open>The error carries the members named in its message.\<close>

definition validate :: "environment \<Rightarrow> string list + EnvironmentVariables" where
  "validate env =
     (let validatedConfig = plainToInstance env; errors = validateSync validatedConfig
      in if length errors > 0 then Inl errors else Inr validatedConfig)"

lemma validate_Inr: "validate env = Inr v \<longleftrightarrow> v = plainToInstance env \<and> validateSync v = []"
  by (auto simp: validate_def Let_def)

lemma validated_fields:
  assumes "validate env = Inr v"
  shows "given (\<lambda>s. 32 \<le> length s) (ev_JWT_ACCESS_SECRET v)" "given (\<lambda>s. 32 \<le> length s) (ev_JWT_REFRESH_SECRET v)"
    and "ev_NODE_ENV v \<in> {''development'', ''preprod'', ''test'', ''production''}"
    and "if_given (\<lambda>s. s \<in> {''sendtext'', ''mock''}) (ev_SMS_PROVIDER v)"
    and "ev_SENDTEXT_API_KEY v \<noteq> None" "ev_SENDTEXT_API_SECRET v \<noteq> None"
  using assms unfolding validate_Inr validateSync_def map_is_Nil_conv filter_empty_conv
  by (auto simp del: insert_iff simp: ball_simps)

section \<open>What the services read\<close>

text \<open>
  \<open>ConfigService.get\<close> answers the validated setting. The sign-in service reads whole numbers from
  the numeric ones, as their documentation has them.
\<close>

definition configured :: "EnvironmentVariables \<Rightarrow> AuthConfig \<Rightarrow> bool" where
  "configured v cfg \<longleftrightarrow>
     OTP_PROVIDER cfg = ev_OTP_PROVIDER v \<and> NODE_ENV cfg = Some (ev_NODE_ENV v) \<and>
     OTP_EXPOSE_IN_RESPONSE cfg = ev_OTP_EXPOSE_IN_RESPONSE v \<and>
     ev_OTP_LENGTH v = map_option (Finite \<circ> real) (OTP_LENGTH cfg) \<and>
     ev_OTP_EXPIRES_MINUTES v = map_option (Finite \<circ> real_of_int) (OTP_EXPIRES_MINUTES cfg) \<and>
     ev_OTP_RESEND_COOLDOWN_SECONDS v = map_option (Finite \<circ> real_of_int) (OTP_RESEND_COOLDOWN_SECONDS cfg) \<and>
     ev_OTP_MAX_ATTEMPTS v = map_option (Finite \<circ> real) (OTP_MAX_ATTEMPTS cfg) \<and>
     ev_OTP_LOCK_MINUTES v = map_option (Finite \<circ> real_of_int) (OTP_LOCK_MINUTES cfg) \<and>
     ev_JWT_ACCESS_SECRET v = Some (JWT_ACCESS_SECRET cfg) \<and>
     ev_JWT_ACCESS_EXPIRES_IN v = Some (JWT_ACCESS_EXPIRES_IN cfg) \<and>
     ev_JWT_REFRESH_SECRET v = Some (JWT_REFRESH_SECRET cfg) \<and>
     ev_JWT_REFRESH_EXPIRES_IN v = JWT_REFRESH_EXPIRES_IN cfg \<and>
     JULAKAI_CLIENT_APP_KEY cfg = ev_JULAKAI_CLIENT_APP_KEY v \<and>
     JULAKAI_CLIENT_APP_SECRET cfg = ev_JULAKAI_CLIENT_APP_SECRET v \<and>
     JULAKAI_DRIVER_APP_KEY cfg = ev_JULAKAI_DRIVER_APP_KEY v \<and>
     JULAKAI_DRIVER_APP_SECRET cfg = ev_JULAKAI_DRIVER_APP_SECRET v"

lemma configured_secret:
  assumes "validate env = Inr v" and "configured v cfg"
  shows "32 \<le> length (JWT_ACCESS_SECRET cfg)" "32 \<le> length (JWT_REFRESH_SECRET cfg)"
  using validated_fields(1,2) [OF assms(1)] assms(2) by (simp_all add: configured_def given_def)

lemma exposed:
  assumes "validate env = Inr v" and "configured v cfg"
    and "env ''OTP_EXPOSE_IN_RESPONSE'' = Some text" and "text \<noteq> []" and "env ''NODE_ENV'' \<noteq> Some ''production''"
  shows "nullish (OTP_EXPOSE_IN_RESPONSE cfg) False \<and> NODE_ENV cfg \<noteq> Some ''production''"
proof -
  have "v = plainToInstance env" using assms(1) by (simp add: validate_Inr)
  with assms show ?thesis
    by (auto simp: configured_def plainToInstance_def Let_def js_Boolean_def nullish_def split: option.splits)
qed

text \<open>
  C33. Setting \<open>OTP_EXPOSE_IN_RESPONSE=false\<close> does not hide the one-time codes. The text is converted
  by \<open>Boolean\<close>, so any text but the empty one, \<open>false\<close> included, switches the exposure on wherever
  the code itself verifies and \<open>NODE_ENV\<close> is not \<open>production\<close>, in \<open>preprod\<close> too: the answer to a
  request for a code carries a code that signs in, so whoever knows a phone number signs in as its
  owner.
\<close>

theorem otp_exposure_flag:
  assumes valid: "validate env = Inr v" and cfg: "configured v cfg"
    and flag: "env ''OTP_EXPOSE_IN_RESPONSE'' = Some text" "text \<noteq> []"
    and stage: "env ''NODE_ENV'' \<noteq> Some ''production''"
    and legacy: "\<not> useJulakai cfg app"
    and cool: "\<forall>c \<in> set (otpCodes w). o_phone c = normalizePhone raw \<longrightarrow>
        o_createdAt c < now \<and> o_createdAt c + nullish (OTP_RESEND_COOLDOWN_SECONDS cfg) 60 * 1000 \<le> now"
    and sms: "sms (normalizePhone raw) (generateOtpCode n) = SmsSent m"
    and bcrypt: "\<forall>c. bcrypt_compare lib c (bcrypt_hash lib c)"
    and life: "0 \<le> nullish (OTP_EXPIRES_MINUTES cfg) 5"
    and ask: "(r, w') = requestOtp lib fetch sms cfg i n now raw app w"
  shows "\<exists>x code c. r = Inr x \<and> oa_devOtpCode x = Some code \<and> pending_code (normalizePhone raw) w' = Some c \<and>
    verifyOtp lib fetch cfg ui ti now raw code app w' =
      completeLogin lib cfg ui ti now (normalizePhone raw) (update_otp (o_id c) (\<lambda>c. c\<lparr>o_consumedAt := Some now\<rparr>) w')"
proof -
  from requested_code [OF legacy cool sms bcrypt life ask, of ui ti] obtain x c where
    "r = Inr x" "pending_code (normalizePhone raw) w' = Some c"
    "oa_devOtpCode x = Some (generateOtpCode n)"
    "verifyOtp lib fetch cfg ui ti now raw (generateOtpCode n) app w' =
      completeLogin lib cfg ui ti now (normalizePhone raw) (update_otp (o_id c) (\<lambda>c. c\<lparr>o_consumedAt := Some now\<rparr>) w')"
    using exposed [OF valid cfg flag stage] by (metis (no_types, lifting))
  then show ?thesis by blast
qed

text \<open>A \<open>preprod\<close> environment with the flag spelled out as false.\<close>

definition preprod_env :: environment where
  "preprod_env = map_of
     [(''NODE_ENV'', ''preprod''), (''DATABASE_URL'', ''postgres://db''), (''REDIS_HOST'', ''redis''), (''REDIS_PORT'', ''6379''),
      (''JWT_ACCESS_SECRET'', replicate 32 (CHR ''a'')), (''JWT_ACCESS_EXPIRES_IN'', ''15m''),
      (''JWT_REFRESH_SECRET'', replicate 32 (CHR ''r'')), (''JWT_REFRESH_EXPIRES_IN'', ''30d''),
      (''SENDTEXT_API_KEY'', ''k''), (''SENDTEXT_API_SECRET'', ''s''), (''OTP_EXPOSE_IN_RESPONSE'', ''false'')]"

definition preprod_config :: AuthConfig where
  "preprod_config = legacy_config\<lparr>OTP_EXPOSE_IN_RESPONSE := Some True, NODE_ENV := Some ''preprod'',
     JWT_ACCESS_SECRET := replicate 32 (CHR ''a''), JWT_ACCESS_EXPIRES_IN := ''15m'',
     JWT_REFRESH_SECRET := replicate 32 (CHR ''r''), JWT_REFRESH_EXPIRES_IN := Some ''30d''\<rparr>"

lemma port_literal: "js_ToNumber ''6379'' = Finite 6379"
  by (simp add: js_ToNumber_def js_trim_def is_space_def unsigned_literal_def decimal_literal_def is_digit_def digits_value_def)

lemma preprod_valid: "validate preprod_env = Inr (plainToInstance preprod_env)"
  unfolding validate_Inr by (simp add: validateSync_def plainToInstance_def Let_def preprod_env_def port_literal
      if_given_def given_def nullish_def)

lemma preprod_configured: "configured (plainToInstance preprod_env) preprod_config"
  by (simp add: configured_def plainToInstance_def Let_def preprod_env_def preprod_config_def legacy_config_def js_Boolean_def)

theorem otp_exposure_flag_witness:
  "\<exists>x code w'. requestOtp plain_libraries (\<lambda>_. None) (\<lambda>_ _. SmsSent None) preprod_config ''o2'' 1234 100000 ''70 00 00 00''
       app_client guessed_world = (Inr x, w') \<and> oa_devOtpCode x = Some code"
proof -
  let ?ask = "requestOtp plain_libraries (\<lambda>_. None) (\<lambda>_ _. SmsSent None) preprod_config ''o2'' 1234 100000 ''70 00 00 00'' app_client guessed_world"
  have flag: "preprod_env ''OTP_EXPOSE_IN_RESPONSE'' = Some ''false''" "''false'' \<noteq> ([] :: string)"
    and stage: "preprod_env ''NODE_ENV'' \<noteq> Some ''production''" by (simp_all add: preprod_env_def)
  have legacy: "\<not> useJulakai preprod_config app_client"
    by (simp add: useJulakai_def preprod_config_def legacy_config_def)
  have cool: "\<forall>c \<in> set (otpCodes guessed_world). o_phone c = normalizePhone ''70 00 00 00'' \<longrightarrow>
      o_createdAt c < 100000 \<and> o_createdAt c + nullish (OTP_RESEND_COOLDOWN_SECONDS preprod_config) 60 * 1000 \<le> 100000"
    by (simp add: guessed_world_def preprod_config_def legacy_config_def)
  have bcrypt: "\<forall>c. bcrypt_compare plain_libraries c (bcrypt_hash plain_libraries c)"
    and life: "0 \<le> nullish (OTP_EXPIRES_MINUTES preprod_config) 5"
    by (simp_all add: plain_libraries_def preprod_config_def legacy_config_def)
  obtain r w' where ask: "(r, w') = ?ask" by (metis surj_pair)
  from otp_exposure_flag [OF preprod_valid preprod_configured flag stage legacy cool refl bcrypt life ask, of "''u''" "''t''"]
  obtain x code where "r = Inr x" "oa_devOtpCode x = Some code" by blast
  with ask show ?thesis by (intro exI [of _ x] exI [of _ code] exI [of _ w']) simp
qed

end
