(* ===== verification/Outbound_Services.thy ===== *)
theory Outbound_Services
  imports Env_Validation Controllers
begin

text \<open>
  The services the backend calls outside: the SMS provider of the one-time codes, the push provider
  and the file storage, with the factories that choose an implementation from the settings, and what
  \<open>main.ts\<close> sets up from the same settings. The answers of sendtext.sn and of Firebase and the
  UUID of a stored file are inputs; log texts are left out.
\<close>

section \<open>SMS\<close>

record SendtextConfig =
  st_apiUrl :: string
  st_apiKey :: string
  st_apiSecret :: string
  st_senderName :: string

record SendtextRequest =
  sr_url :: string
  sr_apiKey :: string
  sr_apiSecret :: string
  sr_sender_name :: string
  sr_phone :: string
  sr_text :: string

text \<open>\<open>None\<close> is a network error or the timeout.\<close>

type_synonym sendtext_fetch = "SendtextRequest \<Rightarrow> HttpResponse option"

text \<open>The constructor raises when a credential is empty.\<close>

definition sendtext_new :: "EnvironmentVariables \<Rightarrow> string + SendtextConfig" where
  "sendtext_new v =
     (let apiKey = nullish (ev_SENDTEXT_API_KEY v) ''''; apiSecret = nullish (ev_SENDTEXT_API_SECRET v) '''' in
      if apiKey = [] \<or> apiSecret = []
      then Inl ''SMS_PROVIDER=sendtext mais SENDTEXT_API_KEY / SENDTEXT_API_SECRET sont absents''
      else Inr \<lparr>st_apiUrl = nullish (ev_SENDTEXT_API_URL v) ''https://api.sendtext.sn/v1/sms/ml'',
                st_apiKey = apiKey, st_apiSecret = apiSecret,
                st_senderName = nullish (ev_SENDTEXT_SENDER_NAME v) ''JulakAI''\<rparr>)"

definition without_plus :: "string \<Rightarrow> string" where
  "without_plus phone = (case phone of [] \<Rightarrow> [] | c # cs \<Rightarrow> if c = CHR ''+'' then cs else phone)"

definition sendtext_request :: "SendtextConfig \<Rightarrow> string \<Rightarrow> string \<Rightarrow> SendtextRequest" where
  "sendtext_request st phone code =
     \<lparr>sr_url = st_apiUrl st, sr_apiKey = st_apiKey st, sr_apiSecret = st_apiSecret st,
      sr_sender_name = st_senderName st, sr_phone = without_plus phone,
      sr_text = ''JulakAI : votre code de verification est '' @ code @
                ''. Il expire dans 5 minutes. Ne le partagez avec personne.''\<rparr>"

text \<open>
  Every failure is an \<open>Error\<close>, never the \<open>ServiceUnavailableException\<close> that the caller passes on; a
  body that is \<open>null\<close> raises a \<open>TypeError\<close>. A message id that is no string is returned as it is and
  refused by Prisma when the caller stores it, inside the same \<open>try\<close>.
\<close>

definition sendtext_sendOtp :: "SendtextConfig \<Rightarrow> sendtext_fetch \<Rightarrow> string \<Rightarrow> string \<Rightarrow> SmsOutcome" where
  "sendtext_sendOtp st fetch phone code =
     (case fetch (sendtext_request st phone code) of
        None \<Rightarrow> SmsFailed
      | Some response \<Rightarrow>
          (let body = response_json response in
           if \<not> response_ok response then SmsFailed
           else (case js_get ''statusId'' body of
               Inl _ \<Rightarrow> SmsFailed
             | Inr statusId \<Rightarrow>
                 if statusId \<noteq> Some (JNum 1) \<or> \<not> js_truthy (member ''messageId'' body) then SmsFailed
                 else (case json_string (member ''messageId'' body) of
                         None \<Rightarrow> SmsFailed
                       | Some messageId \<Rightarrow> SmsSent (Some messageId)))))"

definition mock_sendOtp :: "string \<Rightarrow> string \<Rightarrow> SmsOutcome" where
  "mock_sendOtp phone code = SmsSent None"

text \<open>\<open>SmsModule\<close>: both providers are constructed, then the factory chooses one.\<close>

definition sms_module :: "EnvironmentVariables \<Rightarrow> sendtext_fetch \<Rightarrow> string + (string \<Rightarrow> string \<Rightarrow> SmsOutcome)" where
  "sms_module v fetch =
     (case sendtext_new v of
        Inl e \<Rightarrow> Inl e
      | Inr st \<Rightarrow> Inr (if nullish (ev_SMS_PROVIDER v) ''sendtext'' = ''mock'' then mock_sendOtp else sendtext_sendOtp st fetch))"

text \<open>The advice of the message, to go back to the mock, does not help: the start fails all the same.\<close>

lemma mock_needs_credentials:
  assumes "validate env = Inr v" and "env ''SENDTEXT_API_KEY'' = Some [] \<or> env ''SENDTEXT_API_SECRET'' = Some []"
  shows "\<exists>e. sms_module v fetch = Inl e"
  using assms by (auto simp: sms_module_def sendtext_new_def validate_Inr plainToInstance_def Let_def nullish_def split: option.splits)

text \<open>What an answer of sendtext.sn says of the message: its id, when the message was accepted.\<close>

definition accepted_message :: "HttpResponse option \<Rightarrow> string option" where
  "accepted_message reply =
     (case reply of
        None \<Rightarrow> None
      | Some r \<Rightarrow>
          (case (response_json r, json_string (member ''messageId'' (response_json r))) of
             (JObject _, Some m) \<Rightarrow>
               if response_ok r \<and> member ''statusId'' (response_json r) = Some (JNum 1) \<and> m \<noteq> [] then Some m else None
           | _ \<Rightarrow> None))"

lemma sendtext_accepts:
  "sendtext_sendOtp st fetch phone code =
     (case accepted_message (fetch (sendtext_request st phone code)) of None \<Rightarrow> SmsFailed | Some m \<Rightarrow> SmsSent (Some m))"
proof (cases "fetch (sendtext_request st phone code)")
  case None
  then show ?thesis by (simp add: sendtext_sendOtp_def accepted_message_def)
next
  case (Some r)
  show ?thesis
  proof (cases "response_json r")
    case (JObject fields)
    then show ?thesis using Some
      by (cases "map_of (rev fields) ''messageId''" rule: json_string.cases)
        (auto simp: sendtext_sendOtp_def accepted_message_def Let_def split: option.split)
  qed (simp_all add: Some sendtext_sendOtp_def accepted_message_def Let_def js_get_def)
qed

text \<open>
  C35. With sendtext.sn behind the one-time codes, a request for a code leaves a trace exactly when the
  message was accepted. If sendtext.sn answers 2xx with status 1 and a message id, one code is
  added, with that id, and the request is answered; on anything else (a network error, a refusal, an
  answer that is no JSON object) the request is answered 503 and the table of codes is what it was, so
  that neither the waiting time nor the count of attempts has moved.
\<close>

theorem code_stored_iff_accepted:
  assumes "\<not> useJulakai cfg app" and fresh: "newId \<notin> o_id ` set (otpCodes w)"
    and cool: "\<forall>c \<in> set (otpCodes w). o_phone c = normalizePhone raw \<longrightarrow>
        o_createdAt c + nullish (OTP_RESEND_COOLDOWN_SECONDS cfg) 60 * 1000 \<le> now"
  shows "case accepted_message (http (sendtext_request st (normalizePhone raw) (generateOtpCode drawn))) of
      Some m \<Rightarrow> (\<exists>x. requestOtp lib fetch (sendtext_sendOtp st http) cfg newId drawn now raw app w =
        (Inr x, w\<lparr>otpCodes := otpCodes w @
           [(new_code lib cfg newId now (normalizePhone raw) (generateOtpCode drawn) w)\<lparr>o_smsMessageId := Some m\<rparr>]\<rparr>))
    | None \<Rightarrow> (\<exists>m. requestOtp lib fetch (sendtext_sendOtp st http) cfg newId drawn now raw app w =
        (Inl (ServiceUnavailableException m), w))"
proof -
  let ?c = "new_code lib cfg newId now (normalizePhone raw) (generateOtpCode drawn) w"
  have wait: "\<not> (case last_code (normalizePhone raw) w of None \<Rightarrow> False
       | Some oc \<Rightarrow> now - o_createdAt oc < nullish (OTP_RESEND_COOLDOWN_SECONDS cfg) 60 * 1000)"
    using cool by (auto simp: last_code_def dest!: find_first_desc_Some split: option.splits)
  have new: "o_id ?c = newId" by (simp add: new_code_def)
  have kept: "delete_where (\<lambda>oc. o_id oc = newId) (otpCodes w @ [?c]) = otpCodes w"
    using fresh new by (auto simp: delete_where_def intro!: filter_True)
  have edited: "update_where (\<lambda>oc. o_id oc = newId) f (otpCodes w @ [?c]) = otpCodes w @ [f ?c]" for f
    using fresh new by (auto simp: update_where_def intro!: map_idI)
  show ?thesis
  proof (cases "accepted_message (http (sendtext_request st (normalizePhone raw) (generateOtpCode drawn)))")
    case None
    then show ?thesis using assms(1) wait kept
      by (simp add: requestOtp_def Let_def sendtext_accepts throw_def)
  next
    case (Some m)
    then have "truthy (Some m)"
      by (auto simp: accepted_message_def truthy_def split: option.splits prod.splits json.splits if_splits)
    then show ?thesis using Some assms(1) wait edited
      by (simp add: requestOtp_def Let_def sendtext_accepts return_def update_otp_def)
  qed
qed

definition refusing :: sendtext_fetch where
  "refusing request = Some \<lparr>hr_status = 200, hr_body = Some (JObject [(''apiCode'', JNum 7)])\<rparr>"

definition sample_sendtext :: SendtextConfig where
  "sample_sendtext = \<lparr>st_apiUrl = ''https://api.sendtext.sn/v1/sms/ml'', st_apiKey = ''k'', st_apiSecret = ''s'', st_senderName = ''JulakAI''\<rparr>"

theorem code_stored_iff_accepted_witness:
  "\<exists>m. requestOtp plain_libraries (\<lambda>_. None) (sendtext_sendOtp sample_sendtext refusing) legacy_config ''o2'' 1234 100000
     ''70 00 00 00'' app_client guessed_world = (Inl (ServiceUnavailableException m), guessed_world)"
proof -
  have fresh: "''o2'' \<notin> o_id ` set (otpCodes guessed_world)" by (simp add: guessed_world_def)
  have cool: "\<forall>c \<in> set (otpCodes guessed_world). o_phone c = normalizePhone ''70 00 00 00'' \<longrightarrow>
      o_createdAt c + nullish (OTP_RESEND_COOLDOWN_SECONDS legacy_config) 60 * 1000 \<le> 100000"
    by (simp add: guessed_world_def legacy_config_def)
  have "accepted_message (refusing (sendtext_request sample_sendtext (normalizePhone ''70 00 00 00'') (generateOtpCode 1234))) = None"
    by (simp add: accepted_message_def refusing_def response_json_def)
  with code_stored_iff_accepted [OF legacy_not_julakai fresh cool, where http = refusing and st = sample_sendtext and drawn = 1234
      and lib = plain_libraries and fetch = "\<lambda>_. None"]
  show ?thesis by simp
qed

section \<open>Push\<close>

datatype PushPriority = priority_high | priority_normal

record PushNotification =
  pn_token :: string
  pn_title :: string
  pn_body :: string
  pn_data :: "(string \<times> string) list option"
  pn_priority :: "PushPriority option"

record PushResult =
  pu_messageId :: string
  pu_success :: bool
  pu_error :: "string option"

record FcmMessage =
  fm_token :: string
  fm_title :: string
  fm_body :: string
  fm_data :: "(string \<times> string) list"
  fm_priority :: PushPriority

record FcmError =
  fe_message :: string
  fe_code :: "string option"

text \<open>\<open>admin.messaging(app).send\<close>: the id of the message, or the error it raises.\<close>

type_synonym fcm_sdk = "FcmMessage \<Rightarrow> FcmError + string"

text \<open>
  Whether the provider has its Firebase app after \<open>onModuleInit\<close>: the path of the service account,
  whether an app exists already, and whether reading the account and initialising succeed.
\<close>

definition fcm_onModuleInit :: "string option \<Rightarrow> bool \<Rightarrow> bool \<Rightarrow> bool" where
  "fcm_onModuleInit path exists readable \<longleftrightarrow> truthy path \<and> (exists \<or> readable)"

definition fcm_uninitialised :: PushResult where
  "fcm_uninitialised = \<lparr>pu_messageId = ''fcm-not-initialized'', pu_success = False, pu_error = Some ''FCM not initialized''\<rparr>"

definition fcm_send :: "bool \<Rightarrow> fcm_sdk \<Rightarrow> PushNotification \<Rightarrow> PushResult" where
  "fcm_send app sdk n =
     (if \<not> app then fcm_uninitialised
      else (case sdk \<lparr>fm_token = pn_token n, fm_title = pn_title n, fm_body = pn_body n,
                      fm_data = nullish (pn_data n) [],
                      fm_priority = (if pn_priority n = Some priority_high then priority_high else priority_normal)\<rparr> of
              Inr messageId \<Rightarrow> \<lparr>pu_messageId = messageId, pu_success = True, pu_error = None\<rparr>
            | Inl err \<Rightarrow> \<lparr>pu_messageId = [], pu_success = False, pu_error = Some (fe_message err)\<rparr>))"

definition fcm_sendMulticast :: "bool \<Rightarrow> fcm_sdk \<Rightarrow> PushNotification list \<Rightarrow> PushResult list" where
  "fcm_sendMulticast app sdk ns = (if \<not> app then map (\<lambda>_. fcm_uninitialised) ns else map (fcm_send app sdk) ns)"

text \<open>A dry run of the sending; only two error codes say that the token is dead.\<close>

definition fcm_validateToken :: "bool \<Rightarrow> (string \<Rightarrow> FcmError + string) \<Rightarrow> string \<Rightarrow> bool" where
  "fcm_validateToken app dry token =
     (if \<not> app then False
      else (case dry token of
              Inr _ \<Rightarrow> True
            | Inl err \<Rightarrow> fe_code err \<noteq> Some ''messaging/invalid-registration-token'' \<and>
                         fe_code err \<noteq> Some ''messaging/registration-token-not-registered''))"

definition mock_push_send :: "time \<Rightarrow> PushNotification \<Rightarrow> PushResult" where
  "mock_push_send now n = \<lparr>pu_messageId = ''mock-msg-'' @ show_nat (nat now), pu_success = True, pu_error = None\<rparr>"

definition mock_push_sendMulticast :: "time \<Rightarrow> PushNotification list \<Rightarrow> PushResult list" where
  "mock_push_sendMulticast now ns = map (mock_push_send now) ns"

text \<open>\<open>PushProviderModule\<close>.\<close>

definition push_module :: "EnvironmentVariables \<Rightarrow> bool \<Rightarrow> fcm_sdk \<Rightarrow> time \<Rightarrow> PushNotification list \<Rightarrow> PushResult list" where
  "push_module v app sdk now =
     (if nullish (ev_PUSH_PROVIDER v) ''mock'' = ''fcm'' then fcm_sendMulticast app sdk else mock_push_sendMulticast now)"

text \<open>A line of the log \<open>pushed\<close> as the provider gets it; \<open>written\<close> is \<open>String\<close> on numbers.\<close>

fun service_name :: "ServiceType \<Rightarrow> string" where
  "service_name ride = ''ride''"
| "service_name delivery = ''delivery''"
| "service_name food = ''food''"
| "service_name assistance = ''assistance''"
| "service_name intercity = ''intercity''"

fun push_text :: "(real \<Rightarrow> string) \<Rightarrow> PushText \<Rightarrow> string" where
  "push_text written (Plain s) = s"
| "push_text written (Amount x) = written x"
| "push_text written (Service s) = service_name s"

definition push_notification :: "(real \<Rightarrow> string) \<Rightarrow> PushMessage \<Rightarrow> PushNotification" where
  "push_notification written m =
     \<lparr>pn_token = pm_token m, pn_title = pm_title m, pn_body = concat (map (push_text written) (pm_body m)),
      pn_data = Some (map (apsnd (push_text written)) (pm_data m)),
      pn_priority = Some (if pm_high m then priority_high else priority_normal)\<rparr>"

text \<open>The contract of \<open>PushProvider\<close>: a multicast is one sending per notification, in order.\<close>

locale push_provider =
  fixes send :: "PushNotification \<Rightarrow> PushResult"
    and sendMulticast :: "PushNotification list \<Rightarrow> PushResult list"
  assumes multicast: "sendMulticast ns = map send ns"
begin

lemma answer_per_notification: "length (sendMulticast ns) = length ns"
  by (simp add: multicast)

lemma answer_of: "i < length ns \<Longrightarrow> sendMulticast ns ! i = send (ns ! i)"
  by (simp add: multicast)

lemma multicast_append: "sendMulticast (ns @ ms) = sendMulticast ns @ sendMulticast ms"
  by (simp add: multicast)

end

interpretation fcm: push_provider "fcm_send app sdk" "fcm_sendMulticast app sdk" for app sdk
  by unfold_locales (simp add: fcm_sendMulticast_def fcm_send_def)

interpretation mock_push: push_provider "mock_push_send now" "mock_push_sendMulticast now" for now
  by unfold_locales (simp add: mock_push_sendMulticast_def)

text \<open>Without a service account no push leaves, whatever Firebase would answer.\<close>

lemma no_account_no_push:
  "\<not> truthy path \<Longrightarrow> r \<in> set (fcm_sendMulticast (fcm_onModuleInit path exists readable) sdk ns) \<Longrightarrow> \<not> pu_success r"
  by (auto simp: fcm_onModuleInit_def fcm_sendMulticast_def fcm_uninitialised_def)

section \<open>Storage\<close>

text \<open>A path of the file system: whether it starts at the rooted, and its segments.\<close>

type_synonym path = "bool \<times> string list"

text \<open>\<open>path.join\<close> of two texts.\<close>

fun normal_segments :: "bool \<Rightarrow> string list \<Rightarrow> string list \<Rightarrow> string list" where
  "normal_segments rooted acc [] = rev acc"
| "normal_segments rooted acc (s # ss) =
     (if s = [] \<or> s = ''.'' then normal_segments rooted acc ss
      else if s = ''..''
      then (case acc of
              [] \<Rightarrow> normal_segments rooted (if rooted then [] else [''..'']) ss
            | a # as \<Rightarrow> normal_segments rooted (if a = ''..'' then ''..'' # acc else as) ss)
      else normal_segments rooted (s # acc) ss)"

definition normal_path :: "string \<Rightarrow> path" where
  "normal_path s = (let rooted = (case s of [] \<Rightarrow> False | c # _ \<Rightarrow> c = CHR ''/'')
                    in (rooted, normal_segments rooted [] (js_split (CHR ''/'') s)))"

definition path_join :: "string \<Rightarrow> string \<Rightarrow> path" where
  "path_join a b = normal_path (if a = [] then b else if b = [] then a else a @ ''/'' @ b)"

record 'b disk =
  dk_dirs :: "path set"
  dk_files :: "path \<Rightarrow> 'b option"

definition prefixes_of :: "path \<Rightarrow> path list" where
  "prefixes_of p = map (\<lambda>n. (fst p, take n (snd p))) [0..<Suc (length (snd p))]"

definition existsSync :: "path \<Rightarrow> 'b disk \<Rightarrow> bool" where
  "existsSync p d \<longleftrightarrow> p \<in> dk_dirs d \<or> dk_files d p \<noteq> None"

text \<open>\<open>mkdirSync(p, { recursive: true })\<close> and \<open>writeFileSync\<close>.\<close>

definition mkdirSync :: "path \<Rightarrow> 'b disk \<Rightarrow> (unit, 'b disk) outcome" where
  "mkdirSync p d =
     (if \<exists>q \<in> set (prefixes_of p). dk_files d q \<noteq> None then throw (InternalError ''ENOTDIR'') d
      else return () (d\<lparr>dk_dirs := dk_dirs d \<union> set (prefixes_of p)\<rparr>))"

definition writeFileSync :: "path \<Rightarrow> 'b \<Rightarrow> 'b disk \<Rightarrow> (unit, 'b disk) outcome" where
  "writeFileSync p buffer d =
     (if (fst p, butlast (snd p)) \<notin> dk_dirs d then throw (InternalError ''ENOENT'') d
      else if p \<in> dk_dirs d then throw (InternalError ''EISDIR'') d
      else return () (d\<lparr>dk_files := (dk_files d)(p \<mapsto> buffer)\<rparr>))"

record LocalStorage =
  ls_basePath :: string
  ls_baseUrl :: string

definition local_new :: "environment \<Rightarrow> EnvironmentVariables \<Rightarrow> LocalStorage" where
  "local_new env v = \<lparr>ls_basePath = nullish (env ''STORAGE_LOCAL_PATH'') ''./uploads'',
                      ls_baseUrl = nullish (ev_APP_URL v) ''http://localhost:3000''\<rparr>"

record UploadedFileResult =
  ur_url :: string
  ur_key :: string

text \<open>\<open>originalName.split('.').pop() ?? 'bin'\<close>\<close>

definition file_extension :: "string \<Rightarrow> string" where
  "file_extension originalName = (case js_split (CHR ''.'') originalName of [] \<Rightarrow> ''bin'' | parts \<Rightarrow> last parts)"

definition getSignedUrl :: "LocalStorage \<Rightarrow> string \<Rightarrow> string" where
  "getSignedUrl ls key = ls_baseUrl ls @ ''/uploads/'' @ key"

definition local_upload ::
  "LocalStorage \<Rightarrow> string \<Rightarrow> 'b \<Rightarrow> UploadInput \<Rightarrow> 'b disk \<Rightarrow> (UploadedFileResult, 'b disk) outcome" where
  "local_upload ls fileId buffer params d =
     (let folderPath = path_join (ls_basePath ls) (up_folder params);
          key = up_folder params @ ''/'' @ fileId @ ''.'' @ file_extension (up_originalName params);
          fullPath = path_join (ls_basePath ls) key
      in andThen (if \<not> existsSync folderPath d then mkdirSync folderPath d else return () d) (\<lambda>_ d1.
         andThen (writeFileSync fullPath buffer d1) (\<lambda>_.
         return \<lparr>ur_url = ls_baseUrl ls @ ''/uploads/'' @ key, ur_key = key\<rparr>)))"

lemma js_split_not_empty [simp]: "js_split d s \<noteq> []"
  by (induction s) (auto split: list.split)

lemma js_split_plain: "d \<notin> set s \<Longrightarrow> js_split d s = [s]"
  by (induction s) auto

lemma js_split_append: "js_split d (a @ d # b) = js_split d a @ js_split d b"
proof (induction a)
  case (Cons c a)
  then show ?case by (cases "js_split d a") auto
qed simp

text \<open>The fallback is never taken: a name without a dot is its own extension.\<close>

lemma file_extension_plain: "CHR ''.'' \<notin> set name \<Longrightarrow> file_extension name = name"
  by (simp add: file_extension_def js_split_plain)

lemma file_extension_dot:
  assumes "CHR ''.'' \<notin> set ext"
  shows "file_extension (name @ ''.'' @ ext) = ext"
proof -
  have "js_split (CHR ''.'') (name @ ''.'' @ ext) = js_split (CHR ''.'') name @ [ext]"
    using js_split_append [of "CHR ''.''" name ext] assms by (simp add: js_split_plain)
  then show ?thesis by (cases "js_split (CHR ''.'') name") (simp_all add: file_extension_def)
qed

lemma normal_segments_snoc:
  "s \<noteq> [] \<Longrightarrow> s \<noteq> ''.'' \<Longrightarrow> s \<noteq> ''..'' \<Longrightarrow> normal_segments rooted acc (ss @ [s]) = normal_segments rooted acc ss @ [s]"
  by (induction rooted acc ss rule: normal_segments.induct) (auto split: list.split)

lemma path_join_child:
  assumes "CHR ''/'' \<notin> set s" and "s \<noteq> []" "s \<noteq> ''.''" "s \<noteq> ''..''" and "folder \<noteq> []"
  shows "path_join base (folder @ ''/'' @ s) =
    (fst (path_join base folder), snd (path_join base folder) @ [s])"
proof -
  have split: "js_split (CHR ''/'') (a @ ''/'' @ s) = js_split (CHR ''/'') a @ [s]" for a
    using js_split_append [of "CHR ''/''" a s] assms(1) by (simp add: js_split_plain)
  have "normal_path (a @ ''/'' @ s) = (fst (normal_path a), snd (normal_path a) @ [s])" if "a \<noteq> []" for a
    unfolding normal_path_def Let_def split using that assms(2-4) by (simp add: normal_segments_snoc split: list.split)
  from this [of folder] this [of "base @ ''/'' @ folder"] assms(5) show ?thesis by (simp add: path_join_def)
qed

lemma own_prefix: "p \<in> set (prefixes_of p)"
  by (cases p) (auto simp: prefixes_of_def image_iff intro!: bexI [of _ "length (snd p)"])

lemma prefixes_shorter: "q \<in> set (prefixes_of p) \<Longrightarrow> length (snd q) \<le> length (snd p)"
  by (auto simp: prefixes_of_def)

lemma plain_name:
  "fileId \<noteq> [] \<Longrightarrow> CHR ''.'' \<notin> set fileId \<Longrightarrow>
     fileId @ ''.'' @ ext \<noteq> [] \<and> fileId @ ''.'' @ ext \<noteq> ''.'' \<and> fileId @ ''.'' @ ext \<noteq> ''..''"
  by (cases fileId) auto

text \<open>An upload succeeds when no file is in the way of its folder and no folder has its name.\<close>

lemma local_upload_stores:
  fixes ls :: LocalStorage and params :: UploadInput and fileId :: string and d :: "'b disk"
  defines "folder \<equiv> path_join (ls_basePath ls) (up_folder params)"
    and "name \<equiv> fileId @ ''.'' @ file_extension (up_originalName params)"
  assumes plain: "CHR ''/'' \<notin> set name" "fileId \<noteq> []" "CHR ''.'' \<notin> set fileId" "up_folder params \<noteq> []"
    and room: "\<forall>q \<in> set (prefixes_of folder). dk_files d q = None"
    and free: "(fst folder, snd folder @ [name]) \<notin> dk_dirs d"
  shows "\<exists>d'. local_upload ls fileId buffer params d =
      (Inr \<lparr>ur_url = getSignedUrl ls (up_folder params @ ''/'' @ name), ur_key = up_folder params @ ''/'' @ name\<rparr>, d') \<and>
    dk_files d' = (dk_files d)((fst folder, snd folder @ [name]) \<mapsto> buffer)"
proof -
  have "name \<noteq> []" "name \<noteq> ''.''" "name \<noteq> ''..''"
    using plain_name [OF plain(2,3)] by (simp_all add: name_def)
  from path_join_child [OF plain(1) this plain(4)]
  have full: "path_join (ls_basePath ls) (up_folder params @ ''/'' @ name) = (fst folder, snd folder @ [name])"
    by (simp add: folder_def)
  have no_file: "dk_files d folder = None" using room own_prefix by blast
  have long: "(fst folder, snd folder @ [name]) \<notin> set (prefixes_of folder)"
    using prefixes_shorter by fastforce
  have up: "local_upload ls fileId buffer params d =
      andThen (if \<not> existsSync folder d then mkdirSync folder d else return () d) (\<lambda>_ d1.
      andThen (writeFileSync (fst folder, snd folder @ [name]) buffer d1) (\<lambda>_.
      return \<lparr>ur_url = getSignedUrl ls (up_folder params @ ''/'' @ name), ur_key = up_folder params @ ''/'' @ name\<rparr>))"
    unfolding local_upload_def Let_def folder_def [symmetric] name_def [symmetric] full getSignedUrl_def by (rule refl)
  have made: "(if \<not> existsSync folder d then mkdirSync folder d else return () d) =
      (Inr (), d\<lparr>dk_dirs := dk_dirs d \<union> (if folder \<in> dk_dirs d then {} else set (prefixes_of folder))\<rparr>)"
    using no_file room by (auto simp: existsSync_def mkdirSync_def return_def)
  show ?thesis
    unfolding up made andThen_def writeFileSync_def using free long own_prefix [of folder]
    by (simp add: return_def)
qed

text \<open>The provider as the handlers see it, with the file's bytes and the UUID drawn for it.\<close>

definition local_store :: "LocalStorage \<Rightarrow> string \<Rightarrow> 'b \<Rightarrow> 'b disk \<Rightarrow> UploadInput \<Rightarrow> http_error + string" where
  "local_store ls fileId buffer d params = map_sum id ur_url (fst (local_upload ls fileId buffer params d))"

text \<open>
  C38. The check of an uploaded document looks at the type the client declares and not at the name it
  gives: any bytes declared as an image are written to the disk under the extension of the name,
  whatever it is, and the answer is the public address made for that file. So a page named
  \<open>x.html\<close> and declared as a picture is stored as \<open>.html\<close> and its address ends so; nothing else on
  the disk changes.
\<close>

theorem upload_extension_unchecked:
  assumes "pf_upload pf = local_store ls fileId buffer d"
    and "mime \<in> {''image/jpeg'', ''image/png'', ''image/webp'', ''application/pdf''}"
    and "ty \<in> {''license'', ''id_card'', ''photo'', ''registration_doc''}"
    and ext: "CHR ''.'' \<notin> set ext" "CHR ''/'' \<notin> set ext"
    and fileId: "fileId \<noteq> []" "CHR ''.'' \<notin> set fileId" "CHR ''/'' \<notin> set fileId"
    and folder: "folder = ''drivers/'' @ me_id me @ ''/'' @ ty"
    and room: "\<forall>q \<in> set (prefixes_of (path_join (ls_basePath ls) folder)). dk_files d q = None"
    and free: "path_join (ls_basePath ls) (folder @ ''/'' @ fileId @ ''.'' @ ext) \<notin> dk_dirs d"
  shows "driversController pf ch me (UploadDocument (Some \<lparr>uf_originalname = name @ ''.'' @ ext, uf_mimetype = mime\<rparr>) ty) w =
      (Inr (UrlReply (ls_baseUrl ls @ ''/uploads/'' @ folder @ ''/'' @ fileId @ ''.'' @ ext)), w) \<and>
    dk_files (snd (local_upload ls fileId buffer
        \<lparr>up_originalName = name @ ''.'' @ ext, up_mimeType = mime, up_folder = folder\<rparr> d)) =
      (dk_files d)(path_join (ls_basePath ls) (folder @ ''/'' @ fileId @ ''.'' @ ext) \<mapsto> buffer)"
proof -
  let ?u = "\<lparr>up_originalName = name @ ''.'' @ ext, up_mimeType = mime, up_folder = folder\<rparr>"
  have e: "file_extension (up_originalName ?u) = ext" using file_extension_dot [OF ext(1)] by simp
  have "folder \<noteq> []" by (simp add: folder)
  then have join: "path_join (ls_basePath ls) (folder @ ''/'' @ fileId @ ''.'' @ ext) =
      (fst (path_join (ls_basePath ls) folder), snd (path_join (ls_basePath ls) folder) @ [fileId @ ''.'' @ ext])"
    using ext(2) fileId plain_name [OF fileId(1,2), of ext] by (intro path_join_child) auto
  have "\<exists>d'. local_upload ls fileId buffer ?u d =
      (Inr \<lparr>ur_url = getSignedUrl ls (up_folder ?u @ ''/'' @ fileId @ ''.'' @ ext), ur_key = up_folder ?u @ ''/'' @ fileId @ ''.'' @ ext\<rparr>, d') \<and>
      dk_files d' = (dk_files d)(path_join (ls_basePath ls) (folder @ ''/'' @ fileId @ ''.'' @ ext) \<mapsto> buffer)"
    using local_upload_stores [of fileId ?u ls d buffer] ext fileId room free \<open>folder \<noteq> []\<close> unfolding e join by simp
  then show ?thesis
    using assms(1-3) by (auto simp: accept_file_def uploadDocument_def folder local_store_def query_def return_def getSignedUrl_def)
qed

definition empty_disk :: "nat disk" where
  "empty_disk = \<lparr>dk_dirs = {}, dk_files = (\<lambda>_. None)\<rparr>"

abbreviation "default_storage \<equiv> local_new (\<lambda>_. None) (plainToInstance (\<lambda>_. None))"

abbreviation "storing_platform env cfg \<equiv> \<lparr>pf_env = env, pf_lib = plain_libraries, pf_cfg = cfg,
   pf_formats = \<lparr>isEmail = (\<lambda>_. True), isUUID = (\<lambda>_. True)\<rparr>, pf_fetch = (\<lambda>_. None), pf_sms = mock_sendOtp,
   pf_upload = local_store default_storage ''u1'' 7 empty_disk, pf_json = (\<lambda>_. [])\<rparr>"

theorem upload_extension_unchecked_witness:
  "\<forall>(env :: nat Env) cfg ch w.
     driversController (storing_platform env cfg) ch \<lparr>me_id = ''c1'', me_phone = [], me_role = role_client\<rparr>
       (UploadDocument (Some \<lparr>uf_originalname = ''x.html'', uf_mimetype = ''image/png''\<rparr>) ''photo'') w =
     (Inr (UrlReply ''http://localhost:3000/uploads/drivers/c1/photo/u1.html''), w)"
proof (intro allI)
  fix env :: "nat Env" and cfg ch w
  have "pf_upload (storing_platform env cfg) = local_store default_storage ''u1'' 7 empty_disk" by simp
  from upload_extension_unchecked [OF this, of "''image/png''" "''photo''" "''html''" "''drivers/c1/photo''"
      "\<lparr>me_id = ''c1'', me_phone = [], me_role = role_client\<rparr>" ch "''x''" w]
  show "driversController (storing_platform env cfg) ch \<lparr>me_id = ''c1'', me_phone = [], me_role = role_client\<rparr>
       (UploadDocument (Some \<lparr>uf_originalname = ''x.html'', uf_mimetype = ''image/png''\<rparr>) ''photo'') w =
     (Inr (UrlReply ''http://localhost:3000/uploads/drivers/c1/photo/u1.html''), w)"
    by (simp add: empty_disk_def local_new_def plainToInstance_def Let_def)
qed

text \<open>The S3 provider is a stub; the module takes it when the setting says so.\<close>

definition s3_upload :: "UploadInput \<Rightarrow> 's \<Rightarrow> (UploadedFileResult, 's) outcome" where
  "s3_upload params = throw (NotImplementedException (''S3StorageProvider n'est pas encore implemente. '' @
     ''Renseignez les identifiants AWS puis implementez ce provider avant de le selectionner via STORAGE_PROVIDER=s3.''))"

definition s3_getSignedUrl :: "string \<Rightarrow> 's \<Rightarrow> (string, 's) outcome" where
  "s3_getSignedUrl key = throw (NotImplementedException ''S3StorageProvider n'est pas encore implemente.'')"

definition storage_module ::
  "EnvironmentVariables \<Rightarrow> LocalStorage \<Rightarrow> string \<Rightarrow> 'b \<Rightarrow> UploadInput \<Rightarrow> 'b disk \<Rightarrow> (UploadedFileResult, 'b disk) outcome" where
  "storage_module v ls fileId buffer =
     (if nullish (ev_STORAGE_PROVIDER v) ''local'' = ''s3'' then s3_upload else local_upload ls fileId buffer)"

section \<open>The other factories\<close>

definition distance_module :: "EnvironmentVariables \<Rightarrow> 'p \<Rightarrow> 'p \<Rightarrow> 'p" where
  "distance_module v mock google = (if nullish (ev_DISTANCE_PROVIDER v) ''mock'' = ''google'' then google else mock)"

definition payment_module :: "EnvironmentVariables \<Rightarrow> 'p \<Rightarrow> 'p \<Rightarrow> 'p" where
  "payment_module v mock orangeMoney =
     (if nullish (ev_PAYMENT_PROVIDER v) ''mock'' = ''orange_money'' then orangeMoney else mock)"

text \<open>
  A setting outside the known ones does not reach the factories: start-up refuses it, so the choice of
  the mock is never a misspelt name.
\<close>

lemma factories_exact:
  assumes "validate env = Inr v"
  shows "ev_DISTANCE_PROVIDER v \<in> {None, Some ''mock'', Some ''google''}"
    and "ev_PAYMENT_PROVIDER v \<in> {None, Some ''mock'', Some ''orange_money''}"
    and "ev_STORAGE_PROVIDER v \<in> {None, Some ''local'', Some ''s3''}"
proof -
  have "if_given (\<lambda>s. s \<in> {''mock'', ''google''}) (ev_DISTANCE_PROVIDER v)"
    "if_given (\<lambda>s. s \<in> {''mock'', ''orange_money''}) (ev_PAYMENT_PROVIDER v)"
    "if_given (\<lambda>s. s \<in> {''local'', ''s3''}) (ev_STORAGE_PROVIDER v)"
    using assms unfolding validate_Inr validateSync_def map_is_Nil_conv filter_empty_conv
    by (auto simp del: insert_iff simp: ball_simps)
  then show "ev_DISTANCE_PROVIDER v \<in> {None, Some ''mock'', Some ''google''}"
    and "ev_PAYMENT_PROVIDER v \<in> {None, Some ''mock'', Some ''orange_money''}"
    and "ev_STORAGE_PROVIDER v \<in> {None, Some ''local'', Some ''s3''}"
    by (auto simp: if_given_def split: option.splits)
qed

section \<open>Start-up\<close>

datatype CorsOrigin = any_origin | one_of "string list"

record HttpServer =
  hs_static :: "(string \<times> path) option"
  hs_origin :: CorsOrigin
  hs_credentials :: bool
  hs_docs :: bool
  hs_port :: js_number

definition js_unique :: "'a list \<Rightarrow> 'a list" where
  "js_unique xs = rev (remdups (rev xs))"

definition dev_origins :: "string list" where
  "dev_origins =
     [''http://localhost:5173'', ''http://127.0.0.1:5173'', ''http://localhost:5174'', ''http://127.0.0.1:5174'',
      ''http://localhost:5175'', ''http://127.0.0.1:5175'']"

text \<open>\<open>cwd\<close> is the working directory. \<open>SWAGGER_ENABLED\<close> is compared with the text \<open>true\<close>, a validated flag is a boolean.\<close>

definition bootstrap :: "string \<Rightarrow> environment \<Rightarrow> EnvironmentVariables \<Rightarrow> HttpServer" where
  "bootstrap cwd env v =
     (let storageProvider = nullish (ev_STORAGE_PROVIDER v) ''local'';
          corsOrigins = filter (\<lambda>s. s \<noteq> []) (map js_trim (js_split (CHR '','') (nullish (ev_CORS_ORIGINS v) [])));
          isWildcard = ''*'' \<in> set corsOrigins;
          allOrigins = js_unique (corsOrigins @ dev_origins);
          isProd = (ev_NODE_ENV v = ''production'')
      in \<lparr>hs_static = (if storageProvider = ''local''
                        then Some (''/uploads/'', path_join cwd (nullish (env ''STORAGE_LOCAL_PATH'') ''./uploads'')) else None),
          hs_origin = (if isWildcard then any_origin else if length allOrigins > 0 then one_of allOrigins else any_origin),
          hs_credentials = (\<not> isWildcard),
          hs_docs = (\<not> isProd \<or> map_option JBool (ev_SWAGGER_ENABLED v) = Some (JString ''true'')),
          hs_port = nullish (ev_PORT v) (Finite 3000)\<rparr>)"

lemma set_js_unique [simp]: "set (js_unique xs) = set xs"
  by (simp add: js_unique_def)

lemma js_unique_Nil [simp]: "js_unique xs = [] \<longleftrightarrow> xs = []"
  by (simp add: js_unique_def)

text \<open>
  What the environment cannot change at the start: in production the documentation is never served,
  \<open>SWAGGER_ENABLED=true\<close> or not, and the local origins of the developers are admitted with
  credentials unless every origin is.
\<close>

lemma bootstrap_in_production:
  assumes "validate env = Inr v" and "env ''NODE_ENV'' = Some ''production''"
  shows "\<not> hs_docs (bootstrap cwd env v)"
    and "hs_credentials (bootstrap cwd env v) \<Longrightarrow> \<exists>os. hs_origin (bootstrap cwd env v) = one_of os \<and> set dev_origins \<subseteq> set os"
proof -
  have v: "v = plainToInstance env" using assms(1) by (simp add: validate_Inr)
  then have "ev_NODE_ENV v = ''production''" using assms(2) by (simp add: plainToInstance_def Let_def)
  then show "\<not> hs_docs (bootstrap cwd env v)" by (auto simp: bootstrap_def Let_def)
  have "dev_origins \<noteq> []" by (simp add: dev_origins_def)
  then show "hs_credentials (bootstrap cwd env v) \<Longrightarrow> \<exists>os. hs_origin (bootstrap cwd env v) = one_of os \<and> set dev_origins \<subseteq> set os"
    by (auto simp: bootstrap_def Let_def)
qed

text \<open>
  The files are served from below the working directory, and stored where the setting says: with an
  absolute \<open>STORAGE_LOCAL_PATH\<close> these are two places, and no stored file is served.
\<close>

lemma absolute_storage_not_served:
  fixes env :: environment
  defines "e \<equiv> env(''STORAGE_LOCAL_PATH'' \<mapsto> ''/data'', ''STORAGE_PROVIDER'' := None)"
  shows "hs_static (bootstrap ''/app'' e (plainToInstance e)) = Some (''/uploads/'', (True, [''app'', ''data'']))"
    and "path_join (ls_basePath (local_new e (plainToInstance e))) ''chat/audio'' = (True, [''data'', ''chat'', ''audio''])"
  by (simp_all add: bootstrap_def plainToInstance_def Let_def e_def local_new_def path_join_def normal_path_def)

end
