(* ===== verification/Legacy_Payment.thy ===== *)
theory Legacy_Payment
  imports Json_Values
begin

text \<open>
  An earlier payment interface with its mock and its stub (\<open>providers/payment/\<close>). No module imports it;
  the providers in use are those of \<open>Payment_Providers\<close>.
\<close>

datatype TransactionStatus = tx_pending | tx_success | tx_failed

record InitiationResult =
  li_transactionId :: string
  li_status :: TransactionStatus
  li_providerReference :: "string option"
  li_payUrl :: "string option"

record PaymentQueryResult =
  lq_transactionId :: string
  lq_status :: TransactionStatus
  lq_amount :: real
  lq_currency :: string
  lq_paidAt :: "time option"

text \<open>The members are taken over from the body as they are, whatever their type.\<close>

record PaymentWebhookPayload =
  lw_transactionId :: json
  lw_providerReference :: json
  lw_status :: TransactionStatus
  lw_amount :: json
  lw_currency :: json
  lw_phoneNumber :: "json option"
  lw_rawPayload :: json

definition legacy_initiatePayment :: "time \<Rightarrow> InitiationResult" where
  "legacy_initiatePayment now =
     (let txId = ''mock-tx-'' @ show_nat (nat now)
      in \<lparr>li_transactionId = txId, li_status = tx_success, li_providerReference = Some (''ref-'' @ txId), li_payUrl = None\<rparr>)"

definition legacy_queryTransaction :: "time \<Rightarrow> string \<Rightarrow> PaymentQueryResult" where
  "legacy_queryTransaction now transactionId =
     \<lparr>lq_transactionId = transactionId, lq_status = tx_success, lq_amount = 0, lq_currency = ''XOF'', lq_paidAt = Some now\<rparr>"

definition legacy_parseWebhook :: "json \<Rightarrow> http_error + PaymentWebhookPayload" where
  "legacy_parseWebhook body =
     (if body = JNull then Inl (InternalError ''TypeError'')
      else (let get = (\<lambda>k. js_coalesce (member k body) None)
            in Inr \<lparr>lw_transactionId = nullish (get ''transactionId'') (JString ''mock-webhook-tx''),
                    lw_providerReference = nullish (get ''providerReference'') (JString ''mock-ref''),
                    lw_status = tx_success,
                    lw_amount = nullish (get ''amount'') (JNum 0),
                    lw_currency = nullish (get ''currency'') (JString ''XOF''),
                    lw_phoneNumber = get ''phoneNumber'',
                    lw_rawPayload = body\<rparr>))"

definition stub_payment :: "'s \<Rightarrow> ('a, 's) outcome" where
  "stub_payment = throw (NotImplementedException ''OrangeMoneyPaymentProvider n'est pas encore implemente.'')"

definition legacy_module :: "string option \<Rightarrow> 'p \<Rightarrow> 'p \<Rightarrow> 'p" where
  "legacy_module provider mock orangeMoney = (if nullish provider ''mock'' = ''orange_money'' then orangeMoney else mock)"

text \<open>The mock takes any body for a successful payment.\<close>

lemma legacy_webhook_succeeds: "body \<noteq> JNull \<Longrightarrow> \<exists>p. legacy_parseWebhook body = Inr p \<and> lw_status p = tx_success"
  by (simp add: legacy_parseWebhook_def Let_def)

end
