(* ===== verification/Spec2Isabelle.thy ===== *)
theory Spec2Isabelle
  imports Completion_Rights Telima_Books Seeds Google_Distance Outbound_Services Legacy_Payment
begin

text \<open>
  Verification of the Telima backend, a NestJS service for rides and deliveries in Mali: clients
  order trips, the platform quotes a price and solicits drivers nearby, drivers accept and finish
  trips, owe a commission on each and pay it through a mobile-money provider; a dashboard edits what
  all this rests on. File names below are relative to \<open>src/src\<close>.

  \<^bold>\<open>How the program works together.\<close> The services (one class per module) share a Postgres database, a
  Redis server, a queue of delayed jobs and, inside one process, an event emitter and the sockets of
  the apps. A service writes the tables and emits a domain event; the listeners of other services
  react to it: \<open>TripCreated\<close> starts a search for a driver, an acceptance emits \<open>DriverAssigned\<close> which
  writes the trip, \<open>TripCompleted\<close> charges the commission, and most events send a push notification.
  Timers and two periodic sweeps take up what nothing else moves.

  \<^bold>\<open>State.\<close> \<open>Telima_World\<close> has the record \<open>world\<close>: a list of rows per table
  (\<open>prisma/schema.prisma\<close>; the rows and enums are in \<open>Prisma_Schema\<close>), the Redis keys
  (\<open>Redis_Store\<close>), the delayed jobs, the two in-process caches, the events not yet delivered (\<open>bus\<close>)
  and the logs of socket messages and push notifications. \<open>Realtime\<close> adds the sockets and grace timers
  of the gateway; \<open>Controllers\<close> adds the provider's own state, the battery stations and the platform
  settings. A fallible operation returns \<open>outcome\<close>: \<open>Inl\<close> of the exception the code throws or \<open>Inr\<close> of
  its value, and the state after it, so a write before an exception stays.

  \<^bold>\<open>Theories and the code they model.\<close>
  \<^item> \<open>Telima_Prelude\<close>: the JavaScript functions in use, the exceptions of NestJS, list tables and their lemmas.
  \<^item> \<open>Event_Catalog\<close>: \<open>domain-events\<close>, \<open>events/events.constants.ts\<close>, room names.
  \<^item> \<open>Trip_Lifecycle\<close>: the transition table of \<open>trips/interfaces\<close>, as an instance of a ranked machine.
  \<^item> \<open>Trip_Repository\<close>, \<open>Trips\<close>: \<open>trips/trip.repository.ts\<close>, \<open>trips/trips.service.ts\<close> and the
    listeners of \<open>trips/handlers\<close>.
  \<^item> \<open>Service_Config\<close>, \<open>Geolocation\<close>, \<open>Dispatch\<close>, \<open>Dispatch_Recovery\<close>: the search for a driver: its
    settings, the spatial query, rounds with locks and time limits, and the sweeps.
  \<^item> \<open>Distance_Provider\<close>, \<open>Google_Distance\<close>, \<open>Pricing\<close>, \<open>Admin_Pricing\<close>: distances, the fare pipeline
    and what the dashboard edits of it.
  \<^item> \<open>Commissions\<close>, \<open>Payment_Providers\<close>, \<open>Payments\<close>, \<open>Admin_Stats\<close>: what drivers owe and pay, and the
    dashboard's figures about it; \<open>Json_Values\<close> has the untyped JSON these read.
  \<^item> \<open>Auth\<close>, \<open>Accounts\<close>, \<open>Admin_Reports\<close>, \<open>Charging_Stations\<close>: sign-in, people and vehicle types, the
    dashboard's lists, battery stations.
  \<^item> \<open>Realtime\<close>, \<open>Notifications\<close>: presence, sockets, chat, positions; the listeners of the events and the
    delivery of one event to all of them.
  \<^item> \<open>Http_Shell\<close>, \<open>Request_Validation\<close>, \<open>Controllers\<close>: interceptors and filters, the conditions of the
    DTOs, and every route with its guards and the call it makes (\<open>handle_http\<close>).
  \<^item> \<open>Env_Validation\<close>, \<open>Outbound_Services\<close>: start-up, SMS, push and storage providers, \<open>main.ts\<close>;
    \<open>Legacy_Payment\<close>: the earlier payment interface under \<open>providers/payment\<close>, which no module imports.
  \<^item> \<open>Seeds\<close>: \<open>prisma/seed.ts\<close> and \<open>prisma/seed-service-config.ts\<close>, run before every start.
  \<^item> \<open>Telima_System\<close>, \<open>World_Views\<close>, \<open>Trip_Charges\<close>, \<open>Telima_Runs\<close>, \<open>Catalog\<close>, \<open>Catalog_Guard\<close>: what each operation keeps
    of the trips, the books and the catalog; \<open>Telima_Machine\<close> has the step relation of the whole and
    proves of every step what these prove of each operation; \<open>Telima_Safety\<close>, \<open>Completion_Rights\<close> and
    \<open>Telima_Books\<close> draw the consequences for whole runs.

  \<^bold>\<open>What the theorems show.\<close> The trips: which status requests are granted and what they write, that every
  row follows the status machine in every run (a refinement of an abstract machine of client, price
  and status), that the machine ends, and that finishing in one request equals the two requests it
  replaces. Dispatch: a round solicits or fails loudly, refusals and time limits keep a search moving,
  an acceptance closes it, no driver is solicited by a second search while the lock of the first is
  left alone (a refusal or time limit of another trip takes it away, and a later acceptance then
  writes the trip without closing its search), an order nobody takes is cancelled.
  Money: what a quote answers, that quotes stay whole and non-negative in every run, that a
  confirmation settles a payment once whatever webhooks and polls follow, that each driver's debt is
  the commissions charged less the payments made, and that the dashboard's reports show just that.
  Access: what only administrators can change (the catalog, approvals, who becomes an administrator; one
  who registers as a driver stops being one by himself), that only its driver finishes a trip, that
  the wrong guesses at a code are counted up to its lock, what a used or unknown refresh token gets,
  that a socket answers only for the driver of its own token, and what a fresh deployment starts from
  and that seeding it again changes no row. Some theorems state behaviour the code's comments do not intend: a client can
  cancel a stranger's trip, the webhook takes a filter object for a token, the environment text
  \<open>false\<close> switches a flag on, and others; the manifest lists them as findings.

  \<^bold>\<open>Interfaces.\<close> The locales are \<open>ranked_machine\<close> (a status machine in which every move makes progress),
  \<open>lock_store\<close> (a key set at most once until its time is up), \<open>distance_provider\<close>, \<open>payment_provider\<close>,
  \<open>push_provider\<close> and \<open>pricing_rule\<close>; each is interpreted on the code's own implementations. \<open>world_view\<close>
  and its extension \<open>deaf_view\<close> are the contract between the operations and what is read off the tables:
  every operation keeps a view, proved once, and the catalog and the completions announced are views.

  \<^bold>\<open>Decisions.\<close> Times are integers of milliseconds; money, coordinates and ratings are reals (the code
  computes with IEEE doubles; sums and roundings of whole francs are exact in both). Strings are lists
  of characters; accents in the texts sent to people are left out. An \<open>await\<close> inside one handler does
  not interleave with other handlers; deliveries, requests, jobs and sweeps interleave freely. A
  transaction is one state change. Parameters stand for what is not under \<open>src\<close>: JWT, bcrypt and HMAC,
  the HTTP answers of Google, Orange Money, JulakAI and sendtext, Firebase, the distance of PostGIS,
  what Prisma makes of untyped JSON, class-validator's e-mail and UUID formats, the server's time zone,
  random draws and new ids. The laws assumed of them are premises of the theorems that use them.

  \<^bold>\<open>Bounds and fuel.\<close> Every loop of the code runs over a list or is started again by a timer or an event,
  so every definition is total by structural recursion and no fuel is used; the rounds of a search
  are bounded by the code's own counter, and a run of the system is any finite number of steps.

  \<^bold>\<open>Not modelled.\<close> The wiring of the NestJS modules beyond the choice of providers, the rate limiter,
  the connections to Postgres and Redis, Sentry and the Redis adapter of Socket.IO (framework set-up
  without logic of its own); the link tables of the capabilities, which no code reads; log lines and
  the texts of the API documentation; display texts of distances; the foreign key from a new trip to
  its client, whose row the access token presupposes; a \<open>null\<close> in an edit of a column that may not
  be empty.
\<close>

end
